(* ===== verification/Prelude.thy ===== *)
theory Prelude
  imports Main "HOL-Library.Signed_Division" "HOL-Library.Log_Nat" "HOL-Library.Multiset"
    "HOL-Library.List_Lexorder" "HOL-Library.Char_ord" "HOL-Library.Product_Lexorder"
    "HOL-Library.AList"
begin

text \<open>
  What every other theory shares: the collections of rewrite rules, the JavaScript
  primitives the backend relies on (BigInt division, the conversion from BigInt to a
  double, a few string functions) and lemmas on lists that no component owns.

  A JavaScript \<open>bigint\<close> and an integer-valued \<open>number\<close> are \<open>int\<close>; a \<open>Date\<close> is the
  \<open>int\<close> of its epoch milliseconds; a string is a \<open>string\<close>.
\<close>

named_theorems act_simps "equations of the effect combinators"
named_theorems keep_intros "rules that show an action keeps an invariant of the tables"
named_theorems clean_intros "rules that show an application error leaves the tables alone"
named_theorems silent_intros "rules that show an action leaves the tables alone"
named_theorems count_intros "rules that show an action only lets counters grow"
named_theorems code_of_simps "the code and the status every named error carries"

section \<open>JavaScript numbers\<close>

text \<open>BigInt \<open>/\<close> and \<open>%\<close> truncate towards zero; the remainder has the sign of the dividend.\<close>

definition bigint_div :: "int \<Rightarrow> int \<Rightarrow> int" where
  "bigint_div a b = a sdiv b"

definition bigint_mod :: "int \<Rightarrow> int \<Rightarrow> int" where
  "bigint_mod a b = a smod b"

lemma bigint_div_pos: "0 \<le> a \<Longrightarrow> 0 < b \<Longrightarrow> bigint_div a b = a div b"
  by (cases "a = 0") (simp_all add: bigint_div_def signed_divide_int_def)

lemma bigint_mod_pos: "0 \<le> a \<Longrightarrow> 0 < b \<Longrightarrow> bigint_mod a b = a mod b"
  by (cases "a = 0") (simp_all add: bigint_mod_def signed_modulo_int_def)

lemma bigint_div_mod: "bigint_div a b * b + bigint_mod a b = a"
  by (simp add: bigint_div_def bigint_mod_def sdiv_mult_smod_eq)

text \<open>
  \<open>Number(b)\<close> of a BigInt is the nearest double, ties to even: exact up to
  \<open>2 ^ 53\<close>, and a multiple of a power of two above. The exponent never overflows
  on 64-bit columns, so the result is written as the integer the double stands for.
\<close>

definition js_Number :: "int \<Rightarrow> int" where
  "js_Number v =
     (if \<bar>v\<bar> \<le> 2 ^ 53 then v
      else let a = \<bar>v\<bar>; e = nat (bitlen a) - 53;
               q = a div 2 ^ e; r = a mod 2 ^ e; half = 2 ^ (e - 1);
               q' = (if r > half \<or> (r = half \<and> odd q) then q + 1 else q)
           in sgn v * (q' * 2 ^ e))"

definition MAX_SAFE_INTEGER :: int where
  "MAX_SAFE_INTEGER = 2 ^ 53 - 1"

lemma js_Number_safe: "\<bar>v\<bar> \<le> MAX_SAFE_INTEGER \<Longrightarrow> js_Number v = v"
  by (simp add: js_Number_def MAX_SAFE_INTEGER_def)

lemma js_Number_0 [simp]: "js_Number 0 = 0"
  by (simp add: js_Number_def)

section \<open>JavaScript strings\<close>

text \<open>The white space \<open>String.prototype.trim\<close> strips, as far as one byte can express it.\<close>

definition js_space :: "char \<Rightarrow> bool" where
  "js_space c \<longleftrightarrow> c \<in> {CHR '' '', CHR 0x09, CHR 0x0A, CHR 0x0B, CHR 0x0C, CHR 0x0D, CHR 0xA0}"

definition js_trim :: "string \<Rightarrow> string" where
  "js_trim s = rev (dropWhile js_space (rev (dropWhile js_space s)))"

definition js_lower_char :: "char \<Rightarrow> char" where
  "js_lower_char c =
     (let n = of_char c :: nat in if 65 \<le> n \<and> n \<le> 90 then char_of (n + 32) else c)"

definition js_toLowerCase :: "string \<Rightarrow> string" where
  "js_toLowerCase s = map js_lower_char s"

definition is_digit :: "char \<Rightarrow> bool" where
  "is_digit c \<longleftrightarrow> (let n = of_char c :: nat in 48 \<le> n \<and> n \<le> 57)"

definition is_alnum :: "char \<Rightarrow> bool" where
  "is_alnum c \<longleftrightarrow> (let n = of_char c :: nat in
     48 \<le> n \<and> n \<le> 57 \<or> 65 \<le> n \<and> n \<le> 90 \<or> 97 \<le> n \<and> n \<le> 122)"

text \<open>\<open>String(n)\<close> of an integer-valued number.\<close>

fun digits_of :: "nat \<Rightarrow> string" where
  "digits_of n = (if n < 10 then [char_of (48 + n)]
                  else digits_of (n div 10) @ [char_of (48 + n mod 10)])"

declare digits_of.simps [simp del]

definition string_of_int :: "int \<Rightarrow> string" where
  "string_of_int i = (if i < 0 then CHR ''-'' # digits_of (nat (- i)) else digits_of (nat i))"

text \<open>\<open>Number(value)\<close> of a decimal integer.\<close>

fun digits_value :: "nat \<Rightarrow> string \<Rightarrow> nat" where
  "digits_value acc [] = acc"
| "digits_value acc (c # cs) = digits_value (acc * 10 + (of_char c - 48)) cs"

definition int_of_string :: "string \<Rightarrow> int" where
  "int_of_string s = (case s of [] \<Rightarrow> 0
     | c # cs \<Rightarrow> if c = CHR ''-'' then - int (digits_value 0 cs) else int (digits_value 0 s))"

lemma digits_value_append: "digits_value a (xs @ [c]) = digits_value a xs * 10 + (of_char c - 48)"
  by (induction xs arbitrary: a) simp_all

lemma digits_value_digits: "digits_value 0 (digits_of n) = n"
proof (induction n rule: digits_of.induct)
  case (1 n)
  show ?case
  proof (cases "n < 10")
    case True
    then show ?thesis by (subst digits_of.simps) simp
  next
    case False
    then have "digits_of n = digits_of (n div 10) @ [char_of (48 + n mod 10)]"
      by (subst digits_of.simps) simp
    then show ?thesis using 1 False by (simp add: digits_value_append del: digits_value.simps)
  qed
qed

lemma digits_of_hd: "\<exists>c cs. digits_of n = c # cs \<and> c \<noteq> CHR ''-''"
proof (induction n rule: digits_of.induct)
  case (1 n)
  have c: "char_of (48 + n) \<noteq> CHR ''-''" if "n < 10"
  proof
    assume "char_of (48 + n) = CHR ''-''"
    then have "of_char (char_of (48 + n) :: char) = (of_char CHR ''-'' :: nat)" by simp
    then show False using that by simp
  qed
  show ?case
  proof (cases "n < 10")
    case True
    then show ?thesis using c by (subst digits_of.simps) simp
  next
    case False
    then show ?thesis using 1 by (subst digits_of.simps) auto
  qed
qed

lemma int_of_string_of_int [simp]: "int_of_string (string_of_int i) = i"
proof (cases "i < 0")
  case True
  then show ?thesis by (simp add: string_of_int_def int_of_string_def digits_value_digits)
next
  case False
  obtain c cs where "digits_of (nat i) = c # cs" "c \<noteq> CHR ''-''" using digits_of_hd by blast
  then have "int_of_string (digits_of (nat i)) = int (digits_value 0 (digits_of (nat i)))"
    by (simp add: int_of_string_def)
  then show ?thesis using False by (simp add: string_of_int_def digits_value_digits)
qed

section \<open>Lists\<close>

lemma sum_list_if_less:
  "k \<le> length xs \<Longrightarrow> (\<Sum>i\<leftarrow>[0..<length xs]. if i < k then (1::int) else 0) = int k"
proof (induction xs rule: rev_induct)
  case Nil
  then show ?case by simp
next
  case (snoc x xs)
  show ?case
  proof (cases "k \<le> length xs")
    case True
    then show ?thesis using snoc.IH by simp
  next
    case False
    then have k: "k = Suc (length xs)" using snoc.prems by simp
    have "map (\<lambda>i. if i < k then (1::int) else 0) [0..<length xs] = map (\<lambda>_. 1) [0..<length xs]"
      using k by (intro map_cong) auto
    then have "(\<Sum>i\<leftarrow>[0..<length xs]. if i < k then (1::int) else 0) = int (length xs)"
      by (simp only: sum_list_triv) (simp add: sum_list_triv)
    then show ?thesis using k by simp
  qed
qed

lemma sum_list_filter_split:
  fixes f :: "'a \<Rightarrow> int"
  shows "(\<Sum>x\<leftarrow>xs. f x) = (\<Sum>x\<leftarrow>filter P xs. f x) + (\<Sum>x\<leftarrow>filter (\<lambda>x. \<not> P x) xs. f x)"
  by (induction xs) auto

lemma sum_list_mset_cong:
  fixes f :: "'a \<Rightarrow> int"
  assumes "mset xs = mset ys"
  shows "(\<Sum>x\<leftarrow>xs. f x) = (\<Sum>x\<leftarrow>ys. f x)"
proof -
  have "mset (map f xs) = mset (map f ys)" using assms by simp
  then show ?thesis by (metis sum_mset_sum_list)
qed

lemma filter_map_id_upd:
  assumes "\<And>x. x \<in> set xs \<Longrightarrow> P (f x) = P x" and "\<And>x. x \<in> set xs \<Longrightarrow> P x \<Longrightarrow> f x = x"
  shows "filter P (map f xs) = filter P xs"
  using assms by (induction xs) auto

lemma sum_list_sum_swap:
  fixes f :: "'a \<Rightarrow> 'b \<Rightarrow> int"
  assumes "finite A"
  shows "(\<Sum>a\<in>A. \<Sum>x\<leftarrow>xs. f a x) = (\<Sum>x\<leftarrow>xs. \<Sum>a\<in>A. f a x)"
  by (induction xs) (auto simp: sum.distrib)

end
