(* ===== verification/Json.thy ===== *)
theory Json
  imports Prelude
begin

text \<open>
  \<open>JSON.stringify\<close> and \<open>JSON.parse\<close>, as far as the request hash, the job queue and the group
  cache use them: the grammar of RFC 8259 over strings of code units below 256 (an escape of
  a larger unit has no counterpart and is rejected), with numbers as rationals. Only integral
  numbers are ever written. Recursion of the parser is bounded by fuel, twice the length of the
  text, which is enough since every two levels read a character.
\<close>

datatype json = JNull | JBool bool | JNumber rat | JString string | JArray "json list"
  | JObject "(string \<times> json) list"

text \<open>Property access on a parsed object: of equal keys the last one counts.\<close>

definition json_field :: "json \<Rightarrow> string \<Rightarrow> json option" where
  "json_field j k = (case j of JObject kvs \<Rightarrow> map_of (rev kvs) k | _ \<Rightarrow> None)"

lemma json_field_Cons:
  "json_field (JObject ((k, v) # kvs)) key =
     (case json_field (JObject kvs) key of None \<Rightarrow> if key = k then Some v else None | Some x \<Rightarrow> Some x)"
  by (auto simp: json_field_def map_add_def split: option.split)

lemma json_field_Nil: "json_field (JObject []) key = None"
  by (simp add: json_field_def)

lemma json_field_append:
  "json_field (JObject (kvs @ kvs')) k =
     (case json_field (JObject kvs') k of None \<Rightarrow> json_field (JObject kvs) k | Some v \<Rightarrow> Some v)"
  by (simp add: json_field_def map_add_def split: option.split)

section \<open>Writing\<close>

definition hex_digit :: "nat \<Rightarrow> char" where
  "hex_digit n = char_of (if n < 10 then 48 + n else 87 + n)"

definition escape_char :: "char \<Rightarrow> string" where
  "escape_char c =
     (if c = CHR 0x22 then [CHR 0x5C, CHR 0x22]
      else if c = CHR 0x5C then [CHR 0x5C, CHR 0x5C]
      else if c = CHR 0x08 then [CHR 0x5C, CHR ''b'']
      else if c = CHR 0x0C then [CHR 0x5C, CHR ''f'']
      else if c = CHR 0x0A then [CHR 0x5C, CHR ''n'']
      else if c = CHR 0x0D then [CHR 0x5C, CHR ''r'']
      else if c = CHR 0x09 then [CHR 0x5C, CHR ''t'']
      else let n = of_char c :: nat in
        if n < 32 then [CHR 0x5C, CHR ''u'', CHR ''0'', CHR ''0'', hex_digit (n div 16), hex_digit (n mod 16)]
        else [c])"

definition quote_string :: "string \<Rightarrow> string" where
  "quote_string s = CHR 0x22 # concat (map escape_char s) @ [CHR 0x22]"

fun commas :: "string list \<Rightarrow> string" where
  "commas [] = []"
| "commas [x] = x"
| "commas (x # xs) = x @ CHR '','' # commas xs"

fun stringify :: "json \<Rightarrow> string" where
  "stringify JNull = ''null''"
| "stringify (JBool b) = (if b then ''true'' else ''false'')"
| "stringify (JNumber r) = string_of_int \<lfloor>r\<rfloor>"
| "stringify (JString s) = quote_string s"
| "stringify (JArray js) = CHR ''['' # commas (map stringify js) @ '']''"
| "stringify (JObject kvs) =
     CHR ''{'' # commas (map (\<lambda>(k, v). quote_string k @ CHR '':'' # stringify v) kvs) @ ''}''"

section \<open>Reading\<close>

definition is_ws :: "char \<Rightarrow> bool" where
  "is_ws c \<longleftrightarrow> c = CHR '' '' \<or> c = CHR 0x09 \<or> c = CHR 0x0A \<or> c = CHR 0x0D"

definition skip_ws :: "string \<Rightarrow> string" where
  "skip_ws cs = dropWhile is_ws cs"

definition hex_value :: "char \<Rightarrow> nat option" where
  "hex_value c = (let n = of_char c :: nat in
     if 48 \<le> n \<and> n \<le> 57 then Some (n - 48)
     else if 97 \<le> n \<and> n \<le> 102 then Some (n - 87)
     else if 65 \<le> n \<and> n \<le> 70 then Some (n - 55) else None)"

definition simple_escape :: "char \<Rightarrow> char option" where
  "simple_escape c =
     map_of [(CHR 0x22, CHR 0x22), (CHR 0x5C, CHR 0x5C), (CHR ''/'', CHR ''/''), (CHR ''b'', CHR 0x08),
       (CHR ''f'', CHR 0x0C), (CHR ''n'', CHR 0x0A), (CHR ''r'', CHR 0x0D), (CHR ''t'', CHR 0x09)] c"

text \<open>The rest of a string after its opening quote.\<close>

fun parse_string :: "string \<Rightarrow> (string \<times> string) option" where
  "parse_string [] = None"
| "parse_string (c # cs) =
     (if c = CHR 0x22 then Some ([], cs)
      else if c = CHR 0x5C then
        (case cs of
           [] \<Rightarrow> None
         | e # es \<Rightarrow>
             if e = CHR ''u'' then
               (case es of
                  a # b # x # y # rest \<Rightarrow>
                    (case (hex_value a, hex_value b, hex_value x, hex_value y) of
                       (Some 0, Some 0, Some m, Some n) \<Rightarrow>
                         map_option (\<lambda>(s, r). (char_of (16 * m + n) # s, r)) (parse_string rest)
                     | _ \<Rightarrow> None)
                | _ \<Rightarrow> None)
             else
               (case simple_escape e of
                  None \<Rightarrow> None
                | Some d \<Rightarrow> map_option (\<lambda>(s, r). (d # s, r)) (parse_string es)))
      else if (of_char c :: nat) < 32 then None
      else map_option (\<lambda>(s, r). (c # s, r)) (parse_string cs))"

text \<open>The fraction and the exponent, both optional.\<close>

definition parse_frac :: "string \<Rightarrow> (rat \<times> string) option" where
  "parse_frac cs = (case cs of
     CHR ''.'' # r \<Rightarrow>
       (let ds = takeWhile is_digit r in
        if ds = [] then None
        else Some (of_nat (digits_value 0 ds) / 10 ^ length ds, dropWhile is_digit r))
   | _ \<Rightarrow> Some (0, cs))"

definition parse_exp_digits :: "rat \<Rightarrow> bool \<Rightarrow> string \<Rightarrow> (rat \<times> string) option" where
  "parse_exp_digits m neg r =
     (let ds = takeWhile is_digit r; p = 10 ^ digits_value 0 ds in
      if ds = [] then None
      else Some (if neg then m / p else m * p, dropWhile is_digit r))"

definition parse_exp :: "rat \<Rightarrow> string \<Rightarrow> (rat \<times> string) option" where
  "parse_exp m cs = (case cs of
     c # r \<Rightarrow>
       if c = CHR ''e'' \<or> c = CHR ''E'' then
         (case r of
            CHR ''-'' # r' \<Rightarrow> parse_exp_digits m True r'
          | CHR ''+'' # r' \<Rightarrow> parse_exp_digits m False r'
          | _ \<Rightarrow> parse_exp_digits m False r)
       else Some (m, cs)
   | [] \<Rightarrow> Some (m, cs))"

definition parse_unsigned :: "string \<Rightarrow> (rat \<times> string) option" where
  "parse_unsigned cs =
     (let ds = takeWhile is_digit cs in
      if ds = [] \<or> (hd ds = CHR ''0'' \<and> 1 < length ds) then None
      else case parse_frac (dropWhile is_digit cs) of
        None \<Rightarrow> None
      | Some (f, r) \<Rightarrow> parse_exp (of_nat (digits_value 0 ds) + f) r)"

definition parse_number :: "string \<Rightarrow> (rat \<times> string) option" where
  "parse_number cs = (case cs of
     CHR ''-'' # r \<Rightarrow> map_option (\<lambda>(n, r). (- n, r)) (parse_unsigned r)
   | _ \<Rightarrow> parse_unsigned cs)"

definition literal :: "string \<Rightarrow> json \<Rightarrow> string \<Rightarrow> (json \<times> string) option" where
  "literal word v cs = (if take (length word) cs = word then Some (v, drop (length word) cs) else None)"

fun parse_value :: "nat \<Rightarrow> string \<Rightarrow> (json \<times> string) option"
  and parse_items :: "nat \<Rightarrow> string \<Rightarrow> (json list \<times> string) option"
  and parse_members :: "nat \<Rightarrow> string \<Rightarrow> ((string \<times> json) list \<times> string) option" where
  "parse_value 0 cs = None"
| "parse_value (Suc n) cs =
     (case skip_ws cs of
        [] \<Rightarrow> None
      | c # r \<Rightarrow>
          if c = CHR 0x22 then map_option (\<lambda>(s, r). (JString s, r)) (parse_string r)
          else if c = CHR ''['' then
            (case skip_ws r of
               CHR '']'' # r' \<Rightarrow> Some (JArray [], r')
             | _ \<Rightarrow> map_option (\<lambda>(js, r). (JArray js, r)) (parse_items n r))
          else if c = CHR ''{'' then
            (case skip_ws r of
               CHR ''}'' # r' \<Rightarrow> Some (JObject [], r')
             | _ \<Rightarrow> map_option (\<lambda>(kvs, r). (JObject kvs, r)) (parse_members n r))
          else if c = CHR ''n'' then literal ''null'' JNull (c # r)
          else if c = CHR ''t'' then literal ''true'' (JBool True) (c # r)
          else if c = CHR ''f'' then literal ''false'' (JBool False) (c # r)
          else map_option (\<lambda>(m, r). (JNumber m, r)) (parse_number (c # r)))"
| "parse_items 0 cs = None"
| "parse_items (Suc n) cs =
     (case parse_value n cs of
        None \<Rightarrow> None
      | Some (v, r) \<Rightarrow>
          (case skip_ws r of
             CHR '','' # r' \<Rightarrow> map_option (\<lambda>(vs, r). (v # vs, r)) (parse_items n r')
           | CHR '']'' # r' \<Rightarrow> Some ([v], r')
           | _ \<Rightarrow> None))"
| "parse_members 0 cs = None"
| "parse_members (Suc n) cs =
     (case skip_ws cs of
        CHR 0x22 # r \<Rightarrow>
          (case parse_string r of
             None \<Rightarrow> None
           | Some (k, r1) \<Rightarrow>
               (case skip_ws r1 of
                  CHR '':'' # r2 \<Rightarrow>
                    (case parse_value n r2 of
                       None \<Rightarrow> None
                     | Some (v, r3) \<Rightarrow>
                         (case skip_ws r3 of
                            CHR '','' # r4 \<Rightarrow> map_option (\<lambda>(kvs, r). ((k, v) # kvs, r)) (parse_members n r4)
                          | CHR ''}'' # r4 \<Rightarrow> Some ([(k, v)], r4)
                          | _ \<Rightarrow> None))
                | _ \<Rightarrow> None))
      | _ \<Rightarrow> None)"

definition JSON_parse :: "string \<Rightarrow> json option" where
  "JSON_parse s = (case parse_value (2 * length s + 2) s of
     Some (v, r) \<Rightarrow> if skip_ws r = [] then Some v else None
   | None \<Rightarrow> None)"

section \<open>Reading what was written\<close>

lemma hex_value_digit: "n < 16 \<Longrightarrow> hex_value (hex_digit n) = Some n"
  by (auto simp: hex_value_def hex_digit_def Let_def)

lemma simple_escapes [simp]:
  "simple_escape (CHR 0x22) = Some (CHR 0x22)" "simple_escape (CHR 0x5C) = Some (CHR 0x5C)"
  "simple_escape (CHR ''b'') = Some (CHR 0x08)" "simple_escape (CHR ''f'') = Some (CHR 0x0C)"
  "simple_escape (CHR ''n'') = Some (CHR 0x0A)" "simple_escape (CHR ''r'') = Some (CHR 0x0D)"
  "simple_escape (CHR ''t'') = Some (CHR 0x09)"
  by (simp_all add: simple_escape_def)

lemma parse_escape_char:
  "parse_string (escape_char c @ xs) = map_option (\<lambda>(s, r). (c # s, r)) (parse_string xs)"
proof -
  have hex: "hex_value (CHR ''0'') = Some 0" by (simp add: hex_value_def)
  let ?n = "of_char c :: nat"
  consider (short) "c \<in> {CHR 0x22, CHR 0x5C, CHR 0x08, CHR 0x0C, CHR 0x0A, CHR 0x0D, CHR 0x09}"
    | (control) "c \<notin> {CHR 0x22, CHR 0x5C, CHR 0x08, CHR 0x0C, CHR 0x0A, CHR 0x0D, CHR 0x09}" "?n < 32"
    | (plain) "c \<notin> {CHR 0x22, CHR 0x5C, CHR 0x08, CHR 0x0C, CHR 0x0A, CHR 0x0D, CHR 0x09}" "\<not> ?n < 32"
    by blast
  then show ?thesis
  proof cases
    case short
    then show ?thesis by (auto simp: escape_char_def)
  next
    case control
    then have e: "escape_char c = [CHR 0x5C, CHR ''u'', CHR ''0'', CHR ''0'',
        hex_digit (?n div 16), hex_digit (?n mod 16)]"
      by (simp add: escape_char_def Let_def)
    have "?n div 16 < 16" "?n mod 16 < 16" using control by auto
    then have "parse_string (escape_char c @ xs) =
        map_option (\<lambda>(s, r). (char_of (16 * (?n div 16) + ?n mod 16) # s, r)) (parse_string xs)"
      by (simp add: e hex hex_value_digit)
    then show ?thesis by simp
  next
    case plain
    then have "escape_char c = [c]" by (simp add: escape_char_def)
    then show ?thesis using plain by simp
  qed
qed

lemma parse_quoted: "parse_string (concat (map escape_char s) @ CHR 0x22 # rest) = Some (s, rest)"
  by (induction s) (simp_all add: parse_escape_char)

lemma quote_string_inj: "quote_string a = quote_string b \<longleftrightarrow> a = b"
proof
  assume "quote_string a = quote_string b"
  then have "parse_string (tl (quote_string a)) = parse_string (tl (quote_string b))" by simp
  then show "a = b" using parse_quoted [of a "[]"] parse_quoted [of b "[]"]
    by (simp add: quote_string_def)
qed simp

subsection \<open>Numbers\<close>

definition delimited :: "string \<Rightarrow> bool" where
  "delimited cs \<longleftrightarrow> cs = [] \<or> hd cs \<in> {CHR '','', CHR '']'', CHR ''}''}"

lemma digit_char: "(n::nat) < 10 \<Longrightarrow> is_digit (char_of (48 + n))"
  by (simp add: is_digit_def Let_def)

lemma digits_of_digits: "c \<in> set (digits_of n) \<Longrightarrow> is_digit c"
proof (induction n rule: digits_of.induct)
  case (1 n)
  show ?case
  proof (cases "n < 10")
    case True
    then show ?thesis using 1(2) by (subst (asm) digits_of.simps) (simp add: digit_char)
  next
    case False
    then have "digits_of n = digits_of (n div 10) @ [char_of (48 + n mod 10)]"
      by (subst digits_of.simps) simp
    then show ?thesis using 1 False digit_char [of "n mod 10"] by auto
  qed
qed

lemma digits_of_lead: "0 < n \<Longrightarrow> hd (digits_of n) \<noteq> CHR ''0''"
proof (induction n rule: digits_of.induct)
  case (1 n)
  show ?case
  proof (cases "n < 10")
    case True
    have "char_of (48 + n) \<noteq> CHR ''0''"
    proof
      assume "char_of (48 + n) = CHR ''0''"
      then have "(of_char (char_of (48 + n) :: char) :: nat) = of_char (CHR ''0'')" by simp
      then show False using True 1(2) by simp
    qed
    then show ?thesis using True by (subst digits_of.simps) simp
  next
    case False
    then have "digits_of n = digits_of (n div 10) @ [char_of (48 + n mod 10)]"
      by (subst digits_of.simps) simp
    moreover have "digits_of (n div 10) \<noteq> []" using digits_of_hd [of "n div 10"] by auto
    ultimately show ?thesis using 1 False by simp
  qed
qed

lemma delimited_digit: "delimited cs \<Longrightarrow> cs \<noteq> [] \<Longrightarrow> \<not> is_digit (hd cs)"
  by (auto simp: delimited_def is_digit_def Let_def)

lemma parse_unsigned_digits:
  assumes "delimited rest"
  shows "parse_unsigned (digits_of n @ rest) = Some (of_nat n, rest)"
proof -
  have all: "\<forall>c\<in>set (digits_of n). is_digit c" using digits_of_digits by blast
  have stop: "takeWhile is_digit rest = []" "dropWhile is_digit rest = rest"
    using delimited_digit [OF assms] by (cases rest; simp)+
  have t: "takeWhile is_digit (digits_of n @ rest) = digits_of n"
    and d: "dropWhile is_digit (digits_of n @ rest) = rest"
    using all stop by (simp_all add: takeWhile_append2 dropWhile_append2)
  have f: "parse_frac rest = Some (0, rest)"
    using assms by (auto simp: parse_frac_def delimited_def split: list.split char.split bool.split)
  have e: "parse_exp m rest = Some (m, rest)" for m
    using assms by (auto simp: parse_exp_def delimited_def split: list.split)
  have ne: "digits_of n \<noteq> []" using digits_of_hd [of n] by auto
  have "\<not> (hd (digits_of n) = CHR ''0'' \<and> 1 < length (digits_of n))"
  proof (cases "n = 0")
    case True
    then show ?thesis by (simp add: digits_of.simps [of 0])
  next
    case False
    then show ?thesis using digits_of_lead [of n] by simp
  qed
  then show ?thesis
    using ne by (simp add: parse_unsigned_def t d f e digits_value_digits Let_def)
qed

lemma parse_number_int:
  assumes "delimited rest"
  shows "parse_number (string_of_int i @ rest) = Some (of_int i, rest)"
proof (cases "i < 0")
  case True
  then show ?thesis using parse_unsigned_digits [OF assms, of "nat (- i)"]
    by (simp add: string_of_int_def parse_number_def of_nat_nat)
next
  case False
  obtain c cs where c: "digits_of (nat i) = c # cs" "c \<noteq> CHR ''-''" using digits_of_hd by blast
  have "parse_number (digits_of (nat i) @ rest) = parse_unsigned (digits_of (nat i) @ rest)"
    using c by (auto simp: parse_number_def split: char.split bool.split)
  then show ?thesis using parse_unsigned_digits [OF assms, of "nat i"] False
    by (simp add: string_of_int_def of_nat_nat)
qed

subsection \<open>Values\<close>

fun wf_json :: "json \<Rightarrow> bool" where
  "wf_json (JNumber r) \<longleftrightarrow> of_int \<lfloor>r\<rfloor> = r"
| "wf_json (JArray js) \<longleftrightarrow> list_all wf_json js"
| "wf_json (JObject kvs) \<longleftrightarrow> list_all (\<lambda>(k, v). wf_json v) kvs"
| "wf_json _ \<longleftrightarrow> True"

definition starts_value :: "string \<Rightarrow> bool" where
  "starts_value cs \<longleftrightarrow> cs \<noteq> [] \<and> \<not> is_ws (hd cs) \<and> hd cs \<noteq> CHR '']'' \<and> hd cs \<noteq> CHR ''}''"

lemma skip_ws_same: "cs \<noteq> [] \<Longrightarrow> \<not> is_ws (hd cs) \<Longrightarrow> skip_ws (cs @ rest) = cs @ rest"
  by (cases cs) (simp_all add: skip_ws_def)

lemma skip_ws_char [simp]: "\<not> is_ws c \<Longrightarrow> skip_ws (c # cs) = c # cs"
  by (simp add: skip_ws_def)

lemma is_ws_simps [simp]:
  "\<not> is_ws (CHR 0x22)" "\<not> is_ws (CHR '','')" "\<not> is_ws (CHR '':'')" "\<not> is_ws (CHR '']'')"
  "\<not> is_ws (CHR ''}'')" "\<not> is_ws (CHR ''['')" "\<not> is_ws (CHR ''{'')" "\<not> is_ws (CHR ''n'')"
  "\<not> is_ws (CHR ''t'')" "\<not> is_ws (CHR ''f'')"
  by (simp_all add: is_ws_def)

lemma string_of_int_head: "\<exists>c cs. string_of_int i = c # cs \<and> (c = CHR ''-'' \<or> is_digit c)"
proof -
  obtain c cs where "digits_of (nat i) = c # cs" using digits_of_hd by blast
  then show ?thesis using digits_of_digits [of c "nat i"] by (auto simp: string_of_int_def)
qed

lemma number_char:
  assumes "c = CHR ''-'' \<or> is_digit c"
  shows "\<not> is_ws c" "c \<notin> {CHR 0x22, CHR ''['', CHR ''{'', CHR ''n'', CHR ''t'', CHR ''f'', CHR '']'', CHR ''}''}"
  using assms by (auto simp: is_ws_def is_digit_def Let_def)

lemma starts_stringify: "starts_value (stringify v)"
proof (cases v)
  case (JNumber r)
  obtain c cs where "string_of_int \<lfloor>r\<rfloor> = c # cs" "c = CHR ''-'' \<or> is_digit c"
    using string_of_int_head by blast
  then show ?thesis using number_char [of c] JNumber by (auto simp: starts_value_def)
qed (auto simp: starts_value_def quote_string_def)

lemma starts_valueD: "starts_value cs \<Longrightarrow> skip_ws (cs @ rest) = cs @ rest"
  by (simp add: starts_value_def skip_ws_same)

lemma commas_Cons: "commas (x # y # xs) = x @ CHR '','' # commas (y # xs)" by simp

lemma parse_value_number:
  assumes "delimited rest"
  shows "parse_value (Suc n) (string_of_int i @ rest) = Some (JNumber (of_int i), rest)"
proof -
  obtain c cs where c: "string_of_int i = c # cs" "c = CHR ''-'' \<or> is_digit c"
    using string_of_int_head by blast
  show ?thesis using parse_number_int [OF assms, of i] number_char [OF c(2)] c(1) by simp
qed

lemma parse_items_commas:
  assumes "\<And>v n rest. v \<in> set vs \<Longrightarrow> 2 * length (stringify v) \<le> n \<Longrightarrow> delimited rest \<Longrightarrow>
      parse_value n (stringify v @ rest) = Some (v, rest)"
    and "vs \<noteq> []" "2 * length (commas (map stringify vs)) + 1 \<le> n"
  shows "parse_items n (commas (map stringify vs) @ CHR '']'' # rest) = Some (vs, rest)"
  using assms
proof (induction vs arbitrary: n)
  case Nil
  then show ?case by simp
next
  case (Cons v vs)
  obtain m where n: "n = Suc m" using Cons.prems(3) by (cases n) auto
  show ?case
  proof (cases vs)
    case Nil
    have "parse_value m (stringify v @ CHR '']'' # rest) = Some (v, CHR '']'' # rest)"
      using Cons.prems n Nil by (intro Cons.prems(1)) (simp_all add: delimited_def)
    then show ?thesis using n Nil by simp
  next
    case (Cons w ws)
    let ?rest = "CHR '','' # commas (map stringify vs) @ CHR '']'' # rest"
    have len: "2 * length (commas (map stringify vs)) + 1 \<le> m" "2 * length (stringify v) \<le> m"
      using Cons.prems(3) n Cons by simp_all
    have "parse_value m (stringify v @ ?rest) = Some (v, ?rest)"
      using len by (intro Cons.prems(1)) (simp_all add: delimited_def)
    moreover have "parse_items m (commas (map stringify vs) @ CHR '']'' # rest) = Some (vs, rest)"
      using Cons.prems(1) Cons len(1) by (intro Cons.IH) auto
    ultimately show ?thesis using n Cons by simp
  qed
qed

abbreviation member_string :: "string \<times> json \<Rightarrow> string" where
  "member_string \<equiv> \<lambda>(k, v). quote_string k @ CHR '':'' # stringify v"

lemma parse_members_commas:
  assumes "\<And>k v n rest. (k, v) \<in> set kvs \<Longrightarrow> 2 * length (stringify v) \<le> n \<Longrightarrow> delimited rest \<Longrightarrow>
      parse_value n (stringify v @ rest) = Some (v, rest)"
    and "kvs \<noteq> []" "2 * length (commas (map member_string kvs)) + 1 \<le> n"
  shows "parse_members n (commas (map member_string kvs) @ CHR ''}'' # rest) = Some (kvs, rest)"
  using assms
proof (induction kvs arbitrary: n)
  case Nil
  then show ?case by simp
next
  case (Cons kv kvs)
  obtain k v where kv: "kv = (k, v)" by fastforce
  obtain m where n: "n = Suc m" using Cons.prems(3) by (cases n) auto
  have str: "parse_string (concat (map escape_char k) @ CHR 0x22 # xs) = Some (k, xs)" for xs
    by (rule parse_quoted)
  show ?case
  proof (cases kvs)
    case Nil
    have "parse_value m (stringify v @ CHR ''}'' # rest) = Some (v, CHR ''}'' # rest)"
      using Cons.prems n Nil kv by (intro Cons.prems(1) [of k]) (simp_all add: delimited_def)
    then show ?thesis using n Nil kv str by (simp add: quote_string_def)
  next
    case (Cons w ws)
    let ?rest = "CHR '','' # commas (map member_string kvs) @ CHR ''}'' # rest"
    have len: "2 * length (commas (map member_string kvs)) + 1 \<le> m" "2 * length (stringify v) \<le> m"
      using Cons.prems(3) n Cons kv by simp_all
    have "parse_value m (stringify v @ ?rest) = Some (v, ?rest)"
      using len kv by (intro Cons.prems(1) [of k]) (simp_all add: delimited_def)
    moreover have "parse_members m (commas (map member_string kvs) @ CHR ''}'' # rest) = Some (kvs, rest)"
      using Cons.prems(1) Cons len(1) by (intro Cons.IH) auto
    ultimately show ?thesis using n Cons kv str by (simp add: quote_string_def)
  qed
qed

lemma commas_head:
  "xs \<noteq> [] \<Longrightarrow> hd xs \<noteq> [] \<Longrightarrow> \<exists>cs. commas xs = hd (hd xs) # cs"
  by (cases xs rule: commas.cases) (auto simp: neq_Nil_conv)

lemma parse_value_stringify:
  "wf_json v \<Longrightarrow> 2 * length (stringify v) \<le> n \<Longrightarrow> delimited rest \<Longrightarrow>
   parse_value n (stringify v @ rest) = Some (v, rest)"
proof (induction v arbitrary: n rest)
  case JNull
  then obtain m where "n = Suc m" by (cases n) auto
  then show ?case by (simp add: literal_def)
next
  case (JBool b)
  then obtain m where "n = Suc m" by (cases n) (auto split: if_splits)
  then show ?case by (simp add: literal_def)
next
  case (JNumber r)
  obtain c cs where "string_of_int \<lfloor>r\<rfloor> = c # cs" using string_of_int_head by blast
  then obtain m where "n = Suc m" using JNumber by (cases n) auto
  then show ?case using parse_value_number [OF JNumber(3), of m "\<lfloor>r\<rfloor>"] JNumber(1) by simp
next
  case (JString s)
  then obtain m where "n = Suc m" by (cases n) (auto simp: quote_string_def)
  then show ?case using parse_quoted [of s rest] by (simp add: quote_string_def)
next
  case (JArray js)
  then obtain m where n: "n = Suc m" by (cases n) auto
  show ?case
  proof (cases js)
    case Nil
    then show ?thesis using n by simp
  next
    case (Cons w ws)
    obtain cs where cs: "commas (map stringify js) = hd (stringify w) # cs"
      using commas_head [of "map stringify js"] starts_stringify [of w] Cons
      by (auto simp: starts_value_def)
    have w: "\<not> is_ws (hd (stringify w))" "hd (stringify w) \<noteq> CHR '']''"
      using starts_stringify [of w] by (simp_all add: starts_value_def)
    have "parse_items m (commas (map stringify js) @ CHR '']'' # rest) = Some (js, rest)"
      using JArray n Cons by (intro parse_items_commas) (auto simp: list_all_iff)
    then show ?thesis using n w cs by (auto split: char.split bool.split)
  qed
next
  case (JObject kvs)
  then obtain m where n: "n = Suc m" by (cases n) auto
  show ?case
  proof (cases kvs)
    case Nil
    then show ?thesis using n by simp
  next
    case (Cons w ws)
    obtain cs where cs: "commas (map member_string kvs) = CHR 0x22 # cs"
      using commas_head [of "map member_string kvs"] Cons
      by (cases w) (auto simp: quote_string_def)
    have "parse_members m (commas (map member_string kvs) @ CHR ''}'' # rest) = Some (kvs, rest)"
    proof (rule parse_members_commas)
      fix k v n' rest'
      assume kv: "(k, v) \<in> set kvs" and "2 * length (stringify v) \<le> n'" "delimited rest'"
      moreover have "wf_json v" using JObject(2) kv by (auto simp: list_all_iff)
      ultimately show "parse_value n' (stringify v @ rest') = Some (v, rest')"
        using JObject(1) [OF kv, of v] by simp
    qed (use JObject n Cons in auto)
    then show ?thesis using n cs by simp
  qed
qed

theorem JSON_parse_stringify: "wf_json v \<Longrightarrow> JSON_parse (stringify v) = Some v"
  using parse_value_stringify [of v "2 * length (stringify v) + 2" "[]"]
  by (simp add: JSON_parse_def delimited_def skip_ws_def)

lemma stringify_inj: "wf_json v \<Longrightarrow> wf_json w \<Longrightarrow> stringify v = stringify w \<longleftrightarrow> v = w"
  by (metis JSON_parse_stringify option.inject)

end
