(* ===== verification/Validators.thy ===== *)
theory Validators
  imports Json
begin

text \<open>
  What the routes accept: the Zod schemas of the \<open>validators.ts\<close> files, of \<open>utils/pagination.ts\<close>
  and \<open>utils/idSchema.ts\<close>, written with the constructors the code uses. Zod itself is not in
  the repository: \<open>meaning\<close> states what its documentation promises for these constructors (which
  inputs are accepted, and what is returned for them: strings trimmed, numbers coerced, defaults
  filled in, unknown keys dropped or, in a strict object, refused), and \<open>zod_parser\<close> is the
  contract of the parser that the middleware calls. The string formats and the coercion
  \<open>Number(x)\<close> are parameters.
\<close>

section \<open>Schemas\<close>

datatype string_check = Trim | Min nat | Max nat | Uuid | Email | Datetime | Url | Chars "char \<Rightarrow> bool"

datatype number_check = Whole | Positive | Safe | AtMost int

datatype schema =
    ZString "string_check list"
  | ZNumber "number_check list"
  | ZCoerceNumber "number_check list"
  | ZEnum "string list"
  | ZArray nat schema
  | ZObject bool "(string \<times> schema) list"
  | ZOptional schema
  | ZDefault json schema
  | ZRefine "json \<Rightarrow> bool" schema

text \<open>\<open>.partial()\<close> makes every field optional; \<open>strict\<close> objects refuse unknown keys.\<close>

definition partial_object :: "schema \<Rightarrow> schema" where
  "partial_object s = (case s of ZObject strict fs \<Rightarrow> ZObject strict (map (\<lambda>(k, s). (k, ZOptional s)) fs) | _ \<Rightarrow> s)"

section \<open>The schemas of the routes\<close>

definition idSchema :: schema where
  "idSchema = ZString [Trim, Uuid]"

definition safeAmount :: schema where
  "safeAmount = ZNumber [Whole, Positive, Safe]"

definition settlement_safeAmount :: schema where
  "settlement_safeAmount = ZNumber [Whole, Positive, Safe]"

definition expenseTargetParamsSchema :: schema where
  "expenseTargetParamsSchema = ZObject False [(''id'', idSchema)]"

definition createExpenseBodySchema :: schema where
  "createExpenseBodySchema = ZObject True
     [(''description'', ZString [Trim, Min 1, Max 280]),
      (''amountMinorUnits'', safeAmount),
      (''payerId'', idSchema),
      (''splitType'', ZEnum [''EQUAL'', ''EXACT'']),
      (''participants'', ZArray 1 (ZObject False
         [(''userId'', idSchema), (''amountMinorUnits'', ZOptional safeAmount)])),
      (''expenseDate'', ZOptional (ZString [Datetime]))]"

definition expenseParamsSchema :: schema where
  "expenseParamsSchema = ZObject False [(''id'', idSchema)]"

definition expenseParticipantSchema :: schema where
  "expenseParticipantSchema = ZObject False
     [(''userId'', idSchema), (''amountMinorUnits'', ZOptional safeAmount)]"

definition has_keys :: "json \<Rightarrow> bool" where
  "has_keys v = (case v of JObject kvs \<Rightarrow> 0 < length kvs | _ \<Rightarrow> False)"

definition updateExpenseBodySchema :: schema where
  "updateExpenseBodySchema = ZRefine has_keys (ZObject True
     [(''description'', ZOptional (ZString [Trim, Min 1, Max 280])),
      (''amountMinorUnits'', ZOptional safeAmount),
      (''payerId'', ZOptional idSchema),
      (''splitType'', ZOptional (ZEnum [''EQUAL'', ''EXACT''])),
      (''participants'', ZOptional (ZArray 1 expenseParticipantSchema)),
      (''expenseDate'', ZOptional (ZString [Datetime]))])"

definition createGroupBodySchema :: schema where
  "createGroupBodySchema = ZObject True [(''name'', ZString [Trim, Min 1, Max 100])]"

definition updateGroupBodySchema :: schema where
  "updateGroupBodySchema = ZObject True [(''name'', ZString [Trim, Min 1, Max 100])]"

definition groupParamsSchema :: schema where
  "groupParamsSchema = ZObject False [(''id'', idSchema)]"

definition addMemberBodySchema :: schema where
  "addMemberBodySchema = ZObject True [(''userId'', idSchema)]"

definition memberParamsSchema :: schema where
  "memberParamsSchema = ZObject False [(''id'', idSchema), (''memberId'', idSchema)]"

definition settlementGroupParamsSchema :: schema where
  "settlementGroupParamsSchema = ZObject False [(''id'', idSchema)]"

definition settlementParamsSchema :: schema where
  "settlementParamsSchema = ZObject False [(''id'', idSchema)]"

definition createSettlementBodySchema :: schema where
  "createSettlementBodySchema = ZObject True
     [(''payerId'', idSchema), (''payeeId'', idSchema), (''amountMinorUnits'', settlement_safeAmount)]"

definition summaryGroupParamsSchema :: schema where
  "summaryGroupParamsSchema = ZObject False [(''id'', idSchema)]"

definition activityGroupParamsSchema :: schema where
  "activityGroupParamsSchema = ZObject False [(''id'', idSchema)]"

definition activityQuerySchema :: schema where
  "activityQuerySchema = ZObject True
     [(''page'', ZDefault (JNumber 1) (ZCoerceNumber [Whole, Positive])),
      (''limit'', ZDefault (JNumber 20) (ZCoerceNumber [Whole, Positive, AtMost 50]))]"

definition paginationQuerySchema :: schema where
  "paginationQuerySchema = partial_object (ZObject False
     [(''page'', ZCoerceNumber [Whole, Positive]),
      (''limit'', ZCoerceNumber [Whole, Positive, AtMost 50])])"

definition emailSchema :: schema where
  "emailSchema = ZString [Trim, Email]"

definition passwordSchema :: schema where
  "passwordSchema = ZString [Min 8, Max 72]"

definition registerBodySchema :: schema where
  "registerBodySchema = ZObject True
     [(''name'', ZString [Trim, Min 1, Max 100]), (''email'', emailSchema), (''password'', passwordSchema)]"

definition loginBodySchema :: schema where
  "loginBodySchema = ZObject True [(''email'', emailSchema), (''password'', ZString [Min 1])]"

definition refreshTokenBodySchema :: schema where
  "refreshTokenBodySchema = ZObject True [(''refreshToken'', ZString [Min 1])]"

definition updateProfileBodySchema :: schema where
  "updateProfileBodySchema = ZRefine
     (\<lambda>data. json_field data ''name'' \<noteq> None \<or> json_field data ''email'' \<noteq> None)
     (ZObject True
       [(''name'', ZOptional (ZString [Trim, Min 1, Max 100])), (''email'', ZOptional emailSchema)])"

definition authTokenSchema :: schema where
  "authTokenSchema = ZString [Min 1, Chars (\<lambda>c. is_alnum c \<or> c \<in> {CHR ''_'', CHR ''-''})]"

definition verifyEmailBodySchema :: schema where
  "verifyEmailBodySchema = ZObject True [(''token'', authTokenSchema)]"

definition resendVerificationBodySchema :: schema where
  "resendVerificationBodySchema = ZObject True [(''email'', emailSchema)]"

definition forgotPasswordBodySchema :: schema where
  "forgotPasswordBodySchema = ZObject True [(''email'', emailSchema)]"

definition resetPasswordBodySchema :: schema where
  "resetPasswordBodySchema = ZObject True [(''token'', authTokenSchema), (''newPassword'', passwordSchema)]"

lemmas schema_defs = idSchema_def safeAmount_def settlement_safeAmount_def expenseTargetParamsSchema_def
  createExpenseBodySchema_def expenseParamsSchema_def expenseParticipantSchema_def
  updateExpenseBodySchema_def createGroupBodySchema_def updateGroupBodySchema_def
  groupParamsSchema_def addMemberBodySchema_def memberParamsSchema_def settlementGroupParamsSchema_def
  settlementParamsSchema_def createSettlementBodySchema_def summaryGroupParamsSchema_def
  activityGroupParamsSchema_def activityQuerySchema_def paginationQuerySchema_def partial_object_def
  emailSchema_def passwordSchema_def registerBodySchema_def loginBodySchema_def
  refreshTokenBodySchema_def updateProfileBodySchema_def authTokenSchema_def verifyEmailBodySchema_def
  resendVerificationBodySchema_def forgotPasswordBodySchema_def resetPasswordBodySchema_def

section \<open>What Zod promises for them\<close>

record formats =
  zf_isUuid :: "string \<Rightarrow> bool"
  zf_isEmail :: "string \<Rightarrow> bool"
  zf_isDatetime :: "string \<Rightarrow> bool"
  zf_isUrl :: "string \<Rightarrow> bool"
  zf_Number :: "json \<Rightarrow> rat option"

fun string_checks :: "formats \<Rightarrow> string_check list \<Rightarrow> string \<Rightarrow> string option" where
  "string_checks F [] s = Some s"
| "string_checks F (Trim # cs) s = string_checks F cs (js_trim s)"
| "string_checks F (Min n # cs) s = (if n \<le> length s then string_checks F cs s else None)"
| "string_checks F (Max n # cs) s = (if length s \<le> n then string_checks F cs s else None)"
| "string_checks F (Uuid # cs) s = (if zf_isUuid F s then string_checks F cs s else None)"
| "string_checks F (Email # cs) s = (if zf_isEmail F s then string_checks F cs s else None)"
| "string_checks F (Datetime # cs) s = (if zf_isDatetime F s then string_checks F cs s else None)"
| "string_checks F (Url # cs) s = (if zf_isUrl F s then string_checks F cs s else None)"
| "string_checks F (Chars p # cs) s = (if s \<noteq> [] \<and> list_all p s then string_checks F cs s else None)"

fun number_ok :: "rat \<Rightarrow> number_check \<Rightarrow> bool" where
  "number_ok q Whole = (q = of_int \<lfloor>q\<rfloor>)"
| "number_ok q Positive = (0 < q)"
| "number_ok q Safe = (\<bar>q\<bar> \<le> of_int MAX_SAFE_INTEGER)"
| "number_ok q (AtMost n) = (q \<le> of_int n)"

fun all_some :: "'a option list \<Rightarrow> 'a list option" where
  "all_some [] = Some []"
| "all_some (x # xs) = (case x of None \<Rightarrow> None | Some a \<Rightarrow> map_option ((#) a) (all_some xs))"

definition known_keys :: "(string \<times> 's) list \<Rightarrow> json \<Rightarrow> bool" where
  "known_keys fs v = (case v of JObject kvs \<Rightarrow> list_all (\<lambda>(k, _). k \<in> fst ` set fs) kvs | _ \<Rightarrow> False)"

definition field_entry :: "string \<times> 's \<Rightarrow> json option \<Rightarrow> (string \<times> json) list" where
  "field_entry f y = (case y of None \<Rightarrow> [] | Some x \<Rightarrow> [(fst f, x)])"

text \<open>
  \<open>meaning F s v\<close> for a value or \<open>undefined\<close> (\<open>None\<close>): \<open>None\<close> if it is refused, else what comes
  out. The fields of an object come out in the order of the schema.
\<close>

fun meaning :: "formats \<Rightarrow> schema \<Rightarrow> json option \<Rightarrow> json option option" where
  "meaning F (ZString cs) v =
     (case v of Some (JString s) \<Rightarrow> map_option (\<lambda>s. Some (JString s)) (string_checks F cs s) | _ \<Rightarrow> None)"
| "meaning F (ZNumber cs) v =
     (case v of Some (JNumber q) \<Rightarrow> if list_all (number_ok q) cs then Some (Some (JNumber q)) else None
      | _ \<Rightarrow> None)"
| "meaning F (ZCoerceNumber cs) v =
     (case v of None \<Rightarrow> None
      | Some x \<Rightarrow> (case zf_Number F x of None \<Rightarrow> None
        | Some q \<Rightarrow> if list_all (number_ok q) cs then Some (Some (JNumber q)) else None))"
| "meaning F (ZEnum names) v =
     (case v of Some (JString s) \<Rightarrow> if s \<in> set names then Some (Some (JString s)) else None | _ \<Rightarrow> None)"
| "meaning F (ZArray n s) v =
     (case v of Some (JArray xs) \<Rightarrow>
        (if n \<le> length xs
         then map_option (\<lambda>ys. Some (JArray (map the ys))) (all_some (map (\<lambda>x. meaning F s (Some x)) xs))
         else None)
      | _ \<Rightarrow> None)"
| "meaning F (ZObject strict fs) v =
     (case v of Some (JObject kvs) \<Rightarrow>
        (if strict \<and> \<not> known_keys fs (JObject kvs) then None
         else map_option (\<lambda>ys. Some (JObject (concat (map2 field_entry fs ys))))
                (all_some (map (\<lambda>(k, s). meaning F s (json_field (JObject kvs) k)) fs)))
      | _ \<Rightarrow> None)"
| "meaning F (ZOptional s) v = (case v of None \<Rightarrow> Some None | Some x \<Rightarrow> meaning F s v)"
| "meaning F (ZDefault d s) v = (case v of None \<Rightarrow> Some (Some d) | Some x \<Rightarrow> meaning F s v)"
| "meaning F (ZRefine p s) v =
     (case meaning F s v of Some (Some x) \<Rightarrow> if p x then Some (Some x) else None | _ \<Rightarrow> None)"

type_synonym issues = "(string list \<times> string) list"

text \<open>The contract of \<open>schema.parse\<close>: it returns what the schema means, or throws the issues.\<close>

definition zod_parser :: "formats \<Rightarrow> (schema \<Rightarrow> json \<Rightarrow> issues + json) \<Rightarrow> bool" where
  "zod_parser F parse \<longleftrightarrow> (\<forall>s v. case parse s v of
      Inr x \<Rightarrow> meaning F s (Some v) = Some (Some x)
    | Inl issues \<Rightarrow> \<not> (\<exists>x. meaning F s (Some v) = Some (Some x)))"

section \<open>Reading a parsed object\<close>

lemma all_some_Some:
  "all_some xs = Some ys \<longleftrightarrow> length ys = length xs \<and> (\<forall>i<length xs. xs ! i = Some (ys ! i))"
proof (induction xs arbitrary: ys)
  case (Cons x xs)
  show ?case
  proof (cases ys)
    case Nil
    then show ?thesis by (auto split: option.split)
  next
    case (Cons y ys')
    then show ?thesis using Cons.IH [of ys']
      by (cases x) (auto simp: all_conj_distrib less_Suc_eq_0_disj)
  qed
qed auto

lemma parsed_fields:
  assumes "all_some (map (\<lambda>(k, s). meaning F s (g k)) fs) = Some ys"
    and "distinct (map fst fs)" and "(k, s) \<in> set fs"
  shows "meaning F s (g k) = Some (json_field (JObject (concat (map2 field_entry fs ys))) k)"
  using assms
proof (induction fs arbitrary: ys)
  case (Cons f fs)
  obtain y zs where ys: "ys = y # zs" and rest: "all_some (map (\<lambda>(k, s). meaning F s (g k)) fs) = Some zs"
    and first: "meaning F (snd f) (g (fst f)) = Some y"
    using Cons.prems(1) by (auto split: option.splits prod.splits)
  have out: "json_field (JObject (concat (map2 field_entry fs zs))) j = None" if "j \<notin> fst ` set fs" for j and zs :: "json option list"
    using that by (auto simp: json_field_def map_of_eq_None_iff image_iff field_entry_def dest!: set_zip_leftD
        split: option.splits)
  show ?case
  proof (cases "k = fst f")
    case True
    then have "s = snd f" using Cons.prems(2,3) by (cases f) (auto simp: image_iff)
    moreover have "json_field (JObject (concat (map2 field_entry fs zs))) k = None"
      using True Cons.prems(2) by (intro out) auto
    ultimately show ?thesis using first True
      by (simp add: ys field_entry_def json_field_append json_field_Cons json_field_Nil split: option.split)
  next
    case False
    then have "(k, s) \<in> set fs" using Cons.prems(3) by auto
    with Cons.IH [OF rest] Cons.prems(2) have "meaning F s (g k) = Some (json_field (JObject (concat (map2 field_entry fs zs))) k)"
      by simp
    then show ?thesis using False
      by (simp add: ys field_entry_def json_field_append json_field_Cons json_field_Nil split: option.split)
  qed
qed simp

lemma meaning_object:
  assumes "meaning F (ZObject strict fs) (Some v) = Some (Some b)"
    and "distinct (map fst fs)" and "(k, s) \<in> set fs"
  shows "meaning F s (json_field v k) = Some (json_field b k)"
  using assms parsed_fields [where g = "json_field v"] by (auto split: json.splits if_splits)

lemma meaning_safeAmount:
  assumes "meaning F safeAmount v = Some y"
  shows "\<exists>n. y = Some (JNumber (of_int n)) \<and> 0 < n \<and> n \<le> MAX_SAFE_INTEGER"
proof -
  from assms obtain q where q: "y = Some (JNumber q)" "q = of_int \<lfloor>q\<rfloor>" "0 < q" "\<bar>q\<bar> \<le> of_int MAX_SAFE_INTEGER"
    by (auto simp: safeAmount_def split: option.splits json.splits if_splits)
  then obtain n :: int where n: "q = of_int n" by blast
  have "0 < n" using q(3) n by simp
  have "n \<le> MAX_SAFE_INTEGER" using q(3,4) n by simp
  with \<open>0 < n\<close> show ?thesis using q(1) n by blast
qed

lemma meaning_array:
  assumes "meaning F (ZArray n s) v = Some y"
  shows "\<exists>xs ys. v = Some (JArray xs) \<and> y = Some (JArray ys) \<and> n \<le> length xs \<and> length ys = length xs"
  using assms by (auto simp: all_some_Some split: option.splits json.splits if_splits)

lemma meaning_optional:
  "meaning F (ZOptional s) v = Some y \<Longrightarrow> v = None \<and> y = None \<or> v \<noteq> None \<and> meaning F s v = Some y"
  by (auto split: option.splits)

lemma meaning_refine:
  "meaning F (ZRefine p s) v = Some y \<Longrightarrow> meaning F s v = Some y \<and> (\<exists>x. y = Some x \<and> p x)"
  by (auto split: option.splits if_splits)

text \<open>How many values a parsed body can hold: at most one for each of its bytes.\<close>

fun json_nodes :: "json \<Rightarrow> nat" where
  "json_nodes (JArray xs) = Suc (sum_list (map json_nodes xs))"
| "json_nodes (JObject kvs) = Suc (sum_list (map (\<lambda>(_, v). json_nodes v) kvs))"
| "json_nodes _ = 1"

lemma json_nodes_pos: "0 < json_nodes v"
  by (cases v) simp_all

lemma json_nodes_array: "length xs \<le> json_nodes (JArray xs)"
proof -
  have "length xs \<le> sum_list (map json_nodes xs)"
  proof (induction xs)
    case (Cons x xs)
    then show ?case using json_nodes_pos [of x] by simp
  qed simp
  then show ?thesis by simp
qed

lemma json_nodes_field:
  assumes "json_field v k = Some x"
  shows "json_nodes x \<le> json_nodes v"
proof -
  from assms obtain kvs where v: "v = JObject kvs" and "(k, x) \<in> set kvs"
    by (auto simp: json_field_def split: json.splits dest: map_of_SomeD)
  then have "json_nodes x \<in> set (map (\<lambda>(_, v). json_nodes v) kvs)" by force
  then show ?thesis using member_le_sum_list v by fastforce
qed

declare meaning.simps [simp del]

end
