(* ===== verification/Errors.thy ===== *)
theory Errors
  imports Prelude
begin

text \<open>
  The error vocabulary of the backend: the codes of \<open>constants/app-errors.ts\<close>, the
  statuses of \<open>constants/http-statuses.ts\<close>, the classes of \<open>errors/app.error.ts\<close> and the
  envelope the central handler of \<open>middleware/errorHandler.ts\<close> answers with.
\<close>

section \<open>Statuses and codes\<close>

datatype HTTP_STATUSES =
    OK | CREATED | ACCEPTED | NO_CONTENT | BAD_REQUEST | UNAUTHORIZED | FORBIDDEN
  | NOT_FOUND | CONFLICT | PAYLOAD_TOO_LARGE | TOO_MANY_REQUESTS
  | INTERNAL_SERVER_ERROR | SERVICE_UNAVAILABLE

fun status_number :: "HTTP_STATUSES \<Rightarrow> nat" where
  "status_number OK = 200"
| "status_number CREATED = 201"
| "status_number ACCEPTED = 202"
| "status_number NO_CONTENT = 204"
| "status_number BAD_REQUEST = 400"
| "status_number UNAUTHORIZED = 401"
| "status_number FORBIDDEN = 403"
| "status_number NOT_FOUND = 404"
| "status_number CONFLICT = 409"
| "status_number PAYLOAD_TOO_LARGE = 413"
| "status_number TOO_MANY_REQUESTS = 429"
| "status_number INTERNAL_SERVER_ERROR = 500"
| "status_number SERVICE_UNAVAILABLE = 503"

datatype APP_ERRORS =
    EMAIL_IN_USE | EMAIL_NOT_REGISTERED | INVALID_CREDENTIALS
  | TOKEN_MISSING | TOKEN_INVALID | TOKEN_EXPIRED | REFRESH_TOKEN_INVALID
  | USER_NOT_FOUND | GROUP_NOT_FOUND | ALREADY_GROUP_MEMBER | NOT_GROUP_MEMBER
  | NOT_GROUP_OWNER | CANNOT_REMOVE_OWNER
  | EXPENSE_NOT_FOUND | PAYER_NOT_GROUP_MEMBER | SPLIT_USER_NOT_GROUP_MEMBER
  | DUPLICATE_SPLIT_USER | SPLIT_TOTAL_MISMATCH
  | SETTLEMENT_NOT_FOUND | SETTLEMENT_PAYER_NOT_GROUP_MEMBER
  | SETTLEMENT_PAYEE_NOT_GROUP_MEMBER | SETTLEMENT_USERS_MUST_DIFFER
  | SETTLEMENT_CONCURRENT_LOCKED
  | IDEMPOTENCY_KEY_MISSING | IDEMPOTENCY_KEY_INVALID | IDEMPOTENCY_KEY_REUSED
  | IDEMPOTENCY_CONFLICT | IDEMPOTENCY_INVALID_STATE
  | GROUP_SUMMARY_NOT_FOUND | JOB_ENQUEUE_FAILED | EMAIL_DELIVERY_FAILED
  | VERIFICATION_TOKEN_INVALID | VERIFICATION_TOKEN_EXPIRED | VERIFICATION_TOKEN_USED
  | RESET_TOKEN_INVALID | RESET_TOKEN_EXPIRED | RESET_TOKEN_USED

section \<open>What can be thrown\<close>

text \<open>
  \<open>AppError\<close> carries the status, the code and the message of the class of the same name;
  its subclasses fix the status. The other constructors are the exceptions of the libraries
  the code tells apart: a known Prisma request error with its code, any other database
  failure, a rejected Redis command, the two domain exceptions that are no \<open>AppError\<close>, a Zod
  validation error with the path and message of its issues, the body parser's two errors, and
  any other \<open>Error\<close>.
\<close>

datatype exn =
    AppError HTTP_STATUSES APP_ERRORS string
  | PrismaKnownRequestError string
  | PrismaFailure string
  | RedisFailure string
  | DistributedLockConflictError string
  | PermanentJobFailureError string
  | ZodError "(string list \<times> string) list"
  | BodyParseFailed
  | BodyTooLarge
  | PlainError string

definition BadRequestError :: "APP_ERRORS \<Rightarrow> string \<Rightarrow> exn" where
  "BadRequestError code message = AppError BAD_REQUEST code message"

definition ConflictError :: "APP_ERRORS \<Rightarrow> string \<Rightarrow> exn" where
  "ConflictError code message = AppError CONFLICT code message"

definition UnauthorizedError :: "APP_ERRORS \<Rightarrow> string \<Rightarrow> exn" where
  "UnauthorizedError code message = AppError UNAUTHORIZED code message"

definition ForbiddenError :: "APP_ERRORS \<Rightarrow> string \<Rightarrow> exn" where
  "ForbiddenError code message = AppError FORBIDDEN code message"

definition NotFoundError :: "APP_ERRORS \<Rightarrow> string \<Rightarrow> exn" where
  "NotFoundError code message = AppError NOT_FOUND code message"

definition EmailDeliveryError :: "APP_ERRORS \<Rightarrow> string \<Rightarrow> exn" where
  "EmailDeliveryError code message = AppError SERVICE_UNAVAILABLE code message"

lemmas error_class_defs =
  BadRequestError_def ConflictError_def UnauthorizedError_def ForbiddenError_def
  NotFoundError_def EmailDeliveryError_def

text \<open>The code of an application error, as \<open>error.code\<close>.\<close>

fun exn_code :: "exn \<Rightarrow> APP_ERRORS option" where
  "exn_code (AppError _ c _) = Some c"
| "exn_code _ = None"

lemma exn_code_classes [code_of_simps, simp]:
  "exn_code (BadRequestError c m) = Some c"
  "exn_code (ConflictError c m) = Some c"
  "exn_code (UnauthorizedError c m) = Some c"
  "exn_code (ForbiddenError c m) = Some c"
  "exn_code (NotFoundError c m) = Some c"
  "exn_code (EmailDeliveryError c m) = Some c"
  by (simp_all add: error_class_defs)

section \<open>The central error handler\<close>

record error_response =
  er_status :: nat
  er_message :: string
  er_errors :: "(string \<times> string) list option"

fun join_with :: "string \<Rightarrow> string list \<Rightarrow> string" where
  "join_with sep [] = []"
| "join_with sep [x] = x"
| "join_with sep (x # xs) = x @ sep @ join_with sep xs"

definition formatZodError :: "(string list \<times> string) list \<Rightarrow> (string \<times> string) list" where
  "formatZodError issues = map (\<lambda>(path, message). (join_with ''.'' path, message)) issues"

text \<open>
  \<open>errorHandler\<close>: the branches in the order of the source. \<open>Error\<close> objects other than the
  body parser's carry neither its \<open>type\<close> nor a \<open>status\<close> field (an \<open>AppError\<close> has
  \<open>statusCode\<close>), so only \<open>BodyParseFailed\<close> and \<open>BodyTooLarge\<close> take those two branches.
\<close>

fun errorHandler :: "exn \<Rightarrow> error_response" where
  "errorHandler (ZodError issues) =
     \<lparr>er_status = status_number BAD_REQUEST, er_message = ''Validation failed'',
      er_errors = Some (formatZodError issues)\<rparr>"
| "errorHandler BodyParseFailed =
     \<lparr>er_status = status_number BAD_REQUEST, er_message = ''Invalid JSON request body.'',
      er_errors = None\<rparr>"
| "errorHandler BodyTooLarge =
     \<lparr>er_status = status_number PAYLOAD_TOO_LARGE, er_message = ''Request body too large.'',
      er_errors = None\<rparr>"
| "errorHandler (AppError status code message) =
     \<lparr>er_status = status_number status, er_message = message, er_errors = None\<rparr>"
| "errorHandler _ =
     \<lparr>er_status = status_number INTERNAL_SERVER_ERROR,
      er_message = ''Something went wrong on our side. Please try again later.'',
      er_errors = None\<rparr>"

definition notFoundHandler :: error_response where
  "notFoundHandler =
     \<lparr>er_status = status_number NOT_FOUND, er_message = ''Endpoint not found.'',
      er_errors = None\<rparr>"

text \<open>
  The handler hides what a library failure says: two errors that are neither application
  errors, validation errors nor body-parser errors get the same answer.
\<close>

definition internal_error :: "exn \<Rightarrow> bool" where
  "internal_error e \<longleftrightarrow> (case e of
      PrismaKnownRequestError _ \<Rightarrow> True | PrismaFailure _ \<Rightarrow> True | RedisFailure _ \<Rightarrow> True
    | DistributedLockConflictError _ \<Rightarrow> True | PermanentJobFailureError _ \<Rightarrow> True
    | PlainError _ \<Rightarrow> True | _ \<Rightarrow> False)"

lemma errorHandler_internal:
  "internal_error e \<Longrightarrow> errorHandler e = errorHandler (PlainError [])"
  by (cases e) (auto simp: internal_error_def)

lemma errorHandler_classes:
  "er_status (errorHandler (BadRequestError c m)) = 400"
  "er_status (errorHandler (UnauthorizedError c m)) = 401"
  "er_status (errorHandler (ForbiddenError c m)) = 403"
  "er_status (errorHandler (NotFoundError c m)) = 404"
  "er_status (errorHandler (ConflictError c m)) = 409"
  "er_status (errorHandler (EmailDeliveryError c m)) = 503"
  by (simp_all add: error_class_defs)

end
