(* ===== verification/Metrics.thy ===== *)
theory Metrics
  imports Errors Complex_Main
begin

text \<open>
  The in-process registry of \<open>metrics/registry.ts\<close>: the catalogue of definitions, the
  counters and the histograms, the recording methods, and the Prometheus text rendering.
  A JavaScript \<open>Map\<close> is an association list in insertion order, which \<open>AList.update\<close>
  keeps. Recorded numbers are rationals: the rounding of floating-point sums is left out.
\<close>

section \<open>Definitions and state\<close>

datatype metric_kind = Counter | Histogram

record metric_definition =
  md_kind :: metric_kind
  md_name :: string
  md_help :: string
  md_labelKeys :: "string list"
  md_buckets :: "rat list"

record histogram_series =
  hs_counts :: "nat list"
  hs_count :: nat
  hs_sum :: rat

type_synonym label_values = "(string \<times> string) list"
type_synonym 'v series_map = "(string \<times> 'v) list"

record registry =
  rg_defs :: "(string \<times> metric_definition) list"
  rg_counters :: "(string \<times> rat series_map) list"
  rg_histograms :: "(string \<times> histogram_series series_map) list"

text \<open>The \<open>number\<close> values \<open>observe\<close> tells apart.\<close>

datatype js_float = Finite rat | Infinite | NotANumber

definition DEFAULT_HISTOGRAM_BUCKETS :: "rat list" where
  "DEFAULT_HISTOGRAM_BUCKETS =
     [5/1000, 1/100, 25/1000, 5/100, 1/10, 25/100, 5/10, 1, 25/10, 5, 10]"

section \<open>Names and labels\<close>

text \<open>\<open>METRIC_NAME_PATTERN\<close>: a letter or underscore, then letters, digits and underscores.\<close>

definition metric_name_ok :: "string \<Rightarrow> bool" where
  "metric_name_ok s =
     (case s of [] \<Rightarrow> False
      | c # cs \<Rightarrow> (is_alnum c \<and> \<not> is_digit c \<or> c = CHR ''_'') \<and>
                  list_all (\<lambda>d. is_alnum d \<or> d = CHR ''_'') cs)"

definition isValidDefinition :: "metric_definition \<Rightarrow> bool" where
  "isValidDefinition d \<longleftrightarrow> metric_name_ok (md_name d) \<and> list_all metric_name_ok (md_labelKeys d)"

definition replace_char :: "char \<Rightarrow> string \<Rightarrow> string \<Rightarrow> string" where
  "replace_char c r s = concat (map (\<lambda>d. if d = c then r else [d]) s)"

definition escapeLabelValue :: "string \<Rightarrow> string" where
  "escapeLabelValue value =
     replace_char CHR 0x0A [CHR 0x5C, CHR ''n'']
       (replace_char CHR 0x22 [CHR 0x5C, CHR 0x22]
         (replace_char CHR 0x5C [CHR 0x5C, CHR 0x5C] value))"

text \<open>\<open>seriesKey\<close>: the declared keys in their declared order; labels not declared are dropped.\<close>

definition label_part :: "label_values \<Rightarrow> string \<Rightarrow> string option" where
  "label_part labels key =
     (case map_of labels key of
        None \<Rightarrow> None
      | Some raw \<Rightarrow> Some (key @ [CHR ''='', CHR 0x22] @ escapeLabelValue raw @ [CHR 0x22]))"

definition seriesKey :: "string list \<Rightarrow> label_values \<Rightarrow> string" where
  "seriesKey labelKeys labels =
     (let parts = List.map_filter (label_part labels) labelKeys in
      if parts = [] then [] else ''{'' @ join_with '','' parts @ ''}'')"

section \<open>Recording\<close>

definition defineMetric :: "metric_definition \<Rightarrow> registry \<Rightarrow> registry" where
  "defineMetric d r =
     (if isValidDefinition d
      then r\<lparr>rg_defs := AList.update (md_name d)
               (d\<lparr>md_buckets := if md_buckets d \<noteq> [] then md_buckets d
                               else DEFAULT_HISTOGRAM_BUCKETS\<rparr>) (rg_defs r)\<rparr>
      else r)"

definition series_of :: "(string \<times> 'v series_map) list \<Rightarrow> string \<Rightarrow> 'v series_map" where
  "series_of m name = (case map_of m name of None \<Rightarrow> [] | Some s \<Rightarrow> s)"

definition increment :: "string \<Rightarrow> label_values \<Rightarrow> rat \<Rightarrow> registry \<Rightarrow> registry" where
  "increment name labels by_n r =
     (case map_of (rg_defs r) name of
        None \<Rightarrow> r
      | Some d \<Rightarrow>
          if md_kind d \<noteq> Counter \<or> \<not> 0 < by_n then r
          else let keys = seriesKey (md_labelKeys d) labels;
                   series = series_of (rg_counters r) name;
                   old = (case map_of series keys of None \<Rightarrow> 0 | Some v \<Rightarrow> v)
               in r\<lparr>rg_counters :=
                      AList.update name (AList.update keys (old + by_n) series) (rg_counters r)\<rparr>)"

text \<open>The loop of \<open>observe\<close>: the first bucket that holds the value, if any.\<close>

fun bump_bucket :: "rat list \<Rightarrow> rat \<Rightarrow> nat list \<Rightarrow> nat list" where
  "bump_bucket (b # bs) v (c # cs) = (if v \<le> b then Suc c # cs else c # bump_bucket bs v cs)"
| "bump_bucket _ _ cs = cs"

definition empty_series :: "rat list \<Rightarrow> histogram_series" where
  "empty_series buckets = \<lparr>hs_counts = map (\<lambda>_. 0) buckets, hs_count = 0, hs_sum = 0\<rparr>"

definition observe :: "string \<Rightarrow> js_float \<Rightarrow> label_values \<Rightarrow> registry \<Rightarrow> registry" where
  "observe name value labels r =
     (case map_of (rg_defs r) name of
        None \<Rightarrow> r
      | Some d \<Rightarrow>
          if md_kind d \<noteq> Histogram then r
          else (case value of
             Finite v \<Rightarrow>
               if v < 0 then r
               else let keys = seriesKey (md_labelKeys d) labels;
                        series = series_of (rg_histograms r) name;
                        current = (case map_of series keys of
                                     None \<Rightarrow> empty_series (md_buckets d) | Some s \<Rightarrow> s);
                        next = \<lparr>hs_counts = bump_bucket (md_buckets d) v (hs_counts current),
                                hs_count = Suc (hs_count current),
                                hs_sum = hs_sum current + v\<rparr>
                    in r\<lparr>rg_histograms :=
                           AList.update name (AList.update keys next series) (rg_histograms r)\<rparr>
           | _ \<Rightarrow> r))"

section \<open>Reading\<close>

definition counterValue :: "string \<Rightarrow> label_values \<Rightarrow> registry \<Rightarrow> rat" where
  "counterValue name labels r =
     (case map_of (rg_defs r) name of
        None \<Rightarrow> 0
      | Some d \<Rightarrow>
          if md_kind d \<noteq> Counter then 0
          else (case map_of (series_of (rg_counters r) name) (seriesKey (md_labelKeys d) labels) of
                  None \<Rightarrow> 0 | Some v \<Rightarrow> v))"

definition histogram_lookup :: "string \<Rightarrow> label_values \<Rightarrow> registry \<Rightarrow> histogram_series option" where
  "histogram_lookup name labels r =
     (case map_of (rg_defs r) name of
        None \<Rightarrow> None
      | Some d \<Rightarrow>
          if md_kind d \<noteq> Histogram then None
          else map_of (series_of (rg_histograms r) name) (seriesKey (md_labelKeys d) labels))"

definition histogramCount :: "string \<Rightarrow> label_values \<Rightarrow> registry \<Rightarrow> nat" where
  "histogramCount name labels r =
     (case histogram_lookup name labels r of None \<Rightarrow> 0 | Some s \<Rightarrow> hs_count s)"

definition histogramSum :: "string \<Rightarrow> label_values \<Rightarrow> registry \<Rightarrow> rat" where
  "histogramSum name labels r =
     (case histogram_lookup name labels r of None \<Rightarrow> 0 | Some s \<Rightarrow> hs_sum s)"

definition reset :: "registry \<Rightarrow> registry" where
  "reset r = r\<lparr>rg_counters := [], rg_histograms := []\<rparr>"

section \<open>Rendering\<close>

text \<open>
  \<open>formatValue\<close> of a nonnegative number: an integer is printed as it is, anything else is
  rounded to six decimals (\<open>toFixed\<close> rounds halves up) and printed without trailing zeros.
\<close>

definition strip_zeros :: "string \<Rightarrow> string" where
  "strip_zeros s = rev (dropWhile (\<lambda>c. c = CHR ''0'') (rev s))"

definition pad6 :: "nat \<Rightarrow> string" where
  "pad6 n = (let s = digits_of n in replicate (6 - length s) CHR ''0'' @ s)"

definition formatValue :: "rat \<Rightarrow> string" where
  "formatValue value =
     (if value = of_int \<lfloor>value\<rfloor> then string_of_int \<lfloor>value\<rfloor>
      else let micro = nat \<lfloor>value * 1000000 + 1/2\<rfloor>; frac = strip_zeros (pad6 (micro mod 1000000))
           in if frac = [] then digits_of (micro div 1000000)
              else digits_of (micro div 1000000) @ ''.'' @ frac)"

definition bucket_label :: "string \<Rightarrow> string \<Rightarrow> string" where
  "bucket_label keys le =
     (let part = ''le='' @ [CHR 0x22] @ le @ [CHR 0x22] @ ''}'' in
      if keys \<noteq> [] then butlast keys @ '','' @ part else ''{'' @ part)"

fun cumulate :: "nat \<Rightarrow> nat list \<Rightarrow> nat list" where
  "cumulate acc [] = []"
| "cumulate acc (c # cs) = (acc + c) # cumulate (acc + c) cs"

definition render_histogram :: "string \<Rightarrow> rat list \<Rightarrow> string \<times> histogram_series \<Rightarrow> string list" where
  "render_histogram name buckets entry =
     (case entry of (keys, s) \<Rightarrow>
        map (\<lambda>(b, c). name @ ''_bucket'' @ bucket_label keys (escapeLabelValue (formatValue b)) @
                      '' '' @ formatValue (of_nat c))
            (zip buckets (cumulate 0 (hs_counts s))) @
        [name @ ''_bucket'' @ bucket_label keys ''+Inf'' @ '' '' @ formatValue (of_nat (hs_count s)),
         name @ ''_sum'' @ keys @ '' '' @ formatValue (hs_sum s),
         name @ ''_count'' @ keys @ '' '' @ formatValue (of_nat (hs_count s))])"

definition render_metric :: "registry \<Rightarrow> metric_definition \<Rightarrow> string list" where
  "render_metric r d =
     [''# HELP '' @ md_name d @ '' '' @ md_help d,
      ''# TYPE '' @ md_name d @ '' '' @
        (case md_kind d of Counter \<Rightarrow> ''counter'' | Histogram \<Rightarrow> ''histogram'')] @
     (case md_kind d of
        Counter \<Rightarrow> map (\<lambda>(keys, value). md_name d @ keys @ '' '' @ formatValue value)
                       (series_of (rg_counters r) (md_name d))
      | Histogram \<Rightarrow> concat (map (render_histogram (md_name d) (md_buckets d))
                       (series_of (rg_histograms r) (md_name d))))"

definition renderPrometheus :: "registry \<Rightarrow> string" where
  "renderPrometheus r =
     join_with [CHR 0x0A] (concat (map (\<lambda>(_, d). render_metric r d) (rg_defs r))) @ [CHR 0x0A]"

section \<open>The catalogue\<close>

datatype METRIC =
    httpRequestsTotal | httpErrorsTotal | httpRequestDurationSeconds | usersRegisteredTotal
  | groupsCreatedTotal | expensesCreatedTotal | expensesUpdatedTotal | expensesDeletedTotal
  | settlementsCreatedTotal | activityEventsCreatedTotal | backgroundJobsSucceededTotal
  | backgroundJobsFailedTotal | backgroundJobsRetriedTotal | backgroundJobsDiscardedTotal
  | redisConnectionErrorsTotal | cacheFailuresTotal | queueFailuresTotal
  | databaseConnectionErrorsTotal | emailsSentTotal | emailSendFailuresTotal

fun metric_name :: "METRIC \<Rightarrow> string" where
  "metric_name httpRequestsTotal = ''http_requests_total''"
| "metric_name httpErrorsTotal = ''http_errors_total''"
| "metric_name httpRequestDurationSeconds = ''http_request_duration_seconds''"
| "metric_name usersRegisteredTotal = ''users_registered_total''"
| "metric_name groupsCreatedTotal = ''groups_created_total''"
| "metric_name expensesCreatedTotal = ''expenses_created_total''"
| "metric_name expensesUpdatedTotal = ''expenses_updated_total''"
| "metric_name expensesDeletedTotal = ''expenses_deleted_total''"
| "metric_name settlementsCreatedTotal = ''settlements_created_total''"
| "metric_name activityEventsCreatedTotal = ''activity_events_created_total''"
| "metric_name backgroundJobsSucceededTotal = ''background_jobs_succeeded_total''"
| "metric_name backgroundJobsFailedTotal = ''background_jobs_failed_total''"
| "metric_name backgroundJobsRetriedTotal = ''background_jobs_retried_total''"
| "metric_name backgroundJobsDiscardedTotal = ''background_jobs_discarded_total''"
| "metric_name redisConnectionErrorsTotal = ''redis_connection_errors_total''"
| "metric_name cacheFailuresTotal = ''cache_failures_total''"
| "metric_name queueFailuresTotal = ''queue_failures_total''"
| "metric_name databaseConnectionErrorsTotal = ''database_connection_errors_total''"
| "metric_name emailsSentTotal = ''emails_sent_total''"
| "metric_name emailSendFailuresTotal = ''email_send_failures_total''"

definition counter_def :: "METRIC \<Rightarrow> string list \<Rightarrow> string \<Rightarrow> metric_definition" where
  "counter_def m keys help = \<lparr>md_kind = Counter, md_name = metric_name m, md_help = help,
     md_labelKeys = keys, md_buckets = []\<rparr>"

definition histogram_def :: "METRIC \<Rightarrow> string list \<Rightarrow> string \<Rightarrow> metric_definition" where
  "histogram_def m keys help = \<lparr>md_kind = Histogram, md_name = metric_name m, md_help = help,
     md_labelKeys = keys, md_buckets = []\<rparr>"

definition DEFAULT_METRICS :: "metric_definition list" where
  "DEFAULT_METRICS =
    [counter_def httpRequestsTotal [''method'', ''route'', ''status'']
       ''Total number of HTTP requests handled, by method, normalized route, and status class.'',
     counter_def httpErrorsTotal [''method'', ''route'', ''status'']
       ''Total number of HTTP error responses (status >= 400), by method, route, and status class.'',
     histogram_def httpRequestDurationSeconds [''method'', ''route'']
       ''HTTP request handling time in seconds, by method and normalized route.'',
     counter_def usersRegisteredTotal [] ''Total number of successfully registered users.'',
     counter_def groupsCreatedTotal [] ''Total number of successfully created groups.'',
     counter_def expensesCreatedTotal [] ''Total number of successfully created expenses.'',
     counter_def expensesUpdatedTotal [] ''Total number of successfully updated expenses.'',
     counter_def expensesDeletedTotal [] ''Total number of successfully deleted expenses.'',
     counter_def settlementsCreatedTotal [] ''Total number of successfully created settlements.'',
     counter_def activityEventsCreatedTotal [''type'']
       ''Total number of activity events persisted, by the bounded activity type.'',
     counter_def backgroundJobsSucceededTotal [''job_type'']
       ''Total number of background jobs processed successfully, by controlled job type.'',
     counter_def backgroundJobsFailedTotal [''job_type'']
       ''Total number of background job processing failures (retryable or terminal), by job type.'',
     counter_def backgroundJobsRetriedTotal [''job_type'']
       ''Total number of failed background jobs scheduled for a retry, by job type.'',
     counter_def backgroundJobsDiscardedTotal [''job_type'']
       ''Total number of background jobs removed without further processing (permanent failure, retries exhausted, or malformed), by job type.'',
     counter_def redisConnectionErrorsTotal []
       ''Total number of Redis connection-level errors observed on the shared client.'',
     counter_def cacheFailuresTotal [''operation'']
       ''Total number of Redis cache operation failures absorbed by the domain cache, by bounded operation name.'',
     counter_def queueFailuresTotal [] ''Total number of background job enqueue failures.'',
     counter_def databaseConnectionErrorsTotal []
       ''Total number of PostgreSQL connection failures at startup.'',
     counter_def emailsSentTotal [''operation'']
       ''Total number of transactional auth emails successfully dispatched, by bounded operation name.'',
     counter_def emailSendFailuresTotal [''operation'']
       ''Total number of transactional auth email dispatch failures, by bounded operation name.'']"

definition registerDefaultMetrics :: "registry \<Rightarrow> registry" where
  "registerDefaultMetrics r = fold defineMetric DEFAULT_METRICS r"

definition empty_registry :: registry where
  "empty_registry = \<lparr>rg_defs = [], rg_counters = [], rg_histograms = []\<rparr>"

definition createSingleton :: registry where
  "createSingleton = registerDefaultMetrics empty_registry"

section \<open>Lemmas\<close>

lemma map_of_AList_update [simp]: "map_of (AList.update k v xs) = (map_of xs)(k \<mapsto> v)"
  by (rule update_conv')

lemma series_of_update [simp]:
  "series_of (AList.update n s m) n' = (if n' = n then s else series_of m n')"
  by (simp add: series_of_def)

lemma increment_defs [simp]: "rg_defs (increment n l b r) = rg_defs r"
  by (simp add: increment_def Let_def split: option.split)

lemma observe_defs [simp]: "rg_defs (observe n v l r) = rg_defs r"
  by (simp add: observe_def Let_def split: option.split js_float.split)

text \<open>The series a recording goes to: the metric and its rendered key.\<close>

definition same_series :: "registry \<Rightarrow> string \<Rightarrow> label_values \<Rightarrow> string \<Rightarrow> label_values \<Rightarrow> bool" where
  "same_series r n l n' l' \<longleftrightarrow> n = n' \<and>
     (case map_of (rg_defs r) n of None \<Rightarrow> False
      | Some d \<Rightarrow> seriesKey (md_labelKeys d) l = seriesKey (md_labelKeys d) l')"

definition is_counter :: "registry \<Rightarrow> string \<Rightarrow> bool" where
  "is_counter r n \<longleftrightarrow> (case map_of (rg_defs r) n of None \<Rightarrow> False | Some d \<Rightarrow> md_kind d = Counter)"

lemma counterValue_increment:
  "counterValue n' l' (increment n l b r) =
     counterValue n' l' r + (if is_counter r n \<and> 0 < b \<and> same_series r n l n' l' then b else 0)"
  by (auto simp: counterValue_def increment_def same_series_def is_counter_def Let_def
      split: option.splits)

lemma observe_counters [simp]: "rg_counters (observe n v l r) = rg_counters r"
  by (simp add: observe_def Let_def split: option.split js_float.split)

lemma counterValue_observe [simp]: "counterValue n' l' (observe n v l r) = counterValue n' l' r"
  unfolding counterValue_def observe_defs observe_counters ..

subsection \<open>Histograms\<close>

lemma length_bump_bucket [simp]: "length (bump_bucket bs v cs) = length cs"
  by (induction bs v cs rule: bump_bucket.induct) auto

lemma sum_list_bump_bucket:
  "length bs = length cs \<Longrightarrow>
   sum_list (bump_bucket bs v cs) = sum_list cs + (if \<exists>b\<in>set bs. v \<le> b then 1 else 0)"
  by (induction bs v cs rule: bump_bucket.induct) auto

definition series_ok :: "nat \<Rightarrow> histogram_series \<Rightarrow> bool" where
  "series_ok n s \<longleftrightarrow> length (hs_counts s) = n \<and> sum_list (hs_counts s) \<le> hs_count s \<and> 0 \<le> hs_sum s"

definition registry_ok :: "registry \<Rightarrow> bool" where
  "registry_ok r \<longleftrightarrow>
     (\<forall>n d k s. map_of (rg_defs r) n = Some d \<longrightarrow>
        map_of (series_of (rg_histograms r) n) k = Some s \<longrightarrow> series_ok (length (md_buckets d)) s)"

lemma series_ok_bump:
  "series_ok (length bs) s \<Longrightarrow> 0 \<le> v \<Longrightarrow>
   series_ok (length bs) \<lparr>hs_counts = bump_bucket bs v (hs_counts s), hs_count = Suc (hs_count s),
                          hs_sum = hs_sum s + v\<rparr>"
  by (auto simp: series_ok_def sum_list_bump_bucket)

lemma series_ok_empty: "series_ok (length bs) (empty_series bs)"
proof -
  have "sum_list (map (\<lambda>_. 0::nat) bs) = 0" by (simp add: sum_list_triv)
  then show ?thesis by (simp add: series_ok_def empty_series_def)
qed

lemma registry_ok_increment: "registry_ok r \<Longrightarrow> registry_ok (increment n l b r)"
  by (auto simp: registry_ok_def increment_def Let_def split: option.splits)

lemma registry_ok_observe:
  assumes ok: "registry_ok r"
  shows "registry_ok (observe n v l r)"
proof (cases "\<exists>d w. map_of (rg_defs r) n = Some d \<and> md_kind d = Histogram \<and> v = Finite w \<and> 0 \<le> w")
  case False
  then have "observe n v l r = r"
    by (auto simp: observe_def Let_def metric_kind.exhaust not_less
        split: option.splits js_float.splits metric_kind.splits)
  then show ?thesis using ok by simp
next
  case True
  then obtain d w where d: "map_of (rg_defs r) n = Some d" "md_kind d = Histogram"
    and v: "v = Finite w" "0 \<le> w" by blast
  let ?keys = "seriesKey (md_labelKeys d) l"
  let ?cur = "case map_of (series_of (rg_histograms r) n) ?keys of
                None \<Rightarrow> empty_series (md_buckets d) | Some s \<Rightarrow> s"
  have "series_ok (length (md_buckets d)) ?cur"
    using ok d series_ok_empty [of "md_buckets d"]
    by (auto simp: registry_ok_def split: option.splits)
  then show ?thesis
    using ok d v by (auto simp: registry_ok_def observe_def Let_def intro: series_ok_bump
        split: if_splits)
qed

lemma histogramCount_observe:
  assumes "map_of (rg_defs r) n = Some d" "md_kind d = Histogram" "0 \<le> w"
  shows "histogramCount n l (observe n (Finite w) l r) = Suc (histogramCount n l r)"
    and "histogramSum n l (observe n (Finite w) l r) = histogramSum n l r + w"
  using assms
  by (auto simp: histogramCount_def histogramSum_def histogram_lookup_def observe_def Let_def
      empty_series_def split: option.splits)

lemma registry_ok_createSingleton: "registry_ok createSingleton"
proof -
  have "rg_histograms (fold defineMetric ds r) = rg_histograms r" for ds r
    by (induction ds arbitrary: r) (auto simp: defineMetric_def)
  then show ?thesis
    by (simp add: registry_ok_def createSingleton_def registerDefaultMetrics_def
        empty_registry_def series_of_def)
qed

subsection \<open>Escaping\<close>

fun unescape :: "string \<Rightarrow> string" where
  "unescape (c # d # s) =
     (if c = CHR 0x5C then (if d = CHR ''n'' then CHR 0x0A else d) # unescape s
      else c # unescape (d # s))"
| "unescape s = s"

definition escape_char :: "char \<Rightarrow> string" where
  "escape_char c = (if c = CHR 0x5C then [CHR 0x5C, CHR 0x5C]
     else if c = CHR 0x22 then [CHR 0x5C, CHR 0x22]
     else if c = CHR 0x0A then [CHR 0x5C, CHR ''n''] else [c])"

lemma replace_char_append [simp]:
  "replace_char c r (xs @ ys) = replace_char c r xs @ replace_char c r ys"
  by (simp add: replace_char_def)

lemma escapeLabelValue_chars: "escapeLabelValue s = concat (map escape_char s)"
  by (induction s) (auto simp: escapeLabelValue_def escape_char_def replace_char_def)

lemma unescape_escape_char: "unescape (escape_char c @ s) = c # unescape s"
proof (cases "c = CHR 0x5C \<or> c = CHR 0x22 \<or> c = CHR 0x0A")
  case True
  then show ?thesis by (auto simp: escape_char_def)
next
  case False
  then show ?thesis by (cases s) (auto simp: escape_char_def)
qed

lemma unescape_escapeLabelValue: "unescape (escapeLabelValue s) = s"
  by (induction s) (auto simp: escapeLabelValue_chars unescape_escape_char)

lemma escapeLabelValue_no_newline: "CHR 0x0A \<notin> set (escapeLabelValue s)"
  by (auto simp: escapeLabelValue_chars escape_char_def split: if_splits)

subsection \<open>Rendering\<close>

lemma cumulate_ge: "x \<in> set (cumulate acc cs) \<Longrightarrow> acc \<le> x"
  by (induction acc cs rule: cumulate.induct) force+

lemma cumulate_sorted: "sorted (cumulate acc cs)"
  by (induction acc cs rule: cumulate.induct) (auto dest: cumulate_ge)

lemma cumulate_le: "x \<in> set (cumulate acc cs) \<Longrightarrow> x \<le> acc + sum_list cs"
  by (induction acc cs rule: cumulate.induct) force+

subsection \<open>Series keys\<close>

lemma escape_char_inject: "escape_char c @ s = escape_char d @ t \<Longrightarrow> c = d \<and> s = t"
  by (auto simp: escape_char_def split: if_splits)

lemma escape_char_not_quote: "escape_char c @ s \<noteq> CHR 0x22 # t"
  by (auto simp: escape_char_def)

lemma escape_prefix_free:
  "escapeLabelValue x @ CHR 0x22 # s = escapeLabelValue y @ CHR 0x22 # t \<Longrightarrow> x = y \<and> s = t"
  unfolding escapeLabelValue_chars
proof (induction x arbitrary: y)
  case Nil
  then show ?case using escape_char_not_quote by (cases y) (simp_all, metis)
next
  case (Cons c x)
  have "y \<noteq> []"
  proof
    assume "y = []"
    with Cons.prems have "escape_char c @ concat (map escape_char x) @ CHR 0x22 # s = CHR 0x22 # t" by simp
    then show False using escape_char_not_quote by blast
  qed
  then obtain d y' where y: "y = d # y'" by (cases y) auto
  with Cons.prems have "escape_char c @ concat (map escape_char x) @ CHR 0x22 # s =
      escape_char d @ concat (map escape_char y') @ CHR 0x22 # t" by simp
  from escape_char_inject [OF this] Cons.IH y show ?case by blast
qed

definition after_comma :: "string list \<Rightarrow> string" where
  "after_comma parts = concat (map (\<lambda>p. CHR '','' # p) parts)"

lemma after_comma_Cons: "after_comma (p # ps) = CHR '','' # p @ after_comma ps"
  by (simp add: after_comma_def)

lemma label_part_Some:
  "map_of l k = Some x \<Longrightarrow> label_part l k = Some (k @ [CHR ''='', CHR 0x22] @ escapeLabelValue x @ [CHR 0x22])"
  by (simp add: label_part_def)

lemma join_after_comma: "parts \<noteq> [] \<Longrightarrow> CHR '','' # join_with '','' parts = after_comma parts"
proof (induction parts)
  case (Cons p ps)
  then show ?case by (cases ps) (simp_all add: after_comma_def)
qed simp

lemma name_prefix:
  assumes "k @ CHR ''='' # s = k' @ CHR ''='' # t" "CHR ''='' \<notin> set k" "CHR ''='' \<notin> set k'"
  shows "k = k' \<and> s = t"
proof -
  have "takeWhile (\<lambda>c. c \<noteq> CHR ''='') (k @ CHR ''='' # s) = k" "takeWhile (\<lambda>c. c \<noteq> CHR ''='') (k' @ CHR ''='' # t) = k'"
    using assms(2,3) by (subst takeWhile_append2; auto)+
  then show ?thesis using assms(1) by auto
qed

lemma map_filter_label_Cons:
  assumes "List.map_filter (label_part l) ks = p # ps"
  shows "\<exists>k x. k \<in> set ks \<and> map_of l k = Some x \<and> p = k @ [CHR ''='', CHR 0x22] @ escapeLabelValue x @ [CHR 0x22]"
proof -
  have "p \<in> set (List.map_filter (label_part l) ks)" using assms by simp
  then show ?thesis by (auto simp: List.map_filter_def label_part_def split: option.splits)
qed

lemma after_comma_labels:
  assumes "after_comma (List.map_filter (label_part l) ks) = after_comma (List.map_filter (label_part l') ks)"
    and "distinct ks" and "\<forall>k\<in>set ks. CHR ''='' \<notin> set k"
  shows "\<forall>k\<in>set ks. map_of l k = map_of l' k"
  using assms
proof (induction ks)
  case (Cons k ks)
  have one: False if some: "map_of m k = Some x" and none: "map_of m' k = None"
    and eq: "after_comma (List.map_filter (label_part m) (k # ks)) = after_comma (List.map_filter (label_part m') (k # ks))"
    for m m' x
  proof -
    obtain q qs where q: "List.map_filter (label_part m') ks = q # qs"
      using some none eq by (cases "List.map_filter (label_part m') ks") (auto simp: map_filter_simps label_part_def after_comma_def)
    then obtain k' y where k': "k' \<in> set ks" "q = k' @ [CHR ''='', CHR 0x22] @ escapeLabelValue y @ [CHR 0x22]"
      using map_filter_label_Cons by blast
    then have "k = k'" using eq q some none Cons.prems(3)
      by (auto simp: map_filter_simps label_part_def after_comma_def dest: name_prefix)
    then show False using k' Cons.prems(2) by simp
  qed
  show ?case
  proof (cases "map_of l k"; cases "map_of l' k")
    assume "map_of l k = None" "map_of l' k = None"
    then show ?thesis using Cons by (auto simp: map_filter_simps label_part_def)
  next
    fix x y
    assume xy: "map_of l k = Some x" "map_of l' k = Some y"
    then have "x = y \<and> after_comma (List.map_filter (label_part l) ks) = after_comma (List.map_filter (label_part l') ks)"
      using Cons.prems(1) by (auto simp: map_filter_simps label_part_Some after_comma_Cons dest!: escape_prefix_free)
    then show ?thesis using Cons xy by auto
  qed (use one Cons.prems(1) in \<open>metis+\<close>)
qed simp

lemma metric_name_no_equals: "metric_name_ok k \<Longrightarrow> CHR ''='' \<notin> set k"
  by (cases k) (auto simp: metric_name_ok_def is_alnum_def is_digit_def Let_def list_all_iff)

lemma seriesKey_inject:
  assumes "seriesKey ks l = seriesKey ks l'" and "distinct ks" and "list_all metric_name_ok ks"
  shows "\<forall>k\<in>set ks. map_of l k = map_of l' k"
proof (rule after_comma_labels [OF _ assms(2)])
  show "\<forall>k\<in>set ks. CHR ''='' \<notin> set k"
    using assms(3) metric_name_no_equals by (auto simp: list_all_iff)
  show "after_comma (List.map_filter (label_part l) ks) = after_comma (List.map_filter (label_part l') ks)"
    using assms(1)
    by (auto simp: seriesKey_def Let_def join_after_comma [symmetric] split: if_splits)
qed

end
