(* ===== verification/Effects.thy ===== *)
theory Effects
  imports Metrics
begin

text \<open>
  The effects of an asynchronous TypeScript function, for one request at a time: an action
  takes the world and returns what the promise settles to (\<open>Inl\<close> an exception, \<open>Inr\<close> a
  value) with the world it leaves behind. A thrown exception keeps every effect that
  happened before it, as in JavaScript; only a database transaction undoes its writes.

  The world holds the state of the three external services (the database, Redis, the mail
  transport: type parameters, since their code is not in the repository), the metrics
  registry and a counter of the calls to the clock and to the random generator. The environment
  says what these calls return; log lines are not modelled.
\<close>

section \<open>The world and the environment\<close>

record ('d, 'r, 'm) world =
  w_db :: 'd
  w_redis :: 'r
  w_mail :: 'm
  w_metrics :: registry
  w_tick :: nat

text \<open>
  \<open>clock n\<close> is the answer of the \<open>n\<close>-th call of \<open>Date.now()\<close> or \<open>new Date()\<close>, \<open>uuid n\<close> that of
  \<open>randomUUID()\<close>; \<open>isDate s\<close> says that \<open>new Date(s)\<close> is a valid date, \<open>parseDate s\<close> which one (in milliseconds),
  \<open>toISOString\<close> writes one, \<open>sha256\<close> the hexadecimal digest of \<open>node:crypto\<close>.
\<close>

record env =
  clock :: "nat \<Rightarrow> int"
  uuid :: "nat \<Rightarrow> string"
  isDate :: "string \<Rightarrow> bool"
  parseDate :: "string \<Rightarrow> int"
  toISOString :: "int \<Rightarrow> string"
  sha256 :: "string \<Rightarrow> string"

type_synonym ('w, 'a) act = "'w \<Rightarrow> (exn + 'a) \<times> 'w"

section \<open>Combinators\<close>

definition ret :: "'a \<Rightarrow> ('w, 'a) act" where
  "ret a = (\<lambda>w. (Inr a, w))"

definition throw :: "exn \<Rightarrow> ('w, 'a) act" where
  "throw e = (\<lambda>w. (Inl e, w))"

definition seq :: "('w, 'a) act \<Rightarrow> ('a \<Rightarrow> ('w, 'b) act) \<Rightarrow> ('w, 'b) act" where
  "seq m k = (\<lambda>w. case m w of (Inl e, w') \<Rightarrow> (Inl e, w') | (Inr a, w') \<Rightarrow> k a w')"

definition catch :: "('w, 'a) act \<Rightarrow> (exn \<Rightarrow> ('w, 'a) act) \<Rightarrow> ('w, 'a) act" where
  "catch m h = (\<lambda>w. case m w of (Inl e, w') \<Rightarrow> h e w' | (Inr a, w') \<Rightarrow> (Inr a, w'))"

text \<open>\<open>guard b e\<close>: the statement \<open>if (!b) throw e\<close>.\<close>

definition guard :: "bool \<Rightarrow> exn \<Rightarrow> ('w, unit) act" where
  "guard b e = (if b then ret () else throw e)"

text \<open>The check \<open>if (!x) throw e\<close> of a lookup that may return null.\<close>

definition need :: "'a option \<Rightarrow> exn \<Rightarrow> ('w, 'a) act" where
  "need x e = (case x of None \<Rightarrow> throw e | Some a \<Rightarrow> ret a)"

definition of_result :: "exn + 'a \<Rightarrow> ('w, 'a) act" where
  "of_result r = (\<lambda>w. (r, w))"

fun map_act :: "('a \<Rightarrow> ('w, 'b) act) \<Rightarrow> 'a list \<Rightarrow> ('w, 'b list) act" where
  "map_act f [] = ret []"
| "map_act f (x # xs) = seq (f x) (\<lambda>y. seq (map_act f xs) (\<lambda>ys. ret (y # ys)))"

definition db_do :: "('d, 'a) act \<Rightarrow> (('d, 'r, 'm) world, 'a) act" where
  "db_do f = (\<lambda>w. case f (w_db w) of (res, d) \<Rightarrow> (res, w\<lparr>w_db := d\<rparr>))"

definition redis_do :: "('r, 'a) act \<Rightarrow> (('d, 'r, 'm) world, 'a) act" where
  "redis_do f = (\<lambda>w. case f (w_redis w) of (res, r) \<Rightarrow> (res, w\<lparr>w_redis := r\<rparr>))"

definition now :: "env \<Rightarrow> (('d, 'r, 'm) world, int) act" where
  "now E = (\<lambda>w. (Inr (clock E (w_tick w)), w\<lparr>w_tick := Suc (w_tick w)\<rparr>))"

definition randomUUID :: "env \<Rightarrow> (('d, 'r, 'm) world, string) act" where
  "randomUUID E = (\<lambda>w. (Inr (uuid E (w_tick w)), w\<lparr>w_tick := Suc (w_tick w)\<rparr>))"

definition metric :: "METRIC \<Rightarrow> label_values \<Rightarrow> (('d, 'r, 'm) world, unit) act" where
  "metric m labels =
     (\<lambda>w. (Inr (), w\<lparr>w_metrics := increment (metric_name m) labels 1 (w_metrics w)\<rparr>))"

section \<open>Equations\<close>

lemma ret_eq [act_simps]: "ret a w = (r, w') \<longleftrightarrow> r = Inr a \<and> w' = w"
  by (auto simp: ret_def)

lemma throw_eq [act_simps]: "throw e w = (r, w') \<longleftrightarrow> r = Inl e \<and> w' = w"
  by (auto simp: throw_def)

lemma of_result_eq [act_simps]: "of_result x w = (r, w') \<longleftrightarrow> x = r \<and> w' = w"
  by (auto simp: of_result_def)

lemma seq_Inr_iff [act_simps]:
  "seq m k w = (Inr b, w2) \<longleftrightarrow> (\<exists>a w1. m w = (Inr a, w1) \<and> k a w1 = (Inr b, w2))"
  by (auto simp: seq_def split: prod.splits sum.splits)

lemma seq_Inl_iff [act_simps]:
  "seq m k w = (Inl e, w2) \<longleftrightarrow>
     m w = (Inl e, w2) \<or> (\<exists>a w1. m w = (Inr a, w1) \<and> k a w1 = (Inl e, w2))"
  by (auto simp: seq_def split: prod.splits sum.splits)

lemma catch_Inr_iff [act_simps]:
  "catch m h w = (Inr b, w2) \<longleftrightarrow>
     m w = (Inr b, w2) \<or> (\<exists>e w1. m w = (Inl e, w1) \<and> h e w1 = (Inr b, w2))"
  by (auto simp: catch_def split: prod.splits sum.splits)

lemma catch_Inl_iff [act_simps]:
  "catch m h w = (Inl e, w2) \<longleftrightarrow> (\<exists>e1 w1. m w = (Inl e1, w1) \<and> h e1 w1 = (Inl e, w2))"
  by (auto simp: catch_def split: prod.splits sum.splits)

lemma guard_Inr_iff [act_simps]: "guard b e w = (Inr x, w') \<longleftrightarrow> b \<and> w' = w"
  by (auto simp: guard_def act_simps)

lemma guard_Inl_iff [act_simps]: "guard b e w = (Inl e', w') \<longleftrightarrow> \<not> b \<and> e' = e \<and> w' = w"
  by (auto simp: guard_def act_simps)

lemma need_Inr_iff [act_simps]: "need x e w = (Inr a, w') \<longleftrightarrow> x = Some a \<and> w' = w"
  by (auto simp: need_def act_simps split: option.splits)

lemma need_Inl_iff [act_simps]: "need x e w = (Inl e', w') \<longleftrightarrow> x = None \<and> e' = e \<and> w' = w"
  by (auto simp: need_def act_simps split: option.splits)

lemma db_do_eq [act_simps]:
  "db_do f w = (r, w') \<longleftrightarrow> (\<exists>d. f (w_db w) = (r, d) \<and> w' = w\<lparr>w_db := d\<rparr>)"
  by (auto simp: db_do_def split: prod.splits)

lemma redis_do_eq [act_simps]:
  "redis_do f w = (r, w') \<longleftrightarrow> (\<exists>d. f (w_redis w) = (r, d) \<and> w' = w\<lparr>w_redis := d\<rparr>)"
  by (auto simp: redis_do_def split: prod.splits)

lemma now_eq [act_simps]:
  "now E w = (r, w') \<longleftrightarrow> r = Inr (clock E (w_tick w)) \<and> w' = w\<lparr>w_tick := Suc (w_tick w)\<rparr>"
  by (auto simp: now_def)

lemma randomUUID_eq [act_simps]:
  "randomUUID E w = (r, w') \<longleftrightarrow> r = Inr (uuid E (w_tick w)) \<and> w' = w\<lparr>w_tick := Suc (w_tick w)\<rparr>"
  by (auto simp: randomUUID_def)

lemma metric_eq [act_simps]:
  "metric m l w = (r, w') \<longleftrightarrow>
     r = Inr () \<and> w' = w\<lparr>w_metrics := increment (metric_name m) l 1 (w_metrics w)\<rparr>"
  by (auto simp: metric_def)

text \<open>What running an action on a known result gives: for evaluating a run forwards.\<close>

lemma seq_run_Inr: "m w = (Inr a, w1) \<Longrightarrow> seq m k w = k a w1"
  by (simp add: seq_def)

lemma seq_run_Inl: "m w = (Inl e, w1) \<Longrightarrow> seq m k w = (Inl e, w1)"
  by (simp add: seq_def)

lemma seq_guard_True [simp]: "seq (guard True e) k w = k () w"
  by (simp add: seq_def guard_def ret_def)

lemma seq_guard_False [simp]: "seq (guard False e) k w = (Inl e, w)"
  by (simp add: seq_def guard_def throw_def)

lemma seq_need_Some [simp]: "seq (need (Some a) e) k w = k a w"
  by (simp add: seq_def need_def ret_def)

lemma seq_need_None [simp]: "seq (need None e) k w = (Inl e, w)"
  by (simp add: seq_def need_def throw_def)

lemma seq_ret [simp]: "seq (ret a) k = k a"
  by (simp add: seq_def ret_def)

lemma seq_throw [simp]: "seq (throw e) k = throw e"
  by (simp add: seq_def throw_def)

lemma seq_assoc: "seq (seq m k) h = seq m (\<lambda>a. seq (k a) h)"
  by (auto simp: seq_def fun_eq_iff split: prod.split sum.split)

section \<open>What an action leaves alone\<close>

text \<open>The database state is the only thing that may have changed.\<close>

definition only_tables :: "('d, 'r, 'm) world \<Rightarrow> ('d, 'r, 'm) world \<Rightarrow> bool" where
  "only_tables w w' \<longleftrightarrow> w_metrics w' = w_metrics w \<and> w_tick w' = w_tick w \<and>
     w_redis w' = w_redis w \<and> w_mail w' = w_mail w"

lemma only_tables_simps [simp]: "only_tables w w" "only_tables w (w\<lparr>w_db := d\<rparr>)"
  "only_tables (w\<lparr>w_db := d\<rparr>) w' = only_tables w w'"
  "only_tables w (w'\<lparr>w_db := d\<rparr>) = only_tables w w'"
  by (simp_all add: only_tables_def)

lemma only_tables_trans: "only_tables w w1 \<Longrightarrow> only_tables w1 w2 \<Longrightarrow> only_tables w w2"
  by (simp add: only_tables_def)

section \<open>Invariants of actions\<close>

text \<open>\<open>keeps I m\<close>: whatever the action returns or throws, it leads from \<open>I\<close> to \<open>I\<close>.\<close>

definition keeps :: "('w \<Rightarrow> bool) \<Rightarrow> ('w, 'a) act \<Rightarrow> bool" where
  "keeps I m \<longleftrightarrow> (\<forall>w. I w \<longrightarrow> I (snd (m w)))"

lemma keepsI: "(\<And>w r w'. I w \<Longrightarrow> m w = (r, w') \<Longrightarrow> I w') \<Longrightarrow> keeps I m"
  by (metis keeps_def prod.collapse)

lemma keepsD: "keeps I m \<Longrightarrow> I w \<Longrightarrow> m w = (r, w') \<Longrightarrow> I w'"
  by (metis keeps_def snd_conv)

lemma keeps_ret [keep_intros]: "keeps I (ret a)"
  by (simp add: keeps_def ret_def)

lemma keeps_throw [keep_intros]: "keeps I (throw e)"
  by (simp add: keeps_def throw_def)

lemma keeps_of_result [keep_intros]: "keeps I (of_result r)"
  by (simp add: keeps_def of_result_def)

lemma keeps_guard [keep_intros]: "keeps I (guard b e)"
  by (simp add: guard_def keeps_ret keeps_throw)

lemma keeps_need [keep_intros]: "keeps I (need x e)"
  by (simp add: need_def keeps_ret keeps_throw split: option.split)

lemma keeps_seq [keep_intros]: "keeps I m \<Longrightarrow> (\<And>a. keeps I (k a)) \<Longrightarrow> keeps I (seq m k)"
  by (force simp: keeps_def seq_def split: prod.split sum.split)

text \<open>The continuation of a guard runs only where the guard holds.\<close>

lemma keeps_seq_guard: "(b \<Longrightarrow> keeps I (k ())) \<Longrightarrow> keeps I (seq (guard b e) k)"
  by (cases b) (simp_all add: guard_def keeps_throw)

lemma keeps_seq_need: "(\<And>a. x = Some a \<Longrightarrow> keeps I (k a)) \<Longrightarrow> keeps I (seq (need x e) k)"
  by (cases x) (simp_all add: need_def keeps_throw)

lemma keeps_seq_result: "(\<And>a. r = Inr a \<Longrightarrow> keeps I (k a)) \<Longrightarrow> keeps I (seq (of_result r) k)"
  by (cases r) (simp_all add: keeps_def seq_def of_result_def)

text \<open>What the first action returns from a good world may be used in the rest.\<close>

lemma keeps_seq_value:
  assumes "keeps I m" and "\<And>w a w'. I w \<Longrightarrow> m w = (Inr a, w') \<Longrightarrow> Q a"
    and "\<And>a. Q a \<Longrightarrow> keeps I (k a)"
  shows "keeps I (seq m k)"
proof (rule keepsI)
  fix w r w'
  assume I: "I w" and run: "seq m k w = (r, w')"
  show "I w'"
  proof (cases "m w")
    case (Pair res w1)
    then have I1: "I w1" using assms(1) I by (blast dest: keepsD)
    show ?thesis
    proof (cases res)
      case (Inl e)
      then show ?thesis using Pair run I1 by (simp add: seq_def)
    next
      case (Inr a)
      then have "k a w1 = (r, w')" using Pair run by (simp add: seq_def)
      then show ?thesis using assms(3) [of a] assms(2) [OF I] Pair Inr I1 by (blast dest: keepsD)
    qed
  qed
qed

lemma keeps_catch [keep_intros]: "keeps I m \<Longrightarrow> (\<And>e. keeps I (h e)) \<Longrightarrow> keeps I (catch m h)"
  by (force simp: keeps_def catch_def split: prod.split sum.split)

lemma keeps_if [keep_intros]:
  "(b \<Longrightarrow> keeps I m) \<Longrightarrow> (\<not> b \<Longrightarrow> keeps I n) \<Longrightarrow> keeps I (if b then m else n)"
  by simp

lemma keeps_case_option [keep_intros]:
  "(x = None \<Longrightarrow> keeps I m) \<Longrightarrow> (\<And>a. x = Some a \<Longrightarrow> keeps I (n a)) \<Longrightarrow>
   keeps I (case x of None \<Rightarrow> m | Some a \<Rightarrow> n a)"
  by (cases x) simp_all

lemma keeps_let [keep_intros]: "keeps I (f x) \<Longrightarrow> keeps I (let y = x in f y)"
  by (simp add: Let_def)

lemma keeps_map_act [keep_intros]: "(\<And>x. keeps I (f x)) \<Longrightarrow> keeps I (map_act f xs)"
  by (induction xs) (auto intro!: keep_intros)

text \<open>Invariants that look at the database only, or at Redis only.\<close>

definition on_db :: "('d \<Rightarrow> bool) \<Rightarrow> ('d, 'r, 'm) world \<Rightarrow> bool" where
  "on_db I w \<longleftrightarrow> I (w_db w)"

lemma on_db_upd [simp]:
  "on_db I (w\<lparr>w_metrics := x\<rparr>) = on_db I w"
  "on_db I (w\<lparr>w_tick := n\<rparr>) = on_db I w"
  "on_db I (w\<lparr>w_redis := r\<rparr>) = on_db I w"
  "on_db I (w\<lparr>w_mail := m\<rparr>) = on_db I w"
  "on_db I (w\<lparr>w_db := d\<rparr>) = I d"
  by (simp_all add: on_db_def)

lemma keeps_db_do [keep_intros]: "keeps I f \<Longrightarrow> keeps (on_db I) (db_do f)"
  by (auto simp: keeps_def db_do_def on_db_def split: prod.split)

lemma keeps_redis_do [keep_intros]: "keeps (on_db I) (redis_do f)"
  by (auto simp: keeps_def redis_do_def split: prod.split)

lemma keeps_now [keep_intros]: "keeps (on_db I) (now E)"
  by (simp add: keeps_def now_def)

lemma keeps_randomUUID [keep_intros]: "keeps (on_db I) (randomUUID E)"
  by (simp add: keeps_def randomUUID_def)

lemma keeps_metric [keep_intros]: "keeps (on_db I) (metric m l)"
  by (simp add: keeps_def metric_def)

section \<open>Counters only grow\<close>

definition grown :: "registry \<Rightarrow> registry \<Rightarrow> bool" where
  "grown r r' \<longleftrightarrow> rg_defs r' = rg_defs r \<and> (\<forall>n l. counterValue n l r \<le> counterValue n l r')"

definition counts_up :: "(('d, 'r, 'm) world, 'a) act \<Rightarrow> bool" where
  "counts_up m \<longleftrightarrow> (\<forall>w r w'. m w = (r, w') \<longrightarrow> grown (w_metrics w) (w_metrics w'))"

lemma counts_upD: "counts_up m \<Longrightarrow> m w = (r, w') \<Longrightarrow> grown (w_metrics w) (w_metrics w')"
  by (simp add: counts_up_def)

lemma grown_refl [simp]: "grown r r"
  by (simp add: grown_def)

lemma grown_trans: "grown r1 r2 \<Longrightarrow> grown r2 r3 \<Longrightarrow> grown r1 r3"
  unfolding grown_def by (metis order_trans)

lemma grown_increment: "grown r (increment n l b r)"
  by (simp add: grown_def counterValue_increment)

lemma counts_up_basic [count_intros]:
  "counts_up (ret a)" "counts_up (throw e)" "counts_up (guard b e)" "counts_up (need x e)"
  "counts_up (of_result r)" "counts_up (now E)" "counts_up (randomUUID E)" "counts_up (metric m l)"
  "counts_up (db_do f)" "counts_up (redis_do g)"
  by (auto simp: counts_up_def act_simps guard_def need_def now_def randomUUID_def metric_def
      db_do_def redis_do_def grown_increment split: if_splits option.splits prod.splits)

lemma counts_up_seq [count_intros]:
  assumes "counts_up m" "\<And>a. counts_up (k a)"
  shows "counts_up (seq m k)"
  unfolding counts_up_def
proof (intro allI impI)
  fix w r w'
  assume "seq m k w = (r, w')"
  then obtain x w1 where m: "m w = (x, w1)" and k: "case x of Inl e \<Rightarrow> w' = w1 | Inr a \<Rightarrow> k a w1 = (r, w')"
    by (auto simp: seq_def split: prod.splits sum.splits)
  from counts_upD [OF assms(1) m] k show "grown (w_metrics w) (w_metrics w')"
    by (auto split: sum.splits dest: counts_upD [OF assms(2)] intro: grown_trans)
qed

lemma counts_up_catch [count_intros]:
  assumes "counts_up m" "\<And>e. counts_up (h e)"
  shows "counts_up (catch m h)"
  unfolding counts_up_def
proof (intro allI impI)
  fix w r w'
  assume "catch m h w = (r, w')"
  then obtain x w1 where m: "m w = (x, w1)" and k: "case x of Inl e \<Rightarrow> h e w1 = (r, w') | Inr a \<Rightarrow> w' = w1"
    by (auto simp: catch_def split: prod.splits sum.splits)
  from counts_upD [OF assms(1) m] k show "grown (w_metrics w) (w_metrics w')"
    by (auto split: sum.splits dest: counts_upD [OF assms(2)] intro: grown_trans)
qed

lemma counts_up_map_act [count_intros]: "(\<And>x. counts_up (f x)) \<Longrightarrow> counts_up (map_act f xs)"
  by (induction xs) (auto intro!: count_intros)

lemma counts_up_if [count_intros]: "counts_up m \<Longrightarrow> counts_up n \<Longrightarrow> counts_up (if b then m else n)"
  by simp

lemma counts_up_case_option [count_intros]:
  "counts_up m \<Longrightarrow> (\<And>a. counts_up (n a)) \<Longrightarrow> counts_up (case x of None \<Rightarrow> m | Some a \<Rightarrow> n a)"
  by (cases x) simp_all

lemma counts_up_let [count_intros]: "counts_up (f x) \<Longrightarrow> counts_up (let y = x in f y)"
  by (simp add: Let_def)

lemma counts_up_prod [count_intros]: "(\<And>a b. counts_up (f a b)) \<Longrightarrow> counts_up (case x of (a, b) \<Rightarrow> f a b)"
  by (cases x) simp

end
