(* ===== verification/Schema.thy ===== *)
theory Schema
  imports Effects
begin

text \<open>
  The relational schema of \<open>prisma/schema.prisma\<close>: one record per model with the columns
  the application writes, the columns Prisma fills in (\<open>id\<close>, \<open>createdAt\<close>, \<open>updatedAt\<close>) in
  the polymorphic \<open>row\<close>, the unique constraints, the required references and the cascades
  of a deletion. Three models have no \<open>updatedAt\<close> column; no query reads it there.
\<close>

section \<open>Rows\<close>

record 'c row =
  row_id :: string
  row_createdAt :: int
  row_updatedAt :: int
  row_data :: 'c

datatype SplitType = EQUAL | EXACT

datatype ActivityType =
    EXPENSE_ADDED | EXPENSE_UPDATED | EXPENSE_DELETED | SETTLEMENT_ADDED
  | GROUP_CREATED | GROUP_UPDATED | MEMBER_ADDED | MEMBER_REMOVED

datatype AuthTokenPurpose = EMAIL_VERIFICATION | PASSWORD_RESET

datatype IdempotencyStatus = PENDING | COMPLETED

record User =
  us_name :: string
  us_email :: string
  us_passwordHash :: "string option"
  us_emailVerifiedAt :: "int option"

record Group =
  gr_name :: string
  gr_createdById :: string

record GroupMember =
  gm_groupId :: string
  gm_userId :: string

record Expense =
  ex_groupId :: string
  ex_paidById :: string
  ex_description :: string
  ex_amountMinorUnits :: int
  ex_currencyCode :: string
  ex_splitType :: SplitType
  ex_expenseDate :: int

record ExpenseSplit =
  sp_expenseId :: string
  sp_userId :: string
  sp_amountMinorUnits :: int

record Settlement =
  se_groupId :: string
  se_payerId :: string
  se_payeeId :: string
  se_amountMinorUnits :: int
  se_currencyCode :: string
  se_settledAt :: int

record ActivityEvent =
  ev_groupId :: string
  ev_userId :: string
  ev_type :: ActivityType
  ev_message :: string
  ev_amountMinorUnits :: "int option"
  ev_currencyCode :: "string option"
  ev_occurredAt :: int

record GroupSummary =
  su_groupId :: string
  su_totalSpentMinorUnits :: int
  su_expenseCount :: nat
  su_settlementCount :: nat
  su_memberCount :: nat
  su_currencyCode :: string
  su_computedAt :: int

record RefreshToken =
  rt_userId :: string
  rt_tokenHash :: string
  rt_expiresAt :: int
  rt_revokedAt :: "int option"

record AuthToken =
  at_userId :: string
  at_purpose :: AuthTokenPurpose
  at_tokenHash :: string
  at_expiresAt :: int
  at_consumedAt :: "int option"

record IdempotencyRecord =
  id_key :: string
  id_userId :: string
  id_requestHash :: string
  id_status :: IdempotencyStatus
  id_operation :: string
  id_scope :: "string option"
  id_resourceId :: "string option"
  id_expiresAt :: int

record tables =
  users :: "User row list"
  groups :: "Group row list"
  members :: "GroupMember row list"
  expenses :: "Expense row list"
  splits :: "ExpenseSplit row list"
  settlements :: "Settlement row list"
  activities :: "ActivityEvent row list"
  summaries :: "GroupSummary row list"
  refreshTokens :: "RefreshToken row list"
  authTokens :: "AuthToken row list"
  idempotencyRecords :: "IdempotencyRecord row list"

definition no_tables :: tables where
  "no_tables = \<lparr>users = [], groups = [], members = [], expenses = [], splits = [],
     settlements = [], activities = [], summaries = [], refreshTokens = [], authTokens = [],
     idempotencyRecords = []\<rparr>"

section \<open>Unique constraints\<close>

text \<open>The unique keys besides \<open>id\<close>: two rows of one table never agree on them.\<close>

definition clash_User :: "User \<Rightarrow> User \<Rightarrow> bool" where
  "clash_User a b \<longleftrightarrow> us_email a = us_email b"

definition clash_GroupMember :: "GroupMember \<Rightarrow> GroupMember \<Rightarrow> bool" where
  "clash_GroupMember a b \<longleftrightarrow> gm_groupId a = gm_groupId b \<and> gm_userId a = gm_userId b"

definition clash_ExpenseSplit :: "ExpenseSplit \<Rightarrow> ExpenseSplit \<Rightarrow> bool" where
  "clash_ExpenseSplit a b \<longleftrightarrow> sp_expenseId a = sp_expenseId b \<and> sp_userId a = sp_userId b"

definition clash_GroupSummary :: "GroupSummary \<Rightarrow> GroupSummary \<Rightarrow> bool" where
  "clash_GroupSummary a b \<longleftrightarrow> su_groupId a = su_groupId b"

definition clash_RefreshToken :: "RefreshToken \<Rightarrow> RefreshToken \<Rightarrow> bool" where
  "clash_RefreshToken a b \<longleftrightarrow> rt_tokenHash a = rt_tokenHash b"

definition clash_AuthToken :: "AuthToken \<Rightarrow> AuthToken \<Rightarrow> bool" where
  "clash_AuthToken a b \<longleftrightarrow> at_tokenHash a = at_tokenHash b \<or>
     at_userId a = at_userId b \<and> at_purpose a = at_purpose b"

definition clash_IdempotencyRecord :: "IdempotencyRecord \<Rightarrow> IdempotencyRecord \<Rightarrow> bool" where
  "clash_IdempotencyRecord a b \<longleftrightarrow> id_key a = id_key b"

definition clash_never :: "'c \<Rightarrow> 'c \<Rightarrow> bool" where
  "clash_never a b \<longleftrightarrow> False"

lemmas clash_defs = clash_User_def clash_GroupMember_def clash_ExpenseSplit_def
  clash_GroupSummary_def clash_RefreshToken_def clash_AuthToken_def
  clash_IdempotencyRecord_def clash_never_def

section \<open>References\<close>

definition has_id :: "string \<Rightarrow> 'c row list \<Rightarrow> bool" where
  "has_id i rs \<longleftrightarrow> i \<in> set (map row_id rs)"

lemma has_id_append [simp]: "has_id i (xs @ ys) \<longleftrightarrow> has_id i xs \<or> has_id i ys"
  by (simp add: has_id_def)

lemma has_id_simps [simp]: "\<not> has_id i []" "has_id i (r # rs) \<longleftrightarrow> i = row_id r \<or> has_id i rs"
  by (auto simp: has_id_def)

lemma has_id_iff: "has_id i rs \<longleftrightarrow> (\<exists>r\<in>set rs. row_id r = i)"
  by (auto simp: has_id_def)

definition refs_User :: "tables \<Rightarrow> User \<Rightarrow> bool" where
  "refs_User t c \<longleftrightarrow> True"

definition refs_Group :: "tables \<Rightarrow> Group \<Rightarrow> bool" where
  "refs_Group t c \<longleftrightarrow> has_id (gr_createdById c) (users t)"

definition refs_GroupMember :: "tables \<Rightarrow> GroupMember \<Rightarrow> bool" where
  "refs_GroupMember t c \<longleftrightarrow> has_id (gm_groupId c) (groups t) \<and> has_id (gm_userId c) (users t)"

definition refs_Expense :: "tables \<Rightarrow> Expense \<Rightarrow> bool" where
  "refs_Expense t c \<longleftrightarrow> has_id (ex_groupId c) (groups t) \<and> has_id (ex_paidById c) (users t)"

definition refs_ExpenseSplit :: "tables \<Rightarrow> ExpenseSplit \<Rightarrow> bool" where
  "refs_ExpenseSplit t c \<longleftrightarrow> has_id (sp_expenseId c) (expenses t) \<and> has_id (sp_userId c) (users t)"

definition refs_Settlement :: "tables \<Rightarrow> Settlement \<Rightarrow> bool" where
  "refs_Settlement t c \<longleftrightarrow> has_id (se_groupId c) (groups t) \<and>
     has_id (se_payerId c) (users t) \<and> has_id (se_payeeId c) (users t)"

definition refs_ActivityEvent :: "tables \<Rightarrow> ActivityEvent \<Rightarrow> bool" where
  "refs_ActivityEvent t c \<longleftrightarrow> has_id (ev_groupId c) (groups t) \<and> has_id (ev_userId c) (users t)"

definition refs_GroupSummary :: "tables \<Rightarrow> GroupSummary \<Rightarrow> bool" where
  "refs_GroupSummary t c \<longleftrightarrow> has_id (su_groupId c) (groups t)"

definition refs_RefreshToken :: "tables \<Rightarrow> RefreshToken \<Rightarrow> bool" where
  "refs_RefreshToken t c \<longleftrightarrow> has_id (rt_userId c) (users t)"

definition refs_AuthToken :: "tables \<Rightarrow> AuthToken \<Rightarrow> bool" where
  "refs_AuthToken t c \<longleftrightarrow> has_id (at_userId c) (users t)"

definition refs_IdempotencyRecord :: "tables \<Rightarrow> IdempotencyRecord \<Rightarrow> bool" where
  "refs_IdempotencyRecord t c \<longleftrightarrow> has_id (id_userId c) (users t)"

section \<open>Cascades\<close>

text \<open>What \<open>onDelete: Cascade\<close> takes along when the rows with these ids go.\<close>

definition cascade_expenses :: "string list \<Rightarrow> tables \<Rightarrow> tables" where
  "cascade_expenses ids t = t\<lparr>splits := filter (\<lambda>s. sp_expenseId (row_data s) \<notin> set ids) (splits t)\<rparr>"

definition cascade_groups :: "string list \<Rightarrow> tables \<Rightarrow> tables" where
  "cascade_groups ids t =
     (let gone = map row_id (filter (\<lambda>e. ex_groupId (row_data e) \<in> set ids) (expenses t));
          t1 = cascade_expenses gone t
      in t1\<lparr>members := filter (\<lambda>r. gm_groupId (row_data r) \<notin> set ids) (members t),
            expenses := filter (\<lambda>r. ex_groupId (row_data r) \<notin> set ids) (expenses t),
            settlements := filter (\<lambda>r. se_groupId (row_data r) \<notin> set ids) (settlements t),
            activities := filter (\<lambda>r. ev_groupId (row_data r) \<notin> set ids) (activities t),
            summaries := filter (\<lambda>r. su_groupId (row_data r) \<notin> set ids) (summaries t)\<rparr>)"

definition cascade_none :: "string list \<Rightarrow> tables \<Rightarrow> tables" where
  "cascade_none ids t = t"

lemmas cascade_defs = cascade_expenses_def cascade_groups_def cascade_none_def

end
