(* ===== verification/Prisma.thy ===== *)
theory Prisma
  imports Schema
begin

text \<open>
  The Prisma client, a library whose code is not in the repository: every operation the
  repositories call is a field of a record, over an abstract database state \<open>'d\<close>, and the
  locales state what its documentation promises of them, through the logical tables \<open>T d\<close> of a
  state: reads change nothing and answer from the tables, a write takes effect as a whole or
  not at all (and its reply may be lost with the connection), unique constraints, references
  and cascades are those of the schema, a rolled back transaction leaves no trace.

  The order of the rows is only fixed by an \<open>orderBy\<close>, which a query gives as a sort key.
  An in-memory client at the end shows that the promises can be kept together; it is the
  one the worked examples run on.
\<close>

section \<open>The client\<close>

record 'c query =
  q_where :: "tables \<Rightarrow> 'c row \<Rightarrow> bool"
  q_key :: "'c row \<Rightarrow> int \<times> string"
  q_skip :: int
  q_take :: "nat option"

record ('d, 'c) delegate =
  dg_findMany :: "'c query \<Rightarrow> ('d, 'c row list) act"
  dg_findUnique :: "('c row \<Rightarrow> bool) \<Rightarrow> ('d, 'c row option) act"
  dg_count :: "('c row \<Rightarrow> bool) \<Rightarrow> ('d, nat) act"
  dg_sum :: "('c row \<Rightarrow> int) \<Rightarrow> ('c row \<Rightarrow> bool) \<Rightarrow> ('d, int option) act"
  dg_create :: "'c \<Rightarrow> ('d, 'c row) act"
  dg_update :: "('c row \<Rightarrow> bool) \<Rightarrow> ('c \<Rightarrow> 'c) \<Rightarrow> ('d, 'c row) act"
  dg_updateMany :: "('c row \<Rightarrow> bool) \<Rightarrow> ('c \<Rightarrow> 'c) \<Rightarrow> ('d, nat) act"
  dg_upsert :: "('c row \<Rightarrow> bool) \<Rightarrow> ('c \<Rightarrow> 'c) \<Rightarrow> 'c \<Rightarrow> ('d, 'c row) act"
  dg_delete :: "('c row \<Rightarrow> bool) \<Rightarrow> ('d, 'c row) act"
  dg_deleteMany :: "('c row \<Rightarrow> bool) \<Rightarrow> ('d, nat) act"

record 'd prisma =
  p_user :: "('d, User) delegate"
  p_group :: "('d, Group) delegate"
  p_groupMember :: "('d, GroupMember) delegate"
  p_expense :: "('d, Expense) delegate"
  p_expenseSplit :: "('d, ExpenseSplit) delegate"
  p_settlement :: "('d, Settlement) delegate"
  p_activityEvent :: "('d, ActivityEvent) delegate"
  p_groupSummary :: "('d, GroupSummary) delegate"
  p_refreshToken :: "('d, RefreshToken) delegate"
  p_authToken :: "('d, AuthToken) delegate"
  p_idempotencyRecord :: "('d, IdempotencyRecord) delegate"
  p_commit :: "'d \<Rightarrow> ('d, unit) act"
  p_rollback :: "'d \<Rightarrow> 'd \<Rightarrow> 'd"

text \<open>Queries without \<open>orderBy\<close>, \<open>skip\<close> and \<open>take\<close>.\<close>

definition no_order :: "'c row \<Rightarrow> int \<times> string" where
  "no_order r = (0, [])"

definition select_where :: "('c row \<Rightarrow> bool) \<Rightarrow> 'c query" where
  "select_where p = \<lparr>q_where = (\<lambda>_. p), q_key = no_order, q_skip = 0, q_take = None\<rparr>"

definition select_ordered :: "('c row \<Rightarrow> bool) \<Rightarrow> ('c row \<Rightarrow> int \<times> string) \<Rightarrow> 'c query" where
  "select_ordered p k = \<lparr>q_where = (\<lambda>_. p), q_key = k, q_skip = 0, q_take = None\<rparr>"

definition page_of :: "int \<Rightarrow> nat option \<Rightarrow> 'a list \<Rightarrow> 'a list" where
  "page_of skip limit xs =
     (case limit of None \<Rightarrow> drop (nat skip) xs | Some n \<Rightarrow> take n (drop (nat skip) xs))"

definition P2002 :: exn where
  "P2002 = PrismaKnownRequestError ''P2002''"

text \<open>\<open>prisma.$transaction(body)\<close>: an exception of the body undoes its writes.\<close>

definition in_transaction ::
  "'d prisma \<Rightarrow> (('d, 'r, 'm) world, 'a) act \<Rightarrow> (('d, 'r, 'm) world, 'a) act" where
  "in_transaction P body =
     (\<lambda>w. case body w of
        (Inl e, w') \<Rightarrow> (Inl e, w'\<lparr>w_db := p_rollback P (w_db w) (w_db w')\<rparr>)
      | (Inr a, w') \<Rightarrow>
          (case p_commit P (w_db w) (w_db w') of
             (Inl e, d) \<Rightarrow> (Inl e, w'\<lparr>w_db := d\<rparr>)
           | (Inr _, d) \<Rightarrow> (Inr a, w'\<lparr>w_db := d\<rparr>)))"

lemma counts_up_transaction [count_intros]: "counts_up m \<Longrightarrow> counts_up (in_transaction P m)"
  unfolding counts_up_def in_transaction_def by (auto split: prod.splits sum.splits)

section \<open>What the client promises\<close>

definition db_exn :: "exn \<Rightarrow> bool" where
  "db_exn e \<longleftrightarrow> (case e of PrismaKnownRequestError _ \<Rightarrow> True | PrismaFailure _ \<Rightarrow> True | _ \<Rightarrow> False)"

lemma db_exn_simps [simp]:
  "db_exn (PrismaKnownRequestError c)" "db_exn (PrismaFailure m)" "\<not> db_exn (AppError s k m)"
  "db_exn P2002"
  by (simp_all add: db_exn_def P2002_def)

definition touched :: "('c row \<Rightarrow> bool) \<Rightarrow> ('c \<Rightarrow> 'c) \<Rightarrow> int \<Rightarrow> 'c row \<Rightarrow> 'c row" where
  "touched p f stamp r = (if p r then r\<lparr>row_data := f (row_data r), row_updatedAt := stamp\<rparr> else r)"

lemma row_id_touched [simp]: "row_id (touched p f stamp r) = row_id r"
  by (simp add: touched_def)

lemma row_data_touched: "row_data (touched p f stamp r) = (if p r then f (row_data r) else row_data r)"
  by (simp add: touched_def)

definition inserted ::
  "'c row list \<Rightarrow> ('c \<Rightarrow> 'c \<Rightarrow> bool) \<Rightarrow> (tables \<Rightarrow> 'c \<Rightarrow> bool) \<Rightarrow> tables \<Rightarrow> 'c \<Rightarrow> 'c row \<Rightarrow> bool" where
  "inserted rs clash refs t c r \<longleftrightarrow>
     row_data r = c \<and> row_id r \<noteq> [] \<and> \<not> has_id (row_id r) rs \<and>
     (\<forall>r'\<in>set rs. \<not> clash (row_data r') c) \<and> refs t c"

text \<open>
  One statement that changes the tables from \<open>t\<close>: refused (nothing changed), done, or done
  with the reply lost. \<open>E\<close> lists the tables and answers it may lead to.
\<close>

definition statement ::
  "(tables \<Rightarrow> 'a \<Rightarrow> bool) \<Rightarrow> (exn \<Rightarrow> bool) \<Rightarrow> tables \<Rightarrow> exn + 'a \<Rightarrow> tables \<Rightarrow> bool" where
  "statement E refused t res t' \<longleftrightarrow>
     (t' = t \<and> (\<exists>e. res = Inl e \<and> db_exn e \<and> refused e)) \<or>
     (\<exists>a. E t' a \<and> (res = Inr a \<or> (\<exists>m. res = Inl (PrismaFailure m))))"

lemma statement_done: "E t' a \<Longrightarrow> statement E refused t (Inr a) t'"
  by (auto simp: statement_def)

lemma statement_refused: "db_exn e \<Longrightarrow> refused e \<Longrightarrow> statement E refused t (Inl e) t"
  by (auto simp: statement_def)

locale prisma_table =
  fixes T :: "'d \<Rightarrow> tables"
    and rows :: "tables \<Rightarrow> 'c row list"
    and upd :: "('c row list \<Rightarrow> 'c row list) \<Rightarrow> tables \<Rightarrow> tables"
    and clash :: "'c \<Rightarrow> 'c \<Rightarrow> bool"
    and refs :: "tables \<Rightarrow> 'c \<Rightarrow> bool"
    and cascade :: "string list \<Rightarrow> tables \<Rightarrow> tables"
    and D :: "('d, 'c) delegate"
  assumes findMany_law:
    "dg_findMany D q d = (res, d') \<Longrightarrow> T d' = T d \<and>
       (case res of Inl e \<Rightarrow> db_exn e
        | Inr rs \<Rightarrow> 0 \<le> q_skip q \<and>
            (\<exists>ys. mset ys = mset (filter (q_where q (T d)) (rows (T d))) \<and>
                  sorted (map (q_key q) ys) \<and> rs = page_of (q_skip q) (q_take q) ys))"
  and findUnique_law:
    "dg_findUnique D p d = (res2, d') \<Longrightarrow> T d' = T d \<and>
       (case res2 of Inl e \<Rightarrow> db_exn e
        | Inr None \<Rightarrow> (\<forall>r\<in>set (rows (T d)). \<not> p r)
        | Inr (Some r) \<Rightarrow> r \<in> set (rows (T d)) \<and> p r)"
  and count_law:
    "dg_count D p d = (res3, d') \<Longrightarrow> T d' = T d \<and>
       (case res3 of Inl e \<Rightarrow> db_exn e | Inr n \<Rightarrow> n = length (filter p (rows (T d))))"
  and sum_law:
    "dg_sum D f p d = (res4, d') \<Longrightarrow> T d' = T d \<and>
       (case res4 of Inl e \<Rightarrow> db_exn e
        | Inr s \<Rightarrow> s = (let rs = filter p (rows (T d)) in
                        if rs = [] then None else Some (\<Sum>r\<leftarrow>rs. f r)))"
  and create_law:
    "dg_create D c d = (res5, d') \<Longrightarrow>
       statement (\<lambda>t r. inserted (rows (T d)) clash refs (T d) c r \<and> t = upd (\<lambda>rs. rs @ [r]) (T d))
         (\<lambda>e. e = P2002 \<longrightarrow> (\<exists>r\<in>set (rows (T d)). clash (row_data r) c)) (T d) res5 (T d')"
  and update_law:
    "dg_update D p g d = (res6, d') \<Longrightarrow>
       statement (\<lambda>t r. \<exists>r0 stamp. r0 \<in> set (rows (T d)) \<and> p r0 \<and> r = touched p g stamp r0 \<and>
                          t = upd (map (touched p g stamp)) (T d))
         (\<lambda>e. True) (T d) res6 (T d')"
  and updateMany_law:
    "dg_updateMany D p g d = (res7, d') \<Longrightarrow>
       statement (\<lambda>t n. \<exists>stamp. n = length (filter p (rows (T d))) \<and>
                          t = upd (map (touched p g stamp)) (T d))
         (\<lambda>e. True) (T d) res7 (T d')"
  and upsert_law:
    "dg_upsert D p g c d = (res8, d') \<Longrightarrow>
       statement (\<lambda>t r. if \<exists>r0\<in>set (rows (T d)). p r0
            then \<exists>r0 stamp. r0 \<in> set (rows (T d)) \<and> p r0 \<and> r = touched p g stamp r0 \<and>
                          t = upd (map (touched p g stamp)) (T d)
            else inserted (rows (T d)) clash refs (T d) c r \<and> t = upd (\<lambda>rs. rs @ [r]) (T d))
         (\<lambda>e. True) (T d) res8 (T d')"
  and delete_law:
    "dg_delete D p d = (res9, d') \<Longrightarrow>
       statement (\<lambda>t r. r \<in> set (rows (T d)) \<and> p r \<and>
            t = cascade [row_id r] (upd (filter (\<lambda>x. row_id x \<noteq> row_id r)) (T d)))
         (\<lambda>e. True) (T d) res9 (T d')"
  and deleteMany_law:
    "dg_deleteMany D p d = (res10, d') \<Longrightarrow>
       statement (\<lambda>t n. n = length (filter p (rows (T d))) \<and>
            t = cascade (map row_id (filter p (rows (T d)))) (upd (filter (\<lambda>x. \<not> p x)) (T d)))
         (\<lambda>e. True) (T d) res10 (T d')"
begin

lemma findMany_T [simp]: "T (snd (dg_findMany D q d)) = T d"
  by (metis findMany_law prod.collapse)

lemma findUnique_T [simp]: "T (snd (dg_findUnique D p d)) = T d"
  by (metis findUnique_law prod.collapse)

lemma count_T [simp]: "T (snd (dg_count D p d)) = T d"
  by (metis count_law prod.collapse)

lemma sum_T [simp]: "T (snd (dg_sum D f p d)) = T d"
  by (metis sum_law prod.collapse)

lemma findMany_Inr:
  assumes "dg_findMany D q d = (Inr rs, d')"
  shows "T d' = T d"
    and "\<exists>ys. mset ys = mset (filter (q_where q (T d)) (rows (T d))) \<and>
              sorted (map (q_key q) ys) \<and> rs = page_of (q_skip q) (q_take q) ys"
  using findMany_law [OF assms] by auto

lemma findMany_where:
  assumes "dg_findMany D (select_where p) d = (Inr rs, d')"
  shows "T d' = T d" and "mset rs = mset (filter p (rows (T d)))"
  using findMany_law [OF assms] by (auto simp: select_where_def page_of_def)

lemma findMany_ordered:
  assumes "dg_findMany D (select_ordered p k) d = (Inr rs, d')"
  shows "T d' = T d" and "mset rs = mset (filter p (rows (T d)))" and "sorted (map k rs)"
  using findMany_law [OF assms] by (auto simp: select_ordered_def page_of_def)

lemma findUnique_None:
  assumes "dg_findUnique D p d = (Inr None, d')"
  shows "T d' = T d" and "\<forall>r\<in>set (rows (T d)). \<not> p r"
  using findUnique_law [OF assms] by auto

lemma findUnique_Some:
  assumes "dg_findUnique D p d = (Inr (Some r), d')"
  shows "T d' = T d" and "r \<in> set (rows (T d))" and "p r"
  using findUnique_law [OF assms] by auto

lemma findUnique_Inr_T: "dg_findUnique D p d = (Inr x, d') \<Longrightarrow> T d' = T d"
  by (metis findUnique_T snd_conv)

lemma count_Inr:
  assumes "dg_count D p d = (Inr n, d')"
  shows "T d' = T d" and "n = length (filter p (rows (T d)))"
  using count_law [OF assms] by auto

lemma sum_Inr:
  assumes "dg_sum D f p d = (Inr s, d')"
  shows "T d' = T d"
    and "(case s of None \<Rightarrow> 0 | Some v \<Rightarrow> v) = (\<Sum>r\<leftarrow>filter p (rows (T d)). f r)"
  using sum_law [OF assms] by (auto simp: Let_def)

lemma create_Inr:
  assumes "dg_create D c d = (Inr r, d')"
  shows "inserted (rows (T d)) clash refs (T d) c r" and "T d' = upd (\<lambda>rs. rs @ [r]) (T d)"
  using create_law [OF assms] by (auto simp: statement_def)

lemma create_P2002:
  assumes "dg_create D c d = (Inl P2002, d')"
  shows "T d' = T d" and "\<exists>r\<in>set (rows (T d)). clash (row_data r) c"
  using create_law [OF assms] by (auto simp: statement_def P2002_def)

lemma update_Inr:
  assumes "dg_update D p g d = (Inr r, d')"
  shows "\<exists>r0 stamp. r0 \<in> set (rows (T d)) \<and> p r0 \<and> r = touched p g stamp r0 \<and>
                 T d' = upd (map (touched p g stamp)) (T d)"
  using update_law [OF assms] by (auto simp: statement_def)

lemma updateMany_Inr:
  assumes "dg_updateMany D p g d = (Inr n, d')"
  shows "n = length (filter p (rows (T d)))" and "\<exists>stamp. T d' = upd (map (touched p g stamp)) (T d)"
  using updateMany_law [OF assms] by (auto simp: statement_def)

lemma delete_Inr:
  assumes "dg_delete D p d = (Inr r, d')"
  shows "r \<in> set (rows (T d))" and "p r"
    and "T d' = cascade [row_id r] (upd (filter (\<lambda>x. row_id x \<noteq> row_id r)) (T d))"
  using delete_law [OF assms] by (auto simp: statement_def)

lemma deleteMany_Inr:
  assumes "dg_deleteMany D p d = (Inr n, d')"
  shows "n = length (filter p (rows (T d)))"
    and "T d' = cascade (map row_id (filter p (rows (T d)))) (upd (filter (\<lambda>x. \<not> p x)) (T d))"
  using deleteMany_law [OF assms] by (auto simp: statement_def)

subsection \<open>Invariants of the tables\<close>

lemma keeps_reads [keep_intros]:
  "keeps (\<lambda>d. I (T d)) (dg_findMany D q)"
  "keeps (\<lambda>d. I (T d)) (dg_findUnique D p)"
  "keeps (\<lambda>d. I (T d)) (dg_count D p)"
  "keeps (\<lambda>d. I (T d)) (dg_sum D f p)"
  by (simp_all add: keeps_def)

lemma keeps_create:
  assumes "\<And>t r. I t \<Longrightarrow> inserted (rows t) clash refs t c r \<Longrightarrow> I (upd (\<lambda>rs. rs @ [r]) t)"
  shows "keeps (\<lambda>d. I (T d)) (dg_create D c)"
proof (rule keepsI)
  fix d res d'
  assume I: "I (T d)" and c: "dg_create D c d = (res, d')"
  from create_law [OF c] I assms show "I (T d')"
    unfolding statement_def by (elim disjE exE conjE) simp_all
qed

lemma keeps_update:
  assumes "\<And>t stamp. I t \<Longrightarrow> I (upd (map (touched p g stamp)) t)"
  shows "keeps (\<lambda>d. I (T d)) (dg_update D p g)" and "keeps (\<lambda>d. I (T d)) (dg_updateMany D p g)"
proof -
  show "keeps (\<lambda>d. I (T d)) (dg_update D p g)"
  proof (rule keepsI)
    fix d res d'
    assume I: "I (T d)" and c: "dg_update D p g d = (res, d')"
    from update_law [OF c] I assms show "I (T d')"
      unfolding statement_def by (elim disjE exE conjE) simp_all
  qed
  show "keeps (\<lambda>d. I (T d)) (dg_updateMany D p g)"
  proof (rule keepsI)
    fix d res d'
    assume I: "I (T d)" and c: "dg_updateMany D p g d = (res, d')"
    from updateMany_law [OF c] I assms show "I (T d')"
      unfolding statement_def by (elim disjE exE conjE) simp_all
  qed
qed

lemma keeps_upsert:
  assumes "\<And>t stamp. I t \<Longrightarrow> I (upd (map (touched p g stamp)) t)"
    and "\<And>t r. I t \<Longrightarrow> inserted (rows t) clash refs t c r \<Longrightarrow> I (upd (\<lambda>rs. rs @ [r]) t)"
  shows "keeps (\<lambda>d. I (T d)) (dg_upsert D p g c)"
proof (rule keepsI)
  fix d res d'
  assume I: "I (T d)" and c: "dg_upsert D p g c d = (res, d')"
  from upsert_law [OF c] I assms show "I (T d')"
    unfolding statement_def by (elim disjE exE conjE) (auto split: if_splits)
qed

lemma keeps_delete:
  assumes "\<And>t i. I t \<Longrightarrow> I (cascade [i] (upd (filter (\<lambda>x. row_id x \<noteq> i)) t))"
  shows "keeps (\<lambda>d. I (T d)) (dg_delete D p)"
proof (rule keepsI)
  fix d res d'
  assume I: "I (T d)" and c: "dg_delete D p d = (res, d')"
  from delete_law [OF c] I assms show "I (T d')"
    unfolding statement_def by (elim disjE exE conjE) simp_all
qed

lemma keeps_deleteMany:
  assumes "\<And>t. I t \<Longrightarrow> I (cascade (map row_id (filter p (rows t))) (upd (filter (\<lambda>x. \<not> p x)) t))"
  shows "keeps (\<lambda>d. I (T d)) (dg_deleteMany D p)"
proof (rule keepsI)
  fix d res d'
  assume I: "I (T d)" and c: "dg_deleteMany D p d = (res, d')"
  from deleteMany_law [OF c] I assms show "I (T d')"
    unfolding statement_def by (elim disjE exE conjE) simp_all
qed

end

section \<open>The whole client\<close>

locale prisma =
  usr: prisma_table T users users_update clash_User refs_User cascade_none "p_user P" +
  grp: prisma_table T groups groups_update clash_never refs_Group cascade_groups "p_group P" +
  mem: prisma_table T members members_update clash_GroupMember refs_GroupMember cascade_none
         "p_groupMember P" +
  exp: prisma_table T expenses expenses_update clash_never refs_Expense cascade_expenses
         "p_expense P" +
  spl: prisma_table T splits splits_update clash_ExpenseSplit refs_ExpenseSplit cascade_none
         "p_expenseSplit P" +
  stl: prisma_table T settlements settlements_update clash_never refs_Settlement cascade_none
         "p_settlement P" +
  act: prisma_table T activities activities_update clash_never refs_ActivityEvent cascade_none
         "p_activityEvent P" +
  sum: prisma_table T summaries summaries_update clash_GroupSummary refs_GroupSummary cascade_none
         "p_groupSummary P" +
  rtk: prisma_table T refreshTokens refreshTokens_update clash_RefreshToken refs_RefreshToken
         cascade_none "p_refreshToken P" +
  atk: prisma_table T authTokens authTokens_update clash_AuthToken refs_AuthToken cascade_none
         "p_authToken P" +
  idr: prisma_table T idempotencyRecords idempotencyRecords_update clash_IdempotencyRecord
         refs_IdempotencyRecord cascade_none "p_idempotencyRecord P"
  for T :: "'d \<Rightarrow> tables" and P :: "'d prisma" +
  assumes commit_law:
    "p_commit P d0 d = (res, d') \<Longrightarrow>
       (case res of Inr _ \<Rightarrow> T d' = T d
        | Inl e \<Rightarrow> db_exn e \<and> (T d' = T d0 \<or> T d' = T d \<and> (\<exists>m. e = PrismaFailure m)))"
  and rollback_law: "T (p_rollback P d0 d) = T d0"
begin

lemma in_transaction_Inr:
  assumes "in_transaction P body w = (Inr a, w2)"
  obtains w1 where "body w = (Inr a, w1)" and "T (w_db w2) = T (w_db w1)"
    and "w_metrics w2 = w_metrics w1" and "w_tick w2 = w_tick w1" and "w_redis w2 = w_redis w1"
    and "w_mail w2 = w_mail w1"
proof (cases "body w")
  case (Pair res w1)
  then obtain b where b: "res = Inr b" using assms
    by (cases res) (auto simp: in_transaction_def)
  obtain cres d where c: "p_commit P (w_db w) (w_db w1) = (cres, d)" by fastforce
  have "cres \<noteq> Inl e" for e using assms Pair b c by (auto simp: in_transaction_def)
  then have "T d = T (w_db w1)" and "w2 = w1\<lparr>w_db := d\<rparr>" and "b = a"
    using commit_law [OF c] assms Pair b c
    by (auto simp: in_transaction_def split: sum.splits)
  then show ?thesis using that [of w1] Pair b by simp
qed

lemma in_transaction_Inl:
  assumes "in_transaction P body w = (Inl e, w2)"
  obtains (body) w1 where "body w = (Inl e, w1)" and "T (w_db w2) = T (w_db w)"
      and "w_metrics w2 = w_metrics w1"
    | (commit) a w1 where "body w = (Inr a, w1)" and "db_exn e"
      and "T (w_db w2) = T (w_db w1) \<and> (\<exists>m. e = PrismaFailure m) \<or> T (w_db w2) = T (w_db w)"
proof (cases "body w")
  case (Pair res w1)
  show ?thesis
  proof (cases res)
    case (Inl e')
    then show ?thesis using assms Pair body [of w1]
      by (auto simp: in_transaction_def rollback_law)
  next
    case (Inr a)
    obtain cres d where c: "p_commit P (w_db w) (w_db w1) = (cres, d)" by fastforce
    have "cres = Inl e" and "w2 = w1\<lparr>w_db := d\<rparr>"
      using assms Pair Inr c by (auto simp: in_transaction_def split: sum.splits)
    then show ?thesis using commit [of a w1] commit_law [OF c] Pair Inr by auto
  qed
qed

text \<open>A transaction keeps an invariant when its body does on the runs that succeed.\<close>

lemma keeps_transaction:
  assumes "\<And>w a w'. I (T (w_db w)) \<Longrightarrow> body w = (Inr a, w') \<Longrightarrow> I (T (w_db w'))"
  shows "keeps (on_db (\<lambda>d. I (T d))) (in_transaction P body)"
proof (rule keepsI)
  fix w r w2
  assume I: "on_db (\<lambda>d. I (T d)) w" and run: "in_transaction P body w = (r, w2)"
  show "on_db (\<lambda>d. I (T d)) w2"
  proof (cases r)
    case (Inr a)
    with run obtain w1 where "body w = (Inr a, w1)" "T (w_db w2) = T (w_db w1)"
      by (auto elim: in_transaction_Inr)
    then show ?thesis using I assms by (simp add: on_db_def)
  next
    case (Inl e)
    with run have "in_transaction P body w = (Inl e, w2)" by simp
    then show ?thesis
    proof (cases rule: in_transaction_Inl)
      case (body w1)
      then show ?thesis using I by (simp add: on_db_def)
    next
      case (commit a w1)
      then show ?thesis using I assms [of w a w1] by (auto simp: on_db_def)
    qed
  qed
qed

end

section \<open>Errors that leave no trace\<close>

text \<open>
  \<open>silent T m\<close>: the action never changes the tables. \<open>clean T m\<close>: when it throws anything
  but a database failure, the tables are as they were.
\<close>

definition silent :: "('d \<Rightarrow> tables) \<Rightarrow> (('d, 'r, 'm) world, 'a) act \<Rightarrow> bool" where
  "silent T m \<longleftrightarrow> (\<forall>w r w'. m w = (r, w') \<longrightarrow> T (w_db w') = T (w_db w))"

definition clean :: "('d \<Rightarrow> tables) \<Rightarrow> (('d, 'r, 'm) world, 'a) act \<Rightarrow> bool" where
  "clean T m \<longleftrightarrow> (\<forall>w e w'. m w = (Inl e, w') \<longrightarrow> \<not> db_exn e \<longrightarrow> T (w_db w') = T (w_db w))"

definition never_fails :: "('w, 'a) act \<Rightarrow> bool" where
  "never_fails m \<longleftrightarrow> (\<forall>w. \<not> isl (fst (m w)))"

lemma silentD: "silent T m \<Longrightarrow> m w = (r, w') \<Longrightarrow> T (w_db w') = T (w_db w)"
  by (auto simp: silent_def)

lemma cleanD: "clean T m \<Longrightarrow> m w = (Inl e, w') \<Longrightarrow> \<not> db_exn e \<Longrightarrow> T (w_db w') = T (w_db w)"
  by (auto simp: clean_def)

lemma silent_basic [silent_intros]:
  "silent T (ret a)" "silent T (throw e)" "silent T (guard b e)" "silent T (need x e)"
  "silent T (of_result r)" "silent T (now E)" "silent T (randomUUID E)" "silent T (metric m l)"
  "silent T (redis_do f)"
  by (auto simp: silent_def guard_def need_def act_simps split: option.splits)

lemma silent_seq [silent_intros]:
  "silent T m \<Longrightarrow> (\<And>a. silent T (k a)) \<Longrightarrow> silent T (seq m k)"
  unfolding silent_def
proof (intro allI impI, goal_cases)
  case (1 w r w')
  then show ?case
    by (cases r) (fastforce simp: act_simps)+
qed

lemma silent_map_act [silent_intros]: "(\<And>x. silent T (f x)) \<Longrightarrow> silent T (map_act f xs)"
  by (induction xs) (auto intro!: silent_intros)

lemma silent_if [silent_intros]: "silent T m \<Longrightarrow> silent T n \<Longrightarrow> silent T (if b then m else n)"
  by simp

lemma silent_case_option [silent_intros]:
  "silent T m \<Longrightarrow> (\<And>a. silent T (n a)) \<Longrightarrow> silent T (case x of None \<Rightarrow> m | Some a \<Rightarrow> n a)"
  by (cases x) simp_all

lemma silent_let [silent_intros]: "silent T (f x) \<Longrightarrow> silent T (let y = x in f y)"
  by (simp add: Let_def)

lemma silent_prod [silent_intros]: "(\<And>a b. silent T (f a b)) \<Longrightarrow> silent T (case x of (a, b) \<Rightarrow> f a b)"
  by (cases x) simp

lemma clean_let [clean_intros]: "clean T (f x) \<Longrightarrow> clean T (let y = x in f y)"
  by (simp add: Let_def)

lemma keeps_silent: "silent T m \<Longrightarrow> keeps (on_db (\<lambda>d. I (T d))) m"
  by (rule keepsI) (simp add: on_db_def silent_def)

lemma clean_silent [clean_intros]: "silent T m \<Longrightarrow> clean T m"
  by (auto simp: silent_def clean_def)

lemma clean_seq [clean_intros]:
  "silent T m \<Longrightarrow> (\<And>a. clean T (k a)) \<Longrightarrow> clean T (seq m k)"
  unfolding silent_def clean_def by (force simp: act_simps)

lemma clean_seq_tail:
  assumes "clean T m" "\<And>a. never_fails (k a)"
  shows "clean T (seq m k)"
  unfolding clean_def
proof (intro allI impI)
  fix w e w'
  assume "seq m k w = (Inl e, w')" "\<not> db_exn e"
  moreover have "k a w1 \<noteq> (Inl e, w')" for a w1
    using assms(2) [of a] by (metis fst_conv never_fails_def sum.disc(1))
  ultimately show "T (w_db w') = T (w_db w)"
    using assms(1) by (auto simp: act_simps clean_def)
qed

text \<open>A handler that only renames the application errors.\<close>

lemma clean_catch_throw:
  assumes "clean T m" and "\<And>e. db_exn (f e) = db_exn e"
  shows "clean T (catch m (\<lambda>e. throw (f e)))"
  using assms unfolding clean_def by (auto simp: act_simps)

lemma clean_if [clean_intros]: "clean T m \<Longrightarrow> clean T n \<Longrightarrow> clean T (if b then m else n)"
  by simp

lemma clean_case_option [clean_intros]:
  "clean T m \<Longrightarrow> (\<And>a. clean T (n a)) \<Longrightarrow> clean T (case x of None \<Rightarrow> m | Some a \<Rightarrow> n a)"
  by (cases x) simp_all

lemma never_fails_basic [simp]:
  "never_fails (ret a)" "never_fails (metric m l)" "never_fails (now E)"
  by (simp_all add: never_fails_def ret_def metric_def now_def)

lemma never_fails_seq: "never_fails m \<Longrightarrow> (\<And>a. never_fails (k a)) \<Longrightarrow> never_fails (seq m k)"
  unfolding never_fails_def seq_def
  by (auto split: prod.split sum.split) (metis fst_conv sum.disc(1))

section \<open>What an action may do to the tables\<close>

text \<open>
  \<open>effect T Q m\<close>: whatever the action returns or throws, the tables are as they were or
  related to what they were by \<open>Q\<close>. A read may pass what it found on, as a fact about the
  tables that its continuation starts from.
\<close>

definition effect ::
  "('d \<Rightarrow> tables) \<Rightarrow> (tables \<Rightarrow> tables \<Rightarrow> bool) \<Rightarrow> (('d, 'r, 'm) world, 'a) act \<Rightarrow> bool" where
  "effect T Q m \<longleftrightarrow> (\<forall>w r w'. m w = (r, w') \<longrightarrow> T (w_db w') = T (w_db w) \<or> Q (T (w_db w)) (T (w_db w')))"

lemma effectD: "effect T Q m \<Longrightarrow> m w = (r, w') \<Longrightarrow> T (w_db w') = T (w_db w) \<or> Q (T (w_db w)) (T (w_db w'))"
  by (simp add: effect_def)

lemma effect_silent: "silent T m \<Longrightarrow> effect T Q m"
  by (simp add: effect_def silent_def)

lemma effect_mono: "effect T Q m \<Longrightarrow> (\<And>t t'. Q t t' \<Longrightarrow> Q' t t') \<Longrightarrow> effect T Q' m"
  unfolding effect_def by blast

lemma effect_guard: "(b \<Longrightarrow> effect T Q (k ())) \<Longrightarrow> effect T Q (seq (guard b e) k)"
  by (cases b) (simp_all add: effect_silent guard_def silent_intros)

lemma effect_need: "(\<And>a. x = Some a \<Longrightarrow> effect T Q (k a)) \<Longrightarrow> effect T Q (seq (need x e) k)"
  by (cases x) (simp_all add: effect_silent need_def silent_intros)

lemma effect_result: "(\<And>a. r = Inr a \<Longrightarrow> effect T Q (k a)) \<Longrightarrow> effect T Q (seq (of_result r) k)"
  by (cases r) (simp_all add: effect_def seq_def of_result_def)

lemma effect_read:
  assumes "silent T m" and "\<And>w a w'. m w = (Inr a, w') \<Longrightarrow> A a (T (w_db w))"
    and "\<And>a. effect T (\<lambda>t t'. A a t \<longrightarrow> Q t t') (k a)"
  shows "effect T Q (seq m k)"
  unfolding effect_def
proof (intro allI impI)
  fix w r w'
  assume run: "seq m k w = (r, w')"
  show "T (w_db w') = T (w_db w) \<or> Q (T (w_db w)) (T (w_db w'))"
  proof (cases "m w")
    case (Pair res w1)
    have t: "T (w_db w1) = T (w_db w)" using assms(1) Pair by (rule silentD)
    show ?thesis
    proof (cases res)
      case (Inl e)
      then show ?thesis using run Pair t by (simp add: seq_def)
    next
      case (Inr a)
      then have "k a w1 = (r, w')" using run Pair by (simp add: seq_def)
      from effectD [OF assms(3) this] assms(2) [of w a w1] show ?thesis
        using Pair Inr t by auto
    qed
  qed
qed

lemma effect_seq: "silent T m \<Longrightarrow> (\<And>a. effect T Q (k a)) \<Longrightarrow> effect T Q (seq m k)"
  by (rule effect_read [where A = "\<lambda>_ _. True"]) simp_all

lemma effect_tail:
  assumes "effect T Q m" and "\<And>a. silent T (k a)"
  shows "effect T Q (seq m k)"
  unfolding effect_def
proof (intro allI impI)
  fix w r w'
  assume run: "seq m k w = (r, w')"
  show "T (w_db w') = T (w_db w) \<or> Q (T (w_db w)) (T (w_db w'))"
  proof (cases "m w")
    case (Pair res w1)
    note e = effectD [OF assms(1) Pair]
    show ?thesis
    proof (cases res)
      case (Inl x)
      then show ?thesis using run Pair e by (simp add: seq_def)
    next
      case (Inr a)
      then have "k a w1 = (r, w')" using run Pair by (simp add: seq_def)
      then show ?thesis using silentD [OF assms(2)] e by metis
    qed
  qed
qed

lemma keeps_effect:
  assumes "effect T (\<lambda>t t'. I t \<longrightarrow> I t') m"
  shows "keeps (on_db (\<lambda>d. I (T d))) m"
  using assms by (auto simp: effect_def on_db_def intro!: keepsI) metis

context prisma_table
begin

lemma silent_reads [silent_intros]:
  "silent T (db_do (dg_findMany D q))"
  "silent T (db_do (dg_findUnique D p))"
  "silent T (db_do (dg_count D p))"
  "silent T (db_do (dg_sum D f p))"
  using findMany_law findUnique_law count_law sum_law
  by (auto simp: silent_def act_simps)

text \<open>A statement of its own only fails with a database failure.\<close>

lemma clean_writes [clean_intros]:
  "clean T (db_do (dg_create D c))"
  "clean T (db_do (dg_update D p g))"
  "clean T (db_do (dg_updateMany D p g))"
  "clean T (db_do (dg_upsert D p g c))"
  "clean T (db_do (dg_delete D p))"
  "clean T (db_do (dg_deleteMany D p))"
proof -
  have st: "db_exn e" if "statement E R t (Inl e) t'" for E R t and e and t'
    using that by (auto simp: statement_def)
  show "clean T (db_do (dg_create D c))" "clean T (db_do (dg_update D p g))"
    "clean T (db_do (dg_updateMany D p g))" "clean T (db_do (dg_upsert D p g c))"
    "clean T (db_do (dg_delete D p))" "clean T (db_do (dg_deleteMany D p))"
    unfolding clean_def
    by (auto simp: act_simps dest!: create_law update_law updateMany_law upsert_law delete_law
        deleteMany_law dest: st)
qed

end

context prisma
begin

lemma effect_transaction:
  assumes "\<And>w a w'. body w = (Inr a, w') \<Longrightarrow> Q (T (w_db w)) (T (w_db w'))"
  shows "effect T Q (in_transaction P body)"
  unfolding effect_def
proof (intro allI impI)
  fix w r w2
  assume run: "in_transaction P body w = (r, w2)"
  show "T (w_db w2) = T (w_db w) \<or> Q (T (w_db w)) (T (w_db w2))"
  proof (cases r)
    case (Inr a)
    with run obtain w1 where "body w = (Inr a, w1)" "T (w_db w2) = T (w_db w1)"
      by (auto elim: in_transaction_Inr)
    then show ?thesis using assms by metis
  next
    case (Inl e)
    with run have "in_transaction P body w = (Inl e, w2)" by simp
    then show ?thesis
      by (cases rule: in_transaction_Inl) (auto dest: assms)
  qed
qed

lemma clean_transaction [clean_intros]: "clean T (in_transaction P body)"
  unfolding clean_def by (auto elim!: in_transaction_Inl)

end

section \<open>An in-memory client\<close>

text \<open>
  Tables in memory, and a plan of failures: each statement takes one bit of the plan, and
  fails with a lost connection where it is set. Fresh ids are longer than every id in use.
\<close>

record mem_db =
  md_tables :: tables
  md_plan :: "bool list"

definition mem_stmt :: "(tables \<Rightarrow> (exn + 'a) \<times> tables) \<Rightarrow> (mem_db, 'a) act" where
  "mem_stmt f d =
     (case md_plan d of
        True # bs \<Rightarrow> (Inl (PrismaFailure ''connection lost''), d\<lparr>md_plan := bs\<rparr>)
      | bs \<Rightarrow> (case f (md_tables d) of (res, t) \<Rightarrow>
                 (res, d\<lparr>md_tables := t, md_plan := tl bs\<rparr>)))"

definition fresh_id :: "'c row list \<Rightarrow> string" where
  "fresh_id rs = replicate (Suc (fold (\<lambda>r n. max (length (row_id r)) n) rs 0)) CHR ''i''"

lemma fold_max_ge: "n \<le> fold (\<lambda>r n. max (length (row_id r)) n) rs n"
  by (induction rs arbitrary: n) (auto intro: le_trans [OF max.cobounded2])

lemma fold_max_mem: "r \<in> set rs \<Longrightarrow> length (row_id r) \<le> fold (\<lambda>r n. max (length (row_id r)) n) rs n"
  by (induction rs arbitrary: n) (auto intro: le_trans [OF _ fold_max_ge])

lemma fresh_id: "\<not> has_id (fresh_id rs) rs" "fresh_id rs \<noteq> []"
proof -
  show "\<not> has_id (fresh_id rs) rs"
  proof
    assume "has_id (fresh_id rs) rs"
    then obtain r where r: "r \<in> set rs" "row_id r = fresh_id rs" by (auto simp: has_id_iff)
    have "length (row_id r) < length (fresh_id rs)"
      using fold_max_mem [OF r(1), of 0] by (simp add: fresh_id_def)
    with r show False by simp
  qed
qed (simp add: fresh_id_def)

definition mem_insert ::
  "(tables \<Rightarrow> 'c row list) \<Rightarrow> (('c row list \<Rightarrow> 'c row list) \<Rightarrow> tables \<Rightarrow> tables) \<Rightarrow>
   ('c \<Rightarrow> 'c \<Rightarrow> bool) \<Rightarrow> (tables \<Rightarrow> 'c \<Rightarrow> bool) \<Rightarrow> 'c \<Rightarrow> tables \<Rightarrow> (exn + 'c row) \<times> tables" where
  "mem_insert rows upd clash refs c t =
     (if list_ex (\<lambda>r. clash (row_data r) c) (rows t) then (Inl P2002, t)
      else if \<not> refs t c then (Inl (PrismaKnownRequestError ''P2003''), t)
      else let n = int (length (rows t));
               r = \<lparr>row_id = fresh_id (rows t), row_createdAt = n, row_updatedAt = n, row_data = c\<rparr>
           in (Inr r, upd (\<lambda>rs. rs @ [r]) t))"

definition mem_update ::
  "(tables \<Rightarrow> 'c row list) \<Rightarrow> (('c row list \<Rightarrow> 'c row list) \<Rightarrow> tables \<Rightarrow> tables) \<Rightarrow>
   ('c row \<Rightarrow> bool) \<Rightarrow> ('c \<Rightarrow> 'c) \<Rightarrow> tables \<Rightarrow> (exn + 'c row) \<times> tables" where
  "mem_update rows upd p g t =
     (case filter p (rows t) of
        [] \<Rightarrow> (Inl (PrismaKnownRequestError ''P2025''), t)
      | r # _ \<Rightarrow> (Inr (touched p g (int (length (rows t))) r),
                  upd (map (touched p g (int (length (rows t))))) t))"

definition mem_delegate ::
  "(tables \<Rightarrow> 'c row list) \<Rightarrow> (('c row list \<Rightarrow> 'c row list) \<Rightarrow> tables \<Rightarrow> tables) \<Rightarrow>
   ('c \<Rightarrow> 'c \<Rightarrow> bool) \<Rightarrow> (tables \<Rightarrow> 'c \<Rightarrow> bool) \<Rightarrow> (string list \<Rightarrow> tables \<Rightarrow> tables) \<Rightarrow>
   (mem_db, 'c) delegate" where
  "mem_delegate rows upd clash refs cascade =
     \<lparr>dg_findMany = (\<lambda>q. mem_stmt (\<lambda>t.
        if q_skip q < 0 then (Inl (PrismaFailure ''skip''), t)
        else (Inr (page_of (q_skip q) (q_take q)
                 (sort_key (q_key q) (filter (q_where q t) (rows t)))), t))),
      dg_findUnique = (\<lambda>p. mem_stmt (\<lambda>t. (Inr (find p (rows t)), t))),
      dg_count = (\<lambda>p. mem_stmt (\<lambda>t. (Inr (length (filter p (rows t))), t))),
      dg_sum = (\<lambda>f p. mem_stmt (\<lambda>t. (Inr (let rs = filter p (rows t) in
                 if rs = [] then None else Some (\<Sum>r\<leftarrow>rs. f r)), t))),
      dg_create = (\<lambda>c. mem_stmt (mem_insert rows upd clash refs c)),
      dg_update = (\<lambda>p g. mem_stmt (mem_update rows upd p g)),
      dg_updateMany = (\<lambda>p g. mem_stmt (\<lambda>t. (Inr (length (filter p (rows t))),
                 upd (map (touched p g (int (length (rows t))))) t))),
      dg_upsert = (\<lambda>p g c. mem_stmt (\<lambda>t. if list_ex p (rows t) then mem_update rows upd p g t
                 else mem_insert rows upd clash refs c t)),
      dg_delete = (\<lambda>p. mem_stmt (\<lambda>t. case filter p (rows t) of
                 [] \<Rightarrow> (Inl (PrismaKnownRequestError ''P2025''), t)
               | r # _ \<Rightarrow> (Inr r, cascade [row_id r] (upd (filter (\<lambda>x. row_id x \<noteq> row_id r)) t)))),
      dg_deleteMany = (\<lambda>p. mem_stmt (\<lambda>t. (Inr (length (filter p (rows t))),
                 cascade (map row_id (filter p (rows t))) (upd (filter (\<lambda>x. \<not> p x)) t))))\<rparr>"

lemma mem_stmt_cases:
  assumes "mem_stmt f d = (res, d')"
  obtains (lost) m where "res = Inl (PrismaFailure m)" "md_tables d' = md_tables d"
    | (run) "f (md_tables d) = (res, md_tables d')"
  using assms
  by (auto simp: mem_stmt_def split: list.splits bool.splits prod.splits)

lemma find_SomeD: "find p xs = Some x \<Longrightarrow> x \<in> set xs \<and> p x"
  by (auto simp: find_Some_iff)

lemma mem_insert_cases:
  assumes "mem_insert rows upd clash refs c t = (res, t')"
  obtains (refused) e where "res = Inl e" "db_exn e" "t' = t"
      "e = P2002 \<longrightarrow> (\<exists>r\<in>set (rows t). clash (row_data r) c)"
    | (made) r where "res = Inr r" "inserted (rows t) clash refs t c r" "t' = upd (\<lambda>rs. rs @ [r]) t"
proof (cases "list_ex (\<lambda>r. clash (row_data r) c) (rows t)")
  case True
  then show ?thesis using assms refused [of P2002]
    by (simp add: mem_insert_def list_ex_iff)
next
  case free: False
  show ?thesis
  proof (cases "refs t c")
    case False
    then show ?thesis using assms free refused [of "PrismaKnownRequestError ''P2003''"]
      by (simp add: mem_insert_def P2002_def)
  next
    case True
    then show ?thesis using assms free made fresh_id [of "rows t"]
      by (auto simp: mem_insert_def inserted_def list_ex_iff Let_def)
  qed
qed

lemma mem_update_cases:
  assumes "mem_update rows upd p g t = (res, t')"
  obtains (refused) e where "res = Inl e" "db_exn e" "t' = t"
    | (made) r0 stamp where "r0 \<in> set (rows t)" "p r0" "res = Inr (touched p g stamp r0)"
        "t' = upd (map (touched p g stamp)) t"
proof (cases "filter p (rows t)")
  case Nil
  then show ?thesis using assms refused by (auto simp: mem_update_def)
next
  case (Cons r rs)
  then have "r \<in> set (filter p (rows t))" by simp
  then have "r \<in> set (rows t)" and "p r" by simp_all
  then show ?thesis using assms Cons
    by (intro made [of r "int (length (rows t))"]) (auto simp: mem_update_def)
qed

lemma mem_lost: "refused (PrismaFailure m) \<Longrightarrow> statement E refused t (Inl (PrismaFailure m)) t"
  by (rule statement_refused) simp_all

lemma prisma_table_mem:
  "prisma_table md_tables rows upd clash refs cascade (mem_delegate rows upd clash refs cascade)"
proof (unfold_locales, goal_cases)
  case (1 q d res d')
  then show ?case
    by (auto simp: mem_delegate_def elim!: mem_stmt_cases split: if_splits
        intro!: exI [of _ "sort_key (q_key q) (filter (q_where q (md_tables d)) (rows (md_tables d)))"])
next
  case (2 p d res d')
  then show ?case
    by (auto simp: mem_delegate_def find_None_iff elim!: mem_stmt_cases dest: find_SomeD
        split: option.splits)
next
  case (3 p d res d')
  then show ?case by (auto simp: mem_delegate_def elim!: mem_stmt_cases)
next
  case (4 f p d res d')
  then show ?case by (auto simp: mem_delegate_def elim!: mem_stmt_cases)
next
  case (5 c d res d')
  then have "mem_stmt (mem_insert rows upd clash refs c) d = (res, d')"
    by (simp add: mem_delegate_def)
  then show ?case
    by (cases rule: mem_stmt_cases)
      (auto simp: P2002_def intro!: mem_lost statement_refused statement_done
        elim!: mem_insert_cases)
next
  case (6 p g d res d')
  then have "mem_stmt (mem_update rows upd p g) d = (res, d')" by (simp add: mem_delegate_def)
  then show ?case
    by (cases rule: mem_stmt_cases)
      (auto intro!: mem_lost elim!: mem_update_cases intro: statement_refused statement_done)
next
  case (7 p g d res d')
  then have "mem_stmt (\<lambda>t. (Inr (length (filter p (rows t))),
      upd (map (touched p g (int (length (rows t))))) t)) d = (res, d')"
    by (simp add: mem_delegate_def)
  then show ?case
  proof (cases rule: mem_stmt_cases)
    case (lost m)
    then show ?thesis by (auto intro!: mem_lost)
  next
    case run
    then have "res = Inr (length (filter p (rows (md_tables d))))"
      and "md_tables d' = upd (map (touched p g (int (length (rows (md_tables d)))))) (md_tables d)"
      by simp_all
    then show ?thesis by (auto intro!: statement_done)
  qed
next
  case (8 p g c d res d')
  then have "mem_stmt (\<lambda>t. if list_ex p (rows t) then mem_update rows upd p g t
      else mem_insert rows upd clash refs c t) d = (res, d')" by (simp add: mem_delegate_def)
  then show ?case
  proof (cases rule: mem_stmt_cases)
    case (lost m)
    then show ?thesis by (auto intro!: mem_lost)
  next
    case run
    show ?thesis
    proof (cases "list_ex p (rows (md_tables d))")
      case True
      with run show ?thesis
        by (auto simp: list_ex_iff elim!: mem_update_cases intro: statement_refused
            intro!: statement_done)
    next
      case False
      with run show ?thesis
        by (auto simp: list_ex_iff elim!: mem_insert_cases intro: statement_refused
            intro!: statement_done)
    qed
  qed
next
  case (9 p d res d')
  have mem: "r \<in> set (rows t) \<and> p r" if "filter p (rows t) = r # rs" for t r rs
    using that by (auto dest: filter_eq_ConsD)
  from 9 show ?case
    by (auto simp: mem_delegate_def intro!: mem_lost statement_refused statement_done
        elim!: mem_stmt_cases split: list.splits dest: mem)
next
  case (10 p d res d')
  then show ?case
    by (auto simp: mem_delegate_def intro!: mem_lost statement_done elim!: mem_stmt_cases)
qed

definition mem_prisma :: "mem_db prisma" where
  "mem_prisma =
     \<lparr>p_user = mem_delegate users users_update clash_User refs_User cascade_none,
      p_group = mem_delegate groups groups_update clash_never refs_Group cascade_groups,
      p_groupMember = mem_delegate members members_update clash_GroupMember refs_GroupMember cascade_none,
      p_expense = mem_delegate expenses expenses_update clash_never refs_Expense cascade_expenses,
      p_expenseSplit = mem_delegate splits splits_update clash_ExpenseSplit refs_ExpenseSplit cascade_none,
      p_settlement = mem_delegate settlements settlements_update clash_never refs_Settlement cascade_none,
      p_activityEvent = mem_delegate activities activities_update clash_never refs_ActivityEvent cascade_none,
      p_groupSummary = mem_delegate summaries summaries_update clash_GroupSummary refs_GroupSummary cascade_none,
      p_refreshToken = mem_delegate refreshTokens refreshTokens_update clash_RefreshToken refs_RefreshToken cascade_none,
      p_authToken = mem_delegate authTokens authTokens_update clash_AuthToken refs_AuthToken cascade_none,
      p_idempotencyRecord = mem_delegate idempotencyRecords idempotencyRecords_update
         clash_IdempotencyRecord refs_IdempotencyRecord cascade_none,
      p_commit = (\<lambda>d0. mem_stmt (\<lambda>t. (Inr (), t))),
      p_rollback = (\<lambda>d0 d. d\<lparr>md_tables := md_tables d0\<rparr>)\<rparr>"

lemma mem_commit:
  assumes "mem_stmt (\<lambda>t. (Inr (), t)) d = (res, d')"
  shows "case res of Inr _ \<Rightarrow> md_tables d' = md_tables d
         | Inl e \<Rightarrow> db_exn e \<and> (md_tables d' = md_tables d0 \<or>
             md_tables d' = md_tables d \<and> (\<exists>m. e = PrismaFailure m))"
  using assms by (auto elim!: mem_stmt_cases)

lemma prisma_mem: "prisma md_tables mem_prisma"
proof (rule prisma.intro)
  show "prisma_axioms md_tables mem_prisma"
    by (rule prisma_axioms.intro) (auto simp: mem_prisma_def dest: mem_commit)
qed (simp_all add: mem_prisma_def prisma_table_mem)

interpretation memory: prisma md_tables mem_prisma
  by (rule prisma_mem)

end
