(* ===== verification/Redis.thy ===== *)
theory Redis
  imports Prisma "HOL-Library.AList"
begin

text \<open>
  The Redis client of \<open>redis/redisClient.ts\<close> (the narrow \<open>RedisLike\<close> contract) over a server
  whose code is not in the repository: the commands the application and its Lua scripts use
  are the fields of a record over an abstract server state, and the locale states what the
  Redis documentation says of them, through a view of the live keys. A call may fail before
  or after the server ran it (the client keeps no offline queue). The scripts are compositions
  of commands that run as one step. An in-memory server at the end keeps all the laws.
\<close>

section \<open>Commands\<close>

type_synonym ('r, 'a) command = "'r \<Rightarrow> 'a \<times> 'r"

datatype delivery = Delivered | NotSent | ReplyLost

datatype set_guard = Plain | NX | XX

record 'r redis =
  rd_deliver :: "'r \<Rightarrow> delivery \<times> 'r"
  rd_get :: "string \<Rightarrow> ('r, string option) command"
  rd_set :: "string \<Rightarrow> string \<Rightarrow> int \<Rightarrow> set_guard \<Rightarrow> ('r, bool) command"
  rd_del1 :: "string \<Rightarrow> ('r, nat) command"
  rd_incrby :: "int \<Rightarrow> string \<Rightarrow> ('r, int) command"
  rd_pexpire :: "string \<Rightarrow> int \<Rightarrow> ('r, unit) command"
  rd_pttl :: "string \<Rightarrow> ('r, int) command"
  rd_zadd :: "string \<Rightarrow> int \<Rightarrow> string \<Rightarrow> ('r, nat) command"
  rd_zrem :: "string \<Rightarrow> string \<Rightarrow> ('r, nat) command"
  rd_zfirst :: "string \<Rightarrow> int \<Rightarrow> ('r, string option) command"

text \<open>One call of the client: the command runs on the server, or not, or without a reply.\<close>

definition redis_call :: "'r redis \<Rightarrow> ('r, 'a) command \<Rightarrow> (('d, 'r, 'm) world, 'a) act" where
  "redis_call R cmd = redis_do (\<lambda>r.
     case rd_deliver R r of
       (Delivered, r1) \<Rightarrow> (case cmd r1 of (a, r2) \<Rightarrow> (Inr a, r2))
     | (NotSent, r1) \<Rightarrow> (Inl (RedisFailure ''Connection is closed.''), r1)
     | (ReplyLost, r1) \<Rightarrow> (Inl (RedisFailure ''Connection is closed.''), snd (cmd r1)))"

text \<open>\<open>DEL key [key ...]\<close>\<close>

fun rd_del :: "'r redis \<Rightarrow> string list \<Rightarrow> ('r, nat) command" where
  "rd_del R [] r = (0, r)"
| "rd_del R (k # ks) r =
     (case rd_del1 R k r of (n, r1) \<Rightarrow> case rd_del R ks r1 of (m, r2) \<Rightarrow> (n + m, r2))"

section \<open>The laws\<close>

record redis_view =
  rv_now :: int
  rv_keys :: "string \<Rightarrow> (string \<times> int option) option"
  rv_zsets :: "string \<Rightarrow> string \<Rightarrow> int option"

text \<open>The entries still alive at a time.\<close>

definition alive :: "int \<Rightarrow> (string \<times> int option) option \<Rightarrow> (string \<times> int option) option" where
  "alive t x = (case x of Some (v, Some d) \<Rightarrow> if d \<le> t then None else x | _ \<Rightarrow> x)"

lemma alive_simps [simp]: "alive t None = None" "alive t (Some (v, None)) = Some (v, None)"
  "alive t (Some (v, Some d)) = (if d \<le> t then None else Some (v, Some d))"
  by (simp_all add: alive_def)

lemma alive_None: "x = None \<Longrightarrow> alive t x = None" by simp

lemma alive_Some: "alive t x = Some y \<Longrightarrow> x = Some y"
  by (auto simp: alive_def split: option.splits prod.splits if_splits)

definition may_set :: "set_guard \<Rightarrow> 'a option \<Rightarrow> bool" where
  "may_set g x = (case g of Plain \<Rightarrow> True | NX \<Rightarrow> x = None | XX \<Rightarrow> x \<noteq> None)"

text \<open>What the passing of time alone does to the keys.\<close>

definition aged :: "redis_view \<Rightarrow> redis_view \<Rightarrow> bool" where
  "aged v v' \<longleftrightarrow> rv_now v \<le> rv_now v' \<and> rv_zsets v' = rv_zsets v \<and>
     rv_keys v' = (\<lambda>k. alive (rv_now v') (rv_keys v k))"

lemma aged_keys: "aged v v' \<Longrightarrow> rv_keys v' k = alive (rv_now v') (rv_keys v k)"
  by (simp add: aged_def)

locale redis_server =
  fixes V :: "'r \<Rightarrow> redis_view" and R :: "'r redis"
  assumes deliver_law:
    "rd_deliver R r = (x, r') \<Longrightarrow> aged (V r) (V r')"
  and alive_law: "rv_keys (V r) k = Some (v, Some d) \<Longrightarrow> rv_now (V r) < d"
  and get_law: "rd_get R k r = (y, r') \<Longrightarrow> y = map_option fst (rv_keys (V r) k) \<and> V r' = V r"
  and set_law: "rd_set R k v ttl g r = (b, r') \<Longrightarrow> 0 < ttl \<Longrightarrow>
       b = may_set g (rv_keys (V r) k) \<and>
       V r' = (if b then (V r)\<lparr>rv_keys := (rv_keys (V r))(k \<mapsto> (v, Some (rv_now (V r) + ttl)))\<rparr>
               else V r)"
  and del_law: "rd_del1 R k r = (n, r') \<Longrightarrow>
       n = (if rv_keys (V r) k = None then 0 else 1) \<and>
       V r' = (V r)\<lparr>rv_keys := (rv_keys (V r))(k := None)\<rparr>"
  and incr_law: "rd_incrby R z k r = (i, r') \<Longrightarrow>
       (rv_keys (V r) k = None \<and> j = 0 \<and> dl = None) \<or> rv_keys (V r) k = Some (string_of_int j, dl) \<Longrightarrow>
       i = j + z \<and> V r' = (V r)\<lparr>rv_keys := (rv_keys (V r))(k \<mapsto> (string_of_int (j + z), dl))\<rparr>"
  and pexpire_law: "rd_pexpire R k ms r = (u, r') \<Longrightarrow> 0 < ms \<Longrightarrow> rv_keys (V r) k = Some (v, dl) \<Longrightarrow>
       V r' = (V r)\<lparr>rv_keys := (rv_keys (V r))(k \<mapsto> (v, Some (rv_now (V r) + ms)))\<rparr>"
  and pttl_law: "rd_pttl R k r = (i, r') \<Longrightarrow> V r' = V r \<and>
       i = (case rv_keys (V r) k of None \<Rightarrow> - 2 | Some (_, None) \<Rightarrow> - 1
            | Some (_, Some d) \<Rightarrow> d - rv_now (V r))"
  and zadd_law: "rd_zadd R k s m r = (n, r') \<Longrightarrow>
       n = (if rv_zsets (V r) k m = None then 1 else 0) \<and>
       V r' = (V r)\<lparr>rv_zsets := (rv_zsets (V r))(k := (rv_zsets (V r) k)(m \<mapsto> s))\<rparr>"
  and zrem_law: "rd_zrem R k m r = (n, r') \<Longrightarrow>
       n = (if rv_zsets (V r) k m = None then 0 else 1) \<and>
       V r' = (V r)\<lparr>rv_zsets := (rv_zsets (V r))(k := (rv_zsets (V r) k)(m := None))\<rparr>"
  and zfirst_law: "rd_zfirst R k hi r = (x2, r') \<Longrightarrow> V r' = V r \<and>
       (case x2 of
          None \<Rightarrow> (\<forall>m s. rv_zsets (V r) k m = Some s \<longrightarrow> hi < s)
        | Some m \<Rightarrow> (\<exists>s. rv_zsets (V r) k m = Some s \<and> s \<le> hi \<and>
             (\<forall>m' s'. rv_zsets (V r) k m' = Some s' \<longrightarrow> s \<le> s')))"
begin

text \<open>A call that returned ran the command on the state that time had left.\<close>

lemma redis_call_Inr:
  assumes "redis_call R cmd w = (Inr a, w')"
  obtains r1 r2 where "rd_deliver R (w_redis w) = (Delivered, r1)" and "cmd r1 = (a, r2)"
    and "w' = w\<lparr>w_redis := r2\<rparr>"
  using assms
  by (auto simp: redis_call_def act_simps split: prod.splits delivery.splits)

lemma redis_call_Inl:
  assumes "redis_call R cmd w = (Inl e, w')"
  obtains x r1 r2 where "rd_deliver R (w_redis w) = (x, r1)" and "r2 = r1 \<or> r2 = snd (cmd r1)"
    and "w' = w\<lparr>w_redis := r2\<rparr>" and "e = RedisFailure ''Connection is closed.''"
  using assms
  by (auto simp: redis_call_def act_simps split: prod.splits delivery.splits)

lemma redis_call_cases:
  assumes "redis_call R cmd w = (res, w')"
  obtains x r1 r2 where "rd_deliver R (w_redis w) = (x, r1)" and "r2 = r1 \<or> r2 = snd (cmd r1)"
    and "w' = w\<lparr>w_redis := r2\<rparr>"
proof (cases res)
  case (Inl e)
  show ?thesis by (rule redis_call_Inl [OF assms [unfolded Inl]]) (rule that)
next
  case (Inr a)
  show ?thesis
  proof (rule redis_call_Inr [OF assms [unfolded Inr]])
    fix r1 r2
    assume "rd_deliver R (w_redis w) = (Delivered, r1)" "cmd r1 = (a, r2)" "w' = w\<lparr>w_redis := r2\<rparr>"
    then show ?thesis using that [of Delivered r1 r2] by simp
  qed
qed

lemma del_many:
  "rd_del R ks r = (n, r') \<Longrightarrow>
   V r' = (V r)\<lparr>rv_keys := (\<lambda>k. if k \<in> set ks then None else rv_keys (V r) k)\<rparr>"
proof (induction ks arbitrary: r n r')
  case Nil
  then show ?case by simp
next
  case (Cons k ks)
  obtain a r1 where d: "rd_del1 R k r = (a, r1)" by fastforce
  obtain b r2 where r: "rd_del R ks r1 = (b, r2)" by fastforce
  from Cons.prems d r have "r' = r2" by simp
  with Cons.IH [OF r] del_law [OF d] show ?case by (auto simp: fun_eq_iff)
qed

end

section \<open>An in-memory server\<close>

text \<open>
  The state the repository's own test double \<open>tests/helpers/fakeRedis.ts\<close> keeps (a map of
  entries with their expiry, a map of score lists), a clock, and a plan of deliveries: the
  milliseconds that pass and what becomes of the call.
\<close>

record fake_redis =
  fk_now :: int
  fk_store :: "string \<rightharpoonup> string \<times> int option"
  fk_zsets :: "string \<Rightarrow> (string \<times> int) list"
  fk_plan :: "(nat \<times> delivery) list"

definition fake_view :: "fake_redis \<Rightarrow> redis_view" where
  "fake_view r = \<lparr>rv_now = fk_now r, rv_keys = (\<lambda>k. alive (fk_now r) (fk_store r k)),
     rv_zsets = (\<lambda>k. map_of (fk_zsets r k))\<rparr>"

definition evictExpired :: "string \<Rightarrow> fake_redis \<Rightarrow> fake_redis" where
  "evictExpired k r = r\<lparr>fk_store := (fk_store r)(k := alive (fk_now r) (fk_store r k))\<rparr>"

definition fake_deliver :: "fake_redis \<Rightarrow> delivery \<times> fake_redis" where
  "fake_deliver r = (case fk_plan r of [] \<Rightarrow> (Delivered, r)
     | (ms, x) # xs \<Rightarrow> (x, r\<lparr>fk_now := fk_now r + int ms, fk_plan := xs\<rparr>))"

definition fake_set :: "string \<Rightarrow> string \<Rightarrow> int \<Rightarrow> set_guard \<Rightarrow> (fake_redis, bool) command" where
  "fake_set k v ttl g r0 =
     (let r = evictExpired k r0 in
      if \<not> may_set g (fk_store r k) then (False, r)
      else (True, r\<lparr>fk_store := (fk_store r)(k \<mapsto> (v, if 0 < ttl then Some (fk_now r + ttl) else None))\<rparr>))"

definition fake_del :: "string \<Rightarrow> (fake_redis, nat) command" where
  "fake_del k r0 =
     (let r = evictExpired k r0 in
      (if fk_store r k = None then 0 else 1, r\<lparr>fk_store := (fk_store r)(k := None)\<rparr>))"

definition fake_incrby :: "int \<Rightarrow> string \<Rightarrow> (fake_redis, int) command" where
  "fake_incrby z k r0 =
     (let r = evictExpired k r0;
          (n, d) = (case fk_store r k of None \<Rightarrow> (z, None) | Some (v, d) \<Rightarrow> (int_of_string v + z, d))
      in (n, r\<lparr>fk_store := (fk_store r)(k \<mapsto> (string_of_int n, d))\<rparr>))"

definition fake_redis :: "fake_redis redis" where
  "fake_redis = \<lparr>rd_deliver = fake_deliver,
     rd_get = (\<lambda>k r0. let r = evictExpired k r0 in (map_option fst (fk_store r k), r)),
     rd_set = fake_set,
     rd_del1 = fake_del,
     rd_incrby = fake_incrby,
     rd_pexpire = (\<lambda>k ms r0. let r = evictExpired k r0 in
       ((), case fk_store r k of None \<Rightarrow> r
            | Some (v, d) \<Rightarrow> r\<lparr>fk_store := (fk_store r)(k \<mapsto> (v, Some (fk_now r + ms)))\<rparr>)),
     rd_pttl = (\<lambda>k r0. let r = evictExpired k r0 in
       (case fk_store r k of None \<Rightarrow> - 2 | Some (_, None) \<Rightarrow> - 1 | Some (_, Some d) \<Rightarrow> d - fk_now r, r)),
     rd_zadd = (\<lambda>k s m r. (if map_of (fk_zsets r k) m = None then 1 else 0,
       r\<lparr>fk_zsets := (fk_zsets r)(k := AList.update m s (fk_zsets r k))\<rparr>)),
     rd_zrem = (\<lambda>k m r. (if map_of (fk_zsets r k) m = None then 0 else 1,
       r\<lparr>fk_zsets := (fk_zsets r)(k := AList.delete m (fk_zsets r k))\<rparr>)),
     rd_zfirst = (\<lambda>k hi r. (case sort_key snd (filter (\<lambda>x. snd x \<le> hi) (AList.clearjunk (fk_zsets r k))) of
         [] \<Rightarrow> None | (m, s) # _ \<Rightarrow> Some m, r))\<rparr>"

lemma alive_alive: "s \<le> t \<Longrightarrow> alive t (alive s x) = alive t x"
  by (auto simp: alive_def split: option.splits prod.splits)

lemma fake_view_evict [simp]: "fake_view (evictExpired k r) = fake_view r"
  by (auto simp: fake_view_def evictExpired_def alive_alive fun_eq_iff)

lemma evict_store [simp]: "fk_store (evictExpired k r) k = alive (fk_now r) (fk_store r k)"
  "fk_now (evictExpired k r) = fk_now r" "fk_zsets (evictExpired k r) = fk_zsets r"
  by (simp_all add: evictExpired_def)

lemma rv_evict: "alive (fk_now r) (fk_store r k) = rv_keys (fake_view r) k"
  by (simp add: fake_view_def)

lemma first_due:
  assumes "sort_key snd (filter (\<lambda>x. snd x \<le> hi) (AList.clearjunk xs)) = ys"
  shows "case ys of [] \<Rightarrow> (\<forall>m s. map_of xs m = Some s \<longrightarrow> hi < (s::int))
    | (m, s) # _ \<Rightarrow> map_of xs m = Some s \<and> s \<le> hi \<and>
        (\<forall>m' s'. map_of xs m' = Some s' \<longrightarrow> s \<le> s')"
proof -
  let ?c = "AList.clearjunk xs"
  have set: "set ys = {x \<in> set ?c. snd x \<le> hi}" using assms by auto
  have sorted: "sorted (map snd ys)" using assms by auto
  have in_c: "(m, s) \<in> set ?c \<longleftrightarrow> map_of xs m = Some s" for m s
    by (metis distinct_clearjunk map_of_clearjunk map_of_eq_Some_iff)
  show ?thesis
  proof (cases ys)
    case Nil
    then show ?thesis using set in_c by force
  next
    case (Cons y zs)
    obtain m s where y: "y = (m, s)" by fastforce
    have "s \<le> s'" if "map_of xs m' = Some s'" for m' s'
    proof (cases "s' \<le> hi")
      case True
      then have "(m', s') \<in> set ys" using that set in_c by auto
      then show ?thesis using sorted Cons y by auto
    next
      case False
      have "(m, s) \<in> set ys" using Cons y by simp
      then show ?thesis using set False by auto
    qed
    moreover have "(m, s) \<in> set ys" using Cons y by simp
    then have "map_of xs m = Some s" "s \<le> hi" using set in_c by simp_all
    ultimately show ?thesis using Cons y by simp
  qed
qed

lemma fake_laws: "redis_server fake_view fake_redis"
proof (unfold_locales, goal_cases)
  case (1 r x r')
  then show ?case
    by (auto simp: fake_redis_def fake_deliver_def fake_view_def aged_def alive_alive fun_eq_iff
        split: list.splits prod.splits)
next
  case (2 r k v d)
  then show ?case
    by (auto simp: fake_view_def alive_def split: option.splits prod.splits if_splits)
next
  case (3 k r y r')
  then show ?case by (auto simp: fake_redis_def Let_def rv_evict)
next
  case (4 k v ttl g r b r')
  then show ?case
    by (auto simp: fake_redis_def fake_set_def Let_def rv_evict [symmetric] split: if_splits)
      (auto simp: fake_view_def evictExpired_def alive_alive fun_eq_iff)
next
  case (5 k r n r')
  then show ?case
    by (auto simp: fake_redis_def fake_del_def Let_def rv_evict [symmetric])
      (auto simp: fake_view_def evictExpired_def alive_alive fun_eq_iff)
next
  case (6 z k r i r' j dl)
  then show ?case
    by (auto simp: fake_redis_def fake_incrby_def Let_def rv_evict [symmetric]
        split: option.splits prod.splits)
      (auto simp: fake_view_def evictExpired_def alive_alive fun_eq_iff alive_def
        split: option.splits if_splits)
next
  case (7 k ms r u r' v d)
  then show ?case
    by (auto simp: fake_redis_def Let_def rv_evict [symmetric] split: option.splits prod.splits)
      (auto simp: fake_view_def evictExpired_def alive_alive fun_eq_iff)
next
  case (8 k r i r')
  then show ?case
    by (auto simp: fake_redis_def Let_def rv_evict split: option.splits prod.splits)
      (auto simp: fake_view_def)
next
  case (9 k s m r n r')
  then show ?case
    by (auto simp: fake_redis_def fake_view_def fun_eq_iff update_conv)
next
  case (10 k m r n r')
  then show ?case
    by (auto simp: fake_redis_def fake_view_def fun_eq_iff delete_conv)
next
  case (11 k hi r x r')
  then show ?case using first_due [OF refl, where hi = hi and xs = "fk_zsets r k"]
    by (auto simp: fake_redis_def fake_view_def split: list.splits prod.splits)
qed

interpretation fake: redis_server fake_view fake_redis
  by (rule fake_laws)

end
