(* ===== verification/Lock.thy ===== *)
theory Lock
  imports Redis
begin

text \<open>
  The distributed lock of \<open>redis/distributedLock.ts\<close>: acquire with \<open>SET NX PX\<close>, release with
  the ownership-checking script, and the failure policy of \<open>withLock\<close>; then the protocol that
  several processes run with it, as a step relation on the shared server, and its mutual
  exclusion while leases last.
\<close>

section \<open>The lock\<close>

definition RELEASE_SCRIPT :: "'r redis \<Rightarrow> string \<Rightarrow> string \<Rightarrow> ('r, nat) command" where
  "RELEASE_SCRIPT R key token =
     (\<lambda>r. case rd_get R key r of
        (v, r1) \<Rightarrow> if v = Some token then rd_del1 R key r1 else (0, r1))"

definition acquire ::
  "'r redis \<Rightarrow> env \<Rightarrow> int \<Rightarrow> string \<Rightarrow> (('d, 'r, 'm) world, string option) act" where
  "acquire R E ttlMs key =
     seq (randomUUID E) (\<lambda>token.
     seq (redis_call R (rd_set R key token ttlMs NX)) (\<lambda>result.
     ret (if result then Some token else None)))"

definition release ::
  "'r redis \<Rightarrow> string \<Rightarrow> string \<Rightarrow> (('d, 'r, 'm) world, bool) act" where
  "release R key token =
     seq (redis_call R (RELEASE_SCRIPT R key token)) (\<lambda>released.
     ret (released = 1))"

text \<open>\<open>try\<close> as a value, and \<open>finally\<close>.\<close>

definition attempt :: "('w, 'a) act \<Rightarrow> ('w, exn + 'a) act" where
  "attempt m = (\<lambda>w. case m w of (r, w') \<Rightarrow> (Inr r, w'))"

definition finally_do :: "('w, 'a) act \<Rightarrow> ('w, unit) act \<Rightarrow> ('w, 'a) act" where
  "finally_do m f = seq (attempt m) (\<lambda>r. seq f (\<lambda>_. of_result r))"

text \<open>The \<open>finally\<close> block of \<open>withLock\<close>: a failing release is only logged.\<close>

definition release_quietly :: "'r redis \<Rightarrow> string \<Rightarrow> string \<Rightarrow> (('d, 'r, 'm) world, unit) act" where
  "release_quietly R key token = catch (seq (release R key token) (\<lambda>_. ret ())) (\<lambda>_. ret ())"

definition withLock ::
  "'r redis \<Rightarrow> env \<Rightarrow> int \<Rightarrow> string \<Rightarrow> (('d, 'r, 'm) world, 'a) act \<Rightarrow>
   (('d, 'r, 'm) world, 'a) act" where
  "withLock R E ttlMs key operation =
     seq (attempt (acquire R E ttlMs key)) (\<lambda>got.
     case got of
       Inl _ \<Rightarrow> operation
     | Inr None \<Rightarrow> throw (DistributedLockConflictError key)
     | Inr (Some token) \<Rightarrow>
         finally_do operation (release_quietly R key token))"

lemma attempt_eq [act_simps]: "attempt m w = (r, w') \<longleftrightarrow> (\<exists>x. m w = (x, w') \<and> r = Inr x)"
  by (auto simp: attempt_def split: prod.splits)

lemma keeps_attempt [keep_intros]: "keeps I m \<Longrightarrow> keeps I (attempt m)"
  by (auto simp: keeps_def attempt_def split: prod.split)

lemma keeps_finally [keep_intros]: "keeps I m \<Longrightarrow> keeps I f \<Longrightarrow> keeps I (finally_do m f)"
  unfolding finally_do_def by (intro keep_intros)

lemma redis_call_db: "redis_call R cmd w = (r, w') \<Longrightarrow> w_db w' = w_db w \<and> w_tick w' = w_tick w \<and>
    w_metrics w' = w_metrics w \<and> w_mail w' = w_mail w"
  by (auto simp: redis_call_def act_simps)

lemma acquire_db: "acquire R E ttl key w = (r, w') \<Longrightarrow> w_db w' = w_db w"
  by (cases r) (auto simp: acquire_def act_simps dest!: redis_call_db)

lemma release_quietly_Inr:
  "release_quietly R key token w = (r, w') \<Longrightarrow> r = Inr () \<and> w_db w' = w_db w"
  by (cases r) (auto simp: release_quietly_def release_def act_simps dest!: redis_call_db)

lemma withLock_eq:
  "withLock R E ttl key operation w =
     (case acquire R E ttl key w of
        (Inl _, w1) \<Rightarrow> operation w1
      | (Inr None, w1) \<Rightarrow> (Inl (DistributedLockConflictError key), w1)
      | (Inr (Some token), w1) \<Rightarrow>
          (case operation w1 of (r, w2) \<Rightarrow> (r, snd (release_quietly R key token w2))))"
proof -
  have fin: "finally_do operation (release_quietly R key token) w1 =
      (case operation w1 of (r, w2) \<Rightarrow> (r, snd (release_quietly R key token w2)))" for token w1
    using release_quietly_Inr [of R key token]
    by (auto simp: finally_do_def seq_def attempt_def of_result_def split: prod.splits sum.splits)
  show ?thesis
    by (auto simp: withLock_def seq_def attempt_def throw_def fin
        split: prod.splits sum.splits option.splits)
qed

text \<open>The operation runs once, on the same database, or the lock is held and nothing happens.\<close>

lemma withLock_outcome:
  assumes "withLock R E ttl key operation w = (res, w')"
  shows "(res = Inl (DistributedLockConflictError key) \<and> w_db w' = w_db w \<and>
            (\<exists>w1. acquire R E ttl key w = (Inr None, w1))) \<or>
         (\<exists>w1 w2. operation w1 = (res, w2) \<and> w_db w1 = w_db w \<and> w_db w' = w_db w2)"
proof -
  obtain got w1 where a: "acquire R E ttl key w = (got, w1)" by fastforce
  have db: "w_db w1 = w_db w" using acquire_db [OF a] .
  obtain r w2 where o: "operation w1 = (r, w2)" by fastforce
  show ?thesis
  proof (cases got)
    case (Inl e)
    then show ?thesis using assms a db by (auto simp: withLock_eq)
  next
    case (Inr x)
    then show ?thesis
      using assms a db o release_quietly_Inr [of R key _ w2]
      by (cases x) (auto simp: withLock_eq, metis prod.collapse)
  qed
qed

lemma withLock_Inr:
  assumes "withLock R E ttl key operation w = (Inr a, w')"
  obtains w1 w2 where "operation w1 = (Inr a, w2)" and "w_db w1 = w_db w" and "w_db w' = w_db w2"
  using withLock_outcome [OF assms] that by auto

lemma silent_withLock_parts [silent_intros]:
  "silent T (acquire R E ttl key)" "silent T (release R key token)"
  "silent T (redis_call R cmd)"
  unfolding acquire_def release_def redis_call_def by (intro silent_intros)+

lemma keeps_withLock [keep_intros]:
  assumes "keeps (on_db (\<lambda>d. I (T d))) operation"
  shows "keeps (on_db (\<lambda>d. I (T d))) (withLock R E ttl key operation)"
proof (rule keepsI)
  fix w r w'
  assume I: "on_db (\<lambda>d. I (T d)) w" and run: "withLock R E ttl key operation w = (r, w')"
  from withLock_outcome [OF run] show "on_db (\<lambda>d. I (T d)) w'"
  proof (elim disjE exE conjE)
    fix w1 w2
    assume "operation w1 = (r, w2)" "w_db w1 = w_db w" "w_db w' = w_db w2"
    then show ?thesis using assms I by (auto simp: on_db_def keeps_def dest: spec [of _ w1])
  qed (use I in \<open>simp add: on_db_def\<close>)
qed

lemma clean_withLock [clean_intros]: "clean T operation \<Longrightarrow> clean T (withLock R E ttl key operation)"
  unfolding clean_def by (metis withLock_outcome)

section \<open>What the server holds after a call\<close>

context redis_server
begin

lemma aged_refl: "aged (V r) (V r)"
  using alive_law [of r] by (force simp: aged_def alive_def fun_eq_iff split: option.splits)

lemma RELEASE_SCRIPT_run:
  assumes "RELEASE_SCRIPT R key token r = (n, r')"
  shows "(if map_option fst (rv_keys (V r) key) = Some token
          then n = 1 \<and> V r' = (V r)\<lparr>rv_keys := (rv_keys (V r))(key := None)\<rparr>
          else n = 0 \<and> V r' = V r)"
proof -
  obtain v r1 where g: "rd_get R key r = (v, r1)" by fastforce
  show ?thesis
  proof (cases "v = Some token")
    case True
    then have "rd_del1 R key r1 = (n, r')" using assms g by (simp add: RELEASE_SCRIPT_def)
    from del_law [OF this] get_law [OF g] True show ?thesis
      by (cases "rv_keys (V r) key") simp_all
  next
    case False
    then show ?thesis using assms g get_law [OF g] by (auto simp: RELEASE_SCRIPT_def)
  qed
qed

text \<open>A release leaves the key to its owner, whatever becomes of the call.\<close>

lemma release_view:
  assumes "release R key token w = (res, w')"
  obtains r1 where "aged (V (w_redis w)) (V r1)"
    and "V (w_redis w') = V r1 \<or>
         map_option fst (rv_keys (V r1) key) = Some token \<and>
           V (w_redis w') = (V r1)\<lparr>rv_keys := (rv_keys (V r1))(key := None)\<rparr>"
    and "w_tick w' = w_tick w"
proof -
  obtain res1 where call: "redis_call R (RELEASE_SCRIPT R key token) w = (res1, w')"
    using assms by (cases res) (auto simp: release_def act_simps)
  obtain x r1 r2 where d: "rd_deliver R (w_redis w) = (x, r1)"
    and r2: "r2 = r1 \<or> r2 = snd (RELEASE_SCRIPT R key token r1)" and w': "w' = w\<lparr>w_redis := r2\<rparr>"
    by (rule redis_call_cases [OF call])
  obtain n r3 where s: "RELEASE_SCRIPT R key token r1 = (n, r3)" by fastforce
  show ?thesis
    using that [of r1] deliver_law [OF d] r2 w' s RELEASE_SCRIPT_run [OF s]
    by (auto split: if_splits)
qed

text \<open>Acquiring succeeds only on a free key, and then the key is the caller's for the TTL.\<close>

lemma acquire_Some:
  assumes "acquire R E ttl key w = (Inr (Some token), w')" "0 < ttl"
  shows "token = uuid E (w_tick w) \<and> w_tick w' = Suc (w_tick w) \<and> w_db w' = w_db w \<and>
    rv_now (V (w_redis w)) \<le> rv_now (V (w_redis w')) \<and>
    alive (rv_now (V (w_redis w'))) (rv_keys (V (w_redis w)) key) = None \<and>
    rv_keys (V (w_redis w')) key = Some (token, Some (rv_now (V (w_redis w')) + ttl))"
proof -
  from assms(1) obtain w1 where tok: "token = uuid E (w_tick w)"
    and call: "redis_call R (rd_set R key token ttl NX) (w\<lparr>w_tick := Suc (w_tick w)\<rparr>) = (Inr True, w1)"
    and w': "w' = w1"
    by (auto simp: acquire_def act_simps split: if_splits)
  obtain r1 r2 where d: "rd_deliver R (w_redis w) = (Delivered, r1)"
    and s: "rd_set R key token ttl NX r1 = (True, r2)"
    and w1: "w1 = w\<lparr>w_tick := Suc (w_tick w), w_redis := r2\<rparr>"
    by (rule redis_call_Inr [OF call]) simp
  show ?thesis
    using set_law [OF s assms(2)] deliver_law [OF d] tok w' w1
    by (auto simp: aged_def may_set_def)
qed

text \<open>Otherwise the key is as time left it, or ours without our knowing (a lost reply).\<close>

lemma acquire_other:
  assumes "acquire R E ttl key w = (res, w')" "\<And>t. res \<noteq> Inr (Some t)" "0 < ttl"
  shows "w_tick w' = Suc (w_tick w) \<and> rv_now (V (w_redis w)) \<le> rv_now (V (w_redis w')) \<and>
    (rv_keys (V (w_redis w')) key = alive (rv_now (V (w_redis w'))) (rv_keys (V (w_redis w)) key) \<or>
     alive (rv_now (V (w_redis w'))) (rv_keys (V (w_redis w)) key) = None)"
proof -
  let ?w = "w\<lparr>w_tick := Suc (w_tick w)\<rparr>" and ?t = "uuid E (w_tick w)"
  obtain res1 where call: "redis_call R (rd_set R key ?t ttl NX) ?w = (res1, w')"
    using assms(1) by (cases res) (auto simp: acquire_def act_simps)
  obtain x r1 r2 where d: "rd_deliver R (w_redis ?w) = (x, r1)"
    and r2: "r2 = r1 \<or> r2 = snd (rd_set R key ?t ttl NX r1)" and w': "w' = ?w\<lparr>w_redis := r2\<rparr>"
    by (rule redis_call_cases [OF call])
  obtain b r3 where s: "rd_set R key ?t ttl NX r1 = (b, r3)" by fastforce
  show ?thesis
    using set_law [OF s assms(3)] deliver_law [OF d] r2 w' s
    by (auto simp: aged_def may_set_def split: if_splits)
qed

end

section \<open>Several processes\<close>

text \<open>
  Each process is idle or believes it holds the lock, with the token it got and the server
  time at which its lease ends. A process may crash, and the processes may do anything else
  with the world that leaves this key alone.
\<close>

datatype holder = Idle | Holding string int

inductive lock_step ::
  "('r \<Rightarrow> redis_view) \<Rightarrow> 'r redis \<Rightarrow> env \<Rightarrow> int \<Rightarrow> string \<Rightarrow>
   ('d, 'r, 'm) world \<times> (nat \<Rightarrow> holder) \<Rightarrow> ('d, 'r, 'm) world \<times> (nat \<Rightarrow> holder) \<Rightarrow> bool"
  for V :: "'r \<Rightarrow> redis_view" and R :: "'r redis" and E :: env and ttl :: int and key :: string
where
  Acquired: "pcs p = Idle \<Longrightarrow> acquire R E ttl key w = (Inr (Some token), w') \<Longrightarrow>
     lock_step V R E ttl key (w, pcs)
       (w', pcs(p := Holding token (rv_now (V (w_redis w')) + ttl)))"
| NotAcquired: "pcs p = Idle \<Longrightarrow> acquire R E ttl key w = (res, w') \<Longrightarrow>
     (\<forall>token. res \<noteq> Inr (Some token)) \<Longrightarrow> lock_step V R E ttl key (w, pcs) (w', pcs)"
| Released: "pcs p = Holding token d \<Longrightarrow> release R key token w = (res, w') \<Longrightarrow>
     lock_step V R E ttl key (w, pcs) (w', pcs(p := Idle))"
| Crashed: "lock_step V R E ttl key (w, pcs) (w, pcs(p := Idle))"
| Elsewhere: "w_tick w \<le> w_tick w' \<Longrightarrow> rv_now (V (w_redis w)) \<le> rv_now (V (w_redis w')) \<Longrightarrow>
     rv_keys (V (w_redis w')) key = alive (rv_now (V (w_redis w'))) (rv_keys (V (w_redis w)) key) \<Longrightarrow>
     lock_step V R E ttl key (w, pcs) (w', pcs)"

inductive_cases lock_stepE: "lock_step V R E ttl key (w, pcs) s'"

definition lock_inv ::
  "('r \<Rightarrow> redis_view) \<Rightarrow> env \<Rightarrow> string \<Rightarrow> ('d, 'r, 'm) world \<times> (nat \<Rightarrow> holder) \<Rightarrow> bool" where
  "lock_inv V E key s \<longleftrightarrow> (case s of (w, pcs) \<Rightarrow>
     (\<forall>p token d. pcs p = Holding token d \<longrightarrow>
        (\<exists>i<w_tick w. token = uuid E i) \<and>
        (rv_now (V (w_redis w)) < d \<longrightarrow> rv_keys (V (w_redis w)) key = Some (token, Some d))) \<and>
     (\<forall>p q token d d'. pcs p = Holding token d \<longrightarrow> pcs q = Holding token d' \<longrightarrow> p = q))"

lemma lock_inv_start: "lock_inv V E key (w, \<lambda>_. Idle)"
  by (simp add: lock_inv_def)

lemma lock_invD:
  assumes "lock_inv V E key (w, pcs)" "pcs p = Holding token d"
  shows "\<exists>i<w_tick w. token = uuid E i"
    and "rv_now (V (w_redis w)) < d \<Longrightarrow> rv_keys (V (w_redis w)) key = Some (token, Some d)"
    and "pcs q = Holding token d' \<Longrightarrow> p = q"
  using assms unfolding lock_inv_def by blast+

lemma lock_invI:
  assumes "\<And>p token d. pcs p = Holding token d \<Longrightarrow> \<exists>i<w_tick w. token = uuid E i"
    and "\<And>p token d. pcs p = Holding token d \<Longrightarrow> rv_now (V (w_redis w)) < d \<Longrightarrow>
           rv_keys (V (w_redis w)) key = Some (token, Some d)"
    and "\<And>p q token d d'. pcs p = Holding token d \<Longrightarrow> pcs q = Holding token d' \<Longrightarrow> p = q"
  shows "lock_inv V E key (w, pcs)"
  using assms unfolding lock_inv_def by blast

text \<open>An unexpired lease survives as long as the key is only aged.\<close>

lemma lock_inv_aged:
  assumes inv: "lock_inv V E key (w, pcs)"
    and le: "w_tick w \<le> w_tick w'" "rv_now (V (w_redis w)) \<le> rv_now (V (w_redis w'))"
    and k: "\<And>p token d. pcs p = Holding token d \<Longrightarrow> rv_now (V (w_redis w')) < d \<Longrightarrow>
           rv_keys (V (w_redis w)) key = Some (token, Some d) \<Longrightarrow>
           rv_keys (V (w_redis w')) key = Some (token, Some d)"
  shows "lock_inv V E key (w', pcs)"
proof (rule lock_invI)
  fix p token d
  assume p: "pcs p = Holding token d"
  show "\<exists>i<w_tick w'. token = uuid E i"
    using lock_invD(1) [OF inv p] le(1) less_le_trans by blast
  assume "rv_now (V (w_redis w')) < d"
  then show "rv_keys (V (w_redis w')) key = Some (token, Some d)"
    using k [OF p] lock_invD(2) [OF inv p] le(2) by simp
next
  fix p q token d d'
  assume "pcs p = Holding token d" "pcs q = Holding token d'"
  then show "p = q" by (rule lock_invD(3) [OF inv])
qed

lemma lock_inv_idle: "lock_inv V E key (w, pcs) \<Longrightarrow> lock_inv V E key (w, pcs(p := Idle))"
  by (simp add: lock_inv_def)

context redis_server
begin

lemma lock_inv_step:
  assumes step: "lock_step V R E ttl key s s'" and inv: "lock_inv V E key s"
    and ttl: "0 < ttl" and inj: "inj (uuid E)"
  shows "lock_inv V E key s'"
  using step inv
proof (cases rule: lock_step.cases)
  case (Acquired pcs p w token w')
  note a = acquire_Some [OF Acquired(4) ttl]
  have inv': "lock_inv V E key (w, pcs)" using inv Acquired(1) by simp
  have old: "\<not> rv_now (V (w_redis w')) < d" if "pcs q = Holding t d" for q t d
    using lock_invD(2) [OF inv' that] a by (auto simp: alive_def split: if_splits)
  have fresh: "t \<noteq> token" if "pcs q = Holding t d" for q t d
    using lock_invD(1) [OF inv' that] a inj by (auto dest: injD)
  show ?thesis unfolding Acquired(2)
  proof (rule lock_invI, goal_cases)
    case (1 q t d)
    then show ?case using lock_invD(1) [OF inv', of q t d] a
      by (auto split: if_splits intro: less_SucI)
  next
    case (2 q t d)
    then show ?case using old a by (auto split: if_splits)
  next
    case (3 q q' t d d')
    then show ?case using fresh lock_invD(3) [OF inv'] by (auto split: if_splits)
  qed
next
  case (NotAcquired pcs p w res w')
  note a = acquire_other [OF NotAcquired(4) _ ttl]
  show ?thesis unfolding NotAcquired(2)
  proof (rule lock_inv_aged)
    show "lock_inv V E key (w, pcs)" using inv NotAcquired(1) by simp
  qed (use a NotAcquired(5) in \<open>auto simp: alive_def split: if_splits\<close>)
next
  case (Released pcs p token d w res w')
  have inv': "lock_inv V E key (w, pcs)" using inv Released(1) by simp
  obtain r1 where r1: "aged (V (w_redis w)) (V r1)"
    "V (w_redis w') = V r1 \<or> map_option fst (rv_keys (V r1) key) = Some token \<and>
       V (w_redis w') = (V r1)\<lparr>rv_keys := (rv_keys (V r1))(key := None)\<rparr>"
    "w_tick w' = w_tick w"
    by (rule release_view [OF Released(4)])
  have now: "rv_now (V (w_redis w)) \<le> rv_now (V (w_redis w'))"
    "rv_now (V r1) = rv_now (V (w_redis w'))" using r1 by (auto simp: aged_def)
  have "lock_inv V E key (w', pcs(p := Idle))"
  proof (rule lock_inv_aged [OF lock_inv_idle [OF inv']])
    fix q t e
    assume q: "(pcs(p := Idle)) q = Holding t e" and "rv_now (V (w_redis w')) < e"
      and k: "rv_keys (V (w_redis w)) key = Some (t, Some e)"
    then have k1: "rv_keys (V r1) key = Some (t, Some e)"
      using r1(1) now by (simp add: aged_def)
    have "t \<noteq> token" using lock_invD(3) [OF inv' Released(3), of q e] q by (auto split: if_splits)
    then show "rv_keys (V (w_redis w')) key = Some (t, Some e)" using r1(2) k1 by auto
  qed (use now r1(3) in simp_all)
  then show ?thesis unfolding Released(2) .
next
  case (Crashed w pcs p)
  then show ?thesis using inv lock_inv_idle by simp
next
  case (Elsewhere w w' pcs)
  show ?thesis unfolding Elsewhere(2)
  proof (rule lock_inv_aged)
    show "lock_inv V E key (w, pcs)" using inv Elsewhere(1) by simp
  qed (use Elsewhere in \<open>auto simp: alive_def\<close>)
qed

lemma lock_inv_reachable:
  assumes "(lock_step V R E ttl key)\<^sup>*\<^sup>* (w0, \<lambda>_. Idle) s" "0 < ttl" "inj (uuid E)"
  shows "lock_inv V E key s"
  using assms(1)
  by (induction rule: rtranclp_induct) (auto intro: lock_inv_start lock_inv_step assms(2,3))

end

end
