(* ===== verification/RedisStores.thy ===== *)
theory RedisStores
  imports Lock
begin

text \<open>
  The two stores over the Redis client: the string cache of \<open>redis/cacheStore.ts\<close> and the
  fixed-window hit counter of \<open>redis/rateLimitStore.ts\<close>.
\<close>

section \<open>The cache store\<close>

definition RedisCacheStore_get ::
  "'r redis \<Rightarrow> string \<Rightarrow> (('d, 'r, 'm) world, string option) act" where
  "RedisCacheStore_get R key = redis_call R (rd_get R key)"

definition RedisCacheStore_set ::
  "'r redis \<Rightarrow> string \<Rightarrow> string \<Rightarrow> int \<Rightarrow> (('d, 'r, 'm) world, unit) act" where
  "RedisCacheStore_set R key value ttlSeconds =
     seq (redis_call R (rd_set R key value (ttlSeconds * 1000) Plain)) (\<lambda>_. ret ())"

definition RedisCacheStore_delete :: "'r redis \<Rightarrow> string \<Rightarrow> (('d, 'r, 'm) world, unit) act" where
  "RedisCacheStore_delete R key = seq (redis_call R (rd_del R [key])) (\<lambda>_. ret ())"

context redis_server
begin

lemma cache_get_Inr:
  assumes "RedisCacheStore_get R key w = (Inr v, w')"
  shows "aged (V (w_redis w)) (V (w_redis w')) \<and> v = map_option fst (rv_keys (V (w_redis w')) key) \<and>
    w_db w' = w_db w"
proof -
  obtain r1 r2 where d: "rd_deliver R (w_redis w) = (Delivered, r1)"
    and g: "rd_get R key r1 = (v, r2)" and w': "w' = w\<lparr>w_redis := r2\<rparr>"
    using assms unfolding RedisCacheStore_get_def by (rule redis_call_Inr)
  from deliver_law [OF d] get_law [OF g] w' show ?thesis by simp
qed

lemma cache_set_Inr:
  assumes "RedisCacheStore_set R key value ttl w = (Inr u, w')" "0 < ttl"
  shows "rv_keys (V (w_redis w')) key = Some (value, Some (rv_now (V (w_redis w')) + ttl * 1000)) \<and>
    w_db w' = w_db w"
proof -
  from assms(1) obtain b where c: "redis_call R (rd_set R key value (ttl * 1000) Plain) w = (Inr b, w')"
    by (auto simp: RedisCacheStore_set_def act_simps)
  obtain r1 r2 where s: "rd_set R key value (ttl * 1000) Plain r1 = (b, r2)"
    and w': "w' = w\<lparr>w_redis := r2\<rparr>"
    by (rule redis_call_Inr [OF c])
  from set_law [OF s] assms(2) w' show ?thesis by (simp add: may_set_def)
qed

lemma cache_delete_Inr:
  assumes "RedisCacheStore_delete R key w = (Inr u, w')"
  shows "rv_keys (V (w_redis w')) key = None \<and> w_db w' = w_db w"
proof -
  from assms obtain n where c: "redis_call R (rd_del R [key]) w = (Inr n, w')"
    by (auto simp: RedisCacheStore_delete_def act_simps)
  obtain r1 r2 where d: "rd_del R [key] r1 = (n, r2)" and w': "w' = w\<lparr>w_redis := r2\<rparr>"
    by (rule redis_call_Inr [OF c])
  from del_many [OF d] w' show ?thesis by simp
qed

end

section \<open>The rate-limit store\<close>

definition INCREMENT_SCRIPT :: "'r redis \<Rightarrow> string \<Rightarrow> int \<Rightarrow> ('r, int \<times> int) command" where
  "INCREMENT_SCRIPT R key windowMs =
     (\<lambda>r. case rd_incrby R 1 key r of
        (hits, r1) \<Rightarrow>
          let r2 = (if hits = 1 then snd (rd_pexpire R key windowMs r1) else r1) in
          case rd_pttl R key r2 of (ttl, r3) \<Rightarrow> ((hits, ttl), r3))"

record rate_limit_store =
  rs_prefix :: string
  rs_windowMs :: int

record IncrementResponse =
  ir_totalHits :: int
  ir_resetTime :: "int option"

definition RateLimit_increment ::
  "'r redis \<Rightarrow> env \<Rightarrow> rate_limit_store \<Rightarrow> string \<Rightarrow> (('d, 'r, 'm) world, IncrementResponse) act" where
  "RateLimit_increment R E s key =
     seq (redis_call R (INCREMENT_SCRIPT R (rs_prefix s @ key) (rs_windowMs s))) (\<lambda>(hits, ttlMs).
     if 0 \<le> ttlMs then
       seq (now E) (\<lambda>t. ret \<lparr>ir_totalHits = hits, ir_resetTime = Some (t + ttlMs)\<rparr>)
     else ret \<lparr>ir_totalHits = hits, ir_resetTime = None\<rparr>)"

definition RateLimit_decrement ::
  "'r redis \<Rightarrow> rate_limit_store \<Rightarrow> string \<Rightarrow> (('d, 'r, 'm) world, unit) act" where
  "RateLimit_decrement R s key =
     seq (redis_call R (rd_incrby R (- 1) (rs_prefix s @ key))) (\<lambda>_. ret ())"

definition RateLimit_resetKey ::
  "'r redis \<Rightarrow> rate_limit_store \<Rightarrow> string \<Rightarrow> (('d, 'r, 'm) world, unit) act" where
  "RateLimit_resetKey R s key = seq (redis_call R (rd_del R [rs_prefix s @ key])) (\<lambda>_. ret ())"

text \<open>
  The counter of a window, as the server holds it: no entry, or the number of hits so far with
  the end of the window.
\<close>

definition window_entry :: "(nat \<times> int) option \<Rightarrow> (string \<times> int option) option" where
  "window_entry x = (case x of None \<Rightarrow> None | Some (n, d) \<Rightarrow> Some (string_of_int (int n), Some d))"

definition next_hit :: "int \<Rightarrow> int \<Rightarrow> (nat \<times> int) option \<Rightarrow> nat \<times> int" where
  "next_hit window t x = (case x of None \<Rightarrow> (1, t + window) | Some (n, d) \<Rightarrow> (n + 1, d))"

definition live_window :: "int \<Rightarrow> (nat \<times> int) option \<Rightarrow> (nat \<times> int) option" where
  "live_window t x = (case x of None \<Rightarrow> None | Some (n, d) \<Rightarrow> if d \<le> t then None else x)"

lemma alive_window_entry: "alive t (window_entry x) = window_entry (live_window t x)"
  by (auto simp: window_entry_def live_window_def split: option.split)

context redis_server
begin

lemma INCREMENT_SCRIPT_run:
  assumes run: "INCREMENT_SCRIPT R key window r = ((hits, ttl), r')" and pos: "0 < window"
    and entry: "rv_keys (V r) key = window_entry x" and hit: "\<And>n d. x = Some (n, d) \<Longrightarrow> 0 < n"
  shows "hits = int (fst (next_hit window (rv_now (V r)) x)) \<and>
    ttl = snd (next_hit window (rv_now (V r)) x) - rv_now (V r) \<and>
    V r' = (V r)\<lparr>rv_keys := (rv_keys (V r))(key := window_entry (Some (next_hit window (rv_now (V r)) x)))\<rparr>"
proof -
  obtain r1 where i: "rd_incrby R 1 key r = (hits, r1)"
    using run by (auto simp: INCREMENT_SCRIPT_def Let_def split: prod.splits)
  define r2 where "r2 = (if hits = 1 then snd (rd_pexpire R key window r1) else r1)"
  have t: "rd_pttl R key r2 = (ttl, r')"
    using run i by (auto simp: INCREMENT_SCRIPT_def Let_def r2_def split: prod.splits)
  show ?thesis
  proof (cases x)
    case None
    have "hits = 1 \<and> V r1 = (V r)\<lparr>rv_keys := (rv_keys (V r))(key \<mapsto> (string_of_int 1, None))\<rparr>"
      using incr_law [OF i, of 0 None] entry None by (simp add: window_entry_def)
    then have h: "hits = 1" and v1: "rv_keys (V r1) key = Some (string_of_int 1, None)"
      and v1': "V r1 = (V r)\<lparr>rv_keys := (rv_keys (V r))(key \<mapsto> (string_of_int 1, None))\<rparr>"
      by simp_all
    obtain u r3 where e: "rd_pexpire R key window r1 = (u, r3)" by (metis prod.collapse)
    have "V r2 = (V r)\<lparr>rv_keys := (rv_keys (V r))(key \<mapsto> (string_of_int 1, Some (rv_now (V r) + window)))\<rparr>"
      using pexpire_law [OF e pos v1] e h v1' by (simp add: r2_def)
    then show ?thesis using pttl_law [OF t] None h by (simp add: next_hit_def window_entry_def)
  next
    case (Some y)
    obtain n d where y: "y = (n, d)" by fastforce
    have "hits = int n + 1 \<and>
        V r1 = (V r)\<lparr>rv_keys := (rv_keys (V r))(key \<mapsto> (string_of_int (int n + 1), Some d))\<rparr>"
      using incr_law [OF i, of "int n" "Some d"] entry Some y by (simp add: window_entry_def)
    moreover have "0 < n" using hit Some y by simp
    ultimately show ?thesis using pttl_law [OF t] Some y
      by (auto simp: next_hit_def window_entry_def r2_def add.commute)
  qed
qed

lemma RateLimit_increment_Inr:
  assumes run: "RateLimit_increment R E s key w = (Inr resp, w')" and pos: "0 < rs_windowMs s"
    and entry: "rv_keys (V (w_redis w)) (rs_prefix s @ key) = window_entry x"
    and hit: "\<And>n d. x = Some (n, d) \<Longrightarrow> 0 < n"
  shows "\<exists>t n d. rv_now (V (w_redis w)) \<le> t \<and> t = rv_now (V (w_redis w')) \<and>
    (n, d) = next_hit (rs_windowMs s) t (live_window t x) \<and>
    ir_totalHits resp = int n \<and>
    rv_keys (V (w_redis w')) (rs_prefix s @ key) = window_entry (Some (n, d)) \<and>
    ir_resetTime resp = Some (clock E (w_tick w) + (d - t))"
proof -
  from run obtain hits ttl w1 where
      c: "redis_call R (INCREMENT_SCRIPT R (rs_prefix s @ key) (rs_windowMs s)) w = (Inr (hits, ttl), w1)"
    and resp: "ir_totalHits resp = hits"
      "ir_resetTime resp = (if 0 \<le> ttl then Some (clock E (w_tick w1) + ttl) else None)"
    and w': "w_redis w' = w_redis w1"
    by (auto simp: RateLimit_increment_def act_simps split: if_splits)
  obtain r1 r2 where d: "rd_deliver R (w_redis w) = (Delivered, r1)"
    and i: "INCREMENT_SCRIPT R (rs_prefix s @ key) (rs_windowMs s) r1 = ((hits, ttl), r2)"
    and w1: "w1 = w\<lparr>w_redis := r2\<rparr>"
    by (rule redis_call_Inr [OF c])
  let ?t = "rv_now (V r1)"
  let ?y = "next_hit (rs_windowMs s) ?t (live_window ?t x)"
  have age: "rv_keys (V r1) (rs_prefix s @ key) = window_entry (live_window ?t x)"
    using deliver_law [OF d] entry by (simp add: aged_def alive_window_entry)
  have "0 < n" if "live_window ?t x = Some (n, d)" for n d
    using that hit by (auto simp: live_window_def split: option.splits if_splits)
  note r = INCREMENT_SCRIPT_run [OF i pos age this]
  have "?t < snd ?y"
    using pos by (auto simp: next_hit_def live_window_def split: option.splits if_splits)
  then show ?thesis
    using r resp w' w1 deliver_law [OF d]
    by (intro exI [of _ ?t] exI [of _ "fst ?y"] exI [of _ "snd ?y"]) (auto simp: aged_def)
qed

text \<open>Within one window the hits are counted one by one, and the window does not move.\<close>

lemma next_hit_counts:
  assumes "\<forall>t\<in>set ts. t < d"
  shows "foldl (\<lambda>x t. Some (next_hit window t (live_window t x))) (Some (n, d)) ts =
           Some (n + length ts, d)"
  using assms by (induction ts arbitrary: n) (auto simp: next_hit_def live_window_def)

text \<open>A run of hits: the server clock never goes back, and inside one window they are numbered on.\<close>

lemma upt_Suc_shift: "[1..<Suc (Suc k)] = 1 # map Suc [1..<Suc k]"
  by (simp add: map_Suc_upt upt_conv_Cons del: upt_Suc)

lemma RateLimit_hits:
  "map_act (\<lambda>_. RateLimit_increment R E s key) us w = (Inr resps, w') \<Longrightarrow> 0 < rs_windowMs s \<Longrightarrow>
   rv_keys (V (w_redis w)) (rs_prefix s @ key) = window_entry x \<Longrightarrow> (\<And>n d. x = Some (n, d) \<Longrightarrow> 0 < n) \<Longrightarrow>
   rv_now (V (w_redis w)) \<le> rv_now (V (w_redis w')) \<and>
   (\<forall>m d. x = Some (m, d) \<longrightarrow> rv_now (V (w_redis w')) < d \<longrightarrow>
      map ir_totalHits resps = map (\<lambda>i. int (m + i)) [1..<Suc (length us)])"
proof (induction us arbitrary: w x resps)
  case Nil
  then show ?case by (simp add: act_simps)
next
  case (Cons u us)
  then obtain r rs w1 where r: "RateLimit_increment R E s key w = (Inr r, w1)"
    and rs: "map_act (\<lambda>_. RateLimit_increment R E s key) us w1 = (Inr rs, w')" and resps: "resps = r # rs"
    by (auto simp: act_simps)
  have "\<exists>t n d. rv_now (V (w_redis w)) \<le> t \<and> t = rv_now (V (w_redis w1)) \<and>
      (n, d) = next_hit (rs_windowMs s) t (live_window t x) \<and> ir_totalHits r = int n \<and>
      rv_keys (V (w_redis w1)) (rs_prefix s @ key) = window_entry (Some (n, d)) \<and>
      ir_resetTime r = Some (clock E (w_tick w) + (d - t))"
    by (rule RateLimit_increment_Inr [OF r Cons.prems(2,3)]) (rule Cons.prems(4))
  then obtain t n d' where
      t: "rv_now (V (w_redis w)) \<le> t" "t = rv_now (V (w_redis w1))"
    and nd: "(n, d') = next_hit (rs_windowMs s) t (live_window t x)" and hits: "ir_totalHits r = int n"
    and k: "rv_keys (V (w_redis w1)) (rs_prefix s @ key) = window_entry (Some (n, d'))"
    by blast
  have "0 < n" using nd by (auto simp: next_hit_def split: option.splits prod.splits)
  with Cons.IH [OF rs Cons.prems(2) k] have le: "rv_now (V (w_redis w1)) \<le> rv_now (V (w_redis w'))"
    and rest: "rv_now (V (w_redis w')) < d' \<Longrightarrow>
      map ir_totalHits rs = map (\<lambda>i. int (n + i)) [1..<Suc (length us)]" by auto
  have "map ir_totalHits resps = map (\<lambda>i. int (m + i)) [1..<Suc (length (u # us))]"
    if "x = Some (m, d)" "rv_now (V (w_redis w')) < d" for m d
  proof -
    have "n = m + 1" "d' = d" using nd that le t by (auto simp: next_hit_def live_window_def)
    then have "map ir_totalHits resps = int (m + 1) # map (\<lambda>i. int (m + Suc i)) [1..<Suc (length us)]"
      using rest that(2) hits resps by simp
    also have "\<dots> = map (\<lambda>i. int (m + i)) (1 # map Suc [1..<Suc (length us)])" by (simp add: comp_def)
    also have "1 # map Suc [1..<Suc (length us)] = [1..<Suc (length (u # us))]"
      using upt_Suc_shift [of "length us"] by (simp del: upt_Suc)
    finally show ?thesis .
  qed
  with le t show ?case by auto
qed

lemma RateLimit_hits_fresh:
  assumes run: "map_act (\<lambda>_. RateLimit_increment R E s key) us w = (Inr resps, w')" and pos: "0 < rs_windowMs s"
    and free: "rv_keys (V (w_redis w)) (rs_prefix s @ key) = None"
    and window: "rv_now (V (w_redis w')) < rv_now (V (w_redis w)) + rs_windowMs s"
  shows "map ir_totalHits resps = map int [1..<Suc (length us)]"
proof (cases us)
  case Nil
  then show ?thesis using run by (simp add: act_simps)
next
  case (Cons u vs)
  then obtain r rs w1 where r: "RateLimit_increment R E s key w = (Inr r, w1)"
    and rs: "map_act (\<lambda>_. RateLimit_increment R E s key) vs w1 = (Inr rs, w')" and resps: "resps = r # rs"
    using run by (auto simp: act_simps)
  have none: "rv_keys (V (w_redis w)) (rs_prefix s @ key) = window_entry None"
    using free by (simp add: window_entry_def)
  from RateLimit_increment_Inr [OF r pos none] obtain t where t: "rv_now (V (w_redis w)) \<le> t"
    and hits: "ir_totalHits r = 1"
    and k: "rv_keys (V (w_redis w1)) (rs_prefix s @ key) = window_entry (Some (1, t + rs_windowMs s))"
    by (auto simp: next_hit_def live_window_def)
  have "map ir_totalHits rs = map (\<lambda>i. int (1 + i)) [1..<Suc (length vs)]"
    using RateLimit_hits [OF rs pos k] t window by auto
  moreover have "[1..<Suc (length us)] = 1 # map Suc [1..<Suc (length vs)]"
    using Cons upt_Suc_shift [of "length vs"] by (simp del: upt_Suc)
  ultimately show ?thesis using hits resps by (simp add: comp_def)
qed

end

end
