(* ===== verification/Queue.thy ===== *)
theory Queue
  imports RedisStores Json
begin

text \<open>
  The background job queue \<open>queues/jobQueue.ts\<close> with the types of \<open>job.types.ts\<close>: a sorted set
  of job ids scored by their next attempt, a payload text per job, and a lease per claimed job.
  An envelope is the JSON object it is stored as.
\<close>

section \<open>Types\<close>

definition GROUP_SUMMARY_RECOMPUTE :: string where
  "GROUP_SUMMARY_RECOMPUTE = ''GROUP_SUMMARY_RECOMPUTE''"

definition JOB_TYPES :: "string list" where
  "JOB_TYPES = [GROUP_SUMMARY_RECOMPUTE]"

record JobQueueConfig =
  jc_maxAttempts :: nat
  jc_baseBackoffMs :: int
  jc_maxBackoffMs :: int
  jc_leaseMs :: int
  jc_payloadTtlMs :: int

record EnqueueJobOptions =
  jo_requestId :: "string option"
  jo_scheduledFor :: "int option"

datatype ClaimResult = Empty | Busy | Malformed string | Claimed string json

definition queueKey :: "string \<Rightarrow> string" where
  "queueKey type = ''job:queue:'' @ type"

definition dataKey :: "string \<Rightarrow> string" where
  "dataKey jobId = ''job:data:'' @ jobId"

definition inflightKey :: "string \<Rightarrow> string" where
  "inflightKey jobId = ''job:inflight:'' @ jobId"

lemma job_keys [simp]: "dataKey i \<noteq> inflightKey j" "inflightKey j \<noteq> dataKey i"
  "dataKey i = dataKey j \<longleftrightarrow> i = j" "inflightKey i = inflightKey j \<longleftrightarrow> i = j"
  by (simp_all add: dataKey_def inflightKey_def)

section \<open>Envelopes\<close>

definition make_envelope ::
  "string \<Rightarrow> string \<Rightarrow> json \<Rightarrow> string \<Rightarrow> string option \<Rightarrow> json" where
  "make_envelope jobId type payload createdAt requestId = JObject
     ([(''jobId'', JString jobId), (''type'', JString type), (''payload'', payload),
       (''attempts'', JNumber 0), (''createdAt'', JString createdAt)] @
      (case requestId of None \<Rightarrow> []
       | Some r \<Rightarrow> if r = [] then [] else [(''requestId'', JString r)]))"

definition is_object :: "json option \<Rightarrow> bool" where
  "is_object v = (case v of Some (JObject _) \<Rightarrow> True | Some (JArray _) \<Rightarrow> True | _ \<Rightarrow> False)"

definition is_attempts :: "json option \<Rightarrow> bool" where
  "is_attempts v = (case v of Some (JNumber r) \<Rightarrow> of_int \<lfloor>r\<rfloor> = r \<and> 0 \<le> r | _ \<Rightarrow> False)"

definition parseEnvelope :: "string \<Rightarrow> string \<Rightarrow> string \<Rightarrow> json option" where
  "parseEnvelope raw expectedType jobId =
     (case JSON_parse raw of
        None \<Rightarrow> None
      | Some candidate \<Rightarrow>
          if \<not> is_object (Some candidate) then None
          else if json_field candidate ''jobId'' \<noteq> Some (JString jobId) then None
          else if json_field candidate ''type'' \<noteq> Some (JString expectedType) then None
          else if \<not> (case json_field candidate ''createdAt'' of Some (JString _) \<Rightarrow> True | _ \<Rightarrow> False) then None
          else if \<not> is_object (json_field candidate ''payload'') then None
          else if \<not> is_attempts (json_field candidate ''attempts'') then None
          else Some candidate)"

definition envelope_attempts :: "json \<Rightarrow> nat" where
  "envelope_attempts e = (case json_field e ''attempts'' of Some (JNumber r) \<Rightarrow> nat \<lfloor>r\<rfloor> | _ \<Rightarrow> 0)"

definition envelope_payload :: "json \<Rightarrow> json" where
  "envelope_payload e = (case json_field e ''payload'' of Some p \<Rightarrow> p | None \<Rightarrow> JNull)"

text \<open>\<open>{ ...envelope, attempts }\<close> and \<open>{ ...envelope, payload }\<close>: the key is there already.\<close>

definition set_field :: "string \<Rightarrow> json \<Rightarrow> json \<Rightarrow> json" where
  "set_field k v e = (case e of
     JObject kvs \<Rightarrow> JObject (map (\<lambda>(k', v'). (k', if k' = k then v else v')) kvs) | _ \<Rightarrow> e)"

section \<open>Operations\<close>

definition CLAIM_SCRIPT :: "'r redis \<Rightarrow> string \<Rightarrow> int \<Rightarrow> ('r, string option) command" where
  "CLAIM_SCRIPT R key now_ms = rd_zfirst R key now_ms"

definition backoffFor :: "JobQueueConfig \<Rightarrow> nat \<Rightarrow> int" where
  "backoffFor c attempts = min (jc_maxBackoffMs c) (jc_baseBackoffMs c * 2 ^ (attempts - 1))"

definition enqueue ::
  "'r redis \<Rightarrow> env \<Rightarrow> JobQueueConfig \<Rightarrow> string \<Rightarrow> json \<Rightarrow> EnqueueJobOptions \<Rightarrow>
   (('d, 'r, 'm) world, string \<times> json) act" where
  "enqueue R E c type payload options =
     seq (guard (type \<in> set JOB_TYPES) (PlainError (''Unknown job type '' @ type))) (\<lambda>_.
     seq (randomUUID E) (\<lambda>jobId.
     seq (now E) (\<lambda>t.
     let envelope = make_envelope jobId type payload (toISOString E t) (jo_requestId options) in
     seq (redis_call R (rd_set R (dataKey jobId) (stringify envelope) (jc_payloadTtlMs c) Plain)) (\<lambda>_.
     seq (case jo_scheduledFor options of Some s \<Rightarrow> ret s | None \<Rightarrow> now E) (\<lambda>score.
     seq (redis_call R (rd_zadd R (queueKey type) score jobId)) (\<lambda>_.
     ret (jobId, envelope)))))))"

definition discard ::
  "'r redis \<Rightarrow> string \<Rightarrow> string \<Rightarrow> (('d, 'r, 'm) world, unit) act" where
  "discard R type jobId =
     seq (redis_call R (rd_zrem R (queueKey type) jobId)) (\<lambda>_.
     seq (redis_call R (rd_del R [dataKey jobId, inflightKey jobId])) (\<lambda>_.
     ret ()))"

definition complete ::
  "'r redis \<Rightarrow> string \<Rightarrow> string \<Rightarrow> (('d, 'r, 'm) world, unit) act" where
  "complete R type jobId =
     seq (redis_call R (rd_zrem R (queueKey type) jobId)) (\<lambda>_.
     seq (redis_call R (rd_del R [dataKey jobId, inflightKey jobId])) (\<lambda>_.
     ret ()))"

definition dueJobId ::
  "'r redis \<Rightarrow> env \<Rightarrow> string \<Rightarrow> (('d, 'r, 'm) world, string option) act" where
  "dueJobId R E type =
     seq (now E) (\<lambda>t. redis_call R (CLAIM_SCRIPT R (queueKey type) t))"

definition claimNext ::
  "'r redis \<Rightarrow> env \<Rightarrow> JobQueueConfig \<Rightarrow> string \<Rightarrow> (('d, 'r, 'm) world, ClaimResult) act" where
  "claimNext R E c type =
     seq (dueJobId R E type) (\<lambda>due.
     case due of
       None \<Rightarrow> ret Empty
     | Some jobId \<Rightarrow>
         seq (randomUUID E) (\<lambda>leaseToken.
         seq (redis_call R (rd_set R (inflightKey jobId) leaseToken (jc_leaseMs c) NX)) (\<lambda>lease.
         if \<not> lease then ret Busy
         else
           seq (redis_call R (rd_get R (dataKey jobId))) (\<lambda>raw.
           case (case raw of None \<Rightarrow> None | Some s \<Rightarrow> parseEnvelope s type jobId) of
             None \<Rightarrow> seq (discard R type jobId) (\<lambda>_. ret (Malformed jobId))
           | Some envelope \<Rightarrow> ret (Claimed jobId envelope)))))"

definition drop_stale ::
  "'r redis \<Rightarrow> string \<Rightarrow> string \<Rightarrow> (('d, 'r, 'm) world, unit) act" where
  "drop_stale R type jobId =
     seq (redis_call R (rd_zrem R (queueKey type) jobId)) (\<lambda>_.
     seq (redis_call R (rd_del R [inflightKey jobId])) (\<lambda>_.
     ret ()))"

definition retryAfterFailure ::
  "'r redis \<Rightarrow> env \<Rightarrow> JobQueueConfig \<Rightarrow> string \<Rightarrow> string \<Rightarrow> nat \<Rightarrow> int \<Rightarrow>
   (('d, 'r, 'm) world, unit) act" where
  "retryAfterFailure R E c type jobId attempts delayMs =
     seq (redis_call R (rd_get R (dataKey jobId))) (\<lambda>raw.
     case (case raw of None \<Rightarrow> None | Some s \<Rightarrow> parseEnvelope s type jobId) of
       None \<Rightarrow> drop_stale R type jobId
     | Some envelope \<Rightarrow>
         let updated = set_field ''attempts'' (JNumber (of_nat attempts)) envelope in
         seq (redis_call R (rd_set R (dataKey jobId) (stringify updated) (jc_payloadTtlMs c) Plain)) (\<lambda>_.
         seq (now E) (\<lambda>t.
         seq (redis_call R (rd_zadd R (queueKey type) (t + delayMs) jobId)) (\<lambda>_.
         seq (redis_call R (rd_del R [inflightKey jobId])) (\<lambda>_.
         ret ())))))"

section \<open>Envelopes read back\<close>

lemma map_of_set:
  "map_of (map (\<lambda>(k', v'). (k', if k' = k then v else v')) kvs) k' =
     (if k' = k then (if map_of kvs k = None then None else Some v) else map_of kvs k')"
  by (induction kvs) auto

lemma field_set_field:
  "json_field (set_field k v (JObject kvs)) k' =
     (if k' = k then (if json_field (JObject kvs) k = None then None else Some v)
      else json_field (JObject kvs) k')"
  by (simp add: json_field_def set_field_def rev_map map_of_set)

lemma make_envelope_fields:
  "json_field (make_envelope i t p c r) ''jobId'' = Some (JString i)"
  "json_field (make_envelope i t p c r) ''type'' = Some (JString t)"
  "json_field (make_envelope i t p c r) ''payload'' = Some p"
  "json_field (make_envelope i t p c r) ''attempts'' = Some (JNumber 0)"
  "json_field (make_envelope i t p c r) ''createdAt'' = Some (JString c)"
  by (auto simp: make_envelope_def json_field_append json_field_Cons json_field_Nil split: option.split)

text \<open>What a valid envelope for a job looks like, and that writing and reading one keeps it.\<close>

definition valid_envelope :: "string \<Rightarrow> string \<Rightarrow> json \<Rightarrow> bool" where
  "valid_envelope type jobId e \<longleftrightarrow> is_object (Some e) \<and> json_field e ''jobId'' = Some (JString jobId) \<and>
     json_field e ''type'' = Some (JString type) \<and>
     (\<exists>c. json_field e ''createdAt'' = Some (JString c)) \<and>
     is_object (json_field e ''payload'') \<and> is_attempts (json_field e ''attempts'')"

lemma parseEnvelope_Some:
  "parseEnvelope raw type jobId = Some e \<longleftrightarrow> JSON_parse raw = Some e \<and> valid_envelope type jobId e"
  by (auto simp: parseEnvelope_def valid_envelope_def split: option.split json.split)

lemma parse_valid_envelope:
  "wf_json e \<Longrightarrow> valid_envelope type jobId e \<Longrightarrow> parseEnvelope (stringify e) type jobId = Some e"
  by (simp add: parseEnvelope_Some JSON_parse_stringify)

lemma valid_make_envelope: "is_object (Some p) \<Longrightarrow> valid_envelope t i (make_envelope i t p c r)"
proof -
  have "is_object (Some (make_envelope i t p c r))" by (simp add: make_envelope_def is_object_def)
  then show "is_object (Some p) \<Longrightarrow> ?thesis"
    by (simp add: valid_envelope_def make_envelope_fields is_attempts_def)
qed

lemma wf_make_envelope: "wf_json p \<Longrightarrow> wf_json (make_envelope i t p c r)"
  by (auto simp: make_envelope_def split: option.split)

lemma parse_made_envelope:
  "wf_json p \<Longrightarrow> is_object (Some p) \<Longrightarrow>
   parseEnvelope (stringify (make_envelope i t p c r)) t i = Some (make_envelope i t p c r)"
  by (intro parse_valid_envelope wf_make_envelope valid_make_envelope)

lemma valid_set_attempts:
  assumes "valid_envelope type jobId e"
  shows "valid_envelope type jobId (set_field ''attempts'' (JNumber (of_nat n)) e) \<and>
    envelope_attempts (set_field ''attempts'' (JNumber (of_nat n)) e) = n \<and>
    envelope_payload (set_field ''attempts'' (JNumber (of_nat n)) e) = envelope_payload e"
proof (cases e)
  case (JObject kvs)
  have "json_field e ''attempts'' \<noteq> None"
    using assms by (auto simp: valid_envelope_def is_attempts_def split: option.splits)
  moreover have "is_object (Some (set_field k v e))" for k v
    using JObject by (simp add: set_field_def is_object_def)
  ultimately show ?thesis
    using assms JObject
    by (auto simp: valid_envelope_def envelope_attempts_def envelope_payload_def field_set_field is_attempts_def)
qed (use assms in \<open>auto simp: valid_envelope_def json_field_def\<close>)

lemma wf_set_field: "wf_json e \<Longrightarrow> wf_json v \<Longrightarrow> wf_json (set_field k v e)"
  by (auto simp: set_field_def list_all_iff split: json.split)

text \<open>
  What \<open>stringify\<close> writes is read back with the numbers it wrote: the whole parts. An envelope
  stays valid through this, and keeps its number of attempts.
\<close>

fun whole_json :: "json \<Rightarrow> json" where
  "whole_json (JNumber r) = JNumber (of_int \<lfloor>r\<rfloor>)"
| "whole_json (JArray js) = JArray (map whole_json js)"
| "whole_json (JObject kvs) = JObject (map (\<lambda>(k, v). (k, whole_json v)) kvs)"
| "whole_json v = v"

lemma wf_whole: "wf_json (whole_json v)"
  by (induction v) (auto simp: list_all_iff)

lemma stringify_whole: "stringify (whole_json v) = stringify v"
proof (induction v)
  case (JArray js)
  then have "map (stringify \<circ> whole_json) js = map stringify js" by simp
  then show ?case by (simp only: whole_json.simps stringify.simps map_map)
next
  case (JObject kvs)
  then have "map ((\<lambda>(k, v). quote_string k @ CHR '':'' # stringify v) \<circ> (\<lambda>(k, v). (k, whole_json v))) kvs =
      map (\<lambda>(k, v). quote_string k @ CHR '':'' # stringify v) kvs"
    by (auto simp: comp_def split: prod.split)
  then show ?case by (simp only: whole_json.simps stringify.simps map_map)
qed simp_all

lemma field_whole: "json_field (whole_json v) k = map_option whole_json (json_field v k)"
proof (cases v)
  case (JObject kvs)
  have "map_of (map (\<lambda>(k, v). (k, whole_json v)) xs) k = map_option whole_json (map_of xs k)" for xs
    by (induction xs) auto
  then show ?thesis using JObject by (simp add: json_field_def rev_map)
qed (simp_all add: json_field_def)

lemma is_object_whole: "is_object (map_option whole_json x) = is_object x"
proof (cases x)
  case (Some v)
  then show ?thesis by (cases v) (simp_all add: is_object_def)
qed (simp add: is_object_def)

lemma reread_envelope:
  assumes "valid_envelope type jobId e" and "parseEnvelope (stringify e) type jobId = Some e'"
  shows "envelope_attempts e' = envelope_attempts e"
proof -
  have "e' = whole_json e"
    using assms(2) JSON_parse_stringify [OF wf_whole, of e] by (simp add: parseEnvelope_Some stringify_whole)
  then show ?thesis by (auto simp: envelope_attempts_def field_whole split: option.splits json.splits)
qed

section \<open>Delays\<close>

lemma backoffFor_bounds:
  assumes "0 \<le> jc_baseBackoffMs c" "jc_baseBackoffMs c \<le> jc_maxBackoffMs c" "1 \<le> n"
  shows "jc_baseBackoffMs c \<le> backoffFor c n" and "backoffFor c n \<le> jc_maxBackoffMs c"
    and "backoffFor c n \<le> backoffFor c (Suc n)"
proof -
  have p: "1 * jc_baseBackoffMs c \<le> 2 ^ k * jc_baseBackoffMs c" for k :: nat
    using assms(1) by (intro mult_right_mono) simp_all
  show "jc_baseBackoffMs c \<le> backoffFor c n"
    using assms(2) p [of "n - 1"] by (simp add: backoffFor_def mult.commute)
  show "backoffFor c n \<le> jc_maxBackoffMs c" by (simp add: backoffFor_def)
  have "jc_baseBackoffMs c * 2 ^ (n - 1) \<le> jc_baseBackoffMs c * 2 ^ (Suc n - 1)"
    using assms(1) by (intro mult_left_mono power_increasing) simp_all
  then show "backoffFor c n \<le> backoffFor c (Suc n)" by (simp add: backoffFor_def min_def)
qed

text \<open>A job that is gone: out of the set, without payload and lease.\<close>

definition job_gone :: "string \<Rightarrow> string \<Rightarrow> redis_view \<Rightarrow> bool" where
  "job_gone type jobId v \<longleftrightarrow> rv_zsets v (queueKey type) jobId = None \<and>
     rv_keys v (dataKey jobId) = None \<and> rv_keys v (inflightKey jobId) = None"

lemma discard_complete: "discard R type jobId = complete R type jobId"
  by (simp add: discard_def complete_def)

section \<open>Calls that returned\<close>

context redis_server
begin

lemma call_set:
  assumes "redis_call R (rd_set R k v ttl g) w = (Inr b, w')" "0 < ttl"
  shows "\<exists>v1. aged (V (w_redis w)) v1 \<and> b = may_set g (rv_keys v1 k) \<and> w_tick w' = w_tick w \<and>
    V (w_redis w') = (if b then v1\<lparr>rv_keys := (rv_keys v1)(k \<mapsto> (v, Some (rv_now v1 + ttl)))\<rparr> else v1)"
proof -
  obtain r1 r2 where d: "rd_deliver R (w_redis w) = (Delivered, r1)"
    and s: "rd_set R k v ttl g r1 = (b, r2)" and w': "w' = w\<lparr>w_redis := r2\<rparr>"
    by (rule redis_call_Inr [OF assms(1)])
  from deliver_law [OF d] set_law [OF s assms(2)] w' show ?thesis by (intro exI [of _ "V r1"]) simp
qed

lemma call_get:
  assumes "redis_call R (rd_get R k) w = (Inr y, w')"
  shows "aged (V (w_redis w)) (V (w_redis w')) \<and> y = map_option fst (rv_keys (V (w_redis w')) k) \<and>
    w_tick w' = w_tick w"
proof -
  obtain r1 r2 where d: "rd_deliver R (w_redis w) = (Delivered, r1)"
    and s: "rd_get R k r1 = (y, r2)" and w': "w' = w\<lparr>w_redis := r2\<rparr>"
    by (rule redis_call_Inr [OF assms])
  from deliver_law [OF d] get_law [OF s] w' show ?thesis by simp
qed

lemma call_zadd:
  assumes "redis_call R (rd_zadd R k s m) w = (Inr n, w')"
  shows "\<exists>v1. aged (V (w_redis w)) v1 \<and> w_tick w' = w_tick w \<and>
    V (w_redis w') = v1\<lparr>rv_zsets := (rv_zsets v1)(k := (rv_zsets v1 k)(m \<mapsto> s))\<rparr>"
proof -
  obtain r1 r2 where d: "rd_deliver R (w_redis w) = (Delivered, r1)"
    and s: "rd_zadd R k s m r1 = (n, r2)" and w': "w' = w\<lparr>w_redis := r2\<rparr>"
    by (rule redis_call_Inr [OF assms])
  from deliver_law [OF d] zadd_law [OF s] w' show ?thesis by (intro exI [of _ "V r1"]) simp
qed

lemma call_zrem:
  assumes "redis_call R (rd_zrem R k m) w = (Inr n, w')"
  shows "\<exists>v1. aged (V (w_redis w)) v1 \<and> w_tick w' = w_tick w \<and>
    V (w_redis w') = v1\<lparr>rv_zsets := (rv_zsets v1)(k := (rv_zsets v1 k)(m := None))\<rparr>"
proof -
  obtain r1 r2 where d: "rd_deliver R (w_redis w) = (Delivered, r1)"
    and s: "rd_zrem R k m r1 = (n, r2)" and w': "w' = w\<lparr>w_redis := r2\<rparr>"
    by (rule redis_call_Inr [OF assms])
  from deliver_law [OF d] zrem_law [OF s] w' show ?thesis by (intro exI [of _ "V r1"]) simp
qed

lemma call_del:
  assumes "redis_call R (rd_del R ks) w = (Inr n, w')"
  shows "\<exists>v1. aged (V (w_redis w)) v1 \<and> w_tick w' = w_tick w \<and>
    V (w_redis w') = v1\<lparr>rv_keys := (\<lambda>k. if k \<in> set ks then None else rv_keys v1 k)\<rparr>"
proof -
  obtain r1 r2 where d: "rd_deliver R (w_redis w) = (Delivered, r1)"
    and s: "rd_del R ks r1 = (n, r2)" and w': "w' = w\<lparr>w_redis := r2\<rparr>"
    by (rule redis_call_Inr [OF assms])
  from deliver_law [OF d] del_many [OF s] w' show ?thesis by (intro exI [of _ "V r1"]) simp
qed

lemma call_zfirst:
  assumes "redis_call R (rd_zfirst R k hi) w = (Inr x, w')"
  shows "aged (V (w_redis w)) (V (w_redis w')) \<and> w_tick w' = w_tick w \<and>
    (case x of
       None \<Rightarrow> (\<forall>m s. rv_zsets (V (w_redis w)) k m = Some s \<longrightarrow> hi < s)
     | Some m \<Rightarrow> (\<exists>s. rv_zsets (V (w_redis w)) k m = Some s \<and> s \<le> hi \<and>
         (\<forall>m' s'. rv_zsets (V (w_redis w)) k m' = Some s' \<longrightarrow> s \<le> s')))"
proof -
  obtain r1 r2 where d: "rd_deliver R (w_redis w) = (Delivered, r1)"
    and s: "rd_zfirst R k hi r1 = (x, r2)" and w': "w' = w\<lparr>w_redis := r2\<rparr>"
    by (rule redis_call_Inr [OF assms])
  have "rv_zsets (V r1) = rv_zsets (V (w_redis w))" using deliver_law [OF d] by (simp add: aged_def)
  with deliver_law [OF d] zfirst_law [OF s] w' show ?thesis by (cases x) auto
qed

lemma complete_Inr:
  assumes "complete R type jobId w = (Inr u, w')"
  shows "job_gone type jobId (V (w_redis w')) \<and>
    (\<forall>m. m \<noteq> jobId \<longrightarrow> rv_zsets (V (w_redis w')) (queueKey type) m = rv_zsets (V (w_redis w)) (queueKey type) m)"
proof -
  from assms obtain n w1 m where z: "redis_call R (rd_zrem R (queueKey type) jobId) w = (Inr n, w1)"
    and d: "redis_call R (rd_del R [dataKey jobId, inflightKey jobId]) w1 = (Inr m, w')"
    by (auto simp: complete_def act_simps)
  from call_zrem [OF z] call_del [OF d] show ?thesis by (auto simp: job_gone_def aged_def)
qed

lemma enqueue_Inr:
  assumes run: "enqueue R E c type payload options w = (Inr (jobId, e), w')" and pos: "0 < jc_payloadTtlMs c"
  shows "type \<in> set JOB_TYPES \<and> jobId = uuid E (w_tick w) \<and>
    e = make_envelope jobId type payload (toISOString E (clock E (Suc (w_tick w)))) (jo_requestId options) \<and>
    rv_zsets (V (w_redis w')) (queueKey type) jobId =
      Some (case jo_scheduledFor options of Some s \<Rightarrow> s | None \<Rightarrow> clock E (Suc (Suc (w_tick w)))) \<and>
    (\<exists>d. rv_now (V (w_redis w)) + jc_payloadTtlMs c \<le> d \<and>
       rv_keys (V (w_redis w')) (dataKey jobId) =
         alive (rv_now (V (w_redis w'))) (Some (stringify e, Some d)))"
proof -
  let ?w = "w\<lparr>w_tick := Suc (Suc (w_tick w))\<rparr>"
  let ?score = "case jo_scheduledFor options of Some s \<Rightarrow> s | None \<Rightarrow> clock E (Suc (Suc (w_tick w)))"
  from run obtain b w1 where ty: "type \<in> set JOB_TYPES" and i: "jobId = uuid E (w_tick w)"
    and e: "e = make_envelope jobId type payload (toISOString E (clock E (Suc (w_tick w)))) (jo_requestId options)"
    and s: "redis_call R (rd_set R (dataKey jobId) (stringify e) (jc_payloadTtlMs c) Plain) ?w = (Inr b, w1)"
    and rest: "\<exists>score w2 n. (case jo_scheduledFor options of Some s \<Rightarrow> ret s | None \<Rightarrow> now E) w1 = (Inr score, w2) \<and>
      redis_call R (rd_zadd R (queueKey type) score jobId) w2 = (Inr n, w')"
    by (auto simp: enqueue_def Let_def act_simps)
  from rest redis_call_db [OF s] obtain w2 n where
      z: "redis_call R (rd_zadd R (queueKey type) ?score jobId) w2 = (Inr n, w')"
    and w2: "w_redis w2 = w_redis w1"
    by (auto simp: act_simps split: option.splits)
  obtain v1 where v1: "aged (V (w_redis w)) v1"
    "V (w_redis w1) = v1\<lparr>rv_keys := (rv_keys v1)(dataKey jobId \<mapsto> (stringify e, Some (rv_now v1 + jc_payloadTtlMs c)))\<rparr>"
    using call_set [OF s pos] by (auto simp: may_set_def)
  obtain v2 where v2: "aged (V (w_redis w1)) v2"
    "V (w_redis w') = v2\<lparr>rv_zsets := (rv_zsets v2)(queueKey type := (rv_zsets v2 (queueKey type))(jobId \<mapsto> ?score))\<rparr>"
    using call_zadd [OF z] w2 by auto
  have "rv_keys (V (w_redis w')) (dataKey jobId) =
      alive (rv_now (V (w_redis w'))) (Some (stringify e, Some (rv_now v1 + jc_payloadTtlMs c)))"
    using v1 v2 by (simp add: aged_def)
  then show ?thesis using ty i e v1 v2
    by (intro conjI exI [of _ "rv_now v1 + jc_payloadTtlMs c"]) (simp_all add: aged_def)
qed

text \<open>A claim: the earliest due job, its lease, and its envelope.\<close>

lemma aged_zsets: "aged v v' \<Longrightarrow> rv_zsets v' = rv_zsets v"
  by (simp add: aged_def)

lemma claimNext_Inr:
  assumes run: "claimNext R E c type w = (Inr res, w')" and pos: "0 < jc_leaseMs c"
  shows "case res of
     Empty \<Rightarrow> (\<forall>m s. rv_zsets (V (w_redis w)) (queueKey type) m = Some s \<longrightarrow> clock E (w_tick w) < s)
   | Busy \<Rightarrow> rv_zsets (V (w_redis w')) = rv_zsets (V (w_redis w))
   | Malformed jobId \<Rightarrow> job_gone type jobId (V (w_redis w'))
   | Claimed jobId e \<Rightarrow> valid_envelope type jobId e \<and>
       rv_zsets (V (w_redis w')) = rv_zsets (V (w_redis w)) \<and>
       (\<exists>s. rv_zsets (V (w_redis w)) (queueKey type) jobId = Some s \<and> s \<le> clock E (w_tick w) \<and>
          (\<forall>m' s'. rv_zsets (V (w_redis w)) (queueKey type) m' = Some s' \<longrightarrow> s \<le> s')) \<and>
       (\<exists>t d. rv_now (V (w_redis w)) \<le> t \<and> alive t (rv_keys (V (w_redis w)) (inflightKey jobId)) = None \<and>
          d = t + jc_leaseMs c \<and> rv_keys (V (w_redis w')) (inflightKey jobId) =
            alive (rv_now (V (w_redis w'))) (Some (uuid E (Suc (w_tick w)), Some d)))"
proof -
  let ?w = "w\<lparr>w_tick := Suc (w_tick w)\<rparr>"
  from run obtain due w1 where z: "redis_call R (rd_zfirst R (queueKey type) (clock E (w_tick w))) ?w = (Inr due, w1)"
    by (auto simp: claimNext_def dueJobId_def CLAIM_SCRIPT_def act_simps)
  note z' = call_zfirst [OF z]
  show ?thesis
  proof (cases due)
    case None
    then have "res = Empty" using run z by (auto simp: claimNext_def dueJobId_def CLAIM_SCRIPT_def act_simps)
    then show ?thesis using z' None by simp
  next
    case (Some jobId)
    let ?w1 = "w1\<lparr>w_tick := Suc (w_tick w1)\<rparr>" and ?token = "uuid E (Suc (w_tick w))"
    have tick: "w_tick w1 = Suc (w_tick w)" using z' by simp
    from run z Some obtain lease w2 where
        l: "redis_call R (rd_set R (inflightKey jobId) ?token (jc_leaseMs c) NX) ?w1 = (Inr lease, w2)"
      using tick by (auto simp: claimNext_def dueJobId_def CLAIM_SCRIPT_def act_simps)
    obtain v1 where v1: "aged (V (w_redis w1)) v1" "lease = may_set NX (rv_keys v1 (inflightKey jobId))"
      "V (w_redis w2) = (if lease then v1\<lparr>rv_keys := (rv_keys v1)(inflightKey jobId \<mapsto>
          (?token, Some (rv_now v1 + jc_leaseMs c)))\<rparr> else v1)"
      using call_set [OF l pos] by auto
    show ?thesis
    proof (cases lease)
      case False
      then have "res = Busy" "w' = w2"
        using run z Some l tick by (auto simp: claimNext_def dueJobId_def CLAIM_SCRIPT_def act_simps)
      then show ?thesis using v1 z' False by (simp add: aged_def)
    next
      case True
      from run z Some l tick True obtain raw w3 where
          g: "redis_call R (rd_get R (dataKey jobId)) w2 = (Inr raw, w3)"
        by (auto simp: claimNext_def dueJobId_def CLAIM_SCRIPT_def act_simps)
      note g' = call_get [OF g]
      let ?e = "case raw of None \<Rightarrow> None | Some s \<Rightarrow> parseEnvelope s type jobId"
      show ?thesis
      proof (cases ?e)
        case None
        then obtain w4 where d: "discard R type jobId w3 = (Inr (), w4)" and "res = Malformed jobId" "w' = w4"
          using run z Some l tick True g
          by (auto simp: claimNext_def dueJobId_def CLAIM_SCRIPT_def act_simps)
        then show ?thesis using complete_Inr [OF d [unfolded discard_complete]] by simp
      next
        case (Some e)
        then have res: "res = Claimed jobId e" "w' = w3"
          using run z \<open>due = Some jobId\<close> l tick True g
          by (auto simp: claimNext_def dueJobId_def CLAIM_SCRIPT_def act_simps)
        have "valid_envelope type jobId e" using Some by (auto simp: parseEnvelope_Some split: option.splits)
        moreover have "rv_zsets (V (w_redis w3)) = rv_zsets (V (w_redis w))"
          using g' v1 z' True by (simp add: aged_def)
        moreover have "rv_now (V (w_redis w)) \<le> rv_now v1"
          "alive (rv_now v1) (rv_keys (V (w_redis w)) (inflightKey jobId)) = None"
          using z' v1 True by (auto simp: aged_def may_set_def alive_alive)
        moreover have "rv_keys (V (w_redis w3)) (inflightKey jobId) =
            alive (rv_now (V (w_redis w3))) (Some (?token, Some (rv_now v1 + jc_leaseMs c)))"
          using g' v1 True by (simp add: aged_def)
        ultimately show ?thesis using z' \<open>due = Some jobId\<close> res by auto
      qed
    qed
  qed
qed

text \<open>While its payload lives, a job is claimed with the envelope that was stored, never dropped.\<close>

lemma alive_later: "s \<le> t \<Longrightarrow> t < d \<Longrightarrow> alive t (alive s (Some (v, Some d))) = Some (v, Some d)"
  by (simp add: alive_def)

lemma discard_now:
  assumes "discard R type jobId w = (Inr u, w')"
  shows "rv_now (V (w_redis w)) \<le> rv_now (V (w_redis w'))"
proof -
  from assms obtain n w1 m where "redis_call R (rd_zrem R (queueKey type) jobId) w = (Inr n, w1)"
    and "redis_call R (rd_del R [dataKey jobId, inflightKey jobId]) w1 = (Inr m, w')"
    by (auto simp: discard_def act_simps)
  from call_zrem [OF this(1)] call_del [OF this(2)] show ?thesis by (auto simp: aged_def)
qed

lemma claimNext_stored:
  assumes run: "claimNext R E c type w = (Inr res, w')" and pos: "0 < jc_leaseMs c"
    and stored: "rv_keys (V (w_redis w)) (dataKey i) = alive (rv_now (V (w_redis w))) (Some (stringify e, Some d))"
    and lives: "rv_now (V (w_redis w')) < d" and e: "wf_json e" "valid_envelope type i e"
  shows "res \<noteq> Malformed i \<and> (\<forall>e'. res = Claimed i e' \<longrightarrow> e' = e)"
proof (cases "\<exists>e'. res = Malformed i \<or> res = Claimed i e'")
  case True
  let ?w = "w\<lparr>w_tick := Suc (w_tick w)\<rparr>"
  from run True obtain w1 w2 raw w3 where
      z: "redis_call R (rd_zfirst R (queueKey type) (clock E (w_tick w))) ?w = (Inr (Some i), w1)"
    and l: "redis_call R (rd_set R (inflightKey i) (uuid E (w_tick w1)) (jc_leaseMs c) NX)
        (w1\<lparr>w_tick := Suc (w_tick w1)\<rparr>) = (Inr True, w2)"
    and g: "redis_call R (rd_get R (dataKey i)) w2 = (Inr raw, w3)"
    and rest: "(case (case raw of None \<Rightarrow> None | Some s \<Rightarrow> parseEnvelope s type i) of
        None \<Rightarrow> seq (discard R type i) (\<lambda>_. ret (Malformed i)) | Some x \<Rightarrow> ret (Claimed i x)) w3 = (Inr res, w')"
    by (auto simp: claimNext_def dueJobId_def CLAIM_SCRIPT_def act_simps split: option.splits if_splits)
  obtain v1 where v1: "aged (V (w_redis w1)) v1" "V (w_redis w2) = v1\<lparr>rv_keys := (rv_keys v1)(inflightKey i \<mapsto>
      (uuid E (w_tick w1), Some (rv_now v1 + jc_leaseMs c)))\<rparr>"
    using call_set [OF l pos] by auto
  have z': "aged (V (w_redis w)) (V (w_redis w1))" using call_zfirst [OF z] by simp
  have g': "aged (V (w_redis w2)) (V (w_redis w3))" "raw = map_option fst (rv_keys (V (w_redis w3)) (dataKey i))"
    using call_get [OF g] by simp_all
  have now3: "rv_now (V (w_redis w)) \<le> rv_now (V (w_redis w3))" using z' v1 g'(1) by (simp add: aged_def)
  have key: "rv_keys (V (w_redis w3)) (dataKey i) = alive (rv_now (V (w_redis w3))) (Some (stringify e, Some d))"
    using z' v1 g'(1) stored now3 by (simp add: aged_def alive_alive del: alive_simps)
  have "rv_now (V (w_redis w3)) < d"
  proof (cases "case raw of None \<Rightarrow> None | Some s \<Rightarrow> parseEnvelope s type i")
    case None
    then have "\<exists>u. discard R type i w3 = (Inr u, w')" using rest by (auto simp: act_simps)
    then show ?thesis using discard_now lives by fastforce
  next
    case (Some x)
    then show ?thesis using rest lives by (simp add: act_simps)
  qed
  with key have "raw = Some (stringify e)" using g'(2) by simp
  then have "res = Claimed i e" using rest parse_valid_envelope [OF e] by (simp add: act_simps)
  then show ?thesis by simp
qed auto

lemma claimNext_rereads:
  assumes run: "claimNext R E c type w = (Inr (Claimed i e'), w')" and pos: "0 < jc_leaseMs c"
    and stored: "rv_keys (V (w_redis w)) (dataKey i) = alive (rv_now (V (w_redis w))) (Some (stringify e, d))"
    and e: "valid_envelope type i e"
  shows "envelope_attempts e' = envelope_attempts e"
proof -
  let ?w = "w\<lparr>w_tick := Suc (w_tick w)\<rparr>"
  from run obtain w1 w2 s w3 where
      z: "redis_call R (rd_zfirst R (queueKey type) (clock E (w_tick w))) ?w = (Inr (Some i), w1)"
    and l: "redis_call R (rd_set R (inflightKey i) (uuid E (w_tick w1)) (jc_leaseMs c) NX)
        (w1\<lparr>w_tick := Suc (w_tick w1)\<rparr>) = (Inr True, w2)"
    and g: "redis_call R (rd_get R (dataKey i)) w2 = (Inr (Some s), w3)"
    and p: "parseEnvelope s type i = Some e'"
    by (auto simp: claimNext_def dueJobId_def CLAIM_SCRIPT_def act_simps split: option.splits if_splits)
  obtain v1 where v1: "aged (V (w_redis w1)) v1" "V (w_redis w2) = v1\<lparr>rv_keys := (rv_keys v1)(inflightKey i \<mapsto>
      (uuid E (w_tick w1), Some (rv_now v1 + jc_leaseMs c)))\<rparr>"
    using call_set [OF l pos] by auto
  have z': "aged (V (w_redis w)) (V (w_redis w1))" using call_zfirst [OF z] by simp
  have g': "aged (V (w_redis w2)) (V (w_redis w3))" "Some s = map_option fst (rv_keys (V (w_redis w3)) (dataKey i))"
    using call_get [OF g] by simp_all
  have "rv_now (V (w_redis w)) \<le> rv_now (V (w_redis w3))" using z' v1 g'(1) by (simp add: aged_def)
  then have "rv_keys (V (w_redis w3)) (dataKey i) = alive (rv_now (V (w_redis w3))) (Some (stringify e, d))"
    using z' v1 g'(1) stored by (simp add: aged_def alive_alive del: alive_simps)
  then have "s = stringify e" using g'(2) by (auto simp: alive_def split: if_splits option.splits)
  then show ?thesis using reread_envelope [OF e] p by simp
qed

text \<open>A retry: the attempt is recorded, the job is due after the delay, the lease is given up.\<close>

lemma retryAfterFailure_Inr:
  assumes run: "retryAfterFailure R E c type jobId n delay w = (Inr u, w')" and pos: "0 < jc_payloadTtlMs c"
  shows "rv_keys (V (w_redis w')) (inflightKey jobId) = None \<and>
    (rv_zsets (V (w_redis w')) (queueKey type) jobId = None \<or>
     (\<exists>raw e d. parseEnvelope raw type jobId = Some e \<and>
        rv_zsets (V (w_redis w')) (queueKey type) jobId = Some (clock E (w_tick w) + delay) \<and>
        rv_now (V (w_redis w)) + jc_payloadTtlMs c \<le> d \<and>
        rv_keys (V (w_redis w')) (dataKey jobId) = alive (rv_now (V (w_redis w')))
          (Some (stringify (set_field ''attempts'' (JNumber (of_nat n)) e), Some d))))"
proof -
  from run obtain raw w1 where g: "redis_call R (rd_get R (dataKey jobId)) w = (Inr raw, w1)"
    by (auto simp: retryAfterFailure_def act_simps)
  note g' = call_get [OF g]
  let ?e = "case raw of None \<Rightarrow> None | Some s \<Rightarrow> parseEnvelope s type jobId"
  show ?thesis
  proof (cases ?e)
    case None
    then obtain a w2 b where z: "redis_call R (rd_zrem R (queueKey type) jobId) w1 = (Inr a, w2)"
      and d: "redis_call R (rd_del R [inflightKey jobId]) w2 = (Inr b, w')"
      using run g by (auto simp: retryAfterFailure_def drop_stale_def act_simps)
    from call_zrem [OF z] call_del [OF d] show ?thesis by (auto simp: aged_def)
  next
    case (Some e)
    let ?text = "stringify (set_field ''attempts'' (JNumber (of_nat n)) e)"
    from run g Some obtain b w2 a w3 m where
        s: "redis_call R (rd_set R (dataKey jobId) ?text (jc_payloadTtlMs c) Plain) w1 = (Inr b, w2)"
      and z: "redis_call R (rd_zadd R (queueKey type) (clock E (w_tick w2) + delay) jobId)
                (w2\<lparr>w_tick := Suc (w_tick w2)\<rparr>) = (Inr a, w3)"
      and d: "redis_call R (rd_del R [inflightKey jobId]) w3 = (Inr m, w')"
      by (auto simp: retryAfterFailure_def Let_def act_simps)
    obtain v1 where v1: "aged (V (w_redis w1)) v1" "w_tick w2 = w_tick w1"
      "V (w_redis w2) = v1\<lparr>rv_keys := (rv_keys v1)(dataKey jobId \<mapsto> (?text, Some (rv_now v1 + jc_payloadTtlMs c)))\<rparr>"
      using call_set [OF s pos] by (auto simp: may_set_def)
    obtain v2 where v2: "aged (V (w_redis w2)) v2"
      "V (w_redis w3) = v2\<lparr>rv_zsets := (rv_zsets v2)(queueKey type :=
          (rv_zsets v2 (queueKey type))(jobId \<mapsto> clock E (w_tick w2) + delay))\<rparr>"
      using call_zadd [OF z] by auto
    obtain v3 where v3: "aged (V (w_redis w3)) v3"
      "V (w_redis w') = v3\<lparr>rv_keys := (\<lambda>k. if k \<in> set [inflightKey jobId] then None else rv_keys v3 k)\<rparr>"
      using call_del [OF d] by auto
    have times: "rv_now (V (w_redis w)) \<le> rv_now v1" "rv_now v2 \<le> rv_now v3"
      using g' v1 v2 v3 by (simp_all add: aged_def)
    have "rv_keys (V (w_redis w')) (dataKey jobId) = alive (rv_now v3)
        (alive (rv_now v2) (Some (?text, Some (rv_now v1 + jc_payloadTtlMs c))))"
      using v1 v2 v3 by (simp add: aged_def)
    then have data: "rv_keys (V (w_redis w')) (dataKey jobId) = alive (rv_now (V (w_redis w')))
        (Some (?text, Some (rv_now v1 + jc_payloadTtlMs c)))"
      using times v3 by (simp only: alive_alive) simp
    obtain str where "parseEnvelope str type jobId = Some e" using Some by (auto split: option.splits)
    then show ?thesis using data v1 v2 v3 times g'
      by (intro conjI disjI2 exI [of _ str] exI [of _ e] exI [of _ "rv_now v1 + jc_payloadTtlMs c"])
        (simp_all add: aged_def)
  qed
qed

end

end
