(* ===== verification/Activity.thy ===== *)
theory Activity
  imports Prisma
begin

text \<open>
  The activity feed: \<open>modules/activity/activity.repository.ts\<close> (with \<open>createActivityEvent\<close>,
  which the other repositories call inside their transactions) and \<open>activity.service.ts\<close>.
  Also the checks several services share: the group exists, the requester is a member.
\<close>

section \<open>Errors of the services\<close>

definition groupNotFound :: exn where
  "groupNotFound = NotFoundError GROUP_NOT_FOUND ''Group not found.''"

definition notGroupMember :: exn where
  "notGroupMember = ForbiddenError NOT_GROUP_MEMBER ''You are not a member of this group.''"

lemma activity_errors [code_of_simps, simp]:
  "exn_code groupNotFound = Some GROUP_NOT_FOUND"
  "exn_code notGroupMember = Some NOT_GROUP_MEMBER"
  "\<not> db_exn groupNotFound" "\<not> db_exn notGroupMember"
  by (simp_all add: groupNotFound_def notGroupMember_def error_class_defs)

section \<open>Public user fields\<close>

record SafeUser =
  sf_id :: string
  sf_name :: string
  sf_email :: string

definition safeUser :: "User row \<Rightarrow> SafeUser" where
  "safeUser u = \<lparr>sf_id = row_id u, sf_name = us_name (row_data u), sf_email = us_email (row_data u)\<rparr>"

text \<open>A required relation to a user, as Prisma loads it for \<open>include\<close> or \<open>select\<close>.\<close>

definition includeUser :: "'d prisma \<Rightarrow> string \<Rightarrow> (('d, 'r, 'm) world, SafeUser) act" where
  "includeUser P uid =
     seq (db_do (dg_findUnique (p_user P) (\<lambda>r. row_id r = uid))) (\<lambda>u.
     seq (need u (PrismaFailure ''required relation is missing'')) (\<lambda>user.
     ret (safeUser user)))"

section \<open>Recording an event\<close>

record ActivityEventInput =
  ai_userId :: string
  ai_type :: ActivityType
  ai_message :: string

fun activity_type_name :: "ActivityType \<Rightarrow> string" where
  "activity_type_name EXPENSE_ADDED = ''EXPENSE_ADDED''"
| "activity_type_name EXPENSE_UPDATED = ''EXPENSE_UPDATED''"
| "activity_type_name EXPENSE_DELETED = ''EXPENSE_DELETED''"
| "activity_type_name SETTLEMENT_ADDED = ''SETTLEMENT_ADDED''"
| "activity_type_name GROUP_CREATED = ''GROUP_CREATED''"
| "activity_type_name GROUP_UPDATED = ''GROUP_UPDATED''"
| "activity_type_name MEMBER_ADDED = ''MEMBER_ADDED''"
| "activity_type_name MEMBER_REMOVED = ''MEMBER_REMOVED''"

definition createActivityEvent :: "'d prisma \<Rightarrow> ActivityEvent \<Rightarrow> (('d, 'r, 'm) world, string) act" where
  "createActivityEvent P data =
     seq (db_do (dg_create (p_activityEvent P) data)) (\<lambda>event.
     seq (metric activityEventsCreatedTotal [(''type'', activity_type_name (ev_type data))]) (\<lambda>_.
     ret (row_id event)))"

section \<open>Repository\<close>

definition ActivityRepository_findGroupById ::
  "'d prisma \<Rightarrow> string \<Rightarrow> (('d, 'r, 'm) world, Group row option) act" where
  "ActivityRepository_findGroupById P gid = db_do (dg_findUnique (p_group P) (\<lambda>r. row_id r = gid))"

definition member_where :: "string \<Rightarrow> string \<Rightarrow> GroupMember row \<Rightarrow> bool" where
  "member_where gid uid r \<longleftrightarrow> gm_groupId (row_data r) = gid \<and> gm_userId (row_data r) = uid"

definition ActivityRepository_isGroupMember ::
  "'d prisma \<Rightarrow> string \<Rightarrow> string \<Rightarrow> (('d, 'r, 'm) world, bool) act" where
  "ActivityRepository_isGroupMember P gid uid =
     seq (db_do (dg_findUnique (p_groupMember P) (member_where gid uid))) (\<lambda>m. ret (m \<noteq> None))"

definition feed_key :: "ActivityEvent row \<Rightarrow> int \<times> string" where
  "feed_key r = (- ev_occurredAt (row_data r), row_id r)"

definition in_group_event :: "string \<Rightarrow> ActivityEvent row \<Rightarrow> bool" where
  "in_group_event gid r \<longleftrightarrow> ev_groupId (row_data r) = gid"

definition findActivityByGroupId ::
  "'d prisma \<Rightarrow> string \<Rightarrow> int \<Rightarrow> nat \<Rightarrow>
   (('d, 'r, 'm) world, (ActivityEvent row \<times> SafeUser) list \<times> nat) act" where
  "findActivityByGroupId P gid page limit =
     seq (db_do (dg_findMany (p_activityEvent P)
            \<lparr>q_where = (\<lambda>_. in_group_event gid), q_key = feed_key,
             q_skip = (page - 1) * int limit, q_take = Some limit\<rparr>)) (\<lambda>rows.
     seq (map_act (\<lambda>r. seq (includeUser P (ev_userId (row_data r))) (\<lambda>u. ret (r, u))) rows) (\<lambda>events.
     seq (db_do (dg_count (p_activityEvent P) (in_group_event gid))) (\<lambda>total.
     ret (events, total))))"

section \<open>Service\<close>

record ActivityEventDto =
  ad_id :: string
  ad_groupId :: string
  ad_userId :: string
  ad_type :: ActivityType
  ad_message :: string
  ad_amountMinorUnits :: "int option"
  ad_currencyCode :: "string option"
  ad_occurredAt :: int
  ad_createdAt :: int
  ad_user :: SafeUser

record ActivityFeedPage =
  af_events :: "ActivityEventDto list"
  af_page :: int
  af_limit :: nat
  af_total :: nat

definition activity_toDto :: "ActivityEvent row \<times> SafeUser \<Rightarrow> ActivityEventDto" where
  "activity_toDto event =
     (case event of (r, user) \<Rightarrow>
       \<lparr>ad_id = row_id r, ad_groupId = ev_groupId (row_data r), ad_userId = ev_userId (row_data r),
        ad_type = ev_type (row_data r), ad_message = ev_message (row_data r),
        ad_amountMinorUnits = map_option js_Number (ev_amountMinorUnits (row_data r)),
        ad_currencyCode = ev_currencyCode (row_data r),
        ad_occurredAt = ev_occurredAt (row_data r), ad_createdAt = row_createdAt r, ad_user = user\<rparr>)"

definition getGroupActivity ::
  "'d prisma \<Rightarrow> string \<Rightarrow> string \<Rightarrow> int \<Rightarrow> nat \<Rightarrow> (('d, 'r, 'm) world, ActivityFeedPage) act" where
  "getGroupActivity P requesterId groupId page limit =
     seq (ActivityRepository_findGroupById P groupId) (\<lambda>group.
     seq (need group groupNotFound) (\<lambda>_.
     seq (ActivityRepository_isGroupMember P groupId requesterId) (\<lambda>isMember.
     seq (guard isMember notGroupMember) (\<lambda>_.
     seq (findActivityByGroupId P groupId page limit) (\<lambda>(events, total).
     ret \<lparr>af_events = map activity_toDto events, af_page = page, af_limit = limit,
          af_total = total\<rparr>)))))"

section \<open>Lemmas\<close>

text \<open>The membership and the groups that the tables record.\<close>

definition is_member :: "tables \<Rightarrow> string \<Rightarrow> string \<Rightarrow> bool" where
  "is_member t gid uid \<longleftrightarrow> (\<exists>r\<in>set (members t). member_where gid uid r)"

definition group_row :: "tables \<Rightarrow> string \<Rightarrow> Group row \<Rightarrow> bool" where
  "group_row t gid g \<longleftrightarrow> g \<in> set (groups t) \<and> row_id g = gid"

context prisma
begin

lemma includeUser_Inr:
  assumes "includeUser P uid w = (Inr u, w')"
  shows "T (w_db w') = T (w_db w) \<and> sf_id u = uid \<and>
    only_tables w w' \<and>
    (\<exists>r\<in>set (users (T (w_db w))). row_id r = uid \<and> u = safeUser r)"
proof -
  obtain x d r where f: "dg_findUnique (p_user P) (\<lambda>r. row_id r = uid) (w_db w) = (Inr x, d)"
    and x: "x = Some r" and u: "u = safeUser r" and w': "w' = w\<lparr>w_db := d\<rparr>"
    using assms by (auto simp: includeUser_def act_simps)
  from usr.findUnique_Some [OF f [unfolded x]] u w' show ?thesis
    by (auto simp: safeUser_def)
qed

lemma silent_includeUser [silent_intros]: "silent T (includeUser P uid)"
  unfolding includeUser_def by (intro silent_intros usr.silent_reads)

lemma keeps_includeUser [keep_intros]: "keeps (on_db (\<lambda>d. I (T d))) (includeUser P uid)"
  unfolding includeUser_def by (intro keep_intros usr.keeps_reads)

lemma map_includeUser_Inr:
  "map_act (\<lambda>r. seq (includeUser P (f r)) (\<lambda>u. ret (r, u))) rs w = (Inr xs, w') \<Longrightarrow>
   T (w_db w') = T (w_db w) \<and> map fst xs = rs \<and> only_tables w w'"
proof (induction rs arbitrary: w xs)
  case Nil
  then show ?case by (auto simp: act_simps)
next
  case (Cons r rs)
  then obtain u w1 ys where u: "includeUser P (f r) w = (Inr u, w1)"
    and ys: "map_act (\<lambda>r. seq (includeUser P (f r)) (\<lambda>u. ret (r, u))) rs w1 = (Inr ys, w')"
    and xs: "xs = (r, u) # ys"
    by (auto simp: act_simps)
  from includeUser_Inr [OF u] Cons.IH [OF ys] xs show ?case by (auto intro: only_tables_trans)
qed

lemma isGroupMember_Inr:
  assumes "ActivityRepository_isGroupMember P gid uid w = (Inr b, w')"
  shows "T (w_db w') = T (w_db w) \<and> b = is_member (T (w_db w)) gid uid \<and>
    only_tables w w'"
proof -
  obtain x d where f: "dg_findUnique (p_groupMember P) (member_where gid uid) (w_db w) = (Inr x, d)"
    and b: "b = (x \<noteq> None)" and w': "w' = w\<lparr>w_db := d\<rparr>"
    using assms by (auto simp: ActivityRepository_isGroupMember_def act_simps)
  have "b = is_member (T (w_db w)) gid uid"
    using f b by (cases x) (auto simp: is_member_def dest: mem.findUnique_None mem.findUnique_Some)
  then show ?thesis using w' mem.findUnique_Inr_T [OF f] by simp
qed

lemma findActivity_Inr:
  assumes "findActivityByGroupId P gid page limit w = (Inr (events, n), w')"
  shows "T (w_db w') = T (w_db w)"
    and "n = length (filter (in_group_event gid) (activities (T (w_db w))))"
    and "\<exists>ys. mset ys = mset (filter (in_group_event gid) (activities (T (w_db w)))) \<and>
              sorted (map feed_key ys) \<and>
              map fst events = page_of ((page - 1) * int limit) (Some limit) ys"
proof -
  let ?q = "\<lparr>q_where = (\<lambda>_. in_group_event gid), q_key = feed_key,
             q_skip = (page - 1) * int limit, q_take = Some limit\<rparr>"
  obtain rows d w2 d' where
    f: "dg_findMany (p_activityEvent P) ?q (w_db w) = (Inr rows, d)"
    and m: "map_act (\<lambda>r. seq (includeUser P (ev_userId (row_data r))) (\<lambda>u. ret (r, u))) rows
              (w\<lparr>w_db := d\<rparr>) = (Inr events, w2)"
    and c: "dg_count (p_activityEvent P) (in_group_event gid) (w_db w2) = (Inr n, d')"
    and w': "w' = w2\<lparr>w_db := d'\<rparr>"
    using assms by (auto simp: findActivityByGroupId_def act_simps)
  have T2: "T (w_db w2) = T (w_db w)" and ev: "map fst events = rows"
    using map_includeUser_Inr [OF m] act.findMany_Inr(1) [OF f] by simp_all
  show "T (w_db w') = T (w_db w)"
    and "n = length (filter (in_group_event gid) (activities (T (w_db w))))"
    using act.count_Inr [OF c] T2 w' by simp_all
  show "\<exists>ys. mset ys = mset (filter (in_group_event gid) (activities (T (w_db w)))) \<and>
              sorted (map feed_key ys) \<and>
              map fst events = page_of ((page - 1) * int limit) (Some limit) ys"
    using act.findMany_Inr(2) [OF f] ev by simp
qed

text \<open>Recording an event: one row more, and the rest of the tables untouched.\<close>

lemma createActivityEvent_Inr:
  assumes "createActivityEvent P data w = (Inr i, w')"
  shows "(\<exists>r. T (w_db w') = activities_update (\<lambda>rs. rs @ [r]) (T (w_db w)) \<and>
             row_data r = data \<and> row_id r = i) \<and>
    w_tick w' = w_tick w \<and> w_redis w' = w_redis w \<and> w_mail w' = w_mail w"
proof -
  obtain r d where c: "dg_create (p_activityEvent P) data (w_db w) = (Inr r, d)"
    and i: "i = row_id r"
    and w': "w' = w\<lparr>w_db := d, w_metrics := increment (metric_name activityEventsCreatedTotal)
               [(''type'', activity_type_name (ev_type data))] 1 (w_metrics w)\<rparr>"
    using assms by (auto simp: createActivityEvent_def act_simps)
  from act.create_Inr [OF c] i w' show ?thesis by (auto simp: inserted_def)
qed

end

section \<open>Pages\<close>

text \<open>The pages of an ordered list, one after the other, are the list.\<close>

lemma page_of_Suc: "0 \<le> s \<Longrightarrow> page_of s (Some l) ys = take l (drop (nat s) ys)"
  by (simp add: page_of_def)

lemma concat_pages:
  "concat (map (\<lambda>i. page_of ((int i - 1) * int l) (Some l) ys) [1..<Suc n]) = take (n * l) ys"
proof (induction n)
  case 0
  then show ?case by simp
next
  case (Suc n)
  have "nat ((int (Suc n) - 1) * int l) = n * l"
    by (simp add: nat_mult_distrib)
  then have p: "page_of ((int (Suc n) - 1) * int l) (Some l) ys = take l (drop (n * l) ys)"
    by (simp add: page_of_def)
  have "take (Suc n * l) ys = take (n * l) ys @ take l (drop (n * l) ys)"
    by (metis add.commute mult_Suc take_add)
  then show ?case using Suc p by (simp del: of_nat_Suc)
qed

text \<open>With an injective key there is only one ordered arrangement.\<close>

lemma ordered_unique:
  assumes "mset ys = mset zs" "sorted (map k ys)" "sorted (map k zs)" "distinct (map k zs)"
  shows "ys = zs"
proof -
  have s: "set ys = set zs" using assms(1) by (rule mset_eq_setD)
  have m: "mset (map k ys) = mset (map k zs)" using assms(1) by simp
  then have d: "distinct (map k ys)" using assms(4) by (metis mset_eq_imp_distinct_iff)
  have "inj_on k (set ys \<union> set zs)" using assms(4) s by (simp add: distinct_map)
  then show ?thesis using map_sorted_distinct_set_unique assms(2-4) d s by blast
qed

end
