(* ===== verification/GroupCache.thy ===== *)
theory GroupCache
  imports RedisStores Json Activity
begin

text \<open>
  The cache of group details, \<open>modules/groups/group.cache.ts\<close>: entries are JSON texts under a
  group-scoped key; every Redis failure is absorbed, counted and treated as a miss.
\<close>

section \<open>Entries\<close>

record GroupWithMembers =
  gw_id :: string
  gw_name :: string
  gw_createdById :: string
  gw_createdAt :: int
  gw_updatedAt :: int
  gw_members :: "SafeUser list"

definition groupCacheKey :: "string \<Rightarrow> string" where
  "groupCacheKey groupId = ''cache:group:'' @ groupId"

definition toDate :: "env \<Rightarrow> json option \<Rightarrow> int option" where
  "toDate E v = (case v of Some (JString s) \<Rightarrow> if isDate E s then Some (parseDate E s) else None | _ \<Rightarrow> None)"

definition serialize :: "env \<Rightarrow> GroupWithMembers \<Rightarrow> string" where
  "serialize E g = stringify (JObject
     [(''id'', JString (gw_id g)), (''name'', JString (gw_name g)),
      (''createdById'', JString (gw_createdById g)),
      (''createdAt'', JString (toISOString E (gw_createdAt g))),
      (''updatedAt'', JString (toISOString E (gw_updatedAt g))),
      (''members'', JArray (map (\<lambda>m. JObject [(''id'', JString (sf_id m)),
          (''name'', JString (sf_name m)), (''email'', JString (sf_email m))]) (gw_members g)))])"

definition json_string :: "json option \<Rightarrow> string option" where
  "json_string v = (case v of Some (JString s) \<Rightarrow> Some s | _ \<Rightarrow> None)"

definition cached_member :: "json \<Rightarrow> SafeUser option" where
  "cached_member m =
     (case (json_string (json_field m ''id''), json_string (json_field m ''name''),
            json_string (json_field m ''email'')) of
        (Some i, Some n, Some e) \<Rightarrow> Some \<lparr>sf_id = i, sf_name = n, sf_email = e\<rparr>
      | _ \<Rightarrow> None)"

definition deserialize :: "env \<Rightarrow> string \<Rightarrow> string \<Rightarrow> GroupWithMembers option" where
  "deserialize E raw groupId =
     (case JSON_parse raw of
        None \<Rightarrow> None
      | Some parsed \<Rightarrow>
          if json_string (json_field parsed ''id'') \<noteq> Some groupId then None
          else case (json_string (json_field parsed ''name''),
                     json_string (json_field parsed ''createdById''), json_field parsed ''members'') of
            (Some name, Some createdById, Some (JArray ms)) \<Rightarrow>
              (case (toDate E (json_field parsed ''createdAt''), toDate E (json_field parsed ''updatedAt'')) of
                 (Some createdAt, Some updatedAt) \<Rightarrow>
                   (let us = map cached_member ms in
                    if list_ex (\<lambda>u. u = None) us then None
                    else Some \<lparr>gw_id = groupId, gw_name = name, gw_createdById = createdById,
                           gw_createdAt = createdAt, gw_updatedAt = updatedAt,
                           gw_members = map the us\<rparr>)
               | _ \<Rightarrow> None)
          | _ \<Rightarrow> None)"

section \<open>Operations\<close>

definition cache_failure :: "string \<Rightarrow> (('d, 'r, 'm) world, unit) act" where
  "cache_failure op = metric cacheFailuresTotal [(''operation'', op)]"

definition getCachedGroupById ::
  "'r redis \<Rightarrow> env \<Rightarrow> string \<Rightarrow> (('d, 'r, 'm) world, GroupWithMembers option) act" where
  "getCachedGroupById R E groupId =
     seq (attempt (RedisCacheStore_get R (groupCacheKey groupId))) (\<lambda>got.
     case got of
       Inl _ \<Rightarrow> seq (cache_failure ''get'') (\<lambda>_. ret None)
     | Inr None \<Rightarrow> ret None
     | Inr (Some raw) \<Rightarrow> ret (deserialize E raw groupId))"

definition setCachedGroupById ::
  "'r redis \<Rightarrow> env \<Rightarrow> int \<Rightarrow> string \<Rightarrow> GroupWithMembers \<Rightarrow> (('d, 'r, 'm) world, unit) act" where
  "setCachedGroupById R E ttlSeconds groupId g =
     catch (RedisCacheStore_set R (groupCacheKey groupId) (serialize E g) ttlSeconds)
       (\<lambda>_. cache_failure ''set'')"

definition invalidateGroupCache :: "'r redis \<Rightarrow> string \<Rightarrow> (('d, 'r, 'm) world, unit) act" where
  "invalidateGroupCache R groupId =
     catch (RedisCacheStore_delete R (groupCacheKey groupId)) (\<lambda>_. cache_failure ''delete'')"

section \<open>Reading back an entry\<close>

text \<open>What \<open>toISOString\<close> and the \<open>Date\<close> constructor promise of each other.\<close>

definition iso_dates :: "env \<Rightarrow> bool" where
  "iso_dates E \<longleftrightarrow> (\<forall>t. isDate E (toISOString E t) \<and> parseDate E (toISOString E t) = t)"

lemma cached_member_entry [simp]:
  "cached_member (JObject [(''id'', JString (sf_id m)), (''name'', JString (sf_name m)),
     (''email'', JString (sf_email m))]) = Some m"
  by (simp add: cached_member_def json_field_Cons json_field_Nil json_string_def)

definition entry_json :: "env \<Rightarrow> GroupWithMembers \<Rightarrow> json" where
  "entry_json E g = JObject
     [(''id'', JString (gw_id g)), (''name'', JString (gw_name g)),
      (''createdById'', JString (gw_createdById g)),
      (''createdAt'', JString (toISOString E (gw_createdAt g))),
      (''updatedAt'', JString (toISOString E (gw_updatedAt g))),
      (''members'', JArray (map (\<lambda>m. JObject [(''id'', JString (sf_id m)),
          (''name'', JString (sf_name m)), (''email'', JString (sf_email m))]) (gw_members g)))]"

lemma parse_serialize: "JSON_parse (serialize E g) = Some (entry_json E g)"
proof -
  have "JSON_parse (stringify (entry_json E g)) = Some (entry_json E g)"
    by (rule JSON_parse_stringify) (simp add: entry_json_def list_all_iff)
  then show ?thesis by (simp add: serialize_def entry_json_def)
qed

lemma entry_fields:
  "json_field (entry_json E g) ''id'' = Some (JString (gw_id g))"
  "json_field (entry_json E g) ''name'' = Some (JString (gw_name g))"
  "json_field (entry_json E g) ''createdById'' = Some (JString (gw_createdById g))"
  "json_field (entry_json E g) ''createdAt'' = Some (JString (toISOString E (gw_createdAt g)))"
  "json_field (entry_json E g) ''updatedAt'' = Some (JString (toISOString E (gw_updatedAt g)))"
  "json_field (entry_json E g) ''members'' = Some (JArray (map (\<lambda>m. JObject [(''id'', JString (sf_id m)),
     (''name'', JString (sf_name m)), (''email'', JString (sf_email m))]) (gw_members g)))"
  by (simp_all add: entry_json_def json_field_Cons json_field_Nil)

lemma deserialize_serialize:
  assumes "iso_dates E"
  shows "deserialize E (serialize E g) (gw_id g) = Some g"
proof -
  have "map cached_member (map (\<lambda>m. JObject [(''id'', JString (sf_id m)),
     (''name'', JString (sf_name m)), (''email'', JString (sf_email m))]) (gw_members g)) =
     map Some (gw_members g)" by simp
  then show ?thesis using assms
    unfolding deserialize_def parse_serialize option.case entry_fields
    by (simp add: json_string_def toDate_def iso_dates_def list_ex_iff Let_def del: map_map)
      (auto simp: comp_def)
qed

lemma deserialize_other_id: "gid \<noteq> gw_id g \<Longrightarrow> deserialize E (serialize E g) gid = None"
  by (simp add: deserialize_def parse_serialize entry_fields json_string_def)

section \<open>Absorbing failures\<close>

lemma attempt_silent [silent_intros]: "silent T m \<Longrightarrow> silent T (attempt m)"
  by (auto simp: silent_def act_simps)

lemma silent_catch [silent_intros]: "silent T m \<Longrightarrow> (\<And>e. silent T (h e)) \<Longrightarrow> silent T (catch m h)"
  unfolding silent_def by (intro allI impI, rename_tac w r w', case_tac r) (fastforce simp: act_simps)+

lemma counts_up_attempt [count_intros]: "counts_up m \<Longrightarrow> counts_up (attempt m)"
  by (auto simp: counts_up_def act_simps)

lemma silent_cache [silent_intros]:
  "silent T (getCachedGroupById R E gid)"
  "silent T (setCachedGroupById R E ttl gid g)"
  "silent T (invalidateGroupCache R gid)"
proof -
  show "silent T (getCachedGroupById R E gid)"
    unfolding getCachedGroupById_def RedisCacheStore_get_def cache_failure_def
    by (intro silent_intros) (auto split: sum.split option.split intro!: silent_intros)
qed (auto simp: setCachedGroupById_def invalidateGroupCache_def RedisCacheStore_set_def
    RedisCacheStore_delete_def cache_failure_def intro!: silent_intros)

lemma cache_never_fails:
  "never_fails (getCachedGroupById R E gid)"
  "never_fails (setCachedGroupById R E ttl gid g)"
  "never_fails (invalidateGroupCache R gid)"
  by (auto simp: never_fails_def isl_def getCachedGroupById_def setCachedGroupById_def
      invalidateGroupCache_def cache_failure_def seq_def attempt_def catch_def metric_def ret_def
      split: prod.split sum.split option.split)

context redis_server
begin

text \<open>A hit is the text that is stored, read back; otherwise the failure was counted.\<close>

lemma getCachedGroupById_Some:
  assumes "getCachedGroupById R E gid w = (Inr (Some g), w')"
  shows "\<exists>raw d. rv_keys (V (w_redis w')) (groupCacheKey gid) = Some (raw, d) \<and>
    deserialize E raw gid = Some g \<and> w_db w' = w_db w"
proof -
  obtain x w1 where x: "RedisCacheStore_get R (groupCacheKey gid) w = (x, w1)" by fastforce
  then have "x = Inr y \<Longrightarrow> y = None \<Longrightarrow> False" "x \<noteq> Inl e" for y e
    using assms
    by (auto simp: getCachedGroupById_def seq_def attempt_def ret_def cache_failure_def metric_def)
  then obtain raw where "x = Inr (Some raw)" by (metis not_None_eq obj_sumE)
  with x assms have got: "RedisCacheStore_get R (groupCacheKey gid) w = (Inr (Some raw), w')"
    and "deserialize E raw gid = Some g"
    by (auto simp: getCachedGroupById_def seq_def attempt_def ret_def)
  with cache_get_Inr [OF got] show ?thesis by (auto simp: map_option_case split: option.splits)
qed

text \<open>After an invalidation the entry is gone, or a failure was counted.\<close>

lemma invalidateGroupCache_run:
  assumes "invalidateGroupCache R gid w = (res, w')"
  shows "res = Inr () \<and> w_db w' = w_db w \<and>
    (rv_keys (V (w_redis w')) (groupCacheKey gid) = None \<and> w_metrics w' = w_metrics w \<or>
     w_metrics w' = increment (metric_name cacheFailuresTotal) [(''operation'', ''delete'')] 1 (w_metrics w))"
proof (cases "RedisCacheStore_delete R (groupCacheKey gid) w")
  case (Pair r w1)
  have same: "w_db w1 = w_db w" "w_metrics w1 = w_metrics w"
    using Pair by (cases r; auto simp: RedisCacheStore_delete_def act_simps dest!: redis_call_db)+
  show ?thesis
  proof (cases r)
    case (Inl e)
    then show ?thesis using assms Pair same
      by (auto simp: invalidateGroupCache_def catch_def cache_failure_def metric_def)
  next
    case (Inr u)
    then show ?thesis using assms Pair same cache_delete_Inr [of "groupCacheKey gid" w u w1]
      by (auto simp: invalidateGroupCache_def catch_def)
  qed
qed

end

end
