(* ===== verification/Splits.thy ===== *)
theory Splits
  imports Activity
begin

text \<open>
  The money-splitting helpers of \<open>modules/expenses/split.util.ts\<close>, the reconciliation of
  splits from \<open>expense.service.ts\<close>, and the interface both split types keep: the shares go
  to the participants, in order, and sum to the total.
\<close>

section \<open>Helpers\<close>

record SplitAmount =
  sa_userId :: string
  sa_amountMinorUnits :: int

definition calculateEqualSplits :: "int \<Rightarrow> string list \<Rightarrow> SplitAmount list" where
  "calculateEqualSplits totalMinorUnits participantIds =
     (let count = int (length participantIds) in
      if count = 0 then []
      else let baseShare = bigint_div totalMinorUnits count;
               remainder = js_Number (bigint_mod totalMinorUnits count)
           in map (\<lambda>(index, userId).
                \<lparr>sa_userId = userId,
                 sa_amountMinorUnits = baseShare + (if int index < remainder then 1 else 0)\<rparr>)
                (enumerate 0 participantIds))"

definition sumSplitAmounts :: "SplitAmount list \<Rightarrow> int" where
  "sumSplitAmounts shares = foldl (\<lambda>sum split. sum + sa_amountMinorUnits split) 0 shares"

lemma sumSplitAmounts_sum: "sumSplitAmounts xs = (\<Sum>x\<leftarrow>xs. sa_amountMinorUnits x)"
proof -
  have "foldl (\<lambda>sum split. sum + sa_amountMinorUnits split) a xs =
          a + (\<Sum>x\<leftarrow>xs. sa_amountMinorUnits x)" for a
    by (induction xs arbitrary: a) auto
  then show ?thesis by (simp add: sumSplitAmounts_def)
qed

subsection \<open>Equal shares\<close>

text \<open>The share at each index, for a nonnegative total.\<close>

definition equal_share :: "int \<Rightarrow> nat \<Rightarrow> nat \<Rightarrow> int" where
  "equal_share total_amount n i = total_amount div int n + (if int i < total_amount mod int n then 1 else 0)"

lemma js_Number_mod:
  assumes "0 < n" "n \<le> 2 ^ 53"
  shows "js_Number (a mod int n) = a mod int n"
proof -
  have "0 \<le> a mod int n" "a mod int n < int n" using assms by simp_all
  moreover have "int n \<le> 2 ^ 53" using assms(2) by (metis of_nat_le_iff of_nat_numeral of_nat_power)
  ultimately show ?thesis by (intro js_Number_safe) (simp add: MAX_SAFE_INTEGER_def)
qed

lemma calculateEqualSplits_share:
  assumes "0 \<le> a" "length ids \<le> 2 ^ 53"
  shows "calculateEqualSplits a ids =
           map (\<lambda>(i, u). \<lparr>sa_userId = u, sa_amountMinorUnits = equal_share a (length ids) i\<rparr>)
               (enumerate 0 ids)"
proof (cases "ids = []")
  case True
  then show ?thesis by (simp add: calculateEqualSplits_def)
next
  case False
  then have n: "0 < length ids" by simp
  show ?thesis using False assms(1) js_Number_mod [OF n assms(2), of a]
    by (simp add: calculateEqualSplits_def equal_share_def Let_def bigint_div_pos bigint_mod_pos)
qed

lemma calculateEqualSplits_users: "map sa_userId (calculateEqualSplits a ids) = ids"
proof (cases "ids = []")
  case False
  have "map sa_userId (calculateEqualSplits a ids) = map snd (enumerate 0 ids)"
    using False by (simp add: calculateEqualSplits_def Let_def comp_def case_prod_unfold)
  then show ?thesis by simp
qed (simp add: calculateEqualSplits_def)

lemma sum_equal_shares:
  assumes "0 \<le> a" "0 < n"
  shows "(\<Sum>i\<leftarrow>[0..<n]. equal_share a n i) = a"
proof -
  define k where "k = nat (a mod int n)"
  have k: "int k = a mod int n" using assms by (simp add: k_def)
  have "a mod int n < int n" using assms by simp
  then have "k \<le> n" using k by linarith
  have "(\<Sum>i\<leftarrow>[0..<n]. equal_share a n i) =
          (\<Sum>i\<leftarrow>[0..<n]. a div int n) + (\<Sum>i\<leftarrow>[0..<n]. if i < k then (1::int) else 0)"
    by (simp add: equal_share_def k [symmetric] sum_list_addf)
  also have "\<dots> = int n * (a div int n) + a mod int n"
    using sum_list_if_less [of k "replicate n ()"] \<open>k \<le> n\<close> k by (simp add: sum_list_triv)
  also have "\<dots> = a" by simp
  finally show ?thesis .
qed

lemma sum_calculateEqualSplits:
  assumes "0 \<le> a" "ids \<noteq> []" "length ids \<le> 2 ^ 53"
  shows "sumSplitAmounts (calculateEqualSplits a ids) = a"
proof -
  have e: "map fst (enumerate 0 ids) = [0..<length ids]"
    by (simp add: enumerate_eq_zip)
  have "sumSplitAmounts (calculateEqualSplits a ids) =
          (\<Sum>x\<leftarrow>enumerate 0 ids. equal_share a (length ids) (fst x))"
    using assms by (simp add: sumSplitAmounts_sum calculateEqualSplits_share comp_def case_prod_unfold)
  also have "\<dots> = (\<Sum>i\<leftarrow>map fst (enumerate 0 ids). equal_share a (length ids) i)"
    by (simp only: map_map comp_def)
  also have "\<dots> = a" using sum_equal_shares [of a "length ids"] assms by (simp only: e) simp
  finally show ?thesis .
qed

lemma equal_share_fair:
  assumes "0 \<le> a" "0 < n"
  shows "0 \<le> equal_share a n i" and "equal_share a n j \<le> equal_share a n i + 1"
    and "i \<le> j \<Longrightarrow> equal_share a n j \<le> equal_share a n i"
  using assms pos_imp_zdiv_nonneg_iff [of "int n" a] by (auto simp: equal_share_def)

section \<open>Reconciling the splits of an input\<close>

record Participant =
  pt_userId :: string
  pt_amountMinorUnits :: "int option"

definition duplicateSplitUser :: exn where
  "duplicateSplitUser = BadRequestError DUPLICATE_SPLIT_USER
     ''A participant cannot appear more than once in the splits.''"

definition splitUserNotMember :: exn where
  "splitUserNotMember = ForbiddenError SPLIT_USER_NOT_GROUP_MEMBER
     ''Every split participant must be a member of the group.''"

definition missingSplitAmount :: exn where
  "missingSplitAmount = BadRequestError SPLIT_TOTAL_MISMATCH
     ''Every EXACT participant must provide an amount.''"

definition splitTotalMismatch :: exn where
  "splitTotalMismatch = BadRequestError SPLIT_TOTAL_MISMATCH
     ''EXACT split amounts must sum to the expense total.''"

lemma split_errors [code_of_simps, simp]:
  "exn_code duplicateSplitUser = Some DUPLICATE_SPLIT_USER"
  "exn_code splitUserNotMember = Some SPLIT_USER_NOT_GROUP_MEMBER"
  "exn_code missingSplitAmount = Some SPLIT_TOTAL_MISMATCH"
  "exn_code splitTotalMismatch = Some SPLIT_TOTAL_MISMATCH"
  "\<not> db_exn duplicateSplitUser" "\<not> db_exn splitUserNotMember"
  "\<not> db_exn missingSplitAmount" "\<not> db_exn splitTotalMismatch"
  by (simp_all add: duplicateSplitUser_def splitUserNotMember_def missingSplitAmount_def
      splitTotalMismatch_def error_class_defs)

text \<open>\<open>new Set(ids).size !== ids.length\<close>\<close>

definition has_duplicates :: "string list \<Rightarrow> bool" where
  "has_duplicates xs \<longleftrightarrow> length (remdups xs) \<noteq> length xs"

lemma has_duplicates_iff: "has_duplicates xs \<longleftrightarrow> \<not> distinct xs"
  using length_remdups_eq by (auto simp: has_duplicates_def)

definition exact_amount :: "Participant \<Rightarrow> SplitAmount" where
  "exact_amount p = \<lparr>sa_userId = pt_userId p,
     sa_amountMinorUnits = (case pt_amountMinorUnits p of None \<Rightarrow> 0 | Some a \<Rightarrow> a)\<rparr>"

definition exactSplits :: "int \<Rightarrow> Participant list \<Rightarrow> exn + SplitAmount list" where
  "exactSplits totalMinorUnits participants =
     (if list_ex (\<lambda>p. pt_amountMinorUnits p = None) participants then Inl missingSplitAmount
      else let splits = map exact_amount participants in
           if sumSplitAmounts splits \<noteq> totalMinorUnits then Inl splitTotalMismatch
           else Inr splits)"

definition equalSplits :: "int \<Rightarrow> Participant list \<Rightarrow> exn + SplitAmount list" where
  "equalSplits totalMinorUnits participants =
     Inr (calculateEqualSplits totalMinorUnits (map pt_userId participants))"

definition splitsFor :: "SplitType \<Rightarrow> int \<Rightarrow> Participant list \<Rightarrow> exn + SplitAmount list" where
  "splitsFor splitType totalMinorUnits participants =
     (case splitType of
        EQUAL \<Rightarrow> equalSplits totalMinorUnits participants
      | EXACT \<Rightarrow> exactSplits totalMinorUnits participants)"

definition reconcileSplits ::
  "SplitType \<Rightarrow> int \<Rightarrow> Participant list \<Rightarrow> string list \<Rightarrow> exn + SplitAmount list" where
  "reconcileSplits splitType totalMinorUnits participants memberIds =
     (let participantIds = map pt_userId participants in
      if has_duplicates participantIds then Inl duplicateSplitUser
      else if list_ex (\<lambda>p. p \<notin> set memberIds) participantIds then Inl splitUserNotMember
      else splitsFor splitType totalMinorUnits participants)"

section \<open>The interface of a split type\<close>

text \<open>
  What the expense service relies on, whichever split type is asked for: on accepted inputs
  (a total and participants satisfying \<open>ok\<close>) the shares belong to the participants in input
  order and sum to the total.
\<close>

locale split_type =
  fixes split :: "int \<Rightarrow> Participant list \<Rightarrow> exn + SplitAmount list"
    and ok :: "int \<Rightarrow> Participant list \<Rightarrow> bool"
  assumes split_users: "split a ps = Inr sp \<Longrightarrow> map sa_userId sp = map pt_userId ps"
    and split_sum: "split a ps = Inr sp \<Longrightarrow> ok a ps \<Longrightarrow> sumSplitAmounts sp = a"
begin

lemma split_length: "split a ps = Inr sp \<Longrightarrow> length sp = length ps"
  using split_users by (metis length_map)

lemma split_distinct:
  "split a ps = Inr sp \<Longrightarrow> distinct (map pt_userId ps) \<Longrightarrow> distinct (map sa_userId sp)"
  by (simp add: split_users)

lemma split_set: "split a ps = Inr sp \<Longrightarrow> sa_userId ` set sp = pt_userId ` set ps"
  by (metis list.set_map split_users)

end

definition equal_ok :: "int \<Rightarrow> Participant list \<Rightarrow> bool" where
  "equal_ok a ps \<longleftrightarrow> 0 \<le> a \<and> ps \<noteq> [] \<and> length ps \<le> 2 ^ 53"

interpretation equal_split: split_type equalSplits equal_ok
proof unfold_locales
  fix a ps sp
  assume r: "equalSplits a ps = Inr sp"
  then show "map sa_userId sp = map pt_userId ps"
    by (auto simp: equalSplits_def calculateEqualSplits_users)
  assume "equal_ok a ps"
  with r show "sumSplitAmounts sp = a"
    by (auto simp: equalSplits_def equal_ok_def sum_calculateEqualSplits)
qed

interpretation exact_split: split_type exactSplits "\<lambda>_ _. True"
proof unfold_locales
  fix a ps sp
  assume r: "exactSplits a ps = Inr sp"
  then show "map sa_userId sp = map pt_userId ps"
    by (auto simp: exactSplits_def exact_amount_def Let_def comp_def split: if_splits)
  from r show "sumSplitAmounts sp = a"
    by (auto simp: exactSplits_def Let_def split: if_splits)
qed

lemma splitsFor_users: "splitsFor st a ps = Inr sp \<Longrightarrow> map sa_userId sp = map pt_userId ps"
  by (cases st) (auto simp: splitsFor_def dest: equal_split.split_users exact_split.split_users)

lemma splitsFor_sum: "splitsFor st a ps = Inr sp \<Longrightarrow> equal_ok a ps \<Longrightarrow> sumSplitAmounts sp = a"
  by (cases st) (auto simp: splitsFor_def intro: equal_split.split_sum exact_split.split_sum)

lemma reconcileSplits_Inr:
  assumes "reconcileSplits st a ps ms = Inr sp"
  shows "distinct (map sa_userId sp)" and "map sa_userId sp = map pt_userId ps"
    and "set (map pt_userId ps) \<subseteq> set ms" and "splitsFor st a ps = Inr sp"
proof -
  have d: "distinct (map pt_userId ps)" and m: "set (map pt_userId ps) \<subseteq> set ms"
    and s: "splitsFor st a ps = Inr sp"
    using assms
    by (auto simp: reconcileSplits_def has_duplicates_iff list_ex_iff Let_def split: if_splits)
  show "set (map pt_userId ps) \<subseteq> set ms" by (rule m)
  show "splitsFor st a ps = Inr sp" by (rule s)
  show u: "map sa_userId sp = map pt_userId ps" using s by (rule splitsFor_users)
  show "distinct (map sa_userId sp)" using d u by simp
qed

end
