(* ===== verification/Expenses.thy ===== *)
theory Expenses
  imports Splits
begin

text \<open>
  Expenses: \<open>modules/expenses/expense.repository.ts\<close> and \<open>expense.service.ts\<close>. The repository
  writes an expense, its splits and its activity event in one transaction; the service checks
  the requester, the payer and the participants and computes the splits.
\<close>

section \<open>Inputs, records and answers\<close>

record CreateExpenseInput =
  ci_groupId :: string
  ci_description :: string
  ci_amountMinorUnits :: int
  ci_payerId :: string
  ci_splitType :: SplitType
  ci_participants :: "Participant list"
  ci_expenseDate :: "string option"

record UpdateExpenseInput =
  ui_description :: "string option"
  ui_amountMinorUnits :: "int option"
  ui_payerId :: "string option"
  ui_splitType :: "SplitType option"
  ui_participants :: "Participant list option"
  ui_expenseDate :: "string option"

record ExpenseWithDetails =
  xd_expense :: "Expense row"
  xd_payer :: SafeUser
  xd_splits :: "(ExpenseSplit row \<times> SafeUser) list"

record ExpenseWithSummary =
  xs_expense :: "Expense row"
  xs_payer :: SafeUser
  xs_splitCount :: nat

record SplitDto =
  sd_id :: string
  sd_userId :: string
  sd_amountMinorUnits :: int
  sd_user :: SafeUser

record ExpenseDto =
  ed_id :: string
  ed_groupId :: string
  ed_paidById :: string
  ed_description :: string
  ed_amountMinorUnits :: int
  ed_currencyCode :: string
  ed_splitType :: SplitType
  ed_expenseDate :: int
  ed_payer :: SafeUser
  ed_createdAt :: int
  ed_updatedAt :: int

record ExpenseDetailDto = ExpenseDto +
  ed_splits :: "SplitDto list"

record ExpenseSummaryDto = ExpenseDto +
  ed_splitCount :: nat

text \<open>The optional \<open>page\<close> and \<open>limit\<close> of a list request, and the metadata of its answer.\<close>

record pagination =
  pg_page :: int
  pg_limit :: nat

record ExpenseListPage =
  el_expenses :: "ExpenseSummaryDto list"
  el_pagination :: "(pagination \<times> nat) option"

section \<open>Repository\<close>

definition ExpenseRepository_findGroupById ::
  "'d prisma \<Rightarrow> string \<Rightarrow> (('d, 'r, 'm) world, Group row option) act" where
  "ExpenseRepository_findGroupById P gid = db_do (dg_findUnique (p_group P) (\<lambda>r. row_id r = gid))"

definition in_group_member :: "string \<Rightarrow> GroupMember row \<Rightarrow> bool" where
  "in_group_member gid r \<longleftrightarrow> gm_groupId (row_data r) = gid"

definition findGroupMemberIds ::
  "'d prisma \<Rightarrow> string \<Rightarrow> (('d, 'r, 'm) world, string list) act" where
  "findGroupMemberIds P gid =
     seq (db_do (dg_findMany (p_groupMember P) (select_where (in_group_member gid)))) (\<lambda>ms.
     ret (map (\<lambda>m. gm_userId (row_data m)) ms))"

definition of_expense :: "string \<Rightarrow> ExpenseSplit row \<Rightarrow> bool" where
  "of_expense eid r \<longleftrightarrow> sp_expenseId (row_data r) = eid"

text \<open>The \<open>include\<close> of the payer and of the splits with their users, in a given order.\<close>

definition expense_details ::
  "'d prisma \<Rightarrow> (ExpenseSplit row \<Rightarrow> int \<times> string) \<Rightarrow> Expense row \<Rightarrow>
   (('d, 'r, 'm) world, ExpenseWithDetails) act" where
  "expense_details P key e =
     seq (includeUser P (ex_paidById (row_data e))) (\<lambda>payer.
     seq (db_do (dg_findMany (p_expenseSplit P) (select_ordered (of_expense (row_id e)) key))) (\<lambda>rows.
     seq (map_act (\<lambda>r. seq (includeUser P (sp_userId (row_data r))) (\<lambda>u. ret (r, u))) rows) (\<lambda>parts.
     ret \<lparr>xd_expense = e, xd_payer = payer, xd_splits = parts\<rparr>)))"

definition split_row :: "string \<Rightarrow> SplitAmount \<Rightarrow> ExpenseSplit" where
  "split_row eid s = \<lparr>sp_expenseId = eid, sp_userId = sa_userId s,
     sp_amountMinorUnits = sa_amountMinorUnits s\<rparr>"

definition create_splits ::
  "'d prisma \<Rightarrow> string \<Rightarrow> SplitAmount list \<Rightarrow> (('d, 'r, 'm) world, ExpenseSplit row list) act" where
  "create_splits P eid parts =
     map_act (\<lambda>s. db_do (dg_create (p_expenseSplit P) (split_row eid s))) parts"

definition expense_event :: "Expense row \<Rightarrow> ActivityEventInput \<Rightarrow> int \<Rightarrow> ActivityEvent" where
  "expense_event e activity occurredAt =
     \<lparr>ev_groupId = ex_groupId (row_data e), ev_userId = ai_userId activity,
      ev_type = ai_type activity, ev_message = ai_message activity,
      ev_amountMinorUnits = Some (ex_amountMinorUnits (row_data e)),
      ev_currencyCode = Some (ex_currencyCode (row_data e)), ev_occurredAt = occurredAt\<rparr>"

definition createExpenseTx ::
  "'d prisma \<Rightarrow> Expense \<Rightarrow> SplitAmount list \<Rightarrow> ActivityEventInput \<Rightarrow>
   (('d, 'r, 'm) world, ExpenseWithDetails) act" where
  "createExpenseTx P data parts activity =
     seq (db_do (dg_create (p_expense P) data)) (\<lambda>expense.
     seq (create_splits P (row_id expense) parts) (\<lambda>_.
     seq (expense_details P no_order expense) (\<lambda>details.
     seq (createActivityEvent P (expense_event expense activity (row_createdAt expense))) (\<lambda>_.
     ret details))))"

definition createExpenseWithSplits ::
  "'d prisma \<Rightarrow> Expense \<Rightarrow> SplitAmount list \<Rightarrow> ActivityEventInput \<Rightarrow>
   (('d, 'r, 'm) world, ExpenseWithDetails) act" where
  "createExpenseWithSplits P data parts activity =
     in_transaction P (createExpenseTx P data parts activity)"

definition created_order :: "'c row \<Rightarrow> int \<times> string" where
  "created_order r = (row_createdAt r, [])"

definition findExpenseById ::
  "'d prisma \<Rightarrow> string \<Rightarrow> (('d, 'r, 'm) world, ExpenseWithDetails option) act" where
  "findExpenseById P eid =
     seq (db_do (dg_findUnique (p_expense P) (\<lambda>r. row_id r = eid))) (\<lambda>e.
     case e of
       None \<Rightarrow> ret None
     | Some r \<Rightarrow> seq (expense_details P created_order r) (\<lambda>d. ret (Some d)))"

record ExpenseUpdate =
  up_paidById :: string
  up_description :: string
  up_amountMinorUnits :: int
  up_splitType :: SplitType
  up_expenseDate :: int

definition apply_update :: "ExpenseUpdate \<Rightarrow> Expense \<Rightarrow> Expense" where
  "apply_update u e = e\<lparr>ex_paidById := up_paidById u, ex_description := up_description u,
     ex_amountMinorUnits := up_amountMinorUnits u, ex_splitType := up_splitType u,
     ex_expenseDate := up_expenseDate u\<rparr>"

definition updateExpenseTx ::
  "'d prisma \<Rightarrow> env \<Rightarrow> string \<Rightarrow> ExpenseUpdate \<Rightarrow> SplitAmount list \<Rightarrow> ActivityEventInput \<Rightarrow>
   (('d, 'r, 'm) world, ExpenseWithDetails) act" where
  "updateExpenseTx P E expenseId data parts activity =
     seq (now E) (\<lambda>occurredAt.
     seq (db_do (dg_update (p_expense P) (\<lambda>r. row_id r = expenseId) (apply_update data))) (\<lambda>expense.
     seq (db_do (dg_deleteMany (p_expenseSplit P) (of_expense expenseId))) (\<lambda>_.
     seq (create_splits P expenseId parts) (\<lambda>_.
     seq (expense_details P no_order expense) (\<lambda>details.
     seq (createActivityEvent P (expense_event expense activity occurredAt)) (\<lambda>_.
     ret details))))))"

definition updateExpenseWithSplits ::
  "'d prisma \<Rightarrow> env \<Rightarrow> string \<Rightarrow> ExpenseUpdate \<Rightarrow> SplitAmount list \<Rightarrow> ActivityEventInput \<Rightarrow>
   (('d, 'r, 'm) world, ExpenseWithDetails) act" where
  "updateExpenseWithSplits P E expenseId data parts activity =
     in_transaction P (updateExpenseTx P E expenseId data parts activity)"

definition deleteExpenseTx ::
  "'d prisma \<Rightarrow> env \<Rightarrow> string \<Rightarrow> ActivityEventInput \<Rightarrow> (('d, 'r, 'm) world, unit) act" where
  "deleteExpenseTx P E expenseId activity =
     seq (db_do (dg_delete (p_expense P) (\<lambda>r. row_id r = expenseId))) (\<lambda>expense.
     seq (now E) (\<lambda>occurredAt.
     seq (createActivityEvent P (expense_event expense activity occurredAt)) (\<lambda>_.
     ret ())))"

definition deleteExpenseWithEvent ::
  "'d prisma \<Rightarrow> env \<Rightarrow> string \<Rightarrow> ActivityEventInput \<Rightarrow> (('d, 'r, 'm) world, unit) act" where
  "deleteExpenseWithEvent P E expenseId activity =
     in_transaction P (deleteExpenseTx P E expenseId activity)"

definition in_group_expense :: "string \<Rightarrow> Expense row \<Rightarrow> bool" where
  "in_group_expense gid r \<longleftrightarrow> ex_groupId (row_data r) = gid"

definition newest_first :: "'c row \<Rightarrow> int \<times> string" where
  "newest_first r = (- row_createdAt r, [])"

definition newest_first_by_id :: "'c row \<Rightarrow> int \<times> string" where
  "newest_first_by_id r = (- row_createdAt r, row_id r)"

definition expense_summary ::
  "'d prisma \<Rightarrow> Expense row \<Rightarrow> (('d, 'r, 'm) world, ExpenseWithSummary) act" where
  "expense_summary P e =
     seq (includeUser P (ex_paidById (row_data e))) (\<lambda>payer.
     seq (db_do (dg_count (p_expenseSplit P) (of_expense (row_id e)))) (\<lambda>n.
     ret \<lparr>xs_expense = e, xs_payer = payer, xs_splitCount = n\<rparr>))"

definition findExpensesByGroupId ::
  "'d prisma \<Rightarrow> string \<Rightarrow> pagination option \<Rightarrow>
   (('d, 'r, 'm) world, ExpenseWithSummary list \<times> nat option) act" where
  "findExpensesByGroupId P gid pagination =
     (case pagination of
        None \<Rightarrow>
          seq (db_do (dg_findMany (p_expense P) (select_ordered (in_group_expense gid) newest_first))) (\<lambda>rows.
          seq (map_act (expense_summary P) rows) (\<lambda>es.
          ret (es, None)))
      | Some pg \<Rightarrow>
          seq (db_do (dg_findMany (p_expense P)
                 \<lparr>q_where = (\<lambda>_. in_group_expense gid), q_key = newest_first_by_id,
                  q_skip = (pg_page pg - 1) * int (pg_limit pg), q_take = Some (pg_limit pg)\<rparr>)) (\<lambda>rows.
          seq (map_act (expense_summary P) rows) (\<lambda>es.
          seq (db_do (dg_count (p_expense P) (in_group_expense gid))) (\<lambda>n.
          ret (es, Some n)))))"

section \<open>Service\<close>

definition payerNotMember :: exn where
  "payerNotMember = ForbiddenError PAYER_NOT_GROUP_MEMBER ''The payer must be a member of the group.''"

definition expenseNotFound :: exn where
  "expenseNotFound = NotFoundError EXPENSE_NOT_FOUND ''Expense not found.''"

lemma expense_errors [code_of_simps, simp]:
  "exn_code payerNotMember = Some PAYER_NOT_GROUP_MEMBER"
  "exn_code expenseNotFound = Some EXPENSE_NOT_FOUND"
  "\<not> db_exn payerNotMember" "\<not> db_exn expenseNotFound"
  by (simp_all add: payerNotMember_def expenseNotFound_def error_class_defs)

definition quoted :: "string \<Rightarrow> string \<Rightarrow> string" where
  "quoted prefix s = prefix @ [CHR 0x22] @ s @ [CHR 0x22]"

definition base_dto :: "Expense row \<Rightarrow> SafeUser \<Rightarrow> ExpenseDto" where
  "base_dto e payer =
     \<lparr>ed_id = row_id e, ed_groupId = ex_groupId (row_data e), ed_paidById = ex_paidById (row_data e),
      ed_description = ex_description (row_data e),
      ed_amountMinorUnits = js_Number (ex_amountMinorUnits (row_data e)),
      ed_currencyCode = ex_currencyCode (row_data e), ed_splitType = ex_splitType (row_data e),
      ed_expenseDate = ex_expenseDate (row_data e), ed_payer = payer,
      ed_createdAt = row_createdAt e, ed_updatedAt = row_updatedAt e\<rparr>"

definition split_dto :: "ExpenseSplit row \<times> SafeUser \<Rightarrow> SplitDto" where
  "split_dto s = \<lparr>sd_id = row_id (fst s), sd_userId = sp_userId (row_data (fst s)),
     sd_amountMinorUnits = js_Number (sp_amountMinorUnits (row_data (fst s))), sd_user = snd s\<rparr>"

definition toDetailDto :: "ExpenseWithDetails \<Rightarrow> ExpenseDetailDto" where
  "toDetailDto x = ExpenseDto.extend (base_dto (xd_expense x) (xd_payer x))
     \<lparr>ed_splits = map split_dto (xd_splits x)\<rparr>"

definition toSummaryDto :: "ExpenseWithSummary \<Rightarrow> ExpenseSummaryDto" where
  "toSummaryDto x = ExpenseDto.extend (base_dto (xs_expense x) (xs_payer x))
     \<lparr>ed_splitCount = xs_splitCount x\<rparr>"

text \<open>\<open>input.expenseDate ? new Date(input.expenseDate) : new Date()\<close>: an empty string is false.\<close>

definition date_or :: "env \<Rightarrow> string option \<Rightarrow> (('d, 'r, 'm) world, int) act \<Rightarrow> (('d, 'r, 'm) world, int) act" where
  "date_or E s other =
     (case s of None \<Rightarrow> other | Some d \<Rightarrow> if d = [] then other else ret (parseDate E d))"

definition createExpense ::
  "'d prisma \<Rightarrow> env \<Rightarrow> string \<Rightarrow> CreateExpenseInput \<Rightarrow> (('d, 'r, 'm) world, ExpenseDetailDto) act" where
  "createExpense P E requesterId input =
     seq (ExpenseRepository_findGroupById P (ci_groupId input)) (\<lambda>group.
     seq (need group groupNotFound) (\<lambda>_.
     seq (findGroupMemberIds P (ci_groupId input)) (\<lambda>memberIds.
     seq (guard (requesterId \<in> set memberIds) notGroupMember) (\<lambda>_.
     seq (guard (ci_payerId input \<in> set memberIds) payerNotMember) (\<lambda>_.
     seq (guard (\<not> has_duplicates (map pt_userId (ci_participants input))) duplicateSplitUser) (\<lambda>_.
     seq (guard (\<not> list_ex (\<lambda>p. p \<notin> set memberIds) (map pt_userId (ci_participants input)))
            splitUserNotMember) (\<lambda>_.
     seq (of_result (splitsFor (ci_splitType input) (ci_amountMinorUnits input)
            (ci_participants input))) (\<lambda>parts.
     seq (date_or E (ci_expenseDate input) (now E)) (\<lambda>expenseDate.
     seq (createExpenseWithSplits P
            \<lparr>ex_groupId = ci_groupId input, ex_paidById = ci_payerId input,
             ex_description = ci_description input,
             ex_amountMinorUnits = ci_amountMinorUnits input, ex_currencyCode = ''PKR'',
             ex_splitType = ci_splitType input, ex_expenseDate = expenseDate\<rparr>
            parts
            \<lparr>ai_userId = requesterId, ai_type = EXPENSE_ADDED,
             ai_message = quoted ''added the expense '' (ci_description input)\<rparr>) (\<lambda>expense.
     seq (metric expensesCreatedTotal []) (\<lambda>_.
     ret (toDetailDto expense))))))))))))"

definition assertMemberOfGroup ::
  "'d prisma \<Rightarrow> string \<Rightarrow> string \<Rightarrow> (('d, 'r, 'm) world, unit) act" where
  "assertMemberOfGroup P requesterId groupId =
     seq (findGroupMemberIds P groupId) (\<lambda>memberIds.
     guard (requesterId \<in> set memberIds) notGroupMember)"

definition getExpenseById ::
  "'d prisma \<Rightarrow> string \<Rightarrow> string \<Rightarrow> (('d, 'r, 'm) world, ExpenseDetailDto) act" where
  "getExpenseById P requesterId expenseId =
     seq (findExpenseById P expenseId) (\<lambda>x.
     seq (need x expenseNotFound) (\<lambda>expense.
     seq (assertMemberOfGroup P requesterId (ex_groupId (row_data (xd_expense expense)))) (\<lambda>_.
     ret (toDetailDto expense))))"

text \<open>The splits of an update: from the participants given, or from the stored splits.\<close>

definition stored_split :: "ExpenseSplit row \<times> SafeUser \<Rightarrow> SplitAmount" where
  "stored_split s = \<lparr>sa_userId = sp_userId (row_data (fst s)),
     sa_amountMinorUnits = sp_amountMinorUnits (row_data (fst s))\<rparr>"

definition updatedSplits ::
  "SplitType \<Rightarrow> int \<Rightarrow> Participant list option \<Rightarrow> string list \<Rightarrow>
   (ExpenseSplit row \<times> SafeUser) list \<Rightarrow> exn + SplitAmount list" where
  "updatedSplits nextSplitType nextTotal participants memberIds stored =
     (case participants of
        Some ps \<Rightarrow> reconcileSplits nextSplitType nextTotal ps memberIds
      | None \<Rightarrow>
          if nextSplitType = EXACT then
            (if sumSplitAmounts (map stored_split stored) \<noteq> nextTotal then Inl splitTotalMismatch
             else Inr (map stored_split stored))
          else Inr (calculateEqualSplits nextTotal (map (\<lambda>s. sp_userId (row_data (fst s))) stored)))"

definition or_else :: "'a option \<Rightarrow> 'a \<Rightarrow> 'a" where
  "or_else x y = (case x of None \<Rightarrow> y | Some a \<Rightarrow> a)"

definition updateExpense ::
  "'d prisma \<Rightarrow> env \<Rightarrow> string \<Rightarrow> string \<Rightarrow> UpdateExpenseInput \<Rightarrow>
   (('d, 'r, 'm) world, ExpenseDetailDto) act" where
  "updateExpense P E requesterId expenseId input =
     seq (findExpenseById P expenseId) (\<lambda>x.
     seq (need x expenseNotFound) (\<lambda>expense.
     let e = row_data (xd_expense expense) in
     seq (findGroupMemberIds P (ex_groupId e)) (\<lambda>memberIds.
     seq (guard (requesterId \<in> set memberIds) notGroupMember) (\<lambda>_.
     let nextDescription = or_else (ui_description input) (ex_description e);
         nextTotal = or_else (ui_amountMinorUnits input) (ex_amountMinorUnits e);
         nextPayerId = or_else (ui_payerId input) (ex_paidById e);
         nextSplitType = or_else (ui_splitType input) (ex_splitType e) in
     seq (date_or E (ui_expenseDate input) (ret (ex_expenseDate e))) (\<lambda>nextExpenseDate.
     seq (guard (nextPayerId \<in> set memberIds) payerNotMember) (\<lambda>_.
     seq (of_result (updatedSplits nextSplitType nextTotal (ui_participants input) memberIds
            (xd_splits expense))) (\<lambda>parts.
     seq (updateExpenseWithSplits P E expenseId
            \<lparr>up_paidById = nextPayerId, up_description = nextDescription,
             up_amountMinorUnits = nextTotal, up_splitType = nextSplitType,
             up_expenseDate = nextExpenseDate\<rparr>
            parts
            \<lparr>ai_userId = requesterId, ai_type = EXPENSE_UPDATED,
             ai_message = quoted ''updated the expense '' nextDescription\<rparr>) (\<lambda>updated.
     seq (metric expensesUpdatedTotal []) (\<lambda>_.
     ret (toDetailDto updated))))))))))"

definition deleteExpense ::
  "'d prisma \<Rightarrow> env \<Rightarrow> string \<Rightarrow> string \<Rightarrow> (('d, 'r, 'm) world, unit) act" where
  "deleteExpense P E requesterId expenseId =
     seq (findExpenseById P expenseId) (\<lambda>x.
     seq (need x expenseNotFound) (\<lambda>expense.
     seq (assertMemberOfGroup P requesterId (ex_groupId (row_data (xd_expense expense)))) (\<lambda>_.
     seq (deleteExpenseWithEvent P E expenseId
            \<lparr>ai_userId = requesterId, ai_type = EXPENSE_DELETED,
             ai_message = quoted ''deleted the expense ''
                            (ex_description (row_data (xd_expense expense)))\<rparr>) (\<lambda>_.
     metric expensesDeletedTotal []))))"

definition getGroupExpenses ::
  "'d prisma \<Rightarrow> string \<Rightarrow> string \<Rightarrow> pagination option \<Rightarrow> (('d, 'r, 'm) world, ExpenseListPage) act" where
  "getGroupExpenses P requesterId groupId pagination =
     seq (ExpenseRepository_findGroupById P groupId) (\<lambda>group.
     seq (need group groupNotFound) (\<lambda>_.
     seq (assertMemberOfGroup P requesterId groupId) (\<lambda>_.
     seq (findExpensesByGroupId P groupId pagination) (\<lambda>(es, n).
     ret \<lparr>el_expenses = map toSummaryDto es,
          el_pagination = (case pagination of None \<Rightarrow> None
             | Some pg \<Rightarrow> Some (pg, (case n of None \<Rightarrow> 0 | Some k \<Rightarrow> k)))\<rparr>))))"

section \<open>The ledger\<close>

text \<open>
  What every stored expense promises: the amount is not negative, it has at least one split,
  and the splits sum to the amount; no split is left without its expense.
\<close>

definition splits_of :: "tables \<Rightarrow> string \<Rightarrow> ExpenseSplit row list" where
  "splits_of t eid = filter (of_expense eid) (splits t)"

definition split_total :: "ExpenseSplit row list \<Rightarrow> int" where
  "split_total rs = (\<Sum>r\<leftarrow>rs. sp_amountMinorUnits (row_data r))"

definition expense_ok :: "tables \<Rightarrow> Expense row \<Rightarrow> bool" where
  "expense_ok t e \<longleftrightarrow> 0 \<le> ex_amountMinorUnits (row_data e) \<and> splits_of t (row_id e) \<noteq> [] \<and>
     length (splits_of t (row_id e)) \<le> 2 ^ 53 \<and>
     split_total (splits_of t (row_id e)) = ex_amountMinorUnits (row_data e)"

definition ledger_ok :: "tables \<Rightarrow> bool" where
  "ledger_ok t \<longleftrightarrow> distinct (map row_id (expenses t)) \<and> list_all (expense_ok t) (expenses t) \<and>
     list_all (\<lambda>s. has_id (sp_expenseId (row_data s)) (expenses t)) (splits t)"

text \<open>For evaluation, the bound on the number of splits is compared as integers.\<close>

lemma expense_ok_code [code]:
  "expense_ok t e \<longleftrightarrow> 0 \<le> ex_amountMinorUnits (row_data e) \<and> splits_of t (row_id e) \<noteq> [] \<and>
     int (length (splits_of t (row_id e))) \<le> 2 ^ 53 \<and>
     split_total (splits_of t (row_id e)) = ex_amountMinorUnits (row_data e)"
  unfolding expense_ok_def by (metis of_nat_le_iff of_nat_numeral of_nat_power)

lemma ledger_okD:
  assumes "ledger_ok t" "e \<in> set (expenses t)"
  shows "0 \<le> ex_amountMinorUnits (row_data e)" "splits_of t (row_id e) \<noteq> []"
    "length (splits_of t (row_id e)) \<le> 2 ^ 53"
    "split_total (splits_of t (row_id e)) = ex_amountMinorUnits (row_data e)"
  using assms by (auto simp: ledger_ok_def expense_ok_def list_all_iff)

text \<open>Changes of other tables do not concern the ledger.\<close>

lemma ledger_ok_cong:
  "expenses t = expenses t' \<Longrightarrow> splits t = splits t' \<Longrightarrow> ledger_ok t \<longleftrightarrow> ledger_ok t'"
  by (simp add: ledger_ok_def expense_ok_def [abs_def] splits_of_def)

lemma ledger_ok_other [simp]:
  "ledger_ok (activities_update f t) = ledger_ok t"
  "ledger_ok (settlements_update g t) = ledger_ok t"
  "ledger_ok (members_update h t) = ledger_ok t"
  "ledger_ok (users_update i t) = ledger_ok t"
  "ledger_ok (summaries_update j t) = ledger_ok t"
  "ledger_ok (refreshTokens_update k t) = ledger_ok t"
  "ledger_ok (authTokens_update l t) = ledger_ok t"
  "ledger_ok (idempotencyRecords_update m t) = ledger_ok t"
  "ledger_ok (groups_update n t) = ledger_ok t"
  by (rule ledger_ok_cong; simp)+

lemma split_total_of_parts:
  "map row_data rows = map (split_row eid) parts \<Longrightarrow> split_total rows = sumSplitAmounts parts"
proof -
  assume m: "map row_data rows = map (split_row eid) parts"
  have "split_total rows = (\<Sum>d\<leftarrow>map row_data rows. sp_amountMinorUnits d)"
    by (simp add: split_total_def comp_def)
  also have "\<dots> = sumSplitAmounts parts"
    unfolding m by (simp add: sumSplitAmounts_sum split_row_def comp_def)
  finally show ?thesis .
qed

lemma users_of_parts:
  assumes "map row_data rows = map (split_row eid) parts"
  shows "map (\<lambda>r. sp_userId (row_data r)) rows = map sa_userId parts"
proof -
  have "map (\<lambda>r. sp_userId (row_data r)) rows = map sp_userId (map row_data rows)" by simp
  also have "\<dots> = map sa_userId parts" unfolding assms by (simp add: split_row_def)
  finally show ?thesis .
qed

lemma rows_of_parts:
  assumes "map row_data rows = map (split_row eid) parts"
  shows "filter (of_expense eid) rows = rows" and "length rows = length parts"
    and "\<And>i. i \<noteq> eid \<Longrightarrow> filter (of_expense i) rows = []"
    and "r \<in> set rows \<Longrightarrow> sp_expenseId (row_data r) = eid"
proof -
  have all: "sp_expenseId (row_data r) = eid" if "r \<in> set rows" for r
  proof -
    from that have "row_data r \<in> set (map row_data rows)" by simp
    then show ?thesis unfolding assms by (auto simp: split_row_def)
  qed
  then show "filter (of_expense eid) rows = rows"
    and "\<And>i. i \<noteq> eid \<Longrightarrow> filter (of_expense i) rows = []"
    and "r \<in> set rows \<Longrightarrow> sp_expenseId (row_data r) = eid"
    by (auto simp: of_expense_def filter_empty_conv)
  show "length rows = length parts" using arg_cong [OF assms, of length] by simp
qed

definition parts_ok :: "SplitAmount list \<Rightarrow> int \<Rightarrow> bool" where
  "parts_ok parts a \<longleftrightarrow> 0 \<le> a \<and> parts \<noteq> [] \<and> length parts \<le> 2 ^ 53 \<and> sumSplitAmounts parts = a"

lemma splitsFor_parts_ok: "splitsFor st a ps = Inr sp \<Longrightarrow> equal_ok a ps \<Longrightarrow> parts_ok sp a"
  using splitsFor_users [of st a ps sp] splitsFor_sum [of st a ps sp] map_eq_imp_length_eq
  by (fastforce simp: parts_ok_def equal_ok_def)

definition stored_ok :: "ExpenseWithDetails \<Rightarrow> bool" where
  "stored_ok x \<longleftrightarrow> 0 \<le> ex_amountMinorUnits (row_data (xd_expense x)) \<and> xd_splits x \<noteq> [] \<and>
     length (xd_splits x) \<le> 2 ^ 53"

definition update_input_ok :: "UpdateExpenseInput \<Rightarrow> bool" where
  "update_input_ok i \<longleftrightarrow> (case ui_amountMinorUnits i of None \<Rightarrow> True | Some a \<Rightarrow> 0 \<le> a) \<and>
     (case ui_participants i of None \<Rightarrow> True | Some ps \<Rightarrow> ps \<noteq> [] \<and> length ps \<le> 2 ^ 53)"

lemma updatedSplits_parts_ok:
  assumes "updatedSplits st a ps ms stored = Inr parts" "0 \<le> a" "stored \<noteq> []" "length stored \<le> 2 ^ 53"
    and "\<And>xs. ps = Some xs \<Longrightarrow> xs \<noteq> [] \<and> length xs \<le> 2 ^ 53"
  shows "parts_ok parts a"
proof (cases ps)
  case (Some xs)
  then have "splitsFor st a xs = Inr parts" using assms(1) reconcileSplits_Inr(4)
    by (simp add: updatedSplits_def)
  then show ?thesis using splitsFor_parts_ok assms(2,5) Some by (simp add: equal_ok_def)
next
  case None
  let ?ids = "map (\<lambda>s. sp_userId (row_data (fst s))) stored"
  show ?thesis
  proof (cases "st = EXACT")
    case True
    then show ?thesis using assms None
      by (auto simp: updatedSplits_def parts_ok_def split: if_splits)
  next
    case False
    then have p: "parts = calculateEqualSplits a ?ids" using assms None by (simp add: updatedSplits_def)
    have "map sa_userId parts = ?ids" unfolding p by (rule calculateEqualSplits_users)
    then have "length parts = length stored" by (metis length_map)
    moreover have "sumSplitAmounts parts = a"
      unfolding p using assms by (intro sum_calculateEqualSplits) auto
    ultimately show ?thesis using assms by (auto simp: parts_ok_def)
  qed
qed

text \<open>Adding an expense with the rows of its splits.\<close>

lemma ledger_ok_add:
  assumes ok: "ledger_ok t" and fresh: "\<not> has_id (row_id e) (expenses t)"
    and m: "map row_data rows = map (split_row (row_id e)) parts"
    and p: "parts_ok parts (ex_amountMinorUnits (row_data e))"
  shows "ledger_ok (splits_update (\<lambda>rs. rs @ rows) (expenses_update (\<lambda>rs. rs @ [e]) t))"
    (is "ledger_ok ?t")
proof -
  have other: "splits_of ?t (row_id x) = splits_of t (row_id x)" if "x \<in> set (expenses t)" for x
    using that fresh rows_of_parts(3) [OF m] by (auto simp: splits_of_def has_id_iff)
  have "filter (of_expense (row_id e)) (splits t) = []"
    using ok fresh by (auto simp: ledger_ok_def list_all_iff filter_empty_conv of_expense_def)
  then have self: "splits_of ?t (row_id e) = rows"
    using rows_of_parts(1) [OF m] by (simp add: splits_of_def)
  have rows: "has_id (sp_expenseId (row_data r)) (expenses ?t)" if "r \<in> set rows" for r
    using rows_of_parts(4) [OF m that] by simp
  have len: "length rows = length parts" by (rule rows_of_parts(2) [OF m])
  have ex: "expense_ok ?t x" if "x \<in> set (expenses ?t)" for x
  proof (cases "x = e")
    case True
    have "rows \<noteq> []" using len p by (auto simp: parts_ok_def)
    then show ?thesis using True p self len split_total_of_parts [OF m]
      by (simp add: expense_ok_def parts_ok_def)
  next
    case False
    then have x: "x \<in> set (expenses t)" using that by simp
    then show ?thesis using ok other [OF x] by (auto simp: expense_ok_def ledger_ok_def list_all_iff)
  qed
  have d: "distinct (map row_id (expenses ?t))"
    using ok fresh by (auto simp: ledger_ok_def has_id_iff)
  have s: "has_id (sp_expenseId (row_data r)) (expenses ?t)" if "r \<in> set (splits ?t)" for r
    using that ok rows by (auto simp: ledger_ok_def list_all_iff)
  show ?thesis unfolding ledger_ok_def list_all_iff using d ex s by blast
qed

text \<open>Replacing the splits of an expense together with its fields.\<close>

lemma ledger_ok_replace:
  assumes ok: "ledger_ok t" and e: "has_id eid (expenses t)"
    and m: "map row_data rows = map (split_row eid) parts"
    and p: "parts_ok parts (up_amountMinorUnits u)"
  shows "ledger_ok (splits_update (\<lambda>rs. filter (\<lambda>x. \<not> of_expense eid x) rs @ rows)
           (expenses_update (map (touched (\<lambda>r. row_id r = eid) (apply_update u) stamp)) t))"
    (is "ledger_ok ?t")
proof -
  let ?f = "touched (\<lambda>r. row_id r = eid) (apply_update u) stamp"
  have ids: "map row_id (expenses ?t) = map row_id (expenses t)" by (simp add: comp_def)
  have has: "has_id i (expenses ?t) \<longleftrightarrow> has_id i (expenses t)" for i
    by (simp only: has_id_def ids)
  have len: "length rows = length parts" by (rule rows_of_parts(2) [OF m])
  have ex: "expense_ok ?t (?f x)" if x: "x \<in> set (expenses t)" for x
  proof (cases "row_id x = eid")
    case True
    have "filter (of_expense eid) (filter (\<lambda>x. \<not> of_expense eid x) (splits t)) = []"
      by (simp add: filter_empty_conv)
    then have "splits_of ?t eid = rows"
      using rows_of_parts(1) [OF m] by (simp add: splits_of_def)
    moreover have "rows \<noteq> []" using len p by (auto simp: parts_ok_def)
    ultimately show ?thesis using True p len split_total_of_parts [OF m]
      by (simp add: expense_ok_def parts_ok_def row_data_touched apply_update_def)
  next
    case False
    have "filter (of_expense (row_id x)) (filter (\<lambda>x. \<not> of_expense eid x) (splits t)) =
            filter (of_expense (row_id x)) (splits t)"
      using False by (simp only: filter_filter, intro filter_cong) (auto simp: of_expense_def)
    then have "splits_of ?t (row_id x) = splits_of t (row_id x)"
      using rows_of_parts(3) [OF m False] by (simp add: splits_of_def)
    then show ?thesis using False ok x
      by (auto simp: expense_ok_def row_data_touched ledger_ok_def list_all_iff)
  qed
  have s: "has_id (sp_expenseId (row_data r)) (expenses t)" if "r \<in> set (splits ?t)" for r
    using that ok e rows_of_parts(4) [OF m, of r] by (auto simp: ledger_ok_def list_all_iff)
  have d: "distinct (map row_id (expenses t))" using ok by (simp add: ledger_ok_def)
  have ex': "\<forall>x\<in>set (expenses ?t). expense_ok ?t x" using ex by auto
  show ?thesis unfolding ledger_ok_def list_all_iff ids has using d ex' s by blast
qed

text \<open>Deleting expenses with their splits.\<close>

lemma ledger_ok_remove:
  assumes ok: "ledger_ok t"
  shows "ledger_ok (splits_update (filter (\<lambda>s. sp_expenseId (row_data s) \<notin> ids))
           (expenses_update (filter (\<lambda>x. row_id x \<notin> ids)) t))"
    (is "ledger_ok ?t")
proof -
  have same: "splits_of ?t i = splits_of t i" if "i \<notin> ids" for i
    using that by (auto simp: splits_of_def of_expense_def intro: filter_cong)
  then have ex: "\<forall>x\<in>set (expenses ?t). expense_ok ?t x"
    using ok by (auto simp: expense_ok_def ledger_ok_def list_all_iff)
  have d: "distinct (map row_id (expenses ?t))"
    using ok by (auto simp: ledger_ok_def distinct_map inj_on_def)
  have s: "\<forall>r\<in>set (splits ?t). has_id (sp_expenseId (row_data r)) (expenses ?t)"
    using ok by (fastforce simp: ledger_ok_def list_all_iff has_id_iff)
  show ?thesis unfolding ledger_ok_def list_all_iff using d ex s by blast
qed

section \<open>Runs of the repository\<close>

context prisma
begin

lemma findGroup_Inr:
  assumes "ExpenseRepository_findGroupById P gid w = (Inr (Some g), w')"
  shows "T (w_db w') = T (w_db w) \<and> group_row (T (w_db w)) gid g \<and> only_tables w w'"
proof -
  obtain d where f: "dg_findUnique (p_group P) (\<lambda>r. row_id r = gid) (w_db w) = (Inr (Some g), d)"
    and w': "w' = w\<lparr>w_db := d\<rparr>"
    using assms by (auto simp: ExpenseRepository_findGroupById_def act_simps)
  from grp.findUnique_Some [OF f] w' show ?thesis by (simp add: group_row_def)
qed

lemma findGroupMemberIds_Inr:
  assumes "findGroupMemberIds P gid w = (Inr ids, w')"
  shows "T (w_db w') = T (w_db w) \<and> (\<forall>u. u \<in> set ids \<longleftrightarrow> is_member (T (w_db w)) gid u) \<and>
    only_tables w w'"
proof -
  obtain ms d where f: "dg_findMany (p_groupMember P) (select_where (in_group_member gid)) (w_db w) = (Inr ms, d)"
    and ids: "ids = map (\<lambda>m. gm_userId (row_data m)) ms" and w': "w' = w\<lparr>w_db := d\<rparr>"
    using assms by (auto simp: findGroupMemberIds_def act_simps)
  have "set ms = set (filter (in_group_member gid) (members (T (w_db w))))"
    using mem.findMany_where [OF f] by (metis mset_eq_setD)
  then show ?thesis using mem.findMany_where [OF f] ids w'
    by (auto simp: is_member_def member_where_def in_group_member_def)
qed

lemma expense_details_Inr:
  assumes "expense_details P key e w = (Inr x, w')"
  shows "T (w_db w') = T (w_db w) \<and> xd_expense x = e \<and> only_tables w w' \<and>
    mset (map fst (xd_splits x)) = mset (splits_of (T (w_db w)) (row_id e)) \<and>
    sf_id (xd_payer x) = ex_paidById (row_data e)"
proof -
  obtain payer w1 rows d where p: "includeUser P (ex_paidById (row_data e)) w = (Inr payer, w1)"
    and f: "dg_findMany (p_expenseSplit P) (select_ordered (of_expense (row_id e)) key) (w_db w1) = (Inr rows, d)"
    and m: "map_act (\<lambda>r. seq (includeUser P (sp_userId (row_data r))) (\<lambda>u. ret (r, u))) rows
              (w1\<lparr>w_db := d\<rparr>) = (Inr (xd_splits x), w')"
    and x: "xd_expense x = e" "xd_payer x = payer"
    using assms by (auto simp: expense_details_def act_simps)
  from includeUser_Inr [OF p] spl.findMany_ordered [OF f] map_includeUser_Inr [OF m] x show ?thesis
    by (auto simp: splits_of_def elim!: only_tables_trans)
qed

lemma create_splits_Inr:
  "create_splits P eid parts w = (Inr rows, w') \<Longrightarrow>
   T (w_db w') = splits_update (\<lambda>rs. rs @ rows) (T (w_db w)) \<and>
   map row_data rows = map (split_row eid) parts \<and> only_tables w w'"
proof (induction parts arbitrary: w rows)
  case Nil
  then show ?case by (auto simp: create_splits_def act_simps)
next
  case (Cons s parts)
  then obtain r d rs where c: "dg_create (p_expenseSplit P) (split_row eid s) (w_db w) = (Inr r, d)"
    and rest: "create_splits P eid parts (w\<lparr>w_db := d\<rparr>) = (Inr rs, w')" and rows: "rows = r # rs"
    by (auto simp: create_splits_def act_simps)
  from spl.create_Inr [OF c] Cons.IH [OF rest] rows show ?case
    by (simp add: inserted_def comp_def)
qed

text \<open>What a stored expense looks like after the repository call, and what it answers.\<close>

lemma createExpenseTx_Inr:
  assumes "createExpenseTx P data parts activity w = (Inr x, w')"
  shows "\<exists>e rows ev. inserted (expenses (T (w_db w))) clash_never refs_Expense (T (w_db w)) data e \<and>
     map row_data rows = map (split_row (row_id e)) parts \<and>
     row_data ev = expense_event e activity (row_createdAt e) \<and>
     T (w_db w') = activities_update (\<lambda>rs. rs @ [ev]) (splits_update (\<lambda>rs. rs @ rows)
       (expenses_update (\<lambda>rs. rs @ [e]) (T (w_db w)))) \<and>
     xd_expense x = e \<and> w_tick w' = w_tick w \<and> w_redis w' = w_redis w \<and>
     mset (map fst (xd_splits x)) = mset (splits_of (T (w_db w)) (row_id e) @ rows)"
proof -
  from assms obtain e d rows w2 w3 i where c: "dg_create (p_expense P) data (w_db w) = (Inr e, d)"
    and s: "create_splits P (row_id e) parts (w\<lparr>w_db := d\<rparr>) = (Inr rows, w2)"
    and x: "expense_details P no_order e w2 = (Inr x, w3)"
    and a: "createActivityEvent P (expense_event e activity (row_createdAt e)) w3 = (Inr i, w')"
    by (auto simp: createExpenseTx_def act_simps)
  let ?t = "expenses_update (\<lambda>rs. rs @ [e]) (T (w_db w))"
  have t2: "T (w_db w2) = splits_update (\<lambda>rs. rs @ rows) ?t"
    and m: "map row_data rows = map (split_row (row_id e)) parts" and o2: "only_tables w w2"
    using create_splits_Inr [OF s] exp.create_Inr [OF c] by simp_all
  have x3: "T (w_db w3) = T (w_db w2)" "xd_expense x = e" "only_tables w2 w3"
    "mset (map fst (xd_splits x)) = mset (splits_of (T (w_db w2)) (row_id e))"
    using expense_details_Inr [OF x] by simp_all
  have "splits_of (T (w_db w2)) (row_id e) = splits_of (T (w_db w)) (row_id e) @ rows"
    using rows_of_parts(1) [OF m] unfolding t2 by (simp add: splits_of_def)
  with createActivityEvent_Inr [OF a] x3 t2 m o2 exp.create_Inr(1) [OF c] show ?thesis
    by (auto simp: only_tables_def intro!: exI [of _ e] exI [of _ rows])
qed

lemma updateExpenseTx_Inr:
  assumes "updateExpenseTx P E eid u parts activity w = (Inr x, w')"
  shows "\<exists>e0 stamp rows ev. e0 \<in> set (expenses (T (w_db w))) \<and> row_id e0 = eid \<and>
     xd_expense x = touched (\<lambda>r. row_id r = eid) (apply_update u) stamp e0 \<and>
     map row_data rows = map (split_row eid) parts \<and>
     row_data ev = expense_event (xd_expense x) activity (clock E (w_tick w)) \<and>
     T (w_db w') = activities_update (\<lambda>rs. rs @ [ev])
       (splits_update (\<lambda>rs. filter (\<lambda>r. \<not> of_expense eid r) rs @ rows)
         (expenses_update (map (touched (\<lambda>r. row_id r = eid) (apply_update u) stamp)) (T (w_db w)))) \<and>
     mset (map fst (xd_splits x)) = mset rows"
proof -
  from assms obtain e d1 n d2 rows w2 w3 i where
      c: "dg_update (p_expense P) (\<lambda>r. row_id r = eid) (apply_update u) (w_db w) = (Inr e, d1)"
    and del: "dg_deleteMany (p_expenseSplit P) (of_expense eid) d1 = (Inr n, d2)"
    and s: "create_splits P eid parts (w\<lparr>w_tick := Suc (w_tick w), w_db := d2\<rparr>) = (Inr rows, w2)"
    and x: "expense_details P no_order e w2 = (Inr x, w3)"
    and a: "createActivityEvent P (expense_event e activity (clock E (w_tick w))) w3 = (Inr i, w')"
    by (auto simp: updateExpenseTx_def act_simps)
  from exp.update_Inr [OF c] obtain e0 stamp where e0: "e0 \<in> set (expenses (T (w_db w)))"
      "row_id e0 = eid" "e = touched (\<lambda>r. row_id r = eid) (apply_update u) stamp e0"
    and t1: "T d1 = expenses_update (map (touched (\<lambda>r. row_id r = eid) (apply_update u) stamp)) (T (w_db w))"
    by auto
  have t2: "T (w_db w2) = splits_update (\<lambda>rs. filter (\<lambda>r. \<not> of_expense eid r) rs @ rows) (T d1)"
    and m: "map row_data rows = map (split_row eid) parts"
    using create_splits_Inr [OF s] spl.deleteMany_Inr [OF del] by (simp_all add: cascade_none_def comp_def)
  have x3: "T (w_db w3) = T (w_db w2)" "xd_expense x = e"
    "mset (map fst (xd_splits x)) = mset (splits_of (T (w_db w2)) (row_id e))"
    using expense_details_Inr [OF x] by simp_all
  have "filter (of_expense eid) (filter (\<lambda>r. \<not> of_expense eid r) (splits (T d1))) = []"
    by (simp add: filter_empty_conv)
  then have "splits_of (T (w_db w2)) eid = rows"
    using rows_of_parts(1) [OF m] unfolding t2 by (simp add: splits_of_def)
  with createActivityEvent_Inr [OF a] x3 t2 t1 m e0 show ?thesis
    by (auto intro!: exI [of _ e0] exI [of _ stamp] exI [of _ rows])
qed

lemma deleteExpenseTx_Inr:
  assumes "deleteExpenseTx P E eid activity w = (Inr y, w')"
  shows "\<exists>e ev. e \<in> set (expenses (T (w_db w))) \<and> row_id e = eid \<and>
     row_data ev = expense_event e activity (clock E (w_tick w)) \<and>
     T (w_db w') = activities_update (\<lambda>rs. rs @ [ev])
       (splits_update (filter (\<lambda>s. sp_expenseId (row_data s) \<notin> {eid}))
         (expenses_update (filter (\<lambda>r. row_id r \<notin> {eid})) (T (w_db w))))"
proof -
  from assms obtain e d i where c: "dg_delete (p_expense P) (\<lambda>r. row_id r = eid) (w_db w) = (Inr e, d)"
    and a: "createActivityEvent P (expense_event e activity (clock E (w_tick w)))
              (w\<lparr>w_db := d, w_tick := Suc (w_tick w)\<rparr>) = (Inr i, w')"
    by (auto simp: deleteExpenseTx_def act_simps)
  from exp.delete_Inr [OF c] have "e \<in> set (expenses (T (w_db w)))" "row_id e = eid"
    "T d = splits_update (filter (\<lambda>s. sp_expenseId (row_data s) \<notin> {eid}))
         (expenses_update (filter (\<lambda>r. row_id r \<notin> {eid})) (T (w_db w)))"
    by (auto simp: cascade_expenses_def)
  with createActivityEvent_Inr [OF a] show ?thesis by auto
qed

text \<open>The reads of the repository, and of the services that only read.\<close>

lemma silent_expense_reads [silent_intros]:
  "silent T (ExpenseRepository_findGroupById P gid)"
  "silent T (findGroupMemberIds P gid)"
  "silent T (expense_details P key e)"
  "silent T (expense_summary P e)"
  unfolding ExpenseRepository_findGroupById_def findGroupMemberIds_def expense_details_def
    expense_summary_def
  by (intro silent_intros grp.silent_reads mem.silent_reads spl.silent_reads)+

lemma silent_expense_service [silent_intros]:
  "silent T (findExpenseById P eid)"
  "silent T (assertMemberOfGroup P uid gid)"
  "silent T (findExpensesByGroupId P gid pagination)"
  unfolding findExpenseById_def assertMemberOfGroup_def findExpensesByGroupId_def
  by (intro silent_intros exp.silent_reads)+

lemma silent_date_or [silent_intros]: "silent T m \<Longrightarrow> silent T (date_or E s m)"
  unfolding date_or_def by (intro silent_intros)

lemma silent_expense_queries:
  "silent T (getExpenseById P uid eid)"
  "silent T (getGroupExpenses P uid gid pagination)"
  unfolding getExpenseById_def getGroupExpenses_def by (intro silent_intros)+

text \<open>An expense request that the application refuses changes nothing.\<close>

lemma clean_expense_repository [clean_intros]:
  "clean T (createExpenseWithSplits P data parts activity)"
  "clean T (updateExpenseWithSplits P E eid u parts activity)"
  "clean T (deleteExpenseWithEvent P E eid activity)"
  unfolding createExpenseWithSplits_def updateExpenseWithSplits_def deleteExpenseWithEvent_def
  by (intro clean_transaction)+

lemma clean_createExpense: "clean T (createExpense P E uid input)"
  unfolding createExpense_def
  by (intro clean_seq silent_intros clean_seq_tail clean_intros never_fails_seq never_fails_basic)

lemma clean_updateExpense: "clean T (updateExpense P E uid eid input)"
  unfolding updateExpense_def
  by (intro clean_let clean_seq silent_intros clean_seq_tail clean_intros never_fails_seq never_fails_basic)

lemma clean_deleteExpense: "clean T (deleteExpense P E uid eid)"
  unfolding deleteExpense_def
  by (intro clean_seq silent_intros clean_seq_tail clean_intros never_fails_basic)

text \<open>The ledger survives every outcome of every expense request.\<close>

lemma keeps_createExpenseWithSplits:
  assumes "parts_ok parts (ex_amountMinorUnits data)"
  shows "keeps (on_db (\<lambda>d. ledger_ok (T d))) (createExpenseWithSplits P data parts activity)"
  unfolding createExpenseWithSplits_def
proof (rule keeps_transaction)
  fix w x w'
  assume ok: "ledger_ok (T (w_db w))" and run: "createExpenseTx P data parts activity w = (Inr x, w')"
  from createExpenseTx_Inr [OF run] obtain e rows ev where
      e: "inserted (expenses (T (w_db w))) clash_never refs_Expense (T (w_db w)) data e"
    and m: "map row_data rows = map (split_row (row_id e)) parts"
    and t: "T (w_db w') = activities_update (\<lambda>rs. rs @ [ev]) (splits_update (\<lambda>rs. rs @ rows)
       (expenses_update (\<lambda>rs. rs @ [e]) (T (w_db w))))"
    by blast
  show "ledger_ok (T (w_db w'))"
    using ledger_ok_add [OF ok _ m] e assms unfolding t by (simp add: inserted_def)
qed

lemma keeps_updateExpenseWithSplits:
  assumes "parts_ok parts (up_amountMinorUnits u)"
  shows "keeps (on_db (\<lambda>d. ledger_ok (T d))) (updateExpenseWithSplits P E eid u parts activity)"
  unfolding updateExpenseWithSplits_def
proof (rule keeps_transaction)
  fix w x w'
  assume ok: "ledger_ok (T (w_db w))" and run: "updateExpenseTx P E eid u parts activity w = (Inr x, w')"
  from updateExpenseTx_Inr [OF run] obtain e0 stamp rows ev where
      e: "e0 \<in> set (expenses (T (w_db w)))" "row_id e0 = eid"
    and m: "map row_data rows = map (split_row eid) parts"
    and t: "T (w_db w') = activities_update (\<lambda>rs. rs @ [ev])
       (splits_update (\<lambda>rs. filter (\<lambda>r. \<not> of_expense eid r) rs @ rows)
         (expenses_update (map (touched (\<lambda>r. row_id r = eid) (apply_update u) stamp)) (T (w_db w))))"
    by blast
  have "has_id eid (expenses (T (w_db w)))" using e by (auto simp: has_id_iff)
  then show "ledger_ok (T (w_db w'))" using ledger_ok_replace [OF ok _ m assms] unfolding t by simp
qed

lemma keeps_deleteExpenseWithEvent:
  "keeps (on_db (\<lambda>d. ledger_ok (T d))) (deleteExpenseWithEvent P E eid activity)"
  unfolding deleteExpenseWithEvent_def
proof (rule keeps_transaction)
  fix w x w'
  assume ok: "ledger_ok (T (w_db w))" and run: "deleteExpenseTx P E eid activity w = (Inr x, w')"
  show "ledger_ok (T (w_db w'))"
    using deleteExpenseTx_Inr [OF run] ledger_ok_remove [OF ok, of "{eid}"] by auto
qed

lemma keeps_createExpense:
  assumes "equal_ok (ci_amountMinorUnits input) (ci_participants input)"
  shows "keeps (on_db (\<lambda>d. ledger_ok (T d))) (createExpense P E uid input)"
  unfolding createExpense_def using assms
  by (intro keeps_seq_result keeps_createExpenseWithSplits keep_intros keeps_silent silent_intros
      keeps_seq_result [OF keeps_seq])
    (auto dest: splitsFor_parts_ok intro: keeps_createExpenseWithSplits)

lemma findExpenseById_Inr:
  assumes "findExpenseById P eid w = (Inr (Some x), w')"
  shows "T (w_db w') = T (w_db w) \<and> xd_expense x \<in> set (expenses (T (w_db w))) \<and>
     row_id (xd_expense x) = eid \<and> only_tables w w' \<and>
     mset (map fst (xd_splits x)) = mset (splits_of (T (w_db w)) eid)"
proof -
  obtain e d where f: "dg_findUnique (p_expense P) (\<lambda>r. row_id r = eid) (w_db w) = (Inr (Some e), d)"
    and x: "expense_details P created_order e (w\<lparr>w_db := d\<rparr>) = (Inr x, w')"
    using assms by (auto simp: findExpenseById_def act_simps split: option.splits)
  from exp.findUnique_Some [OF f] expense_details_Inr [OF x] show ?thesis by auto
qed

lemma findExpenseById_stored_ok:
  assumes ok: "ledger_ok (T (w_db w))" and run: "findExpenseById P eid w = (Inr (Some x), w')"
  shows "stored_ok x"
proof -
  from findExpenseById_Inr [OF run] have e: "xd_expense x \<in> set (expenses (T (w_db w)))"
      "row_id (xd_expense x) = eid"
    and m: "mset (map fst (xd_splits x)) = mset (splits_of (T (w_db w)) eid)" by simp_all
  have "length (xd_splits x) = length (splits_of (T (w_db w)) eid)"
    using arg_cong [OF m, of size] by simp
  then show ?thesis using ledger_okD [OF ok e(1)] e(2) by (auto simp: stored_ok_def)
qed

lemma keeps_updateExpense:
  assumes "update_input_ok input"
  shows "keeps (on_db (\<lambda>d. ledger_ok (T d))) (updateExpense P E uid eid input)"
  unfolding updateExpense_def Let_def
proof (rule keeps_seq_value [where Q = "\<lambda>x. \<forall>y. x = Some y \<longrightarrow> stored_ok y"], goal_cases)
  case 1
  show ?case by (intro keeps_silent silent_intros)
next
  case (2 w x w')
  then show "\<forall>y. x = Some y \<longrightarrow> stored_ok y"
    by (auto simp: on_db_def dest: findExpenseById_stored_ok)
next
  case (3 x)
  show ?case
  proof (rule keeps_seq_need, rule keeps_seq [OF keeps_silent], rule silent_expense_reads,
      rule keeps_seq_guard, rule keeps_seq [OF keeps_silent], intro silent_intros,
      rule keeps_seq_guard, rule keeps_seq_result, goal_cases)
    case (1 y ids d parts)
    have "stored_ok y" using 3 1 by simp
    then have "0 \<le> or_else (ui_amountMinorUnits input) (ex_amountMinorUnits (row_data (xd_expense y)))"
      using assms by (auto simp: stored_ok_def update_input_ok_def or_else_def split: option.splits)
    then have "parts_ok parts (or_else (ui_amountMinorUnits input)
        (ex_amountMinorUnits (row_data (xd_expense y))))"
      using 1 assms \<open>stored_ok y\<close>
      by (intro updatedSplits_parts_ok [where ps = "ui_participants input"])
        (auto simp: stored_ok_def update_input_ok_def split: option.splits)
    then show ?case by (intro keeps_seq keeps_updateExpenseWithSplits keep_intros) simp_all
  qed
qed

lemma keeps_deleteExpense:
  "keeps (on_db (\<lambda>d. ledger_ok (T d))) (deleteExpense P E uid eid)"
  unfolding deleteExpense_def
  by (intro keeps_seq [OF keeps_silent] keeps_seq keeps_deleteExpenseWithEvent keep_intros silent_intros)

lemma date_or_Inr:
  assumes "date_or E s m w = (Inr d, w')" and "\<And>d w'. m w = (Inr d, w') \<Longrightarrow> w_db w' = w_db w"
  shows "w_db w' = w_db w"
  using assms by (auto simp: date_or_def act_simps split: option.splits if_splits)

text \<open>What a successful request means: who asked, and what it stored.\<close>

lemma createExpenseWithSplits_Inr:
  assumes "createExpenseWithSplits P data parts activity w = (Inr x, w')"
  shows "\<exists>e rows ev. inserted (expenses (T (w_db w))) clash_never refs_Expense (T (w_db w)) data e \<and>
     map row_data rows = map (split_row (row_id e)) parts \<and>
     row_data ev = expense_event e activity (row_createdAt e) \<and>
     T (w_db w') = activities_update (\<lambda>rs. rs @ [ev]) (splits_update (\<lambda>rs. rs @ rows)
       (expenses_update (\<lambda>rs. rs @ [e]) (T (w_db w)))) \<and>
     xd_expense x = e \<and> mset (map fst (xd_splits x)) = mset (splits_of (T (w_db w)) (row_id e) @ rows)"
proof -
  from assms obtain w1 where run: "createExpenseTx P data parts activity w = (Inr x, w1)"
    and "T (w_db w') = T (w_db w1)"
    unfolding createExpenseWithSplits_def by (rule in_transaction_Inr)
  with createExpenseTx_Inr [OF run] show ?thesis by (elim exE conjE) (intro exI conjI, assumption+, simp+)
qed

lemma createExpense_Inr:
  assumes "createExpense P E uid input w = (Inr dto, w')"
  shows "\<exists>e rows ev parts.
     is_member (T (w_db w)) (ci_groupId input) uid \<and>
     is_member (T (w_db w)) (ci_groupId input) (ci_payerId input) \<and>
     (\<forall>p\<in>set (ci_participants input). is_member (T (w_db w)) (ci_groupId input) (pt_userId p)) \<and>
     distinct (map pt_userId (ci_participants input)) \<and>
     splitsFor (ci_splitType input) (ci_amountMinorUnits input) (ci_participants input) = Inr parts \<and>
     ex_groupId (row_data e) = ci_groupId input \<and> ex_paidById (row_data e) = ci_payerId input \<and>
     ex_amountMinorUnits (row_data e) = ci_amountMinorUnits input \<and>
     ex_splitType (row_data e) = ci_splitType input \<and>
     ex_description (row_data e) = ci_description input \<and>
     ex_currencyCode (row_data e) = ''PKR'' \<and>
     \<not> has_id (row_id e) (expenses (T (w_db w))) \<and> ed_id dto = row_id e \<and>
     map row_data rows = map (split_row (row_id e)) parts \<and>
     row_data ev = expense_event e \<lparr>ai_userId = uid, ai_type = EXPENSE_ADDED,
       ai_message = quoted ''added the expense '' (ci_description input)\<rparr> (row_createdAt e) \<and>
     T (w_db w') = activities_update (\<lambda>rs. rs @ [ev]) (splits_update (\<lambda>rs. rs @ rows)
       (expenses_update (\<lambda>rs. rs @ [e]) (T (w_db w))))"
proof -
  from assms obtain g ids parts d x w1 w2 w3 w4 where
      g: "ExpenseRepository_findGroupById P (ci_groupId input) w = (Inr (Some g), w1)"
    and ids: "findGroupMemberIds P (ci_groupId input) w1 = (Inr ids, w2)"
    and checks: "uid \<in> set ids" "ci_payerId input \<in> set ids"
      "distinct (map pt_userId (ci_participants input))"
      "\<forall>p\<in>set (ci_participants input). pt_userId p \<in> set ids"
      "splitsFor (ci_splitType input) (ci_amountMinorUnits input) (ci_participants input) = Inr parts"
    and d: "date_or E (ci_expenseDate input) (now E) w2 = (Inr d, w3)"
    and x: "createExpenseWithSplits P
        \<lparr>ex_groupId = ci_groupId input, ex_paidById = ci_payerId input,
         ex_description = ci_description input, ex_amountMinorUnits = ci_amountMinorUnits input,
         ex_currencyCode = ''PKR'', ex_splitType = ci_splitType input, ex_expenseDate = d\<rparr> parts
        \<lparr>ai_userId = uid, ai_type = EXPENSE_ADDED,
         ai_message = quoted ''added the expense '' (ci_description input)\<rparr> w3 = (Inr x, w4)"
    and dto: "dto = toDetailDto x" and w': "w_db w' = w_db w4"
    by (auto simp: createExpense_def act_simps has_duplicates_iff list_ex_iff)
  have t: "T (w_db w3) = T (w_db w)" and m: "\<And>u. u \<in> set ids \<longleftrightarrow> is_member (T (w_db w)) (ci_groupId input) u"
    using findGroup_Inr [OF g] findGroupMemberIds_Inr [OF ids] date_or_Inr [OF d]
    by (auto simp: act_simps)
  have dto_id: "ed_id dto = row_id (xd_expense x)"
    by (simp add: dto toDetailDto_def base_dto_def ExpenseDto.defs)
  from createExpenseWithSplits_Inr [OF x] obtain e rows ev where
      e: "inserted (expenses (T (w_db w3))) clash_never refs_Expense (T (w_db w3))
        \<lparr>ex_groupId = ci_groupId input, ex_paidById = ci_payerId input,
         ex_description = ci_description input, ex_amountMinorUnits = ci_amountMinorUnits input,
         ex_currencyCode = ''PKR'', ex_splitType = ci_splitType input, ex_expenseDate = d\<rparr> e"
    and rest: "map row_data rows = map (split_row (row_id e)) parts" "xd_expense x = e"
      "row_data ev = expense_event e \<lparr>ai_userId = uid, ai_type = EXPENSE_ADDED,
         ai_message = quoted ''added the expense '' (ci_description input)\<rparr> (row_createdAt e)"
      "T (w_db w4) = activities_update (\<lambda>rs. rs @ [ev]) (splits_update (\<lambda>rs. rs @ rows)
         (expenses_update (\<lambda>rs. rs @ [e]) (T (w_db w3))))"
    by blast
  show ?thesis
    using checks m e rest dto_id t w'
    by (intro exI [of _ e] exI [of _ rows] exI [of _ ev] exI [of _ parts]) (simp add: inserted_def)
qed

lemma updateExpense_Inr:
  assumes run: "updateExpense P E uid eid input w = (Inr dto, w')"
    and dist: "distinct (map row_id (expenses (T (w_db w))))"
  shows "\<exists>e rows ev parts u stamp.
     e \<in> set (expenses (T (w_db w))) \<and> row_id e = eid \<and>
     is_member (T (w_db w)) (ex_groupId (row_data e)) uid \<and>
     is_member (T (w_db w)) (ex_groupId (row_data e)) (up_paidById u) \<and>
     up_description u = or_else (ui_description input) (ex_description (row_data e)) \<and>
     up_amountMinorUnits u = or_else (ui_amountMinorUnits input) (ex_amountMinorUnits (row_data e)) \<and>
     up_paidById u = or_else (ui_payerId input) (ex_paidById (row_data e)) \<and>
     up_splitType u = or_else (ui_splitType input) (ex_splitType (row_data e)) \<and>
     map row_data rows = map (split_row eid) parts \<and>
     ev_type (row_data ev) = EXPENSE_UPDATED \<and> ev_userId (row_data ev) = uid \<and>
     ev_groupId (row_data ev) = ex_groupId (row_data e) \<and>
     T (w_db w') = activities_update (\<lambda>rs. rs @ [ev])
       (splits_update (\<lambda>rs. filter (\<lambda>r. \<not> of_expense eid r) rs @ rows)
         (expenses_update (map (touched (\<lambda>r. row_id r = eid) (apply_update u) stamp)) (T (w_db w))))"
proof -
  from run obtain y ids parts d x w1 w2 w3 w4 where
      y: "findExpenseById P eid w = (Inr (Some y), w1)"
    and ids: "findGroupMemberIds P (ex_groupId (row_data (xd_expense y))) w1 = (Inr ids, w2)"
    and checks: "uid \<in> set ids" "or_else (ui_payerId input) (ex_paidById (row_data (xd_expense y))) \<in> set ids"
    and d: "date_or E (ui_expenseDate input) (ret (ex_expenseDate (row_data (xd_expense y)))) w2 = (Inr d, w3)"
    and x: "updateExpenseWithSplits P E eid
        \<lparr>up_paidById = or_else (ui_payerId input) (ex_paidById (row_data (xd_expense y))),
         up_description = or_else (ui_description input) (ex_description (row_data (xd_expense y))),
         up_amountMinorUnits = or_else (ui_amountMinorUnits input) (ex_amountMinorUnits (row_data (xd_expense y))),
         up_splitType = or_else (ui_splitType input) (ex_splitType (row_data (xd_expense y))),
         up_expenseDate = d\<rparr> parts
        \<lparr>ai_userId = uid, ai_type = EXPENSE_UPDATED, ai_message = quoted ''updated the expense ''
           (or_else (ui_description input) (ex_description (row_data (xd_expense y))))\<rparr> w3 = (Inr x, w4)"
      (is "updateExpenseWithSplits P E eid ?u parts ?a w3 = _")
    and w': "w_db w' = w_db w4"
    by (auto simp: updateExpense_def Let_def act_simps)
  have t: "T (w_db w3) = T (w_db w)"
    and m: "\<And>u. u \<in> set ids \<longleftrightarrow> is_member (T (w_db w)) (ex_groupId (row_data (xd_expense y))) u"
    and e: "xd_expense y \<in> set (expenses (T (w_db w)))" "row_id (xd_expense y) = eid"
    using findExpenseById_Inr [OF y] findGroupMemberIds_Inr [OF ids] date_or_Inr [OF d]
    by (auto simp: act_simps)
  from x obtain w5 where run: "updateExpenseTx P E eid ?u parts ?a w3 = (Inr x, w5)"
    and w5: "T (w_db w4) = T (w_db w5)"
    unfolding updateExpenseWithSplits_def by (rule in_transaction_Inr)
  from updateExpenseTx_Inr [OF run] obtain e0 stamp rows ev where
      e0: "e0 \<in> set (expenses (T (w_db w)))" "row_id e0 = eid"
        "xd_expense x = touched (\<lambda>r. row_id r = eid) (apply_update ?u) stamp e0"
    and rest: "map row_data rows = map (split_row eid) parts"
      "row_data ev = expense_event (xd_expense x) ?a (clock E (w_tick w3))"
      "T (w_db w5) = activities_update (\<lambda>rs. rs @ [ev])
       (splits_update (\<lambda>rs. filter (\<lambda>r. \<not> of_expense eid r) rs @ rows)
         (expenses_update (map (touched (\<lambda>r. row_id r = eid) (apply_update ?u) stamp)) (T (w_db w))))"
    unfolding t by blast
  have same: "xd_expense y = e0"
    using dist e e0(1,2) by (auto simp: distinct_map dest: inj_onD)
  show ?thesis
    using checks m e rest w5 w' e0 same
    by (intro exI [of _ e0] exI [of _ rows] exI [of _ ev] exI [of _ parts] exI [of _ ?u] exI [of _ stamp])
      (simp add: expense_event_def row_data_touched apply_update_def)
qed

lemma deleteExpense_Inr:
  assumes "deleteExpense P E uid eid w = (Inr u, w')"
  shows "\<exists>e ev. e \<in> set (expenses (T (w_db w))) \<and> row_id e = eid \<and>
     is_member (T (w_db w)) (ex_groupId (row_data e)) uid \<and>
     ev_type (row_data ev) = EXPENSE_DELETED \<and> ev_userId (row_data ev) = uid \<and>
     T (w_db w') = activities_update (\<lambda>rs. rs @ [ev])
       (splits_update (filter (\<lambda>s. sp_expenseId (row_data s) \<noteq> eid))
         (expenses_update (filter (\<lambda>r. row_id r \<noteq> eid)) (T (w_db w))))"
proof -
  let ?a = "\<lambda>y. \<lparr>ai_userId = uid, ai_type = EXPENSE_DELETED,
     ai_message = quoted ''deleted the expense '' (ex_description (row_data (xd_expense y)))\<rparr>"
  from assms obtain y ids w1 w2 w3 v where
      y: "findExpenseById P eid w = (Inr (Some y), w1)"
    and ids: "findGroupMemberIds P (ex_groupId (row_data (xd_expense y))) w1 = (Inr ids, w2)"
    and uid: "uid \<in> set ids"
    and d: "deleteExpenseWithEvent P E eid (?a y) w2 = (Inr v, w3)" and w': "w_db w' = w_db w3"
    by (auto simp: deleteExpense_def assertMemberOfGroup_def act_simps)
  from d obtain w4 where tx: "deleteExpenseTx P E eid (?a y) w2 = (Inr v, w4)"
    and w4: "T (w_db w3) = T (w_db w4)"
    unfolding deleteExpenseWithEvent_def by (rule in_transaction_Inr)
  have t: "T (w_db w2) = T (w_db w)" and e: "xd_expense y \<in> set (expenses (T (w_db w)))" "row_id (xd_expense y) = eid"
    and m: "is_member (T (w_db w)) (ex_groupId (row_data (xd_expense y))) uid"
    using findExpenseById_Inr [OF y] findGroupMemberIds_Inr [OF ids] uid by auto
  from deleteExpenseTx_Inr [OF tx] obtain e' ev where ev: "row_data ev = expense_event e' (?a y) (clock E (w_tick w2))"
    and t': "T (w_db w4) = activities_update (\<lambda>rs. rs @ [ev])
       (splits_update (filter (\<lambda>s. sp_expenseId (row_data s) \<notin> {eid}))
         (expenses_update (filter (\<lambda>r. row_id r \<notin> {eid})) (T (w_db w2))))"
    by blast
  show ?thesis
    using e m ev t' t w' w4
    by (intro exI [of _ "xd_expense y"] exI [of _ ev]) (simp add: expense_event_def)
qed

end

end
