(* ===== verification/GroupService.thy ===== *)
theory GroupService
  imports GroupCache Expenses
begin

text \<open>
  Groups: \<open>modules/groups/group.repository.ts\<close> and \<open>group.service.ts\<close>. Every change writes its
  activity event in the same transaction and then drops the cache entry of the group.
\<close>

section \<open>Records\<close>

record GroupResult =
  gx_id :: string
  gx_name :: string
  gx_createdById :: string
  gx_createdAt :: int
  gx_updatedAt :: int

record GroupWithMemberCount = GroupResult +
  gx_memberCount :: nat

record MemberResult =
  mx_id :: string
  mx_groupId :: string
  mx_userId :: string
  mx_createdAt :: int

definition group_result :: "Group row \<Rightarrow> GroupResult" where
  "group_result g = \<lparr>gx_id = row_id g, gx_name = gr_name (row_data g),
     gx_createdById = gr_createdById (row_data g), gx_createdAt = row_createdAt g,
     gx_updatedAt = row_updatedAt g\<rparr>"

section \<open>Repository\<close>

definition group_event :: "string \<Rightarrow> ActivityEventInput \<Rightarrow> int \<Rightarrow> ActivityEvent" where
  "group_event groupId activity occurredAt =
     \<lparr>ev_groupId = groupId, ev_userId = ai_userId activity, ev_type = ai_type activity,
      ev_message = ai_message activity, ev_amountMinorUnits = None, ev_currencyCode = None,
      ev_occurredAt = occurredAt\<rparr>"

definition createGroupTx ::
  "'d prisma \<Rightarrow> string \<Rightarrow> string \<Rightarrow> ActivityEventInput \<Rightarrow> (('d, 'r, 'm) world, Group row) act" where
  "createGroupTx P ownerId name activity =
     seq (db_do (dg_create (p_group P) \<lparr>gr_name = name, gr_createdById = ownerId\<rparr>)) (\<lambda>g.
     seq (db_do (dg_create (p_groupMember P) \<lparr>gm_groupId = row_id g, gm_userId = ownerId\<rparr>)) (\<lambda>_.
     seq (createActivityEvent P (group_event (row_id g) activity (row_createdAt g))) (\<lambda>_.
     ret g)))"

definition createGroupWithOwner ::
  "'d prisma \<Rightarrow> string \<Rightarrow> string \<Rightarrow> ActivityEventInput \<Rightarrow> (('d, 'r, 'm) world, Group row) act" where
  "createGroupWithOwner P ownerId name activity =
     in_transaction P (createGroupTx P ownerId name activity)"

definition GroupRepository_findGroupById ::
  "'d prisma \<Rightarrow> string \<Rightarrow> (('d, 'r, 'm) world, Group row option) act" where
  "GroupRepository_findGroupById P gid = db_do (dg_findUnique (p_group P) (\<lambda>r. row_id r = gid))"

definition findGroupByIdWithMembers ::
  "'d prisma \<Rightarrow> string \<Rightarrow> (('d, 'r, 'm) world, GroupWithMembers option) act" where
  "findGroupByIdWithMembers P gid =
     seq (db_do (dg_findUnique (p_group P) (\<lambda>r. row_id r = gid))) (\<lambda>x.
     case x of
       None \<Rightarrow> ret None
     | Some g \<Rightarrow>
         seq (db_do (dg_findMany (p_groupMember P) (select_where (in_group_member gid)))) (\<lambda>rows.
         seq (map_act (\<lambda>r. seq (includeUser P (gm_userId (row_data r))) (\<lambda>u. ret (r, u))) rows) (\<lambda>ms.
         ret (Some \<lparr>gw_id = row_id g, gw_name = gr_name (row_data g),
                gw_createdById = gr_createdById (row_data g), gw_createdAt = row_createdAt g,
                gw_updatedAt = row_updatedAt g, gw_members = map snd ms\<rparr>))))"

definition findGroupsByUserId ::
  "'d prisma \<Rightarrow> string \<Rightarrow> (('d, 'r, 'm) world, GroupWithMemberCount list) act" where
  "findGroupsByUserId P userId =
     seq (db_do (dg_findMany (p_group P)
            \<lparr>q_where = (\<lambda>t g. list_ex (member_where (row_id g) userId) (members t)),
             q_key = newest_first, q_skip = 0, q_take = None\<rparr>)) (\<lambda>gs.
     map_act (\<lambda>g. seq (db_do (dg_count (p_groupMember P) (in_group_member (row_id g)))) (\<lambda>n.
                   ret (GroupResult.extend (group_result g) \<lparr>gx_memberCount = n\<rparr>))) gs)"

definition findUserById ::
  "'d prisma \<Rightarrow> string \<Rightarrow> (('d, 'r, 'm) world, SafeUser option) act" where
  "findUserById P uid =
     seq (db_do (dg_findUnique (p_user P) (\<lambda>r. row_id r = uid))) (\<lambda>u. ret (map_option safeUser u))"

definition isGroupMember ::
  "'d prisma \<Rightarrow> string \<Rightarrow> string \<Rightarrow> (('d, 'r, 'm) world, bool) act" where
  "isGroupMember P groupId userId =
     seq (db_do (dg_findUnique (p_groupMember P) (member_where groupId userId))) (\<lambda>m. ret (m \<noteq> None))"

definition rename_group :: "string \<Rightarrow> Group \<Rightarrow> Group" where
  "rename_group name g = g\<lparr>gr_name := name\<rparr>"

definition updateGroupTx ::
  "'d prisma \<Rightarrow> env \<Rightarrow> string \<Rightarrow> string \<Rightarrow> ActivityEventInput \<Rightarrow> (('d, 'r, 'm) world, Group row) act" where
  "updateGroupTx P E gid name activity =
     seq (db_do (dg_update (p_group P) (\<lambda>r. row_id r = gid) (rename_group name))) (\<lambda>g.
     seq (now E) (\<lambda>t.
     seq (createActivityEvent P (group_event (row_id g) activity t)) (\<lambda>_.
     ret g)))"

definition GroupRepository_updateGroup ::
  "'d prisma \<Rightarrow> env \<Rightarrow> string \<Rightarrow> string \<Rightarrow> ActivityEventInput \<Rightarrow>
   (('d, 'r, 'm) world, Group row option) act" where
  "GroupRepository_updateGroup P E gid name activity =
     seq (db_do (dg_findUnique (p_group P) (\<lambda>r. row_id r = gid))) (\<lambda>existing.
     case existing of
       None \<Rightarrow> ret None
     | Some _ \<Rightarrow> seq (in_transaction P (updateGroupTx P E gid name activity)) (\<lambda>g. ret (Some g)))"

definition GroupRepository_deleteGroup :: "'d prisma \<Rightarrow> string \<Rightarrow> (('d, 'r, 'm) world, unit) act" where
  "GroupRepository_deleteGroup P gid =
     seq (db_do (dg_delete (p_group P) (\<lambda>r. row_id r = gid))) (\<lambda>_. ret ())"

definition addGroupMemberTx ::
  "'d prisma \<Rightarrow> string \<Rightarrow> string \<Rightarrow> ActivityEventInput \<Rightarrow> (('d, 'r, 'm) world, GroupMember row) act" where
  "addGroupMemberTx P groupId memberId activity =
     seq (db_do (dg_create (p_groupMember P) \<lparr>gm_groupId = groupId, gm_userId = memberId\<rparr>)) (\<lambda>m.
     seq (createActivityEvent P (group_event groupId activity (row_createdAt m))) (\<lambda>_.
     ret m))"

definition GroupRepository_addGroupMember ::
  "'d prisma \<Rightarrow> string \<Rightarrow> string \<Rightarrow> ActivityEventInput \<Rightarrow> (('d, 'r, 'm) world, GroupMember row) act" where
  "GroupRepository_addGroupMember P groupId memberId activity =
     in_transaction P (addGroupMemberTx P groupId memberId activity)"

definition findGroupMember ::
  "'d prisma \<Rightarrow> string \<Rightarrow> string \<Rightarrow> (('d, 'r, 'm) world, GroupMember row option) act" where
  "findGroupMember P groupId memberId =
     db_do (dg_findUnique (p_groupMember P) (member_where groupId memberId))"

definition removeGroupMemberTx ::
  "'d prisma \<Rightarrow> env \<Rightarrow> string \<Rightarrow> string \<Rightarrow> ActivityEventInput \<Rightarrow> (('d, 'r, 'm) world, unit) act" where
  "removeGroupMemberTx P E groupId memberId activity =
     seq (db_do (dg_delete (p_groupMember P) (member_where groupId memberId))) (\<lambda>_.
     seq (now E) (\<lambda>t.
     seq (createActivityEvent P (group_event groupId activity t)) (\<lambda>_.
     ret ())))"

definition GroupRepository_removeGroupMember ::
  "'d prisma \<Rightarrow> env \<Rightarrow> string \<Rightarrow> string \<Rightarrow> ActivityEventInput \<Rightarrow> (('d, 'r, 'm) world, unit) act" where
  "GroupRepository_removeGroupMember P E groupId memberId activity =
     in_transaction P (removeGroupMemberTx P E groupId memberId activity)"

section \<open>Service\<close>

definition notGroupOwner :: "string \<Rightarrow> exn" where
  "notGroupOwner msg = ForbiddenError NOT_GROUP_OWNER msg"

definition userNotFound :: exn where
  "userNotFound = NotFoundError USER_NOT_FOUND ''User not found.''"

definition alreadyGroupMember :: exn where
  "alreadyGroupMember = ConflictError ALREADY_GROUP_MEMBER ''This user is already a member of the group.''"

definition cannotRemoveOwner :: exn where
  "cannotRemoveOwner = ConflictError CANNOT_REMOVE_OWNER
     ''The group owner cannot be removed from the group.''"

definition memberNotFound :: exn where
  "memberNotFound = NotFoundError NOT_GROUP_MEMBER ''Member not found in this group.''"

lemma group_errors [code_of_simps, simp]:
  "exn_code (notGroupOwner msg) = Some NOT_GROUP_OWNER"
  "exn_code userNotFound = Some USER_NOT_FOUND"
  "exn_code alreadyGroupMember = Some ALREADY_GROUP_MEMBER"
  "exn_code cannotRemoveOwner = Some CANNOT_REMOVE_OWNER"
  "exn_code memberNotFound = Some NOT_GROUP_MEMBER"
  "\<not> db_exn (notGroupOwner msg)" "\<not> db_exn userNotFound" "\<not> db_exn alreadyGroupMember"
  "\<not> db_exn cannotRemoveOwner" "\<not> db_exn memberNotFound"
  by (simp_all add: notGroupOwner_def userNotFound_def alreadyGroupMember_def
      cannotRemoveOwner_def memberNotFound_def error_class_defs)

definition createGroup ::
  "'d prisma \<Rightarrow> string \<Rightarrow> string \<Rightarrow> (('d, 'r, 'm) world, GroupResult) act" where
  "createGroup P userId name =
     seq (createGroupWithOwner P userId name
            \<lparr>ai_userId = userId, ai_type = GROUP_CREATED, ai_message = ''created the group''\<rparr>) (\<lambda>g.
     seq (metric groupsCreatedTotal []) (\<lambda>_.
     ret (group_result g)))"

definition getUserGroups ::
  "'d prisma \<Rightarrow> string \<Rightarrow> (('d, 'r, 'm) world, GroupWithMemberCount list) act" where
  "getUserGroups P userId = findGroupsByUserId P userId"

definition getGroupById ::
  "'d prisma \<Rightarrow> 'r redis \<Rightarrow> env \<Rightarrow> int \<Rightarrow> string \<Rightarrow> string \<Rightarrow>
   (('d, 'r, 'm) world, GroupWithMembers) act" where
  "getGroupById P R E ttlSeconds userId groupId =
     seq (getCachedGroupById R E groupId) (\<lambda>cached.
     case cached of
       Some g \<Rightarrow>
         seq (isGroupMember P groupId userId) (\<lambda>isMember.
         seq (guard isMember notGroupMember) (\<lambda>_.
         ret g))
     | None \<Rightarrow>
         seq (findGroupByIdWithMembers P groupId) (\<lambda>x.
         seq (need x groupNotFound) (\<lambda>g.
         seq (isGroupMember P groupId userId) (\<lambda>isMember.
         seq (guard isMember notGroupMember) (\<lambda>_.
         seq (setCachedGroupById R E ttlSeconds groupId g) (\<lambda>_.
         ret g))))))"

definition updateGroup ::
  "'d prisma \<Rightarrow> 'r redis \<Rightarrow> env \<Rightarrow> string \<Rightarrow> string \<Rightarrow> string \<Rightarrow>
   (('d, 'r, 'm) world, GroupResult) act" where
  "updateGroup P R E userId groupId name =
     seq (GroupRepository_findGroupById P groupId) (\<lambda>x.
     seq (need x groupNotFound) (\<lambda>g.
     seq (guard (gr_createdById (row_data g) = userId)
            (notGroupOwner ''Only the group owner can update this group.'')) (\<lambda>_.
     seq (GroupRepository_updateGroup P E groupId name
            \<lparr>ai_userId = userId, ai_type = GROUP_UPDATED,
             ai_message = quoted ''renamed the group to '' name\<rparr>) (\<lambda>y.
     seq (need y groupNotFound) (\<lambda>updated.
     seq (invalidateGroupCache R groupId) (\<lambda>_.
     ret (group_result updated)))))))"

definition deleteGroup ::
  "'d prisma \<Rightarrow> 'r redis \<Rightarrow> string \<Rightarrow> string \<Rightarrow> (('d, 'r, 'm) world, unit) act" where
  "deleteGroup P R userId groupId =
     seq (GroupRepository_findGroupById P groupId) (\<lambda>x.
     seq (need x groupNotFound) (\<lambda>g.
     seq (guard (gr_createdById (row_data g) = userId)
            (notGroupOwner ''Only the group owner can delete this group.'')) (\<lambda>_.
     seq (GroupRepository_deleteGroup P groupId) (\<lambda>_.
     invalidateGroupCache R groupId))))"

definition addGroupMember ::
  "'d prisma \<Rightarrow> 'r redis \<Rightarrow> string \<Rightarrow> string \<Rightarrow> string \<Rightarrow> (('d, 'r, 'm) world, MemberResult) act" where
  "addGroupMember P R userId groupId memberId =
     seq (GroupRepository_findGroupById P groupId) (\<lambda>x.
     seq (need x groupNotFound) (\<lambda>g.
     seq (guard (gr_createdById (row_data g) = userId)
            (notGroupOwner ''Only the group owner can add members.'')) (\<lambda>_.
     seq (findUserById P memberId) (\<lambda>u.
     seq (need u userNotFound) (\<lambda>targetUser.
     seq (isGroupMember P groupId memberId) (\<lambda>isMember.
     seq (guard (\<not> isMember) alreadyGroupMember) (\<lambda>_.
     seq (GroupRepository_addGroupMember P groupId memberId
            \<lparr>ai_userId = userId, ai_type = MEMBER_ADDED,
             ai_message = ''added '' @ sf_name targetUser @ '' to the group''\<rparr>) (\<lambda>m.
     seq (invalidateGroupCache R groupId) (\<lambda>_.
     ret \<lparr>mx_id = row_id m, mx_groupId = gm_groupId (row_data m), mx_userId = gm_userId (row_data m),
          mx_createdAt = row_createdAt m\<rparr>)))))))))"

definition removeGroupMember ::
  "'d prisma \<Rightarrow> 'r redis \<Rightarrow> env \<Rightarrow> string \<Rightarrow> string \<Rightarrow> string \<Rightarrow> (('d, 'r, 'm) world, unit) act" where
  "removeGroupMember P R E userId groupId memberId =
     seq (GroupRepository_findGroupById P groupId) (\<lambda>x.
     seq (need x groupNotFound) (\<lambda>g.
     seq (guard (gr_createdById (row_data g) = userId)
            (notGroupOwner ''Only the group owner can remove members.'')) (\<lambda>_.
     seq (guard (memberId \<noteq> gr_createdById (row_data g)) cannotRemoveOwner) (\<lambda>_.
     seq (findGroupMember P groupId memberId) (\<lambda>m.
     seq (need m memberNotFound) (\<lambda>_.
     seq (findUserById P memberId) (\<lambda>u.
     seq (need u userNotFound) (\<lambda>targetUser.
     seq (GroupRepository_removeGroupMember P E groupId memberId
            \<lparr>ai_userId = userId, ai_type = MEMBER_REMOVED,
             ai_message = ''removed '' @ sf_name targetUser @ '' from the group''\<rparr>) (\<lambda>_.
     invalidateGroupCache R groupId)))))))))"

section \<open>Changes of the tables\<close>

definition group_created :: "string \<Rightarrow> string \<Rightarrow> tables \<Rightarrow> tables \<Rightarrow> bool" where
  "group_created ownerId name t t' \<longleftrightarrow>
     (\<exists>g m ev. row_data g = \<lparr>gr_name = name, gr_createdById = ownerId\<rparr> \<and>
        \<not> has_id (row_id g) (groups t) \<and>
        row_data m = \<lparr>gm_groupId = row_id g, gm_userId = ownerId\<rparr> \<and> \<not> has_id (row_id m) (members t) \<and>
        \<not> is_member t (row_id g) ownerId \<and> ev_type (row_data ev) = GROUP_CREATED \<and> ev_groupId (row_data ev) = row_id g \<and>
        t' = activities_update (\<lambda>rs. rs @ [ev]) (members_update (\<lambda>rs. rs @ [m])
               (groups_update (\<lambda>rs. rs @ [g]) t)))"

definition group_renamed :: "string \<Rightarrow> string \<Rightarrow> tables \<Rightarrow> tables \<Rightarrow> bool" where
  "group_renamed gid name t t' \<longleftrightarrow>
     (\<exists>stamp ev. ev_type (row_data ev) = GROUP_UPDATED \<and> ev_groupId (row_data ev) = gid \<and>
        t' = activities_update (\<lambda>rs. rs @ [ev])
               (groups_update (map (touched (\<lambda>r. row_id r = gid) (rename_group name) stamp)) t))"

definition group_deleted :: "string \<Rightarrow> tables \<Rightarrow> tables \<Rightarrow> bool" where
  "group_deleted gid t t' \<longleftrightarrow>
     t' = cascade_groups [gid] (groups_update (filter (\<lambda>r. row_id r \<noteq> gid)) t)"

definition member_added :: "string \<Rightarrow> string \<Rightarrow> tables \<Rightarrow> tables \<Rightarrow> bool" where
  "member_added gid uid t t' \<longleftrightarrow>
     (\<exists>m ev. row_data m = \<lparr>gm_groupId = gid, gm_userId = uid\<rparr> \<and> \<not> has_id (row_id m) (members t) \<and>
        \<not> is_member t gid uid \<and> ev_type (row_data ev) = MEMBER_ADDED \<and> ev_groupId (row_data ev) = gid \<and>
        t' = activities_update (\<lambda>rs. rs @ [ev]) (members_update (\<lambda>rs. rs @ [m]) t))"

definition member_removed :: "string \<Rightarrow> string \<Rightarrow> tables \<Rightarrow> tables \<Rightarrow> bool" where
  "member_removed gid uid t t' \<longleftrightarrow>
     (\<exists>m ev. m \<in> set (members t) \<and> member_where gid uid m \<and>
        ev_type (row_data ev) = MEMBER_REMOVED \<and> ev_groupId (row_data ev) = gid \<and>
        t' = activities_update (\<lambda>rs. rs @ [ev]) (members_update (filter (\<lambda>r. row_id r \<noteq> row_id m)) t))"

lemmas group_changes = group_created_def group_renamed_def group_deleted_def member_added_def
  member_removed_def

text \<open>The unique key of the memberships: a new one is for a user who is no member.\<close>

lemma not_member_clash:
  "\<not> is_member t gid uid \<longleftrightarrow>
     (\<forall>r\<in>set (members t). \<not> clash_GroupMember (row_data r) \<lparr>gm_groupId = gid, gm_userId = uid\<rparr>)"
  by (auto simp: is_member_def member_where_def clash_GroupMember_def)

text \<open>Every group has its creator among its members.\<close>

definition groups_ok :: "tables \<Rightarrow> bool" where
  "groups_ok t \<longleftrightarrow> distinct (map row_id (groups t)) \<and> distinct (map row_id (members t)) \<and>
     list_all (\<lambda>g. is_member t (row_id g) (gr_createdById (row_data g))) (groups t)"

lemma is_member_updates [simp]:
  "is_member (activities_update f t) = is_member t"
  "is_member (groups_update g t) = is_member t"
  by (simp_all add: is_member_def fun_eq_iff)

lemma is_member_add:
  "is_member (members_update (\<lambda>rs. rs @ [m]) t) gid uid \<longleftrightarrow> is_member t gid uid \<or> member_where gid uid m"
  by (auto simp: is_member_def)

lemma groups_ok_created:
  assumes "groups_ok t" "group_created owner name t t'"
  shows "groups_ok t'"
  using assms
  by (auto simp: groups_ok_def group_created_def list_all_iff is_member_add member_where_def has_id_def)

lemma groups_ok_renamed:
  assumes "groups_ok t" "group_renamed gid name t t'"
  shows "groups_ok t'"
  using assms
  by (auto simp: groups_ok_def group_renamed_def list_all_iff row_data_touched rename_group_def comp_def)
    metis

lemma groups_ok_added:
  assumes "groups_ok t" "member_added gid uid t t'"
  shows "groups_ok t'"
  using assms
  by (auto simp: groups_ok_def member_added_def list_all_iff is_member_add has_id_def)

lemma groups_ok_removed:
  assumes ok: "groups_ok t" and rem: "member_removed gid uid t t'"
    and owner: "\<And>g. g \<in> set (groups t) \<Longrightarrow> row_id g = gid \<Longrightarrow> gr_createdById (row_data g) \<noteq> uid"
  shows "groups_ok t'"
proof -
  from rem obtain m ev where m: "m \<in> set (members t)" "member_where gid uid m"
    and t': "t' = activities_update (\<lambda>rs. rs @ [ev]) (members_update (filter (\<lambda>r. row_id r \<noteq> row_id m)) t)"
    unfolding member_removed_def by blast
  have "is_member t' (row_id g) (gr_createdById (row_data g))" if g: "g \<in> set (groups t)" for g
  proof -
    obtain r where r: "r \<in> set (members t)" "member_where (row_id g) (gr_createdById (row_data g)) r"
      using ok g by (auto simp: groups_ok_def list_all_iff is_member_def)
    have "row_id r \<noteq> row_id m"
    proof
      assume "row_id r = row_id m"
      then have "r = m" using ok r(1) m(1) by (auto simp: groups_ok_def distinct_map dest: inj_onD)
      then show False using r(2) m(2) owner [OF g] by (auto simp: member_where_def)
    qed
    then show ?thesis using r by (auto simp: is_member_def t')
  qed
  then show ?thesis using ok by (auto simp: groups_ok_def list_all_iff t' distinct_map inj_on_def)
qed

lemma groups_ok_deleted:
  assumes ok: "groups_ok t" and del: "group_deleted gid t t'"
  shows "groups_ok t'"
proof -
  have t': "groups t' = filter (\<lambda>r. row_id r \<noteq> gid) (groups t)"
    "members t' = filter (\<lambda>r. gm_groupId (row_data r) \<noteq> gid) (members t)"
    using del by (simp_all add: group_deleted_def cascade_groups_def cascade_expenses_def Let_def)
  have "is_member t' (row_id g) u" if "is_member t (row_id g) u" "row_id g \<noteq> gid" for g :: "Group row" and u
    using that by (auto simp: is_member_def t' member_where_def)
  then show ?thesis using ok by (auto simp: groups_ok_def t' list_all_iff distinct_map inj_on_def)
qed

lemma ledger_ok_deleted:
  assumes ok: "ledger_ok t" and del: "group_deleted gid t t'"
  shows "ledger_ok t'"
proof -
  let ?gone = "set (map row_id (filter (\<lambda>e. ex_groupId (row_data e) \<in> set [gid]) (expenses t)))"
  have "filter (\<lambda>r. ex_groupId (row_data r) \<notin> set [gid]) (expenses t) =
      filter (\<lambda>x. row_id x \<notin> ?gone) (expenses t)"
    using ok by (intro filter_cong) (auto simp: ledger_ok_def distinct_map dest: inj_onD)
  then have e: "expenses t' = filter (\<lambda>x. row_id x \<notin> ?gone) (expenses t)"
    and s: "splits t' = filter (\<lambda>s. sp_expenseId (row_data s) \<notin> ?gone) (splits t)"
    using del by (simp_all add: group_deleted_def cascade_groups_def cascade_expenses_def Let_def)
  show ?thesis
    using ledger_ok_remove [OF ok, of ?gone]
    by (rule ledger_ok_cong [THEN iffD1, rotated 2]) (simp_all add: e s)
qed

lemma ledger_ok_group_changes:
  "group_created owner name t t' \<Longrightarrow> ledger_ok t' = ledger_ok t"
  "group_renamed gid name t t' \<Longrightarrow> ledger_ok t' = ledger_ok t"
  "member_added gid uid t t' \<Longrightarrow> ledger_ok t' = ledger_ok t"
  "member_removed gid uid t t' \<Longrightarrow> ledger_ok t' = ledger_ok t"
  by (auto simp: group_changes)

definition owned_by :: "string \<Rightarrow> string \<Rightarrow> tables \<Rightarrow> bool" where
  "owned_by gid uid t \<longleftrightarrow> (\<exists>g. group_row t gid g \<and> gr_createdById (row_data g) = uid)"

text \<open>The details of a group, read from the tables.\<close>

definition detail_of :: "tables \<Rightarrow> string \<Rightarrow> GroupWithMembers \<Rightarrow> bool" where
  "detail_of t gid x \<longleftrightarrow> gw_id x = gid \<and>
     (\<exists>g. group_row t gid g \<and> gw_name x = gr_name (row_data g) \<and>
        gw_createdById x = gr_createdById (row_data g)) \<and>
     mset (map sf_id (gw_members x)) =
       mset (map (\<lambda>r. gm_userId (row_data r)) (filter (in_group_member gid) (members t)))"

section \<open>Runs\<close>

context prisma
begin

lemma createGroupTx_Inr:
  assumes "createGroupTx P ownerId name activity w = (Inr g, w')" "ai_type activity = GROUP_CREATED"
  shows "group_created ownerId name (T (w_db w)) (T (w_db w')) \<and>
    g \<in> set (groups (T (w_db w'))) \<and> row_data g = \<lparr>gr_name = name, gr_createdById = ownerId\<rparr> \<and>
    is_member (T (w_db w')) (row_id g) ownerId"
proof -
  from assms(1) obtain d m d2 i where
      g: "dg_create (p_group P) \<lparr>gr_name = name, gr_createdById = ownerId\<rparr> (w_db w) = (Inr g, d)"
    and m: "dg_create (p_groupMember P) \<lparr>gm_groupId = row_id g, gm_userId = ownerId\<rparr> d = (Inr m, d2)"
    and ev: "createActivityEvent P (group_event (row_id g) activity (row_createdAt g)) (w\<lparr>w_db := d2\<rparr>) = (Inr i, w')"
    by (auto simp: createGroupTx_def act_simps)
  from createActivityEvent_Inr [OF ev] obtain r where
      t: "T (w_db w') = activities_update (\<lambda>rs. rs @ [r]) (T d2)"
    and r: "row_data r = group_event (row_id g) activity (row_createdAt g)" by auto
  have t2: "T d2 = members_update (\<lambda>rs. rs @ [m]) (T d)" "T d = groups_update (\<lambda>rs. rs @ [g]) (T (w_db w))"
    using grp.create_Inr [OF g] mem.create_Inr [OF m] by simp_all
  have mg: "row_data m = \<lparr>gm_groupId = row_id g, gm_userId = ownerId\<rparr>" "\<not> has_id (row_id m) (members (T (w_db w)))"
    "row_data g = \<lparr>gr_name = name, gr_createdById = ownerId\<rparr>" "\<not> has_id (row_id g) (groups (T (w_db w)))"
    using grp.create_Inr [OF g] mem.create_Inr [OF m] by (auto simp: inserted_def t2)
  have "\<not> is_member (T (w_db w)) (row_id g) ownerId"
    using mem.create_Inr [OF m] by (auto simp: inserted_def t2 not_member_clash)
  with mg have "group_created ownerId name (T (w_db w)) (T (w_db w'))"
    unfolding group_created_def using r t t2 assms(2)
    by (intro exI [of _ g] exI [of _ m] exI [of _ r]) (simp add: group_event_def)
  then show ?thesis using mg t t2 by (simp add: is_member_add member_where_def)
qed

lemma updateGroupTx_Inr:
  assumes "updateGroupTx P E gid name activity w = (Inr g, w')" "ai_type activity = GROUP_UPDATED"
  shows "group_renamed gid name (T (w_db w)) (T (w_db w')) \<and> gr_name (row_data g) = name \<and> row_id g = gid"
proof -
  from assms(1) obtain d i where
      g: "dg_update (p_group P) (\<lambda>r. row_id r = gid) (rename_group name) (w_db w) = (Inr g, d)"
    and ev: "createActivityEvent P (group_event (row_id g) activity (clock E (w_tick w)))
               (w\<lparr>w_db := d, w_tick := Suc (w_tick w)\<rparr>) = (Inr i, w')"
    by (auto simp: updateGroupTx_def act_simps)
  from grp.update_Inr [OF g] obtain g0 stamp where "row_id g0 = gid"
      "g = touched (\<lambda>r. row_id r = gid) (rename_group name) stamp g0"
      "T d = groups_update (map (touched (\<lambda>r. row_id r = gid) (rename_group name) stamp)) (T (w_db w))"
    by blast
  moreover from createActivityEvent_Inr [OF ev] obtain r where
      "T (w_db w') = activities_update (\<lambda>rs. rs @ [r]) (T d)"
      "row_data r = group_event (row_id g) activity (clock E (w_tick w))" by auto
  ultimately show ?thesis using assms(2)
    unfolding group_renamed_def
    by (intro conjI exI [of _ stamp] exI [of _ r])
      (auto simp: group_event_def row_data_touched rename_group_def)
qed

lemma addGroupMemberTx_Inr:
  assumes "addGroupMemberTx P gid uid activity w = (Inr m, w')" "ai_type activity = MEMBER_ADDED"
  shows "member_added gid uid (T (w_db w)) (T (w_db w')) \<and> is_member (T (w_db w')) gid uid"
proof -
  from assms(1) obtain d i where
      m: "dg_create (p_groupMember P) \<lparr>gm_groupId = gid, gm_userId = uid\<rparr> (w_db w) = (Inr m, d)"
    and ev: "createActivityEvent P (group_event gid activity (row_createdAt m)) (w\<lparr>w_db := d\<rparr>) = (Inr i, w')"
    by (auto simp: addGroupMemberTx_def act_simps)
  from createActivityEvent_Inr [OF ev] obtain r where
      t: "T (w_db w') = activities_update (\<lambda>rs. rs @ [r]) (T d)"
    and r: "row_data r = group_event gid activity (row_createdAt m)" by auto
  from mem.create_Inr [OF m] have d: "T d = members_update (\<lambda>rs. rs @ [m]) (T (w_db w))"
      "row_data m = \<lparr>gm_groupId = gid, gm_userId = uid\<rparr>" "\<not> has_id (row_id m) (members (T (w_db w)))"
      "\<not> is_member (T (w_db w)) gid uid"
    by (auto simp: inserted_def not_member_clash)
  have "member_added gid uid (T (w_db w)) (T (w_db w'))"
    unfolding member_added_def using t r d assms(2)
    by (intro exI [of _ m] exI [of _ r]) (simp add: group_event_def)
  then show ?thesis using t d by (simp add: is_member_add member_where_def)
qed

lemma removeGroupMemberTx_Inr:
  assumes "removeGroupMemberTx P E gid uid activity w = (Inr x, w')" "ai_type activity = MEMBER_REMOVED"
  shows "member_removed gid uid (T (w_db w)) (T (w_db w'))"
proof -
  from assms(1) obtain m d i where
      m: "dg_delete (p_groupMember P) (member_where gid uid) (w_db w) = (Inr m, d)"
    and ev: "createActivityEvent P (group_event gid activity (clock E (w_tick w)))
               (w\<lparr>w_db := d, w_tick := Suc (w_tick w)\<rparr>) = (Inr i, w')"
    by (auto simp: removeGroupMemberTx_def act_simps)
  from createActivityEvent_Inr [OF ev] obtain r where
      "T (w_db w') = activities_update (\<lambda>rs. rs @ [r]) (T d)"
      "row_data r = group_event gid activity (clock E (w_tick w))" by auto
  with mem.delete_Inr [OF m] assms(2) show ?thesis
    unfolding member_removed_def
    by (intro exI [of _ m] exI [of _ r]) (simp add: group_event_def cascade_none_def)
qed

lemma group_findById_Inr:
  assumes "GroupRepository_findGroupById P gid w = (Inr (Some g), w')"
  shows "T (w_db w') = T (w_db w) \<and> group_row (T (w_db w)) gid g"
  using findGroup_Inr [of gid w g w'] assms
  by (simp add: GroupRepository_findGroupById_def ExpenseRepository_findGroupById_def)

lemma group_isMember_Inr:
  assumes "isGroupMember P gid uid w = (Inr b, w')"
  shows "T (w_db w') = T (w_db w) \<and> b = is_member (T (w_db w)) gid uid"
  using isGroupMember_Inr [of gid uid w b w'] assms
  by (simp add: isGroupMember_def ActivityRepository_isGroupMember_def)

lemma silent_group_reads [silent_intros]:
  "silent T (GroupRepository_findGroupById P gid)"
  "silent T (findGroupByIdWithMembers P gid)"
  "silent T (findGroupsByUserId P uid)"
  "silent T (findUserById P uid)"
  "silent T (isGroupMember P gid uid)"
  "silent T (findGroupMember P gid uid)"
  unfolding GroupRepository_findGroupById_def findGroupByIdWithMembers_def findGroupsByUserId_def
    findUserById_def isGroupMember_def findGroupMember_def
  by (intro silent_intros grp.silent_reads mem.silent_reads usr.silent_reads)+

lemma silent_getGroupById: "silent T (getGroupById P R E ttl uid gid)"
  unfolding getGroupById_def by (intro silent_intros)

lemma silent_getUserGroups: "silent T (getUserGroups P uid)"
  unfolding getUserGroups_def by (intro silent_intros)

text \<open>What the requests do to the tables, on every outcome.\<close>

lemma effect_createGroup: "effect T (group_created uid name) (createGroup P uid name)"
  unfolding createGroup_def createGroupWithOwner_def
  by (intro effect_tail effect_transaction silent_intros) (auto dest: createGroupTx_Inr)

lemma effect_deleteGroup_repository: "effect T (group_deleted gid) (GroupRepository_deleteGroup P gid)"
  unfolding GroupRepository_deleteGroup_def
proof (intro effect_tail silent_intros)
  show "effect T (group_deleted gid) (db_do (dg_delete (p_group P) (\<lambda>r. row_id r = gid)))"
    unfolding effect_def
  proof (intro allI impI)
    fix w r w'
    assume "db_do (dg_delete (p_group P) (\<lambda>r. row_id r = gid)) w = (r, w')"
    then obtain d where d: "dg_delete (p_group P) (\<lambda>r. row_id r = gid) (w_db w) = (r, d)" and "w_db w' = d"
      by (auto simp: act_simps)
    with grp.delete_law [OF d] show "T (w_db w') = T (w_db w) \<or> group_deleted gid (T (w_db w)) (T (w_db w'))"
      by (auto simp: statement_def group_deleted_def)
  qed
qed

lemma effect_updateGroup_repository:
  "ai_type activity = GROUP_UPDATED \<Longrightarrow>
     effect T (group_renamed gid name) (GroupRepository_updateGroup P E gid name activity)"
  unfolding GroupRepository_updateGroup_def
  by (intro effect_seq silent_intros grp.silent_reads)
    (auto split: option.split intro!: effect_tail effect_transaction intro: effect_silent silent_intros
      dest: updateGroupTx_Inr)

text \<open>Reading the group first: its owner is who the rest of the request was checked against.\<close>

lemma effect_owner:
  assumes "\<And>g. gr_createdById (row_data g) = uid \<Longrightarrow> effect T Q (k g)"
  shows "effect T (\<lambda>t t'. owned_by gid uid t \<and> Q t t')
    (seq (GroupRepository_findGroupById P gid) (\<lambda>x. seq (need x groupNotFound) (\<lambda>g.
     seq (guard (gr_createdById (row_data g) = uid) e) (\<lambda>_. k g))))"
proof (rule effect_read [where A = "\<lambda>x t. \<forall>g. x = Some g \<longrightarrow> group_row t gid g"])
  show "silent T (GroupRepository_findGroupById P gid)" by (intro silent_intros)
next
  fix w x w'
  assume "GroupRepository_findGroupById P gid w = (Inr x, w')"
  then show "\<forall>g. x = Some g \<longrightarrow> group_row (T (w_db w)) gid g" using group_findById_Inr by auto
next
  fix x
  show "effect T (\<lambda>t t'. (\<forall>g. x = Some g \<longrightarrow> group_row t gid g) \<longrightarrow> owned_by gid uid t \<and> Q t t')
     (seq (need x groupNotFound) (\<lambda>g. seq (guard (gr_createdById (row_data g) = uid) e) (\<lambda>_. k g)))"
    by (intro effect_need effect_guard effect_mono [OF assms]) (auto simp: owned_by_def)
qed

lemma effect_updateGroup:
  "effect T (\<lambda>t t'. owned_by gid uid t \<and> group_renamed gid name t t') (updateGroup P R E uid gid name)"
  unfolding updateGroup_def
  by (intro effect_owner effect_tail effect_updateGroup_repository silent_intros) simp

lemma effect_deleteGroup:
  "effect T (\<lambda>t t'. owned_by gid uid t \<and> group_deleted gid t t') (deleteGroup P R uid gid)"
  unfolding deleteGroup_def
  by (intro effect_owner effect_tail effect_deleteGroup_repository silent_intros)

lemma effect_addGroupMember:
  "effect T (\<lambda>t t'. owned_by gid uid t \<and> member_added gid mid t t') (addGroupMember P R uid gid mid)"
  unfolding addGroupMember_def GroupRepository_addGroupMember_def
  by (intro effect_owner effect_need effect_guard effect_tail effect_transaction
      effect_seq [OF silent_group_reads(4)] effect_seq [OF silent_group_reads(5)] silent_intros)
    (auto dest: addGroupMemberTx_Inr)

lemma effect_removeGroupMember:
  "effect T (\<lambda>t t'. owned_by gid uid t \<and> mid \<noteq> uid \<and> member_removed gid mid t t')
     (removeGroupMember P R E uid gid mid)"
  unfolding removeGroupMember_def GroupRepository_removeGroupMember_def
proof (rule effect_owner, rule effect_guard)
  fix g :: "Group row"
  assume g: "gr_createdById (row_data g) = uid" "mid \<noteq> gr_createdById (row_data g)"
  show "effect T (\<lambda>t t'. mid \<noteq> uid \<and> member_removed gid mid t t')
    (seq (findGroupMember P gid mid) (\<lambda>m. seq (need m memberNotFound) (\<lambda>_.
     seq (findUserById P mid) (\<lambda>u. seq (need u userNotFound) (\<lambda>targetUser.
     seq (in_transaction P (removeGroupMemberTx P E gid mid
            \<lparr>ai_userId = uid, ai_type = MEMBER_REMOVED,
             ai_message = ''removed '' @ sf_name targetUser @ '' from the group''\<rparr>)) (\<lambda>_.
     invalidateGroupCache R gid))))))"
    using g
    by (intro effect_need effect_tail effect_transaction effect_seq [OF silent_group_reads(6)]
        effect_seq [OF silent_group_reads(4)] silent_intros)
      (auto dest: removeGroupMemberTx_Inr)
qed

text \<open>The invariants of the groups and of the ledger.\<close>

lemma owned_by_other:
  "groups_ok t \<Longrightarrow> owned_by gid uid t \<Longrightarrow> g \<in> set (groups t) \<Longrightarrow> row_id g = gid \<Longrightarrow>
     gr_createdById (row_data g) = uid"
  by (auto simp: groups_ok_def owned_by_def group_row_def distinct_map dest: inj_onD)

lemma keeps_groups_ok:
  "keeps (on_db (\<lambda>d. groups_ok (T d))) (createGroup P uid name)"
  "keeps (on_db (\<lambda>d. groups_ok (T d))) (updateGroup P R E uid gid name)"
  "keeps (on_db (\<lambda>d. groups_ok (T d))) (deleteGroup P R uid gid)"
  "keeps (on_db (\<lambda>d. groups_ok (T d))) (addGroupMember P R uid gid mid)"
  "keeps (on_db (\<lambda>d. groups_ok (T d))) (removeGroupMember P R E uid gid mid)"
proof -
  show "keeps (on_db (\<lambda>d. groups_ok (T d))) (createGroup P uid name)"
    by (intro keeps_effect effect_mono [OF effect_createGroup] impI) (rule groups_ok_created)
  show "keeps (on_db (\<lambda>d. groups_ok (T d))) (updateGroup P R E uid gid name)"
    by (intro keeps_effect effect_mono [OF effect_updateGroup] impI) (auto intro: groups_ok_renamed)
  show "keeps (on_db (\<lambda>d. groups_ok (T d))) (deleteGroup P R uid gid)"
    by (intro keeps_effect effect_mono [OF effect_deleteGroup] impI) (auto intro: groups_ok_deleted)
  show "keeps (on_db (\<lambda>d. groups_ok (T d))) (addGroupMember P R uid gid mid)"
    by (intro keeps_effect effect_mono [OF effect_addGroupMember] impI) (auto intro: groups_ok_added)
  show "keeps (on_db (\<lambda>d. groups_ok (T d))) (removeGroupMember P R E uid gid mid)"
  proof (intro keeps_effect effect_mono [OF effect_removeGroupMember] impI, elim conjE)
    fix t t'
    assume o: "owned_by gid uid t" "mid \<noteq> uid" "member_removed gid mid t t'" "groups_ok t"
    then have "\<And>g. g \<in> set (groups t) \<Longrightarrow> row_id g = gid \<Longrightarrow> gr_createdById (row_data g) \<noteq> mid"
      using owned_by_other by blast
    then show "groups_ok t'" using groups_ok_removed o by blast
  qed
qed

lemma keeps_ledger_groups:
  "keeps (on_db (\<lambda>d. ledger_ok (T d))) (createGroup P uid name)"
  "keeps (on_db (\<lambda>d. ledger_ok (T d))) (updateGroup P R E uid gid name)"
  "keeps (on_db (\<lambda>d. ledger_ok (T d))) (deleteGroup P R uid gid)"
  "keeps (on_db (\<lambda>d. ledger_ok (T d))) (addGroupMember P R uid gid mid)"
  "keeps (on_db (\<lambda>d. ledger_ok (T d))) (removeGroupMember P R E uid gid mid)"
  by (rule keeps_effect, rule effect_mono, rule effect_createGroup effect_updateGroup effect_deleteGroup
      effect_addGroupMember effect_removeGroupMember,
      use ledger_ok_group_changes ledger_ok_deleted in blast)+

text \<open>A refused request changes nothing.\<close>

lemma updateGroup_None:
  assumes "GroupRepository_updateGroup P E gid name activity w = (Inr None, w')"
  shows "T (w_db w') = T (w_db w)"
proof -
  obtain x w1 where f: "db_do (dg_findUnique (p_group P) (\<lambda>r. row_id r = gid)) w = (Inr x, w1)"
    using assms by (auto simp: GroupRepository_updateGroup_def seq_Inr_iff)
  have t: "T (w_db w1) = T (w_db w)" by (rule silentD [OF grp.silent_reads(2) f])
  show ?thesis
  proof (cases x)
    case None
    then show ?thesis using assms f t by (auto simp: GroupRepository_updateGroup_def seq_def act_simps)
  next
    case (Some g)
    then show ?thesis using assms f
      by (auto simp: GroupRepository_updateGroup_def seq_def ret_def split: prod.splits sum.splits)
  qed
qed

lemma clean_group_requests:
  "clean T (createGroup P uid name)"
  "clean T (updateGroup P R E uid gid name)"
  "clean T (deleteGroup P R uid gid)"
  "clean T (addGroupMember P R uid gid mid)"
  "clean T (removeGroupMember P R E uid gid mid)"
proof -
  show "clean T (createGroup P uid name)"
    unfolding createGroup_def createGroupWithOwner_def
    by (intro clean_seq_tail clean_intros never_fails_seq never_fails_basic)
  show "clean T (deleteGroup P R uid gid)"
    unfolding deleteGroup_def GroupRepository_deleteGroup_def
    by (intro clean_seq [OF silent_group_reads(1)] clean_seq [OF silent_basic(4)] clean_seq [OF silent_basic(3)]
        clean_seq_tail grp.clean_writes never_fails_basic cache_never_fails)
  show "clean T (addGroupMember P R uid gid mid)"
    unfolding addGroupMember_def GroupRepository_addGroupMember_def
    by (intro clean_seq [OF silent_group_reads(1)] clean_seq [OF silent_basic(4)] clean_seq [OF silent_basic(3)]
        clean_seq [OF silent_group_reads(4)] clean_seq [OF silent_group_reads(5)] clean_seq_tail
        clean_transaction never_fails_seq never_fails_basic cache_never_fails)
  show "clean T (removeGroupMember P R E uid gid mid)"
    unfolding removeGroupMember_def GroupRepository_removeGroupMember_def
    by (intro clean_seq [OF silent_group_reads(1)] clean_seq [OF silent_basic(4)] clean_seq [OF silent_basic(3)]
        clean_seq [OF silent_group_reads(6)] clean_seq [OF silent_group_reads(4)] clean_seq_tail
        clean_transaction never_fails_seq never_fails_basic cache_never_fails)
  have repo: "clean T (GroupRepository_updateGroup P E gid name activity)" for activity
    unfolding GroupRepository_updateGroup_def
    by (intro clean_seq clean_case_option clean_seq_tail clean_transaction never_fails_basic
        grp.silent_reads clean_silent silent_basic)
  show "clean T (updateGroup P R E uid gid name)"
    unfolding updateGroup_def
  proof (rule clean_seq [OF silent_group_reads(1)], rule clean_seq [OF silent_basic(4)],
      rule clean_seq [OF silent_basic(3)])
    let ?a = "\<lparr>ai_userId = uid, ai_type = GROUP_UPDATED, ai_message = quoted ''renamed the group to '' name\<rparr>"
    show "clean T (seq (GroupRepository_updateGroup P E gid name ?a) (\<lambda>y.
        seq (need y groupNotFound) (\<lambda>updated. seq (invalidateGroupCache R gid) (\<lambda>_. ret (group_result updated)))))"
      unfolding clean_def
    proof (intro allI impI)
      fix w e w'
      assume run: "seq (GroupRepository_updateGroup P E gid name ?a) (\<lambda>y.
          seq (need y groupNotFound) (\<lambda>updated. seq (invalidateGroupCache R gid) (\<lambda>_. ret (group_result updated)))) w
          = (Inl e, w')" and e: "\<not> db_exn e"
      have "invalidateGroupCache R gid w1 \<noteq> (Inl e, w2)" for w1 w2
        using cache_never_fails(3) [of R gid] by (metis fst_conv never_fails_def sum.disc(1))
      then show "T (w_db w') = T (w_db w)"
        using run cleanD [OF repo _ e] updateGroup_None by (auto simp: act_simps)
    qed
  qed
qed

lemma map_includeUser_ids:
  "map_act (\<lambda>r. seq (includeUser P (f r)) (\<lambda>u. ret (r, u))) rs w = (Inr xs, w') \<Longrightarrow>
   map (\<lambda>x. sf_id (snd x)) xs = map f rs"
proof (induction rs arbitrary: w xs)
  case Nil
  then show ?case by (auto simp: act_simps)
next
  case (Cons r rs)
  then obtain u w1 ys where u: "includeUser P (f r) w = (Inr u, w1)"
    and ys: "map_act (\<lambda>r. seq (includeUser P (f r)) (\<lambda>u. ret (r, u))) rs w1 = (Inr ys, w')"
    and xs: "xs = (r, u) # ys"
    by (auto simp: act_simps)
  from includeUser_Inr [OF u] Cons.IH [OF ys] xs show ?case by simp
qed

lemma findGroupByIdWithMembers_Inr:
  assumes "findGroupByIdWithMembers P gid w = (Inr (Some x), w')"
  shows "T (w_db w') = T (w_db w) \<and> detail_of (T (w_db w)) gid x"
proof -
  from assms obtain g d where f: "dg_findUnique (p_group P) (\<lambda>r. row_id r = gid) (w_db w) = (Inr (Some g), d)"
    by (auto simp: findGroupByIdWithMembers_def act_simps split: option.splits)
  then obtain rows d1 ms where
      r: "dg_findMany (p_groupMember P) (select_where (in_group_member gid)) d = (Inr rows, d1)"
    and m: "map_act (\<lambda>r. seq (includeUser P (gm_userId (row_data r))) (\<lambda>u. ret (r, u))) rows
              (w\<lparr>w_db := d1\<rparr>) = (Inr ms, w')"
    and x: "x = \<lparr>gw_id = row_id g, gw_name = gr_name (row_data g),
                gw_createdById = gr_createdById (row_data g), gw_createdAt = row_createdAt g,
                gw_updatedAt = row_updatedAt g, gw_members = map snd ms\<rparr>"
    using assms by (auto simp: findGroupByIdWithMembers_def act_simps)
  have "map sf_id (gw_members x) = map (\<lambda>r. gm_userId (row_data r)) rows"
    using map_includeUser_ids [OF m] by (simp add: x comp_def)
  then have "mset (map sf_id (gw_members x)) =
      mset (map (\<lambda>r. gm_userId (row_data r)) (filter (in_group_member gid) (members (T (w_db w)))))"
    using mem.findMany_where [OF r] grp.findUnique_Some [OF f] by simp
  then show ?thesis
    using grp.findUnique_Some [OF f] mem.findMany_where [OF r] map_includeUser_Inr [OF m] x
    by (auto simp: detail_of_def group_row_def)
qed

text \<open>Nobody reads a group he is not a member of, whether or not it is cached.\<close>

lemma getGroupById_Inr:
  assumes server: "redis_server V R" and run: "getGroupById P R E ttl uid gid w = (Inr x, w')"
  shows "is_member (T (w_db w)) gid uid \<and> T (w_db w') = T (w_db w) \<and>
    (detail_of (T (w_db w)) gid x \<or> (\<exists>raw. deserialize E raw gid = Some x \<and>
       (\<exists>d w1. getCachedGroupById R E gid w = (Inr (Some x), w1) \<and>
          rv_keys (V (w_redis w1)) (groupCacheKey gid) = Some (raw, d))))"
proof -
  from run obtain cached w1 where c: "getCachedGroupById R E gid w = (Inr cached, w1)"
    by (auto simp: getGroupById_def act_simps)
  have t1: "T (w_db w1) = T (w_db w)" by (rule silentD [OF silent_cache(1) c])
  have t': "T (w_db w') = T (w_db w)" by (rule silentD [OF silent_getGroupById run])
  show ?thesis
  proof (cases cached)
    case (Some g)
    with run c obtain w2 where m: "isGroupMember P gid uid w1 = (Inr True, w2)" and "x = g"
      by (auto simp: getGroupById_def act_simps)
    moreover from redis_server.getCachedGroupById_Some [OF server c [unfolded Some]]
    obtain raw d where "rv_keys (V (w_redis w1)) (groupCacheKey gid) = Some (raw, d)"
      "deserialize E raw gid = Some g" by blast
    ultimately show ?thesis using group_isMember_Inr [OF m] t1 t' c Some by auto
  next
    case None
    with run c obtain w2 w3 where f: "findGroupByIdWithMembers P gid w1 = (Inr (Some x), w2)"
      and m: "isGroupMember P gid uid w2 = (Inr True, w3)"
      by (auto simp: getGroupById_def act_simps)
    from findGroupByIdWithMembers_Inr [OF f] group_isMember_Inr [OF m] t1 t' show ?thesis by simp
  qed
qed

lemma addGroupMember_Inr:
  assumes "addGroupMember P R uid gid mid w = (Inr m, w')"
  shows "owned_by gid uid (T (w_db w)) \<and> \<not> is_member (T (w_db w)) gid mid \<and>
    member_added gid mid (T (w_db w)) (T (w_db w')) \<and> is_member (T (w_db w')) gid mid"
proof -
  from assms obtain g w1 u w2 w3 w4 w5 m' a where
      g: "GroupRepository_findGroupById P gid w = (Inr (Some g), w1)" "gr_createdById (row_data g) = uid"
    and u: "findUserById P mid w1 = (Inr (Some u), w2)"
    and im: "isGroupMember P gid mid w2 = (Inr False, w3)"
    and tx: "in_transaction P (addGroupMemberTx P gid mid a) w3 = (Inr m', w4)"
    and a: "ai_type a = MEMBER_ADDED"
    and inv: "invalidateGroupCache R gid w4 = (Inr (), w')"
    by (auto simp: addGroupMember_def GroupRepository_addGroupMember_def act_simps)
  from tx obtain w6 where run: "addGroupMemberTx P gid mid a w3 = (Inr m', w6)"
    and t6: "T (w_db w4) = T (w_db w6)" by (rule in_transaction_Inr)
  have t: "T (w_db w3) = T (w_db w)" "T (w_db w2) = T (w_db w)" "T (w_db w') = T (w_db w4)"
    using group_findById_Inr [OF g(1)] silentD [OF silent_group_reads(4) u]
      silentD [OF silent_group_reads(5) im] silentD [OF silent_cache(3) inv] by simp_all
  show ?thesis
    using addGroupMemberTx_Inr [OF run a] group_findById_Inr [OF g(1)] group_isMember_Inr [OF im] g(2) t t6
    by (auto simp: owned_by_def)
qed

end

section \<open>The changes only an owner makes\<close>

text \<open>The four requests that change an existing group, as one operation.\<close>

datatype group_change = Rename string | Delete | AddMember string | RemoveMember string

definition change_group ::
  "'d prisma \<Rightarrow> 'r redis \<Rightarrow> env \<Rightarrow> string \<Rightarrow> string \<Rightarrow> group_change \<Rightarrow> (('d, 'r, 'm) world, unit) act" where
  "change_group P R E uid gid c =
     (case c of
        Rename name \<Rightarrow> seq (updateGroup P R E uid gid name) (\<lambda>_. ret ())
      | Delete \<Rightarrow> deleteGroup P R uid gid
      | AddMember mid \<Rightarrow> seq (addGroupMember P R uid gid mid) (\<lambda>_. ret ())
      | RemoveMember mid \<Rightarrow> removeGroupMember P R E uid gid mid)"

text \<open>
  A successful change ends with dropping the cache entry; whatever it did before only made
  counters grow.
\<close>

definition ends_invalidating ::
  "'r redis \<Rightarrow> string \<Rightarrow> (('d, 'r, 'm) world, 'a) act \<Rightarrow> bool" where
  "ends_invalidating R gid m \<longleftrightarrow> (\<forall>w a w'. m w = (Inr a, w') \<longrightarrow>
     (\<exists>w1. grown (w_metrics w) (w_metrics w1) \<and> invalidateGroupCache R gid w1 = (Inr (), w')))"

lemma ends_invalidating_base:
  "ends_invalidating R gid (invalidateGroupCache R gid)"
  "ends_invalidating R gid (seq (invalidateGroupCache R gid) (\<lambda>_. ret x))"
  unfolding ends_invalidating_def by (auto simp: act_simps intro: grown_refl)

lemma ends_invalidating_then:
  assumes "ends_invalidating R gid m"
  shows "ends_invalidating R gid (seq m (\<lambda>_. ret x))"
  using assms unfolding ends_invalidating_def by (auto simp: act_simps)

lemma ends_invalidating_seq:
  assumes "counts_up m" "\<And>a. ends_invalidating R gid (k a)"
  shows "ends_invalidating R gid (seq m k)"
  unfolding ends_invalidating_def
proof (intro allI impI)
  fix w a w'
  assume "seq m k w = (Inr a, w')"
  then obtain x w1 where m: "m w = (Inr x, w1)" and k: "k x w1 = (Inr a, w')" by (auto simp: act_simps)
  from assms(2) k obtain w2 where "grown (w_metrics w1) (w_metrics w2)" "invalidateGroupCache R gid w2 = (Inr (), w')"
    unfolding ends_invalidating_def by blast
  with counts_upD [OF assms(1) m] show "\<exists>w1. grown (w_metrics w) (w_metrics w1) \<and>
      invalidateGroupCache R gid w1 = (Inr (), w')" by (blast intro: grown_trans)
qed

lemma counts_up_group_repository [count_intros]:
  "counts_up (GroupRepository_findGroupById P gid)" "counts_up (findUserById P uid)"
  "counts_up (isGroupMember P gid uid)" "counts_up (findGroupMember P gid uid)"
  "counts_up (GroupRepository_updateGroup P E gid name activity)"
  "counts_up (GroupRepository_deleteGroup P gid)"
  "counts_up (GroupRepository_addGroupMember P gid uid activity)"
  "counts_up (GroupRepository_removeGroupMember P E gid uid activity)"
  unfolding GroupRepository_findGroupById_def findUserById_def isGroupMember_def findGroupMember_def
    GroupRepository_updateGroup_def GroupRepository_deleteGroup_def GroupRepository_addGroupMember_def
    GroupRepository_removeGroupMember_def updateGroupTx_def addGroupMemberTx_def
    removeGroupMemberTx_def createActivityEvent_def
  by (intro count_intros)+

lemma changes_end_invalidating:
  "ends_invalidating R gid (updateGroup P R E uid gid name)"
  "ends_invalidating R gid (deleteGroup P R uid gid)"
  "ends_invalidating R gid (addGroupMember P R uid gid mid)"
  "ends_invalidating R gid (removeGroupMember P R E uid gid mid)"
  unfolding updateGroup_def deleteGroup_def addGroupMember_def removeGroupMember_def
  by (rule ends_invalidating_base | rule ends_invalidating_seq | rule count_intros)+

lemma invalidateGroupCache_counted:
  assumes server: "redis_server V R" and run: "invalidateGroupCache R gid w1 = (Inr u, w')"
    and grown: "grown (w_metrics w) (w_metrics w1)"
    and registered: "is_counter (w_metrics w) (metric_name cacheFailuresTotal)"
  shows "rv_keys (V (w_redis w')) (groupCacheKey gid) = None \<or>
    counterValue (metric_name cacheFailuresTotal) [(''operation'', ''delete'')] (w_metrics w) <
    counterValue (metric_name cacheFailuresTotal) [(''operation'', ''delete'')] (w_metrics w')"
proof -
  let ?n = "metric_name cacheFailuresTotal" and ?l = "[(''operation'', ''delete'')]"
  have c: "is_counter (w_metrics w1) ?n" "same_series (w_metrics w1) ?n ?l ?n ?l"
    using registered grown by (auto simp: is_counter_def same_series_def grown_def split: option.splits)
  have "counterValue ?n ?l (increment ?n ?l 1 (w_metrics w1)) = counterValue ?n ?l (w_metrics w1) + 1"
    using c by (simp add: counterValue_increment)
  moreover have "counterValue ?n ?l (w_metrics w) \<le> counterValue ?n ?l (w_metrics w1)"
    using grown by (simp add: grown_def)
  ultimately show ?thesis using redis_server.invalidateGroupCache_run [OF server run] by auto
qed

lemma change_group_invalidates:
  assumes server: "redis_server V R" and run: "change_group P R E uid gid c w = (Inr u, w')"
    and registered: "is_counter (w_metrics w) (metric_name cacheFailuresTotal)"
  shows "rv_keys (V (w_redis w')) (groupCacheKey gid) = None \<or>
    counterValue (metric_name cacheFailuresTotal) [(''operation'', ''delete'')] (w_metrics w) <
    counterValue (metric_name cacheFailuresTotal) [(''operation'', ''delete'')] (w_metrics w')"
proof -
  have "ends_invalidating R gid (change_group P R E uid gid c)"
    unfolding change_group_def
    by (cases c) (simp_all add: changes_end_invalidating ends_invalidating_then)
  then have "\<exists>w1. grown (w_metrics w) (w_metrics w1) \<and> invalidateGroupCache R gid w1 = (Inr (), w')"
    using run unfolding ends_invalidating_def by blast
  then show ?thesis using invalidateGroupCache_counted [OF server _ _ registered] by blast
qed

definition group_changed :: "string \<Rightarrow> group_change \<Rightarrow> tables \<Rightarrow> tables \<Rightarrow> bool" where
  "group_changed gid c t t' \<longleftrightarrow>
     (case c of
        Rename name \<Rightarrow> group_renamed gid name t t'
      | Delete \<Rightarrow> group_deleted gid t t'
      | AddMember mid \<Rightarrow> member_added gid mid t t'
      | RemoveMember mid \<Rightarrow> member_removed gid mid t t')"

context prisma
begin

lemma effect_change_group:
  "effect T (\<lambda>t t'. owned_by gid uid t \<and> group_changed gid c t t') (change_group P R E uid gid c)"
proof (cases c)
  case (Rename name)
  then show ?thesis unfolding change_group_def group_changed_def
    by (simp add: effect_tail [OF effect_updateGroup silent_basic(1)])
next
  case Delete
  then show ?thesis unfolding change_group_def group_changed_def by (simp add: effect_deleteGroup)
next
  case (AddMember mid)
  then show ?thesis unfolding change_group_def group_changed_def
    by (simp add: effect_tail [OF effect_addGroupMember silent_basic(1)])
next
  case (RemoveMember mid)
  then show ?thesis unfolding change_group_def group_changed_def
    by (simp add: effect_mono [OF effect_removeGroupMember])
qed

end

end
