(* ===== verification/Summary.thy ===== *)
theory Summary
  imports Queue GroupService
begin

text \<open>
  Group summaries: \<open>modules/summary/summary.repository.ts\<close>, \<open>summary.service.ts\<close> and the job of
  \<open>summary.jobs.ts\<close>. The snapshot is recomputed from the authoritative tables and stored by
  one upsert per group.
\<close>

section \<open>Repository\<close>

record GroupSummaryMetrics =
  sm_totalSpentMinorUnits :: int
  sm_expenseCount :: nat
  sm_settlementCount :: nat
  sm_memberCount :: nat

definition SummaryRepository_findGroupById ::
  "'d prisma \<Rightarrow> string \<Rightarrow> (('d, 'r, 'm) world, Group row option) act" where
  "SummaryRepository_findGroupById P gid = db_do (dg_findUnique (p_group P) (\<lambda>r. row_id r = gid))"

definition SummaryRepository_isGroupMember ::
  "'d prisma \<Rightarrow> string \<Rightarrow> string \<Rightarrow> (('d, 'r, 'm) world, bool) act" where
  "SummaryRepository_isGroupMember P gid uid =
     seq (db_do (dg_findUnique (p_groupMember P) (member_where gid uid))) (\<lambda>m. ret (m \<noteq> None))"

definition settlement_in_group :: "string \<Rightarrow> Settlement row \<Rightarrow> bool" where
  "settlement_in_group gid r \<longleftrightarrow> se_groupId (row_data r) = gid"

definition aggregateGroup ::
  "'d prisma \<Rightarrow> string \<Rightarrow> (('d, 'r, 'm) world, GroupSummaryMetrics) act" where
  "aggregateGroup P gid =
     seq (db_do (dg_sum (p_expense P) (\<lambda>r. ex_amountMinorUnits (row_data r)) (in_group_expense gid))) (\<lambda>total.
     seq (db_do (dg_count (p_expense P) (in_group_expense gid))) (\<lambda>expenseCount.
     seq (db_do (dg_count (p_settlement P) (settlement_in_group gid))) (\<lambda>settlementCount.
     seq (db_do (dg_count (p_groupMember P) (in_group_member gid))) (\<lambda>memberCount.
     ret \<lparr>sm_totalSpentMinorUnits = (case total of None \<Rightarrow> 0 | Some s \<Rightarrow> s),
          sm_expenseCount = expenseCount, sm_settlementCount = settlementCount,
          sm_memberCount = memberCount\<rparr>))))"

definition summary_for :: "string \<Rightarrow> GroupSummary row \<Rightarrow> bool" where
  "summary_for gid r \<longleftrightarrow> su_groupId (row_data r) = gid"

definition refresh_summary :: "GroupSummaryMetrics \<Rightarrow> int \<Rightarrow> GroupSummary \<Rightarrow> GroupSummary" where
  "refresh_summary m computedAt s = s\<lparr>su_totalSpentMinorUnits := sm_totalSpentMinorUnits m,
     su_expenseCount := sm_expenseCount m, su_settlementCount := sm_settlementCount m,
     su_memberCount := sm_memberCount m, su_computedAt := computedAt\<rparr>"

definition new_summary :: "string \<Rightarrow> GroupSummaryMetrics \<Rightarrow> int \<Rightarrow> GroupSummary" where
  "new_summary gid m computedAt = \<lparr>su_groupId = gid,
     su_totalSpentMinorUnits = sm_totalSpentMinorUnits m, su_expenseCount = sm_expenseCount m,
     su_settlementCount = sm_settlementCount m, su_memberCount = sm_memberCount m,
     su_currencyCode = ''PKR'', su_computedAt = computedAt\<rparr>"

definition upsertSummary ::
  "'d prisma \<Rightarrow> string \<Rightarrow> GroupSummaryMetrics \<Rightarrow> int \<Rightarrow>
   (('d, 'r, 'm) world, GroupSummary row) act" where
  "upsertSummary P gid m computedAt =
     db_do (dg_upsert (p_groupSummary P) (summary_for gid) (refresh_summary m computedAt)
       (new_summary gid m computedAt))"

definition findSummaryByGroupId ::
  "'d prisma \<Rightarrow> string \<Rightarrow> (('d, 'r, 'm) world, GroupSummary row option) act" where
  "findSummaryByGroupId P gid = db_do (dg_findUnique (p_groupSummary P) (summary_for gid))"

section \<open>Service\<close>

record GroupSummaryDto =
  sy_id :: string
  sy_groupId :: string
  sy_totalSpentMinorUnits :: int
  sy_expenseCount :: nat
  sy_settlementCount :: nat
  sy_memberCount :: nat
  sy_currencyCode :: string
  sy_computedAt :: int

record QueuedJobDto =
  qj_jobId :: string
  qj_type :: string
  qj_status :: string

definition groupSummaryNotFound :: exn where
  "groupSummaryNotFound = NotFoundError GROUP_SUMMARY_NOT_FOUND
     ''No summary has been computed for this group yet. Queue a recompute to generate one.''"

definition jobEnqueueFailed :: exn where
  "jobEnqueueFailed = AppError INTERNAL_SERVER_ERROR JOB_ENQUEUE_FAILED
     ''Could not queue the requested operation. Please try again shortly.''"

definition summary_toDto :: "GroupSummary row \<Rightarrow> GroupSummaryDto" where
  "summary_toDto r = (let s = row_data r in
     \<lparr>sy_id = row_id r, sy_groupId = su_groupId s,
      sy_totalSpentMinorUnits = js_Number (su_totalSpentMinorUnits s),
      sy_expenseCount = su_expenseCount s, sy_settlementCount = su_settlementCount s,
      sy_memberCount = su_memberCount s, sy_currencyCode = su_currencyCode s,
      sy_computedAt = su_computedAt s\<rparr>)"

definition enqueueGroupSummaryRecomputeJob ::
  "'r redis \<Rightarrow> env \<Rightarrow> JobQueueConfig \<Rightarrow> string \<Rightarrow> string option \<Rightarrow>
   (('d, 'r, 'm) world, QueuedJobDto) act" where
  "enqueueGroupSummaryRecomputeJob R E c groupId requestId =
     seq (enqueue R E c GROUP_SUMMARY_RECOMPUTE (JObject [(''groupId'', JString groupId)])
            \<lparr>jo_requestId = requestId, jo_scheduledFor = None\<rparr>) (\<lambda>(jobId, envelope).
     ret \<lparr>qj_jobId = jobId, qj_type = GROUP_SUMMARY_RECOMPUTE, qj_status = ''queued''\<rparr>)"

definition recomputeGroupSummary ::
  "'d prisma \<Rightarrow> env \<Rightarrow> string \<Rightarrow> (('d, 'r, 'm) world, GroupSummaryDto) act" where
  "recomputeGroupSummary P E groupId =
     seq (SummaryRepository_findGroupById P groupId) (\<lambda>g.
     seq (need g groupNotFound) (\<lambda>_.
     seq (aggregateGroup P groupId) (\<lambda>m.
     seq (now E) (\<lambda>t.
     seq (upsertSummary P groupId m t) (\<lambda>summary.
     ret (summary_toDto summary))))))"

definition getGroupSummary ::
  "'d prisma \<Rightarrow> string \<Rightarrow> string \<Rightarrow> (('d, 'r, 'm) world, GroupSummaryDto) act" where
  "getGroupSummary P requesterId groupId =
     seq (SummaryRepository_findGroupById P groupId) (\<lambda>g.
     seq (need g groupNotFound) (\<lambda>_.
     seq (SummaryRepository_isGroupMember P groupId requesterId) (\<lambda>isMember.
     seq (guard isMember notGroupMember) (\<lambda>_.
     seq (findSummaryByGroupId P groupId) (\<lambda>s.
     seq (need s groupSummaryNotFound) (\<lambda>summary.
     ret (summary_toDto summary)))))))"

definition enqueueGroupSummaryRecompute ::
  "'d prisma \<Rightarrow> 'r redis \<Rightarrow> env \<Rightarrow> JobQueueConfig \<Rightarrow> string \<Rightarrow> string \<Rightarrow> string option \<Rightarrow>
   (('d, 'r, 'm) world, QueuedJobDto) act" where
  "enqueueGroupSummaryRecompute P R E c requesterId groupId requestId =
     seq (SummaryRepository_findGroupById P groupId) (\<lambda>g.
     seq (need g groupNotFound) (\<lambda>_.
     seq (SummaryRepository_isGroupMember P groupId requesterId) (\<lambda>isMember.
     seq (guard isMember notGroupMember) (\<lambda>_.
     catch (enqueueGroupSummaryRecomputeJob R E c groupId requestId)
       (\<lambda>_. seq (metric queueFailuresTotal []) (\<lambda>_. throw jobEnqueueFailed))))))"

section \<open>The job\<close>

text \<open>The schema of the payload: exactly one field, a string that is not blank.\<close>

definition groupSummaryPayloadSchema :: "json \<Rightarrow> json option" where
  "groupSummaryPayloadSchema payload =
     (case payload of
        JObject kvs \<Rightarrow>
          (case json_field payload ''groupId'' of
             Some (JString s) \<Rightarrow>
               if list_all (\<lambda>(k, v). k = ''groupId'') kvs \<and> js_trim s \<noteq> []
               then Some (JObject [(''groupId'', JString (js_trim s))]) else None
           | _ \<Rightarrow> None)
      | _ \<Rightarrow> None)"

definition payload_groupId :: "json \<Rightarrow> string" where
  "payload_groupId payload = (case json_field payload ''groupId'' of Some (JString s) \<Rightarrow> s | _ \<Rightarrow> [])"

definition is_not_found :: "exn \<Rightarrow> bool" where
  "is_not_found e = (case e of AppError status _ _ \<Rightarrow> status = NOT_FOUND | _ \<Rightarrow> False)"

definition processGroupSummaryRecomputeJob ::
  "'d prisma \<Rightarrow> env \<Rightarrow> json \<Rightarrow> (('d, 'r, 'm) world, unit) act" where
  "processGroupSummaryRecomputeJob P E envelope =
     (let groupId = payload_groupId (envelope_payload envelope) in
      catch (seq (recomputeGroupSummary P E groupId) (\<lambda>_. ret ()))
        (\<lambda>error. if is_not_found error \<and> exn_code error = Some GROUP_NOT_FOUND
                 then throw (PermanentJobFailureError
                   (quoted ''Group '' groupId @ '' no longer exists; recompute is impossible.''))
                 else throw error))"

section \<open>The numbers of a group\<close>

definition group_metrics :: "tables \<Rightarrow> string \<Rightarrow> GroupSummaryMetrics" where
  "group_metrics t gid =
     \<lparr>sm_totalSpentMinorUnits = (\<Sum>r\<leftarrow>filter (in_group_expense gid) (expenses t). ex_amountMinorUnits (row_data r)),
      sm_expenseCount = length (filter (in_group_expense gid) (expenses t)),
      sm_settlementCount = length (filter (settlement_in_group gid) (settlements t)),
      sm_memberCount = length (filter (in_group_member gid) (members t))\<rparr>"

definition metrics_of :: "GroupSummary row \<Rightarrow> GroupSummaryMetrics" where
  "metrics_of r = (let s = row_data r in
     \<lparr>sm_totalSpentMinorUnits = su_totalSpentMinorUnits s, sm_expenseCount = su_expenseCount s,
      sm_settlementCount = su_settlementCount s, sm_memberCount = su_memberCount s\<rparr>)"

lemma metrics_of_new [simp]: "row_data r = new_summary gid m t \<Longrightarrow> metrics_of r = m"
  by (simp add: metrics_of_def new_summary_def Let_def)

lemma metrics_of_touched:
  "metrics_of (touched p (refresh_summary m t) stamp r) = (if p r then m else metrics_of r)"
  by (simp add: metrics_of_def refresh_summary_def touched_def Let_def)

lemma summary_for_touched [simp]:
  "summary_for gid (touched p (refresh_summary m t) stamp r) = summary_for gid r"
  by (simp add: summary_for_def refresh_summary_def touched_def)

text \<open>The snapshot of a group made current: refreshed, or made for the first time.\<close>

definition summarised :: "string \<Rightarrow> tables \<Rightarrow> tables \<Rightarrow> bool" where
  "summarised gid t t' \<longleftrightarrow>
     (\<exists>at_ms stamp. t' = summaries_update (map (touched (summary_for gid)
         (refresh_summary (group_metrics t gid) at_ms) stamp)) t \<and>
       (\<exists>r\<in>set (summaries t). summary_for gid r)) \<or>
     (\<exists>r at_ms. t' = summaries_update (\<lambda>rs. rs @ [r]) t \<and>
       row_data r = new_summary gid (group_metrics t gid) at_ms \<and>
       \<not> (\<exists>r\<in>set (summaries t). summary_for gid r))"

lemma group_metrics_summaries [simp]: "group_metrics (summaries_update f t) gid = group_metrics t gid"
  by (simp add: group_metrics_def)

lemma summarised_current:
  assumes "summarised gid t t'"
  shows "(\<exists>r\<in>set (summaries t'). summary_for gid r) \<and>
    (\<forall>r\<in>set (summaries t'). summary_for gid r \<longrightarrow> metrics_of r = group_metrics t gid) \<and>
    group_metrics t' gid = group_metrics t gid"
  using assms
  by (auto simp: summarised_def metrics_of_touched) (auto simp: summary_for_def new_summary_def)

text \<open>A second delivery of the job does no more than the first.\<close>

lemma summarised_twice:
  assumes "summarised gid t t1" "summarised gid t1 t2"
  shows "map (\<lambda>r. (row_id r, su_groupId (row_data r), metrics_of r)) (summaries t2) =
         map (\<lambda>r. (row_id r, su_groupId (row_data r), metrics_of r)) (summaries t1)"
proof -
  note c = summarised_current [OF assms(1)]
  then obtain at_ms stamp where t2: "t2 = summaries_update (map (touched (summary_for gid)
      (refresh_summary (group_metrics t1 gid) at_ms) stamp)) t1"
    using assms(2) by (auto simp: summarised_def)
  have "metrics_of (touched (summary_for gid) (refresh_summary (group_metrics t1 gid) at_ms) stamp r) = metrics_of r"
    if "r \<in> set (summaries t1)" for r
    using c that by (simp add: metrics_of_touched)
  moreover have "su_groupId (row_data (touched (summary_for gid) (refresh_summary m at_ms) stamp r)) =
      su_groupId (row_data r)" for m r
    by (simp add: touched_def refresh_summary_def)
  ultimately show ?thesis by (simp add: t2)
qed

context prisma
begin

lemma silent_summary_reads [silent_intros]:
  "silent T (SummaryRepository_findGroupById P gid)"
  "silent T (SummaryRepository_isGroupMember P gid uid)"
  "silent T (aggregateGroup P gid)"
  "silent T (findSummaryByGroupId P gid)"
  unfolding SummaryRepository_findGroupById_def SummaryRepository_isGroupMember_def aggregateGroup_def
    findSummaryByGroupId_def
  by (intro silent_intros grp.silent_reads mem.silent_reads exp.silent_reads stl.silent_reads
      sum.silent_reads)+

lemma silent_getGroupSummary: "silent T (getGroupSummary P uid gid)"
  unfolding getGroupSummary_def by (intro silent_intros)

lemma aggregateGroup_Inr:
  assumes "aggregateGroup P gid w = (Inr m, w')"
  shows "m = group_metrics (T (w_db w)) gid"
proof -
  from assms obtain s d1 n1 d2 n2 d3 n3 d4 where
      s: "dg_sum (p_expense P) (\<lambda>r. ex_amountMinorUnits (row_data r)) (in_group_expense gid) (w_db w) = (Inr s, d1)"
    and e: "dg_count (p_expense P) (in_group_expense gid) d1 = (Inr n1, d2)"
    and st: "dg_count (p_settlement P) (settlement_in_group gid) d2 = (Inr n2, d3)"
    and mb: "dg_count (p_groupMember P) (in_group_member gid) d3 = (Inr n3, d4)"
    and m: "m = \<lparr>sm_totalSpentMinorUnits = (case s of None \<Rightarrow> 0 | Some s \<Rightarrow> s),
          sm_expenseCount = n1, sm_settlementCount = n2, sm_memberCount = n3\<rparr>"
    by (auto simp: aggregateGroup_def act_simps)
  from exp.sum_Inr [OF s] exp.count_Inr [OF e] stl.count_Inr [OF st] mem.count_Inr [OF mb] m
  show ?thesis by (simp add: group_metrics_def)
qed

lemma upsertSummary_run:
  assumes "upsertSummary P gid m t w = (res, w')" "m = group_metrics (T (w_db w)) gid"
  shows "(T (w_db w') = T (w_db w) \<and> (\<exists>e. res = Inl e)) \<or>
    (summarised gid (T (w_db w)) (T (w_db w')) \<and>
      (\<forall>r. res = Inr r \<longrightarrow> r \<in> set (summaries (T (w_db w'))) \<and> summary_for gid r))"
proof -
  from assms(1) obtain d where u: "dg_upsert (p_groupSummary P) (summary_for gid) (refresh_summary m t)
       (new_summary gid m t) (w_db w) = (res, d)" and w': "w_db w' = d"
    by (auto simp: upsertSummary_def act_simps)
  from sum.upsert_law [OF u] show ?thesis
    unfolding statement_def
  proof (elim disjE exE conjE)
    fix a
    assume a: "if \<exists>r0\<in>set (summaries (T (w_db w))). summary_for gid r0
        then \<exists>r0 stamp. r0 \<in> set (summaries (T (w_db w))) \<and> summary_for gid r0 \<and>
               a = touched (summary_for gid) (refresh_summary m t) stamp r0 \<and>
               T d = summaries_update (map (touched (summary_for gid) (refresh_summary m t) stamp)) (T (w_db w))
        else inserted (summaries (T (w_db w))) clash_GroupSummary refs_GroupSummary (T (w_db w))
               (new_summary gid m t) a \<and> T d = summaries_update (\<lambda>rs. rs @ [a]) (T (w_db w))"
    have "summarised gid (T (w_db w)) (T d) \<and> a \<in> set (summaries (T d)) \<and> summary_for gid a"
    proof (cases "\<exists>r0\<in>set (summaries (T (w_db w))). summary_for gid r0")
      case True
      with a obtain r0 stamp where "r0 \<in> set (summaries (T (w_db w)))" "summary_for gid r0"
        "a = touched (summary_for gid) (refresh_summary m t) stamp r0"
        "T d = summaries_update (map (touched (summary_for gid) (refresh_summary m t) stamp)) (T (w_db w))"
        by auto
      then show ?thesis using assms(2) True unfolding summarised_def by auto
    next
      case False
      with a have "T d = summaries_update (\<lambda>rs. rs @ [a]) (T (w_db w))" "row_data a = new_summary gid m t"
        by (auto simp: inserted_def)
      then show ?thesis using assms(2) False
        unfolding summarised_def by (auto simp: summary_for_def new_summary_def)
    qed
    then show "res = Inr a \<Longrightarrow> ?thesis" "\<And>m. res = Inl (PrismaFailure m) \<Longrightarrow> ?thesis"
      using w' by auto
  qed (use w' in auto)
qed

lemma recomputeGroupSummary_Inr:
  assumes "recomputeGroupSummary P E gid w = (Inr dto, w')"
  shows "summarised gid (T (w_db w)) (T (w_db w')) \<and>
    (\<exists>r\<in>set (summaries (T (w_db w'))). summary_for gid r \<and> dto = summary_toDto r) \<and>
    (\<exists>g. group_row (T (w_db w)) gid g)"
proof -
  from assms obtain g w1 m w2 r w3 where
      g: "SummaryRepository_findGroupById P gid w = (Inr (Some g), w1)"
    and m: "aggregateGroup P gid w1 = (Inr m, w2)"
    and u: "upsertSummary P gid m (clock E (w_tick w2)) (w2\<lparr>w_tick := Suc (w_tick w2)\<rparr>) = (Inr r, w3)"
    and res: "dto = summary_toDto r" "w' = w3"
    by (auto simp: recomputeGroupSummary_def act_simps)
  have t: "T (w_db w1) = T (w_db w)" "T (w_db w2) = T (w_db w)"
    using silentD [OF silent_summary_reads(1) g] silentD [OF silent_summary_reads(3) m] by simp_all
  have "group_row (T (w_db w)) gid g"
    using findGroup_Inr [of gid w g w1] g
    by (simp add: SummaryRepository_findGroupById_def ExpenseRepository_findGroupById_def)
  then show ?thesis
    using upsertSummary_run [OF u] aggregateGroup_Inr [OF m] t res by auto
qed

lemma effect_recompute: "effect T (summarised gid) (recomputeGroupSummary P E gid)"
  unfolding recomputeGroupSummary_def
proof (intro effect_seq [OF silent_summary_reads(1)] effect_need
    effect_read [OF silent_summary_reads(3), where A = "\<lambda>m t. m = group_metrics t gid"])
  fix w m w'
  assume "aggregateGroup P gid w = (Inr m, w')"
  then show "m = group_metrics (T (w_db w)) gid" by (rule aggregateGroup_Inr)
next
  fix m
  show "effect T (\<lambda>t t'. m = group_metrics t gid \<longrightarrow> summarised gid t t')
     (seq (now E) (\<lambda>t. seq (upsertSummary P gid m t) (\<lambda>summary. ret (summary_toDto summary))))"
  proof (intro effect_seq [OF silent_basic(6)] effect_tail silent_intros)
    fix t
    show "effect T (\<lambda>t t'. m = group_metrics t gid \<longrightarrow> summarised gid t t') (upsertSummary P gid m t)"
      unfolding effect_def using upsertSummary_run by blast
  qed
qed

end

end
