(* ===== verification/Worker.thy ===== *)
theory Worker
  imports Summary
begin

text \<open>
  The worker \<open>queues/workerRunner.ts\<close> with the registry of \<open>jobRegistry.ts\<close>: what one poll of a
  job type does (\<open>processType\<close>, \<open>tick\<close>), and the life of the poll loops (\<open>start\<close>, \<open>stop\<close>) as a
  step relation, since several asynchronous calls run side by side there.
\<close>

section \<open>The registry\<close>

record ('d, 'r, 'm) JobRegistration =
  jr_schema :: "json \<Rightarrow> json option"
  jr_process :: "json \<Rightarrow> (('d, 'r, 'm) world, unit) act"

definition groupSummaryRegistration :: "'d prisma \<Rightarrow> env \<Rightarrow> ('d, 'r, 'm) JobRegistration" where
  "groupSummaryRegistration P E =
     \<lparr>jr_schema = groupSummaryPayloadSchema, jr_process = processGroupSummaryRecomputeJob P E\<rparr>"

definition jobRegistry ::
  "'d prisma \<Rightarrow> env \<Rightarrow> (string \<times> ('d, 'r, 'm) JobRegistration) list" where
  "jobRegistry P E = [(GROUP_SUMMARY_RECOMPUTE, groupSummaryRegistration P E)]"

section \<open>One poll\<close>

definition job_metric :: "METRIC \<Rightarrow> string \<Rightarrow> (('d, 'r, 'm) world, unit) act" where
  "job_metric m type = metric m [(''job_type'', type)]"

text \<open>The \<open>try\<close> block: validate the payload, process, complete.\<close>

definition run_job ::
  "'r redis \<Rightarrow> ('d, 'r, 'm) JobRegistration \<Rightarrow> string \<Rightarrow> string \<Rightarrow> json \<Rightarrow>
   (('d, 'r, 'm) world, unit) act" where
  "run_job R registration type jobId envelope =
     (case jr_schema registration (envelope_payload envelope) of
        None \<Rightarrow>
          seq (discard R type jobId) (\<lambda>_. job_metric backgroundJobsDiscardedTotal type)
      | Some data \<Rightarrow>
          seq (jr_process registration (set_field ''payload'' data envelope)) (\<lambda>_.
          seq (complete R type jobId) (\<lambda>_.
          job_metric backgroundJobsSucceededTotal type)))"

definition is_permanent :: "exn \<Rightarrow> bool" where
  "is_permanent e = (case e of PermanentJobFailureError _ \<Rightarrow> True | _ \<Rightarrow> False)"

definition give_up :: "'r redis \<Rightarrow> string \<Rightarrow> string \<Rightarrow> (('d, 'r, 'm) world, unit) act" where
  "give_up R type jobId =
     seq (discard R type jobId) (\<lambda>_.
     seq (job_metric backgroundJobsFailedTotal type) (\<lambda>_.
     job_metric backgroundJobsDiscardedTotal type))"

text \<open>The \<open>catch\<close> block.\<close>

definition job_failed ::
  "'r redis \<Rightarrow> env \<Rightarrow> JobQueueConfig \<Rightarrow> string \<Rightarrow> string \<Rightarrow> json \<Rightarrow> exn \<Rightarrow>
   (('d, 'r, 'm) world, unit) act" where
  "job_failed R E c type jobId envelope error =
     (let attemptsAfterThisFailure = envelope_attempts envelope + 1 in
      if is_permanent error then give_up R type jobId
      else if jc_maxAttempts c \<le> attemptsAfterThisFailure then give_up R type jobId
      else
        seq (retryAfterFailure R E c type jobId attemptsAfterThisFailure
               (backoffFor c attemptsAfterThisFailure)) (\<lambda>_.
        seq (job_metric backgroundJobsFailedTotal type) (\<lambda>_.
        job_metric backgroundJobsRetriedTotal type)))"

definition processType ::
  "'r redis \<Rightarrow> env \<Rightarrow> JobQueueConfig \<Rightarrow> ('d, 'r, 'm) JobRegistration \<Rightarrow> string \<Rightarrow>
   (('d, 'r, 'm) world, unit) act" where
  "processType R E c registration type =
     seq (claimNext R E c type) (\<lambda>result.
     case result of
       Empty \<Rightarrow> ret ()
     | Busy \<Rightarrow> ret ()
     | Malformed jobId \<Rightarrow> ret ()
     | Claimed jobId envelope \<Rightarrow>
         catch (run_job R registration type jobId envelope)
           (job_failed R E c type jobId envelope))"

definition tick ::
  "'r redis \<Rightarrow> env \<Rightarrow> JobQueueConfig \<Rightarrow> (string \<times> ('d, 'r, 'm) JobRegistration) list \<Rightarrow>
   (('d, 'r, 'm) world, unit) act" where
  "tick R E c registry =
     seq (map_act (\<lambda>(type, registration).
            catch (processType R E c registration type) (\<lambda>_. ret ())) registry) (\<lambda>_.
     ret ())"

section \<open>What becomes of a claimed job\<close>

lemma never_fails_catch_ret: "never_fails (catch m (\<lambda>_. ret a))"
  by (auto simp: never_fails_def catch_def ret_def split: prod.split sum.split)

lemma tick_never_fails: "never_fails (tick R E c registry)"
proof -
  have "never_fails (map_act (\<lambda>(type, registration).
      catch (processType R E c registration type) (\<lambda>_. ret ())) registry)"
    by (induction registry) (auto intro!: never_fails_seq never_fails_catch_ret split: prod.split)
  then show ?thesis unfolding tick_def by (intro never_fails_seq) simp_all
qed

text \<open>A job is rescheduled: due after the delay, with the failed attempts on record.\<close>

definition job_rescheduled ::
  "env \<Rightarrow> JobQueueConfig \<Rightarrow> string \<Rightarrow> string \<Rightarrow> nat \<Rightarrow> redis_view \<Rightarrow> bool" where
  "job_rescheduled E c type jobId n v \<longleftrightarrow>
     rv_keys v (inflightKey jobId) = None \<and>
     (\<exists>i. rv_zsets v (queueKey type) jobId = Some (clock E i + backoffFor c n)) \<and>
     (\<exists>e d. valid_envelope type jobId e \<and> envelope_attempts e = n \<and>
        rv_keys v (dataKey jobId) = alive (rv_now v) (Some (stringify e, Some d)))"

text \<open>The payload was lost in the meantime: nothing is left in the queue.\<close>

definition job_dropped :: "string \<Rightarrow> string \<Rightarrow> redis_view \<Rightarrow> bool" where
  "job_dropped type jobId v \<longleftrightarrow>
     rv_keys v (inflightKey jobId) = None \<and> rv_zsets v (queueKey type) jobId = None"

lemma job_gone_dropped: "job_gone type jobId v \<Longrightarrow> job_dropped type jobId v"
  by (simp add: job_gone_def job_dropped_def)

lemma job_metric_redis [simp]:
  "job_metric m type w = (r, w') \<Longrightarrow> w_redis w' = w_redis w \<and> w_db w' = w_db w"
  by (auto simp: job_metric_def act_simps)

context redis_server
begin

lemma give_up_Inr:
  assumes "give_up R type jobId w = (Inr u, w')"
  shows "job_gone type jobId (V (w_redis w'))"
  using assms complete_Inr [of type jobId w]
  by (fastforce simp: give_up_def act_simps discard_complete dest!: job_metric_redis)

lemma run_job_Inr:
  assumes "run_job R registration type jobId e w = (Inr u, w')"
  shows "job_gone type jobId (V (w_redis w'))"
  using assms complete_Inr [of type jobId]
  by (fastforce simp: run_job_def act_simps discard_complete split: option.splits
      dest!: job_metric_redis)

lemma job_failed_Inr:
  assumes run: "job_failed R E c type jobId e error w = (Inr u, w')" and pos: "0 < jc_payloadTtlMs c"
  shows "job_dropped type jobId (V (w_redis w')) \<or>
    envelope_attempts e + 1 < jc_maxAttempts c \<and>
    job_rescheduled E c type jobId (envelope_attempts e + 1) (V (w_redis w'))"
proof (cases "is_permanent error \<or> jc_maxAttempts c \<le> envelope_attempts e + 1")
  case True
  then have "give_up R type jobId w = (Inr u, w')"
    using run by (cases "is_permanent error") (auto simp: job_failed_def Let_def)
  then show ?thesis using give_up_Inr job_gone_dropped by blast
next
  case False
  let ?n = "envelope_attempts e + 1"
  from False run obtain u' w1 where
      r: "retryAfterFailure R E c type jobId ?n (backoffFor c ?n) w = (Inr u', w1)"
    and w': "w_redis w' = w_redis w1"
    by (auto simp: job_failed_def Let_def act_simps dest!: job_metric_redis)
  from retryAfterFailure_Inr [OF r pos] show ?thesis
  proof (elim conjE disjE)
    assume "rv_keys (V (w_redis w1)) (inflightKey jobId) = None"
      and "rv_zsets (V (w_redis w1)) (queueKey type) jobId = None"
    then show ?thesis by (simp add: job_dropped_def w')
  next
    assume l: "rv_keys (V (w_redis w1)) (inflightKey jobId) = None"
      and "\<exists>raw e' d. parseEnvelope raw type jobId = Some e' \<and>
        rv_zsets (V (w_redis w1)) (queueKey type) jobId = Some (clock E (w_tick w) + backoffFor c ?n) \<and>
        rv_now (V (w_redis w)) + jc_payloadTtlMs c \<le> d \<and>
        rv_keys (V (w_redis w1)) (dataKey jobId) = alive (rv_now (V (w_redis w1)))
          (Some (stringify (set_field ''attempts'' (JNumber (of_nat ?n)) e'), Some d))"
    then obtain raw e' d where v: "parseEnvelope raw type jobId = Some e'"
      and z: "rv_zsets (V (w_redis w1)) (queueKey type) jobId = Some (clock E (w_tick w) + backoffFor c ?n)"
      and k: "rv_keys (V (w_redis w1)) (dataKey jobId) = alive (rv_now (V (w_redis w1)))
          (Some (stringify (set_field ''attempts'' (JNumber (of_nat ?n)) e'), Some d))"
      by blast
    have "valid_envelope type jobId e'" using v by (simp add: parseEnvelope_Some)
    from valid_set_attempts [OF this, of ?n] l z k False show ?thesis
      unfolding job_rescheduled_def w' by (intro disjI2) auto
  qed
qed

lemma processType_Inr:
  assumes run: "processType R E c registration type w = (Inr u, w')"
    and claim: "claimNext R E c type w = (Inr (Claimed jobId e), w1)"
    and pos: "0 < jc_payloadTtlMs c"
  shows "job_dropped type jobId (V (w_redis w')) \<or>
    envelope_attempts e + 1 < jc_maxAttempts c \<and>
    job_rescheduled E c type jobId (envelope_attempts e + 1) (V (w_redis w'))"
proof -
  from run claim have "catch (run_job R registration type jobId e)
      (job_failed R E c type jobId e) w1 = (Inr u, w')"
    by (auto simp: processType_def act_simps)
  then show ?thesis
    using run_job_Inr job_gone_dropped job_failed_Inr [OF _ pos] by (fastforce simp: catch_Inr_iff)
qed

end

section \<open>How often a job is attempted\<close>

text \<open>
  A history of one job: polls that claimed it and returned, with its envelopes, and in between
  anything that leaves this job's entries alone (polls of other jobs, time that passes).
\<close>

definition job_untouched :: "string \<Rightarrow> string \<Rightarrow> redis_view \<Rightarrow> redis_view \<Rightarrow> bool" where
  "job_untouched type jobId v v' \<longleftrightarrow> rv_now v \<le> rv_now v' \<and>
     rv_zsets v' (queueKey type) jobId = rv_zsets v (queueKey type) jobId \<and>
     rv_keys v' (dataKey jobId) = alive (rv_now v') (rv_keys v (dataKey jobId))"

inductive job_history ::
  "('r \<Rightarrow> redis_view) \<Rightarrow> 'r redis \<Rightarrow> env \<Rightarrow> JobQueueConfig \<Rightarrow> ('d, 'r, 'm) JobRegistration \<Rightarrow> string \<Rightarrow> string \<Rightarrow>
   json list \<Rightarrow> ('d, 'r, 'm) world \<Rightarrow> bool"
  for V R E c registration type jobId where
  Start: "job_history V R E c registration type jobId [] w"
| Elsewhere: "job_history V R E c registration type jobId es w \<Longrightarrow>
    job_untouched type jobId (V (w_redis w)) (V (w_redis w')) \<Longrightarrow>
    job_history V R E c registration type jobId es w'"
| Attempt: "job_history V R E c registration type jobId es w \<Longrightarrow>
    claimNext R E c type w = (Inr (Claimed jobId e), w1) \<Longrightarrow>
    processType R E c registration type w = (Inr u, w') \<Longrightarrow>
    job_history V R E c registration type jobId (es @ [e]) w'"

text \<open>After an attempt the job has left the queue, or waits with one more attempt on record.\<close>

definition attempts_on_record ::
  "JobQueueConfig \<Rightarrow> string \<Rightarrow> string \<Rightarrow> nat \<Rightarrow> redis_view \<Rightarrow> bool" where
  "attempts_on_record c type jobId n v \<longleftrightarrow> rv_zsets v (queueKey type) jobId = None \<or>
     n < jc_maxAttempts c \<and> (\<exists>e d. valid_envelope type jobId e \<and> envelope_attempts e = n \<and>
       rv_keys v (dataKey jobId) = alive (rv_now v) (Some (stringify e, Some d)))"

lemma attempts_on_record_untouched:
  assumes "attempts_on_record c type jobId n v" and "job_untouched type jobId v v'"
  shows "attempts_on_record c type jobId n v'"
proof -
  have "rv_keys v' (dataKey jobId) = alive (rv_now v') (Some x)"
    if "rv_keys v (dataKey jobId) = alive (rv_now v) (Some x)" for x
    using that assms(2) by (simp add: job_untouched_def alive_alive del: alive_simps)
  with assms show ?thesis unfolding attempts_on_record_def job_untouched_def by metis
qed

lemma settled_on_record:
  "job_dropped type jobId v \<or> n < jc_maxAttempts c \<and> job_rescheduled E c type jobId n v \<Longrightarrow>
     attempts_on_record c type jobId n v"
  unfolding attempts_on_record_def job_dropped_def job_rescheduled_def by blast

context redis_server
begin

lemma job_history_attempts:
  assumes "job_history V R E c registration type jobId es w" and "0 < jc_leaseMs c" "0 < jc_payloadTtlMs c"
  shows "es \<noteq> [] \<longrightarrow> attempts_on_record c type jobId (Suc (envelope_attempts (last es))) (V (w_redis w)) \<and>
    map envelope_attempts es = map (\<lambda>k. envelope_attempts (hd es) + k) [0..<length es] \<and>
    (1 < length es \<longrightarrow> envelope_attempts (last es) < jc_maxAttempts c)"
  using assms(1)
proof induction
  case (Start w)
  then show ?case by simp
next
  case (Elsewhere es w w')
  then show ?case using attempts_on_record_untouched by blast
next
  case (Attempt es w e w1 u w')
  have after: "attempts_on_record c type jobId (Suc (envelope_attempts e)) (V (w_redis w'))"
    using settled_on_record processType_Inr [OF Attempt.hyps(3,2) assms(3)] by (simp only: Suc_eq_plus1)
  have queued: "rv_zsets (V (w_redis w)) (queueKey type) jobId \<noteq> None"
    using claimNext_Inr [OF Attempt.hyps(2) assms(2)] by auto
  show ?case
  proof (cases "es = []")
    case False
    let ?n = "Suc (envelope_attempts (last es))"
    from False Attempt.IH have r: "attempts_on_record c type jobId ?n (V (w_redis w))"
      and m: "map envelope_attempts es = map (\<lambda>k. envelope_attempts (hd es) + k) [0..<length es]"
      by blast+
    from r queued obtain x d where n: "?n < jc_maxAttempts c" and x: "valid_envelope type jobId x"
        "envelope_attempts x = ?n" "rv_keys (V (w_redis w)) (dataKey jobId) =
          alive (rv_now (V (w_redis w))) (Some (stringify x, Some d))"
      by (auto simp: attempts_on_record_def)
    have e: "envelope_attempts e = ?n"
      using claimNext_rereads [OF Attempt.hyps(2) assms(2) x(3,1)] x(2) by simp
    have "envelope_attempts (last es) = last (map envelope_attempts es)" using False by (simp add: last_map)
    also have "\<dots> = envelope_attempts (hd es) + (length es - 1)"
      unfolding m using False by (simp add: last_map)
    finally show ?thesis using after e n m False by (simp add: Suc_diff_Suc)
  qed (use after in simp)
qed

end

section \<open>The poll loops\<close>

text \<open>
  Where a loop started by \<open>start()\<close> is: about to test \<open>running\<close>, waiting for \<open>claimNext\<close>,
  running a job, asleep, or over. One job type is registered, so a tick claims once. A \<open>stop()\<close>
  call clears \<open>running\<close> and returns once it sees \<open>inFlight\<close> at zero; the \<open>finally\<close> block of
  a loop that ends clears \<open>running\<close> again.
\<close>

datatype loop_phase = Checking | Claiming | Processing | Sleeping | Over

record runner =
  rn_running :: bool
  rn_inFlight :: nat
  rn_loops :: "loop_phase list"
  rn_stopping :: bool
  rn_stopped :: bool

definition new_runner :: runner where
  "new_runner = \<lparr>rn_running = False, rn_inFlight = 0, rn_loops = [], rn_stopping = False,
     rn_stopped = False\<rparr>"

definition loop_to :: "nat \<Rightarrow> loop_phase \<Rightarrow> runner \<Rightarrow> runner" where
  "loop_to i p s = s\<lparr>rn_loops := (rn_loops s)[i := p]\<rparr>"

definition loop_at :: "runner \<Rightarrow> nat \<Rightarrow> loop_phase \<Rightarrow> bool" where
  "loop_at s i p \<longleftrightarrow> i < length (rn_loops s) \<and> rn_loops s ! i = p"

inductive runner_step :: "runner \<Rightarrow> runner \<Rightarrow> bool" where
  Start: "\<not> rn_running s \<Longrightarrow> runner_step s
     (s\<lparr>rn_running := True, rn_loops := rn_loops s @ [Checking], rn_stopped := False\<rparr>)"
| Poll: "loop_at s i Checking \<Longrightarrow> rn_running s \<Longrightarrow> runner_step s (loop_to i Claiming s)"
| Leave: "loop_at s i Checking \<Longrightarrow> \<not> rn_running s \<Longrightarrow>
     runner_step s (loop_to i Over (s\<lparr>rn_running := False\<rparr>))"
| Nothing: "loop_at s i Claiming \<Longrightarrow> runner_step s (loop_to i Sleeping s)"
| Job: "loop_at s i Claiming \<Longrightarrow>
     runner_step s (loop_to i Processing (s\<lparr>rn_inFlight := rn_inFlight s + 1\<rparr>))"
| Done: "loop_at s i Processing \<Longrightarrow>
     runner_step s (loop_to i Sleeping (s\<lparr>rn_inFlight := rn_inFlight s - 1\<rparr>))"
| Wake: "loop_at s i Sleeping \<Longrightarrow> runner_step s (loop_to i Checking s)"
| Stop: "runner_step s (s\<lparr>rn_running := False, rn_stopping := True\<rparr>)"
| StopReturns: "rn_stopping s \<Longrightarrow> rn_inFlight s = 0 \<Longrightarrow>
     runner_step s (s\<lparr>rn_stopping := False, rn_stopped := True\<rparr>)"

inductive_cases runner_stepE: "runner_step s s'"

definition processing :: "runner \<Rightarrow> nat" where
  "processing s = length (filter (\<lambda>p. p = Processing) (rn_loops s))"

lemma processing_split:
  assumes "loop_at s i q"
  shows "processing (loop_to i p s) + (if q = Processing then 1 else 0) =
         processing s + (if p = Processing then 1 else 0)"
proof -
  let ?l = "rn_loops s"
  have i: "i < length ?l" "?l ! i = q" using assms by (simp_all add: loop_at_def)
  have l: "?l = take i ?l @ q # drop (Suc i) ?l" using i by (metis id_take_nth_drop)
  have u: "?l[i := p] = take i ?l @ p # drop (Suc i) ?l" using i by (simp add: upd_conv_take_nth_drop)
  have "processing (loop_to i p s) = length (filter (\<lambda>p. p = Processing) (take i ?l @ p # drop (Suc i) ?l))"
    by (simp add: processing_def loop_to_def u)
  moreover have "processing s = length (filter (\<lambda>p. p = Processing) (take i ?l @ q # drop (Suc i) ?l))"
    unfolding processing_def by (subst l) (rule refl)
  ultimately show ?thesis by simp
qed

lemma loop_to_inFlight [simp]:
  "rn_inFlight (loop_to i p s) = rn_inFlight s"
  "processing (loop_to i p (s\<lparr>rn_inFlight := n\<rparr>)) = processing (loop_to i p s)"
  "processing (loop_to i p (s\<lparr>rn_running := b\<rparr>)) = processing (loop_to i p s)"
  by (simp_all add: loop_to_def processing_def)

lemma processing_step:
  "runner_step s s' \<Longrightarrow> rn_inFlight s = processing s \<Longrightarrow> rn_inFlight s' = processing s'"
proof (induction rule: runner_step.induct)
  case (Start s)
  then show ?case by (simp add: processing_def)
next
  case (Stop s)
  then show ?case by (simp add: processing_def)
next
  case (StopReturns s)
  then show ?case by (simp add: processing_def)
next
  case (Poll s i)
  then show ?case using processing_split [of s i Checking Claiming] by simp
next
  case (Leave s i)
  then show ?case using processing_split [of s i Checking Over] by simp
next
  case (Nothing s i)
  then show ?case using processing_split [of s i Claiming Sleeping] by simp
next
  case (Job s i)
  then show ?case using processing_split [of s i Claiming Processing] by simp
next
  case (Done s i)
  then show ?case using processing_split [of s i Processing Sleeping] by simp
next
  case (Wake s i)
  then show ?case using processing_split [of s i Sleeping Checking] by simp
qed

lemma processing_reachable:
  "runner_step\<^sup>*\<^sup>* new_runner s \<Longrightarrow> rn_inFlight s = processing s"
proof (induction rule: rtranclp_induct)
  case base
  then show ?case by (simp add: new_runner_def processing_def)
qed (rule processing_step)

end
