(* ===== verification/Email.thy ===== *)
theory Email
  imports Activity
begin

text \<open>
  Transactional email: the templates of \<open>modules/email/templates.ts\<close> and the dispatch of
  \<open>email.service.ts\<close>. The mail transport (nodemailer) is a parameter over its own state; the
  log transport of \<open>log.provider.ts\<close> only writes log lines.
\<close>

section \<open>Configuration\<close>

text \<open>The part of \<open>Env\<close> (\<open>config/env.ts\<close>) that authentication and email read.\<close>

record AuthConfig =
  cf_JWT_SECRET :: string
  cf_JWT_EXPIRES_IN :: string
  cf_REFRESH_TOKEN_TTL_DAYS :: int
  cf_EMAIL_VERIFICATION_TOKEN_TTL_MINUTES :: nat
  cf_PASSWORD_RESET_TOKEN_TTL_MINUTES :: nat
  cf_APP_NAME :: string
  cf_APP_BASE_URL :: string
  cf_EMAIL_FROM :: string
  cf_EMAIL_FROM_NAME :: string

section \<open>Templates\<close>

record RenderedEmail =
  re_subject :: string
  re_text :: string
  re_html :: string

text \<open>
  The division of two positive integers as a double: 53 significant bits, ties to even. Then
  \<open>toFixed(1)\<close> of a nonnegative double: the nearest tenth of its exact value, ties upwards.
\<close>

definition js_div :: "nat \<Rightarrow> nat \<Rightarrow> rat" where
  "js_div a b =
     (if a = 0 \<or> b = 0 then 0
      else let x = (of_nat a :: rat) / of_nat b;
               e = bitlen (int (a div b)) - 1;
               scale = (2 :: rat) ^ nat (52 - e);
               q = \<lfloor>x * scale\<rfloor>; r = x * scale - of_int q;
               m = (if r > 1/2 \<or> (r = 1/2 \<and> odd q) then q + 1 else q)
           in of_int m / scale)"

definition toFixed1 :: "rat \<Rightarrow> string" where
  "toFixed1 x = (let n = nat \<lfloor>x * 10 + 1/2\<rfloor> in digits_of (n div 10) @ ''.'' @ digits_of (n mod 10))"

definition formatMinutes :: "nat \<Rightarrow> string" where
  "formatMinutes minutes =
     (if minutes < 60 then digits_of minutes @ '' minute'' @ (if minutes = 1 then [] else ''s'')
      else let hours = js_div minutes 60 in
        (if hours = of_int \<lfloor>hours\<rfloor> then digits_of (nat \<lfloor>hours\<rfloor>) else toFixed1 hours) @
        '' hour'' @ (if hours = 1 then [] else ''s''))"

definition nl :: string where
  "nl = [CHR 0x0A]"

text \<open>The markup writes the double quote as \<open>|\<close>, which the page itself never contains.\<close>

definition markup :: "string \<Rightarrow> string" where
  "markup s = map (\<lambda>c. if c = CHR ''|'' then CHR 0x22 else c) s"

definition buildHtml ::
  "string \<Rightarrow> string \<Rightarrow> string list \<Rightarrow> string \<Rightarrow> string \<Rightarrow> string" where
  "buildHtml appName heading paragraphs buttonLabel buttonUrl =
     (let paragraphsHtml = join_with nl (map (\<lambda>p. ''<p>'' @ p @ ''</p>'') paragraphs) in
      join_with nl
       [''<!DOCTYPE html>'',
        markup ''<html lang=|en|>'',
        markup ''  <body style=|margin:0;padding:0;font-family:Arial,Helvetica,sans-serif;background:#f4f5f7;color:#1f2937|>'',
        markup ''    <table role=|presentation| width=|100%| cellpadding=|0| cellspacing=|0| style=|background:#f4f5f7;padding:24px 0|>'',
        ''      <tr>'',
        markup ''        <td align=|center|>'',
        markup ''          <table role=|presentation| width=|560| cellpadding=|0| cellspacing=|0| style=|background:#ffffff;border-radius:8px;padding:32px;text-align:left|>'',
        ''            <tr>'',
        markup ''              <td><h1 style=|font-size:20px;margin:0 0 16px 0|>'' @ heading @ ''</h1></td>'',
        ''            </tr>'',
        ''            <tr><td>'' @ paragraphsHtml @ ''</td></tr>'',
        ''            <tr>'',
        markup ''              <td style=|padding:24px 0|><a href=|'' @ buttonUrl @
          markup ''| style=|background:#2563eb;color:#ffffff;text-decoration:none;padding:12px 24px;border-radius:6px;display:inline-block|>'' @
          buttonLabel @ ''</a></td>'',
        ''            </tr>'',
        markup ''            <tr><td style=|color:#6b7280;font-size:13px;line-height:1.6|>If the button above does not work, copy and paste this link into your browser:<br/>'' @
          buttonUrl @ ''</td></tr>'',
        markup ''            <tr><td style=|color:#9ca3af;font-size:12px;padding-top:16px|>&mdash; '' @ appName @ ''</td></tr>'',
        ''          </table>'',
        ''        </td>'',
        ''      </tr>'',
        ''    </table>'',
        ''  </body>'',
        ''</html>''])"

definition buildVerificationEmail :: "string \<Rightarrow> string \<Rightarrow> string \<Rightarrow> nat \<Rightarrow> RenderedEmail" where
  "buildVerificationEmail appName userName verificationUrl expiresInMinutes =
     (let ttl = formatMinutes expiresInMinutes;
          expires = ''This link expires in '' @ ttl @
            ''. If you did not create an account, you can safely ignore this email.'' in
      \<lparr>re_subject = ''Verify your email address'',
       re_text = join_with nl
         [''Hi '' @ userName @ '','', [],
          ''Welcome to '' @ appName @
            ''! Please verify your email address by opening the link below.'', [],
          verificationUrl, [], expires, [], ''Thanks,'', appName],
       re_html = buildHtml appName ''Verify your email address''
         [''Hi '' @ userName @ '','',
          ''Welcome to <strong>'' @ appName @
            ''</strong>! Please verify your email address to activate your account.'',
          expires]
         ''Verify email'' verificationUrl\<rparr>)"

definition buildPasswordResetEmail :: "string \<Rightarrow> string \<Rightarrow> string \<Rightarrow> nat \<Rightarrow> RenderedEmail" where
  "buildPasswordResetEmail appName userName resetUrl expiresInMinutes =
     (let ttl = formatMinutes expiresInMinutes;
          expires = ''This link expires in '' @ ttl @
            ''. If you did not request a password reset, you can safely ignore this email.'' in
      \<lparr>re_subject = ''Reset your password'',
       re_text = join_with nl
         [''Hi '' @ userName @ '','', [],
          ''We received a request to reset the password for your '' @ appName @
            '' account. Open the link below to choose a new password.'', [],
          resetUrl, [], expires, [], ''Thanks,'', appName],
       re_html = buildHtml appName ''Reset your password''
         [''Hi '' @ userName @ '','',
          ''We received a request to reset the password for your <strong>'' @ appName @
            ''</strong> account. Choose a new password using the link below.'',
          expires]
         ''Reset password'' resetUrl\<rparr>)"

section \<open>Dispatch\<close>

record EmailMessage =
  em_to :: string
  em_from :: string
  em_subject :: string
  em_text :: string
  em_html :: string

text \<open>The provider's \<open>send\<close>, over the state of the transport.\<close>

type_synonym 'm mailer = "EmailMessage \<Rightarrow> ('m, unit) act"

definition mail_do :: "('m, 'a) act \<Rightarrow> (('d, 'r, 'm) world, 'a) act" where
  "mail_do f = (\<lambda>w. case f (w_mail w) of (res, m) \<Rightarrow> (res, w\<lparr>w_mail := m\<rparr>))"

definition LogEmailProvider_send :: "'m mailer" where
  "LogEmailProvider_send message = ret ()"

definition formatFrom :: "string \<Rightarrow> string \<Rightarrow> string" where
  "formatFrom name address = name @ '' <'' @ address @ ''>''"

definition emailDeliveryFailed :: exn where
  "emailDeliveryFailed = EmailDeliveryError EMAIL_DELIVERY_FAILED
     ''Email delivery failed. Please try again later.''"

definition dispatch ::
  "'m mailer \<Rightarrow> AuthConfig \<Rightarrow> string \<Rightarrow> string \<Rightarrow> RenderedEmail \<Rightarrow> (('d, 'r, 'm) world, unit) act" where
  "dispatch M cf operation recipient rendered =
     catch
       (seq (mail_do (M \<lparr>em_to = recipient,
               em_from = formatFrom (cf_EMAIL_FROM_NAME cf) (cf_EMAIL_FROM cf),
               em_subject = re_subject rendered, em_text = re_text rendered,
               em_html = re_html rendered\<rparr>)) (\<lambda>_.
        metric emailsSentTotal [(''operation'', operation)]))
       (\<lambda>_. seq (metric emailSendFailuresTotal [(''operation'', operation)]) (\<lambda>_.
             throw emailDeliveryFailed))"

definition sendVerificationEmail ::
  "'m mailer \<Rightarrow> AuthConfig \<Rightarrow> string \<Rightarrow> string \<Rightarrow> string \<Rightarrow> (('d, 'r, 'm) world, unit) act" where
  "sendVerificationEmail M cf recipient verificationUrl userName =
     dispatch M cf ''email_verification'' recipient
       (buildVerificationEmail (cf_APP_NAME cf) userName verificationUrl
         (cf_EMAIL_VERIFICATION_TOKEN_TTL_MINUTES cf))"

definition sendPasswordResetEmail ::
  "'m mailer \<Rightarrow> AuthConfig \<Rightarrow> string \<Rightarrow> string \<Rightarrow> string \<Rightarrow> (('d, 'r, 'm) world, unit) act" where
  "sendPasswordResetEmail M cf recipient resetUrl userName =
     dispatch M cf ''password_reset'' recipient
       (buildPasswordResetEmail (cf_APP_NAME cf) userName resetUrl
         (cf_PASSWORD_RESET_TOKEN_TTL_MINUTES cf))"

section \<open>Lemmas\<close>

lemma mail_do_eq [act_simps]:
  "mail_do f w = (r, w') \<longleftrightarrow> (\<exists>m. f (w_mail w) = (r, m) \<and> w' = w\<lparr>w_mail := m\<rparr>)"
  by (auto simp: mail_do_def split: prod.splits)

lemma silent_mail [silent_intros]: "silent T (mail_do f)"
  by (auto simp: silent_def act_simps)

text \<open>Whatever the transport does, the caller sees success or the one delivery error.\<close>

lemma dispatch_run:
  assumes "dispatch M cf operation recipient rendered w = (r, w')"
  shows "w_db w' = w_db w \<and> w_tick w' = w_tick w \<and> w_redis w' = w_redis w \<and>
    (r = Inr () \<or> r = Inl emailDeliveryFailed)"
  using assms by (cases r) (auto simp: dispatch_def act_simps)

end
