(* ===== verification/Auth.thy ===== *)
theory Auth
  imports Email Json
begin

text \<open>
  Authentication: \<open>modules/auth/auth.repository.ts\<close>, \<open>auth.service.ts\<close> and the token helpers
  \<open>refresh-token.util.ts\<close>, \<open>auth-token.util.ts\<close>. The libraries bcryptjs and jsonwebtoken and the
  random generator are parameters.
\<close>

section \<open>The libraries\<close>

text \<open>
  Each of these reads a clock or draws randomness, so it takes the number of the call, as the
  clock of \<open>env\<close> does. \<open>jwtVerify\<close> answers for the pinned algorithm HS256.
\<close>

datatype jwt_outcome = JwtExpired | JwtRejected | JwtPayload json

record crypto =
  cr_randomToken :: "nat \<Rightarrow> string"
  cr_bcryptHash :: "nat \<Rightarrow> string \<Rightarrow> string"
  cr_bcryptCompare :: "string \<Rightarrow> string \<Rightarrow> bool"
  cr_jwtSign :: "nat \<Rightarrow> string \<Rightarrow> string \<Rightarrow> json \<Rightarrow> string"
  cr_jwtVerify :: "nat \<Rightarrow> string \<Rightarrow> string \<Rightarrow> jwt_outcome"

definition draw :: "(nat \<Rightarrow> 'a) \<Rightarrow> (('d, 'r, 'm) world, 'a) act" where
  "draw f = (\<lambda>w. (Inr (f (w_tick w)), w\<lparr>w_tick := Suc (w_tick w)\<rparr>))"

lemma draw_eq [act_simps]:
  "draw f w = (r, w') \<longleftrightarrow> r = Inr (f (w_tick w)) \<and> w' = w\<lparr>w_tick := Suc (w_tick w)\<rparr>"
  by (auto simp: draw_def)

lemma silent_draw [silent_intros]: "silent T (draw f)"
  by (auto simp: silent_def act_simps)

section \<open>Tokens\<close>

definition generateRefreshToken :: "crypto \<Rightarrow> (('d, 'r, 'm) world, string) act" where
  "generateRefreshToken K = draw (cr_randomToken K)"

definition hashRefreshToken :: "env \<Rightarrow> string \<Rightarrow> string" where
  "hashRefreshToken E token = sha256 E token"

definition generateAuthToken :: "crypto \<Rightarrow> (('d, 'r, 'm) world, string) act" where
  "generateAuthToken K = draw (cr_randomToken K)"

definition hashAuthToken :: "env \<Rightarrow> string \<Rightarrow> string" where
  "hashAuthToken E token = sha256 E token"

section \<open>Repository\<close>

definition findByEmail :: "'d prisma \<Rightarrow> string \<Rightarrow> (('d, 'r, 'm) world, User row option) act" where
  "findByEmail P email = db_do (dg_findUnique (p_user P) (\<lambda>u. us_email (row_data u) = email))"

definition findById :: "'d prisma \<Rightarrow> string \<Rightarrow> (('d, 'r, 'm) world, User row option) act" where
  "findById P uid = db_do (dg_findUnique (p_user P) (\<lambda>u. row_id u = uid))"

record UserPatch =
  pa_name :: "string option"
  pa_email :: "string option"
  pa_emailVerifiedAt :: "int option option"

text \<open>An undefined field of \<open>data\<close> leaves the column alone.\<close>

definition patch_user :: "UserPatch \<Rightarrow> User \<Rightarrow> User" where
  "patch_user p u = u\<lparr>us_name := (case pa_name p of None \<Rightarrow> us_name u | Some n \<Rightarrow> n),
     us_email := (case pa_email p of None \<Rightarrow> us_email u | Some e \<Rightarrow> e),
     us_emailVerifiedAt := (case pa_emailVerifiedAt p of None \<Rightarrow> us_emailVerifiedAt u | Some v \<Rightarrow> v)\<rparr>"

definition AuthRepository_update ::
  "'d prisma \<Rightarrow> string \<Rightarrow> UserPatch \<Rightarrow> (('d, 'r, 'm) world, SafeUser option) act" where
  "AuthRepository_update P uid data =
     seq (db_do (dg_findUnique (p_user P) (\<lambda>u. row_id u = uid))) (\<lambda>existing.
     case existing of
       None \<Rightarrow> ret None
     | Some _ \<Rightarrow>
         seq (db_do (dg_update (p_user P) (\<lambda>u. row_id u = uid) (patch_user data))) (\<lambda>u.
         ret (Some (safeUser u))))"

definition findRefreshTokenByHash ::
  "'d prisma \<Rightarrow> string \<Rightarrow> (('d, 'r, 'm) world, (RefreshToken row \<times> SafeUser) option) act" where
  "findRefreshTokenByHash P tokenHash =
     seq (db_do (dg_findUnique (p_refreshToken P) (\<lambda>r. rt_tokenHash (row_data r) = tokenHash))) (\<lambda>x.
     case x of
       None \<Rightarrow> ret None
     | Some r \<Rightarrow> seq (includeUser P (rt_userId (row_data r))) (\<lambda>u. ret (Some (r, u))))"

definition new_session :: "string \<Rightarrow> string \<Rightarrow> int \<Rightarrow> RefreshToken" where
  "new_session uid tokenHash expiresAt = \<lparr>rt_userId = uid, rt_tokenHash = tokenHash,
     rt_expiresAt = expiresAt, rt_revokedAt = None\<rparr>"

definition createRefreshToken ::
  "'d prisma \<Rightarrow> RefreshToken \<Rightarrow> (('d, 'r, 'm) world, unit) act" where
  "createRefreshToken P data = seq (db_do (dg_create (p_refreshToken P) data)) (\<lambda>_. ret ())"

definition active_id :: "string \<Rightarrow> RefreshToken row \<Rightarrow> bool" where
  "active_id i r \<longleftrightarrow> row_id r = i \<and> rt_revokedAt (row_data r) = None"

definition revoke_at :: "int \<Rightarrow> RefreshToken \<Rightarrow> RefreshToken" where
  "revoke_at t r = r\<lparr>rt_revokedAt := Some t\<rparr>"

definition revokeRefreshTokenById ::
  "'d prisma \<Rightarrow> env \<Rightarrow> string \<Rightarrow> (('d, 'r, 'm) world, nat) act" where
  "revokeRefreshTokenById P E i =
     seq (now E) (\<lambda>t. db_do (dg_updateMany (p_refreshToken P) (active_id i) (revoke_at t)))"

definition rotateRefreshTokenTx ::
  "'d prisma \<Rightarrow> env \<Rightarrow> string \<Rightarrow> RefreshToken \<Rightarrow> (('d, 'r, 'm) world, RefreshToken row option) act" where
  "rotateRefreshTokenTx P E oldId data =
     seq (revokeRefreshTokenById P E oldId) (\<lambda>count.
     if count = 0 then ret None
     else seq (db_do (dg_create (p_refreshToken P) data)) (\<lambda>r. ret (Some r)))"

definition rotateRefreshToken ::
  "'d prisma \<Rightarrow> env \<Rightarrow> string \<Rightarrow> RefreshToken \<Rightarrow> (('d, 'r, 'm) world, RefreshToken row option) act" where
  "rotateRefreshToken P E oldId data = in_transaction P (rotateRefreshTokenTx P E oldId data)"

definition new_auth_token :: "string \<Rightarrow> AuthTokenPurpose \<Rightarrow> string \<Rightarrow> int \<Rightarrow> AuthToken" where
  "new_auth_token uid purpose tokenHash expiresAt = \<lparr>at_userId = uid, at_purpose = purpose,
     at_tokenHash = tokenHash, at_expiresAt = expiresAt, at_consumedAt = None\<rparr>"

record CreateUserWithAuthData =
  ca_name :: string
  ca_email :: string
  ca_passwordHash :: string
  ca_refreshTokenHash :: string
  ca_refreshTokenExpiresAt :: int
  ca_verificationTokenHash :: string
  ca_verificationTokenExpiresAt :: int

definition createUserTx ::
  "'d prisma \<Rightarrow> CreateUserWithAuthData \<Rightarrow> (('d, 'r, 'm) world, SafeUser) act" where
  "createUserTx P data =
     seq (db_do (dg_create (p_user P) \<lparr>us_name = ca_name data, us_email = ca_email data,
            us_passwordHash = Some (ca_passwordHash data), us_emailVerifiedAt = None\<rparr>)) (\<lambda>user.
     seq (db_do (dg_create (p_refreshToken P) (new_session (row_id user) (ca_refreshTokenHash data)
            (ca_refreshTokenExpiresAt data)))) (\<lambda>_.
     seq (db_do (dg_create (p_authToken P) (new_auth_token (row_id user) EMAIL_VERIFICATION
            (ca_verificationTokenHash data) (ca_verificationTokenExpiresAt data)))) (\<lambda>_.
     ret (safeUser user))))"

definition createUserWithAuthData ::
  "'d prisma \<Rightarrow> CreateUserWithAuthData \<Rightarrow> (('d, 'r, 'm) world, SafeUser) act" where
  "createUserWithAuthData P data = in_transaction P (createUserTx P data)"

definition token_for :: "string \<Rightarrow> AuthTokenPurpose \<Rightarrow> AuthToken row \<Rightarrow> bool" where
  "token_for uid purpose r \<longleftrightarrow> at_userId (row_data r) = uid \<and> at_purpose (row_data r) = purpose"

definition createAuthTokenTx ::
  "'d prisma \<Rightarrow> AuthToken \<Rightarrow> (('d, 'r, 'm) world, AuthToken row) act" where
  "createAuthTokenTx P data =
     seq (db_do (dg_deleteMany (p_authToken P) (token_for (at_userId data) (at_purpose data)))) (\<lambda>_.
     db_do (dg_create (p_authToken P) data))"

definition createAuthToken ::
  "'d prisma \<Rightarrow> AuthToken \<Rightarrow> (('d, 'r, 'm) world, AuthToken row) act" where
  "createAuthToken P data = in_transaction P (createAuthTokenTx P data)"

definition findAuthTokenByHash ::
  "'d prisma \<Rightarrow> string \<Rightarrow> (('d, 'r, 'm) world, AuthToken row option) act" where
  "findAuthTokenByHash P tokenHash =
     db_do (dg_findUnique (p_authToken P) (\<lambda>r. at_tokenHash (row_data r) = tokenHash))"

definition unconsumed :: "string \<Rightarrow> AuthToken row \<Rightarrow> bool" where
  "unconsumed i r \<longleftrightarrow> row_id r = i \<and> at_consumedAt (row_data r) = None"

definition consume_at :: "int \<Rightarrow> AuthToken \<Rightarrow> AuthToken" where
  "consume_at t r = r\<lparr>at_consumedAt := Some t\<rparr>"

definition mark_verified :: "int \<Rightarrow> User \<Rightarrow> User" where
  "mark_verified t u = u\<lparr>us_emailVerifiedAt := Some t\<rparr>"

definition consumeVerificationTx ::
  "'d prisma \<Rightarrow> string \<Rightarrow> string \<Rightarrow> int \<Rightarrow> (('d, 'r, 'm) world, SafeUser option) act" where
  "consumeVerificationTx P tokenId uid t =
     seq (db_do (dg_updateMany (p_authToken P) (unconsumed tokenId) (consume_at t))) (\<lambda>count.
     if count = 0 then ret None
     else seq (db_do (dg_update (p_user P) (\<lambda>u. row_id u = uid) (mark_verified t))) (\<lambda>user.
          ret (Some (safeUser user))))"

definition consumeVerificationTokenAndVerifyUser ::
  "'d prisma \<Rightarrow> string \<Rightarrow> string \<Rightarrow> int \<Rightarrow> (('d, 'r, 'm) world, SafeUser option) act" where
  "consumeVerificationTokenAndVerifyUser P tokenId uid t =
     in_transaction P (consumeVerificationTx P tokenId uid t)"

definition set_password :: "string \<Rightarrow> User \<Rightarrow> User" where
  "set_password h u = u\<lparr>us_passwordHash := Some h\<rparr>"

definition session_of :: "string \<Rightarrow> RefreshToken row \<Rightarrow> bool" where
  "session_of uid r \<longleftrightarrow> rt_userId (row_data r) = uid \<and> rt_revokedAt (row_data r) = None"

definition consumePasswordResetTx ::
  "'d prisma \<Rightarrow> string \<Rightarrow> string \<Rightarrow> string \<Rightarrow> int \<Rightarrow> (('d, 'r, 'm) world, SafeUser option) act" where
  "consumePasswordResetTx P tokenId uid passwordHash t =
     seq (db_do (dg_updateMany (p_authToken P) (unconsumed tokenId) (consume_at t))) (\<lambda>count.
     if count = 0 then ret None
     else
       seq (db_do (dg_updateMany (p_user P) (\<lambda>u. row_id u = uid) (set_password passwordHash))) (\<lambda>updated.
       if updated = 0 then ret None
       else
         seq (db_do (dg_updateMany (p_refreshToken P) (session_of uid) (revoke_at t))) (\<lambda>_.
         seq (db_do (dg_findUnique (p_user P) (\<lambda>u. row_id u = uid))) (\<lambda>x.
         seq (need x (PrismaKnownRequestError ''P2025'')) (\<lambda>user.
         ret (Some (safeUser user)))))))"

definition consumePasswordResetTokenAndUpdatePassword ::
  "'d prisma \<Rightarrow> string \<Rightarrow> string \<Rightarrow> string \<Rightarrow> int \<Rightarrow> (('d, 'r, 'm) world, SafeUser option) act" where
  "consumePasswordResetTokenAndUpdatePassword P tokenId uid passwordHash t =
     in_transaction P (consumePasswordResetTx P tokenId uid passwordHash t)"

section \<open>Service\<close>

definition MS_PER_DAY :: int where
  "MS_PER_DAY = 24 * 60 * 60 * 1000"

definition MS_PER_MINUTE :: int where
  "MS_PER_MINUTE = 60 * 1000"

definition GENERIC_VERIFICATION_MESSAGE :: string where
  "GENERIC_VERIFICATION_MESSAGE =
     ''If that email address belongs to an account, a verification email is on its way.''"

definition GENERIC_RESET_MESSAGE :: string where
  "GENERIC_RESET_MESSAGE =
     ''If that email address belongs to an account, a password reset email is on its way.''"

record AuthResult =
  ar_user :: SafeUser
  ar_token :: string
  ar_refreshToken :: string

definition emailInUse :: exn where
  "emailInUse = ConflictError EMAIL_IN_USE ''An account with this email already exists.''"

definition invalidCredentials :: exn where
  "invalidCredentials = UnauthorizedError INVALID_CREDENTIALS ''Invalid email or password.''"

definition refreshTokenInvalid :: exn where
  "refreshTokenInvalid = UnauthorizedError REFRESH_TOKEN_INVALID ''Invalid or expired refresh token.''"

definition authUserNotFound :: exn where
  "authUserNotFound = NotFoundError USER_NOT_FOUND ''User not found.''"

definition verificationInvalid :: exn where
  "verificationInvalid = UnauthorizedError VERIFICATION_TOKEN_INVALID ''This verification link is invalid.''"

definition verificationUsed :: exn where
  "verificationUsed = UnauthorizedError VERIFICATION_TOKEN_USED
     ''This verification link has already been used.''"

definition verificationExpired :: exn where
  "verificationExpired = UnauthorizedError VERIFICATION_TOKEN_EXPIRED
     ''This verification link has expired.''"

definition resetInvalid :: exn where
  "resetInvalid = UnauthorizedError RESET_TOKEN_INVALID ''This password reset link is invalid.''"

definition resetUsed :: exn where
  "resetUsed = UnauthorizedError RESET_TOKEN_USED ''This password reset link has already been used.''"

definition resetExpired :: exn where
  "resetExpired = UnauthorizedError RESET_TOKEN_EXPIRED ''This password reset link has expired.''"

definition tokenInvalid :: exn where
  "tokenInvalid = UnauthorizedError TOKEN_INVALID ''Invalid or malformed token.''"

definition tokenExpired :: exn where
  "tokenExpired = UnauthorizedError TOKEN_EXPIRED ''Your session has expired. Please sign in again.''"

lemmas auth_error_defs = emailInUse_def invalidCredentials_def refreshTokenInvalid_def
  authUserNotFound_def verificationInvalid_def verificationUsed_def verificationExpired_def
  resetInvalid_def resetUsed_def resetExpired_def tokenInvalid_def tokenExpired_def

lemma auth_errors [simp]:
  "\<not> db_exn emailInUse" "\<not> db_exn invalidCredentials" "\<not> db_exn refreshTokenInvalid"
  "\<not> db_exn authUserNotFound" "\<not> db_exn verificationInvalid" "\<not> db_exn verificationUsed"
  "\<not> db_exn verificationExpired" "\<not> db_exn resetInvalid" "\<not> db_exn resetUsed"
  "\<not> db_exn resetExpired" "\<not> db_exn tokenInvalid" "\<not> db_exn tokenExpired"
  by (simp_all add: auth_error_defs error_class_defs)

definition refreshTokenExpiry :: "env \<Rightarrow> AuthConfig \<Rightarrow> (('d, 'r, 'm) world, int) act" where
  "refreshTokenExpiry E cf = seq (now E) (\<lambda>t. ret (t + cf_REFRESH_TOKEN_TTL_DAYS cf * MS_PER_DAY))"

definition verificationTokenExpiry :: "env \<Rightarrow> AuthConfig \<Rightarrow> (('d, 'r, 'm) world, int) act" where
  "verificationTokenExpiry E cf =
     seq (now E) (\<lambda>t. ret (t + int (cf_EMAIL_VERIFICATION_TOKEN_TTL_MINUTES cf) * MS_PER_MINUTE))"

definition passwordResetTokenExpiry :: "env \<Rightarrow> AuthConfig \<Rightarrow> (('d, 'r, 'm) world, int) act" where
  "passwordResetTokenExpiry E cf =
     seq (now E) (\<lambda>t. ret (t + int (cf_PASSWORD_RESET_TOKEN_TTL_MINUTES cf) * MS_PER_MINUTE))"

definition signToken :: "crypto \<Rightarrow> AuthConfig \<Rightarrow> SafeUser \<Rightarrow> (('d, 'r, 'm) world, string) act" where
  "signToken K cf user = draw (\<lambda>n. cr_jwtSign K n (cf_JWT_SECRET cf) (cf_JWT_EXPIRES_IN cf)
     (JObject [(''sub'', JString (sf_id user)), (''email'', JString (sf_email user))]))"

text \<open>\<open>encodeURIComponent\<close>, on strings of one-byte code points (UTF-8 takes two bytes above 127).\<close>

definition uri_unreserved :: "char \<Rightarrow> bool" where
  "uri_unreserved c \<longleftrightarrow> is_alnum c \<or>
     c \<in> {CHR ''-'', CHR ''_'', CHR ''.'', CHR ''!'', CHR ''~'', CHR ''*'', CHR 0x27, CHR ''('', CHR '')''}"

definition hex_digit :: "nat \<Rightarrow> char" where
  "hex_digit n = (if n < 10 then char_of (48 + n) else char_of (55 + n))"

definition percent_byte :: "nat \<Rightarrow> string" where
  "percent_byte n = [CHR ''%'', hex_digit (n div 16), hex_digit (n mod 16)]"

definition encodeURIComponent :: "string \<Rightarrow> string" where
  "encodeURIComponent s = concat (map (\<lambda>c. let n = of_char c :: nat in
     if uri_unreserved c then [c]
     else if n < 128 then percent_byte n
     else percent_byte (192 + n div 64) @ percent_byte (128 + n mod 64)) s)"

definition appBaseUrl :: "AuthConfig \<Rightarrow> string" where
  "appBaseUrl cf = rev (dropWhile (\<lambda>c. c = CHR ''/'') (rev (cf_APP_BASE_URL cf)))"

definition emailVerificationUrl :: "AuthConfig \<Rightarrow> string \<Rightarrow> string" where
  "emailVerificationUrl cf token = appBaseUrl cf @ ''/verify-email?token='' @ encodeURIComponent token"

definition passwordResetUrl :: "AuthConfig \<Rightarrow> string \<Rightarrow> string" where
  "passwordResetUrl cf token = appBaseUrl cf @ ''/reset-password?token='' @ encodeURIComponent token"

definition trySendVerificationEmail ::
  "'m mailer \<Rightarrow> AuthConfig \<Rightarrow> SafeUser \<Rightarrow> string \<Rightarrow> (('d, 'r, 'm) world, unit) act" where
  "trySendVerificationEmail M cf user rawToken =
     catch (sendVerificationEmail M cf (sf_email user) (emailVerificationUrl cf rawToken) (sf_name user))
       (\<lambda>_. ret ())"

definition trySendPasswordResetEmail ::
  "'m mailer \<Rightarrow> AuthConfig \<Rightarrow> SafeUser \<Rightarrow> string \<Rightarrow> (('d, 'r, 'm) world, unit) act" where
  "trySendPasswordResetEmail M cf user rawToken =
     catch (sendPasswordResetEmail M cf (sf_email user) (passwordResetUrl cf rawToken) (sf_name user))
       (\<lambda>_. ret ())"

text \<open>The comparison that only spends time.\<close>

definition dummyAuthWork :: "crypto \<Rightarrow> (('d, 'r, 'm) world, unit) act" where
  "dummyAuthWork K = seq (generateAuthToken K) (\<lambda>_. ret ())"

definition issueRefreshToken ::
  "'d prisma \<Rightarrow> env \<Rightarrow> crypto \<Rightarrow> AuthConfig \<Rightarrow> string \<Rightarrow> (('d, 'r, 'm) world, string) act" where
  "issueRefreshToken P E K cf uid =
     seq (generateRefreshToken K) (\<lambda>rawToken.
     seq (refreshTokenExpiry E cf) (\<lambda>expiresAt.
     seq (createRefreshToken P (new_session uid (hashRefreshToken E rawToken) expiresAt)) (\<lambda>_.
     ret rawToken)))"

definition register ::
  "'d prisma \<Rightarrow> env \<Rightarrow> crypto \<Rightarrow> 'm mailer \<Rightarrow> AuthConfig \<Rightarrow> string \<Rightarrow> string \<Rightarrow> string \<Rightarrow>
   (('d, 'r, 'm) world, AuthResult) act" where
  "register P E K M cf name email password =
     seq (findByEmail P email) (\<lambda>existing.
     seq (guard (existing = None) emailInUse) (\<lambda>_.
     seq (draw (\<lambda>n. cr_bcryptHash K n password)) (\<lambda>passwordHash.
     seq (generateRefreshToken K) (\<lambda>refreshToken.
     seq (generateAuthToken K) (\<lambda>verificationToken.
     seq (refreshTokenExpiry E cf) (\<lambda>refreshExpires.
     seq (verificationTokenExpiry E cf) (\<lambda>verificationExpires.
     seq (createUserWithAuthData P
            \<lparr>ca_name = name, ca_email = email, ca_passwordHash = passwordHash,
             ca_refreshTokenHash = hashRefreshToken E refreshToken,
             ca_refreshTokenExpiresAt = refreshExpires,
             ca_verificationTokenHash = hashAuthToken E verificationToken,
             ca_verificationTokenExpiresAt = verificationExpires\<rparr>) (\<lambda>user.
     seq (metric usersRegisteredTotal []) (\<lambda>_.
     seq (trySendVerificationEmail M cf user verificationToken) (\<lambda>_.
     seq (signToken K cf user) (\<lambda>token.
     ret \<lparr>ar_user = user, ar_token = token, ar_refreshToken = refreshToken\<rparr>)))))))))))"

text \<open>\<open>!user || !user.passwordHash\<close>\<close>

definition with_password :: "User row option \<Rightarrow> (User row \<times> string) option" where
  "with_password x = (case x of None \<Rightarrow> None
     | Some user \<Rightarrow> (case us_passwordHash (row_data user) of None \<Rightarrow> None
         | Some h \<Rightarrow> if h = [] then None else Some (user, h)))"

lemma with_password_Some:
  "with_password x = Some (u, h) \<longleftrightarrow> x = Some u \<and> us_passwordHash (row_data u) = Some h \<and> h \<noteq> []"
  by (auto simp: with_password_def split: option.splits)

definition login ::
  "'d prisma \<Rightarrow> env \<Rightarrow> crypto \<Rightarrow> AuthConfig \<Rightarrow> string \<Rightarrow> string \<Rightarrow> (('d, 'r, 'm) world, AuthResult) act" where
  "login P E K cf email password =
     seq (findByEmail P email) (\<lambda>x.
     seq (need (with_password x) invalidCredentials) (\<lambda>(user, passwordHash).
     seq (guard (cr_bcryptCompare K password passwordHash) invalidCredentials) (\<lambda>_.
     seq (issueRefreshToken P E K cf (row_id user)) (\<lambda>refreshToken.
     seq (signToken K cf (safeUser user)) (\<lambda>token.
     ret \<lparr>ar_user = safeUser user, ar_token = token, ar_refreshToken = refreshToken\<rparr>)))))"

definition refresh ::
  "'d prisma \<Rightarrow> env \<Rightarrow> crypto \<Rightarrow> AuthConfig \<Rightarrow> string \<Rightarrow> (('d, 'r, 'm) world, AuthResult) act" where
  "refresh P E K cf refreshToken =
     seq (findRefreshTokenByHash P (hashRefreshToken E refreshToken)) (\<lambda>x.
     seq (need x refreshTokenInvalid) (\<lambda>(record, user).
     seq (guard (rt_revokedAt (row_data record) = None) refreshTokenInvalid) (\<lambda>_.
     seq (now E) (\<lambda>t.
     seq (guard (t < rt_expiresAt (row_data record)) refreshTokenInvalid) (\<lambda>_.
     seq (generateRefreshToken K) (\<lambda>nextToken.
     seq (refreshTokenExpiry E cf) (\<lambda>expiresAt.
     seq (rotateRefreshToken P E (row_id record)
            (new_session (rt_userId (row_data record)) (hashRefreshToken E nextToken) expiresAt)) (\<lambda>rotated.
     seq (need rotated refreshTokenInvalid) (\<lambda>_.
     seq (signToken K cf user) (\<lambda>token.
     ret \<lparr>ar_user = user, ar_token = token, ar_refreshToken = nextToken\<rparr>))))))))))"

definition logout ::
  "'d prisma \<Rightarrow> env \<Rightarrow> string \<Rightarrow> (('d, 'r, 'm) world, string) act" where
  "logout P E refreshToken =
     seq (findRefreshTokenByHash P (hashRefreshToken E refreshToken)) (\<lambda>x.
     seq (case x of None \<Rightarrow> ret ()
          | Some (record, _) \<Rightarrow> seq (revokeRefreshTokenById P E (row_id record)) (\<lambda>_. ret ())) (\<lambda>_.
     ret ''Signed out successfully.''))"

definition getMe :: "'d prisma \<Rightarrow> string \<Rightarrow> (('d, 'r, 'm) world, SafeUser) act" where
  "getMe P uid =
     seq (findById P uid) (\<lambda>x.
     seq (need x authUserNotFound) (\<lambda>user.
     ret (safeUser user)))"

text \<open>\<open>if (data.email)\<close>: an absent or empty address is not looked up.\<close>

definition updateCurrentUser ::
  "'d prisma \<Rightarrow> string \<Rightarrow> string option \<Rightarrow> string option \<Rightarrow> (('d, 'r, 'm) world, SafeUser) act" where
  "updateCurrentUser P uid name email =
     seq (findById P uid) (\<lambda>x.
     seq (need x authUserNotFound) (\<lambda>user.
     seq (case email of
            None \<Rightarrow> ret ()
          | Some e \<Rightarrow>
              if e = [] then ret ()
              else seq (findByEmail P e) (\<lambda>existing.
                guard (case existing of None \<Rightarrow> True | Some other \<Rightarrow> row_id other = uid) emailInUse)) (\<lambda>_.
     let emailChanged = (case email of None \<Rightarrow> False
           | Some e \<Rightarrow> js_toLowerCase e \<noteq> js_toLowerCase (us_email (row_data user))) in
     seq (AuthRepository_update P uid
            \<lparr>pa_name = name, pa_email = email,
             pa_emailVerifiedAt = (if emailChanged then Some None else None)\<rparr>) (\<lambda>updated.
     need updated authUserNotFound))))"

definition verifyEmailAddress ::
  "'d prisma \<Rightarrow> env \<Rightarrow> string \<Rightarrow> (('d, 'r, 'm) world, string) act" where
  "verifyEmailAddress P E token =
     seq (findAuthTokenByHash P (hashAuthToken E token)) (\<lambda>x.
     seq (now E) (\<lambda>t.
     seq (need x verificationInvalid) (\<lambda>record.
     seq (guard (at_purpose (row_data record) = EMAIL_VERIFICATION) verificationInvalid) (\<lambda>_.
     seq (guard (at_consumedAt (row_data record) = None) verificationUsed) (\<lambda>_.
     seq (guard (t < at_expiresAt (row_data record)) verificationExpired) (\<lambda>_.
     seq (consumeVerificationTokenAndVerifyUser P (row_id record) (at_userId (row_data record)) t) (\<lambda>verified.
     seq (need verified verificationUsed) (\<lambda>_.
     ret ''Email verified successfully.''))))))))"

definition resendVerification ::
  "'d prisma \<Rightarrow> env \<Rightarrow> crypto \<Rightarrow> 'm mailer \<Rightarrow> AuthConfig \<Rightarrow> string \<Rightarrow> (('d, 'r, 'm) world, string) act" where
  "resendVerification P E K M cf email =
     seq (findByEmail P email) (\<lambda>x.
     case x of
       None \<Rightarrow> seq (dummyAuthWork K) (\<lambda>_. ret GENERIC_VERIFICATION_MESSAGE)
     | Some user \<Rightarrow>
         if us_emailVerifiedAt (row_data user) \<noteq> None then ret GENERIC_VERIFICATION_MESSAGE
         else
           seq (generateAuthToken K) (\<lambda>token.
           seq (verificationTokenExpiry E cf) (\<lambda>expiresAt.
           seq (createAuthToken P (new_auth_token (row_id user) EMAIL_VERIFICATION
                  (hashAuthToken E token) expiresAt)) (\<lambda>_.
           seq (trySendVerificationEmail M cf (safeUser user) token) (\<lambda>_.
           ret GENERIC_VERIFICATION_MESSAGE)))))"

definition requestPasswordReset ::
  "'d prisma \<Rightarrow> env \<Rightarrow> crypto \<Rightarrow> 'm mailer \<Rightarrow> AuthConfig \<Rightarrow> string \<Rightarrow> (('d, 'r, 'm) world, string) act" where
  "requestPasswordReset P E K M cf email =
     seq (findByEmail P email) (\<lambda>x.
     case x of
       None \<Rightarrow> seq (dummyAuthWork K) (\<lambda>_. ret GENERIC_RESET_MESSAGE)
     | Some user \<Rightarrow>
         seq (generateAuthToken K) (\<lambda>token.
         seq (passwordResetTokenExpiry E cf) (\<lambda>expiresAt.
         seq (createAuthToken P (new_auth_token (row_id user) PASSWORD_RESET
                (hashAuthToken E token) expiresAt)) (\<lambda>_.
         seq (trySendPasswordResetEmail M cf (safeUser user) token) (\<lambda>_.
         ret GENERIC_RESET_MESSAGE)))))"

definition resetUserPassword ::
  "'d prisma \<Rightarrow> env \<Rightarrow> crypto \<Rightarrow> string \<Rightarrow> string \<Rightarrow> (('d, 'r, 'm) world, string) act" where
  "resetUserPassword P E K token newPassword =
     seq (findAuthTokenByHash P (hashAuthToken E token)) (\<lambda>x.
     seq (now E) (\<lambda>t.
     seq (need x resetInvalid) (\<lambda>record.
     seq (guard (at_purpose (row_data record) = PASSWORD_RESET) resetInvalid) (\<lambda>_.
     seq (guard (at_consumedAt (row_data record) = None) resetUsed) (\<lambda>_.
     seq (guard (t < at_expiresAt (row_data record)) resetExpired) (\<lambda>_.
     seq (draw (\<lambda>n. cr_bcryptHash K n newPassword)) (\<lambda>passwordHash.
     seq (consumePasswordResetTokenAndUpdatePassword P (row_id record) (at_userId (row_data record))
            passwordHash t) (\<lambda>updated.
     seq (need updated resetUsed) (\<lambda>_.
     ret ''Your password has been reset. Please sign in with your new password.'')))))))))"

definition nonempty_string :: "json option \<Rightarrow> string option" where
  "nonempty_string v = (case v of Some (JString s) \<Rightarrow> if s = [] then None else Some s | _ \<Rightarrow> None)"

definition verifyToken ::
  "crypto \<Rightarrow> AuthConfig \<Rightarrow> string \<Rightarrow> (('d, 'r, 'm) world, string \<times> string) act" where
  "verifyToken K cf token =
     seq (draw (\<lambda>n. cr_jwtVerify K n (cf_JWT_SECRET cf) token)) (\<lambda>outcome.
     case outcome of
       JwtExpired \<Rightarrow> throw tokenExpired
     | JwtRejected \<Rightarrow> throw tokenInvalid
     | JwtPayload payload \<Rightarrow>
         (case (nonempty_string (json_field payload ''sub''), nonempty_string (json_field payload ''email'')) of
            (Some sub, Some email) \<Rightarrow> ret (sub, email)
          | _ \<Rightarrow> throw tokenInvalid))"

section \<open>Sessions\<close>

text \<open>
  \<open>spent t h\<close>: the refresh token with this digest is on record and revoked. \<open>sessions_ok\<close>: no
  two sessions share a digest, which the unique constraint keeps.
\<close>

definition spent :: "tables \<Rightarrow> string \<Rightarrow> bool" where
  "spent t h \<longleftrightarrow> (\<exists>r\<in>set (refreshTokens t). rt_tokenHash (row_data r) = h) \<and>
     (\<forall>r\<in>set (refreshTokens t). rt_tokenHash (row_data r) = h \<longrightarrow> rt_revokedAt (row_data r) \<noteq> None)"

definition sessions_ok :: "tables \<Rightarrow> bool" where
  "sessions_ok t \<longleftrightarrow> distinct (map (\<lambda>r. rt_tokenHash (row_data r)) (refreshTokens t))"

text \<open>The token a link carries, as the checks of both services accept it.\<close>

definition link_ok :: "tables \<Rightarrow> AuthTokenPurpose \<Rightarrow> string \<Rightarrow> int \<Rightarrow> AuthToken row \<Rightarrow> bool" where
  "link_ok t purpose h now_ms r \<longleftrightarrow> r \<in> set (authTokens t) \<and> at_tokenHash (row_data r) = h \<and>
     at_purpose (row_data r) = purpose \<and> at_consumedAt (row_data r) = None \<and>
     now_ms < at_expiresAt (row_data r)"

lemma spent_updates [simp]:
  "spent (users_update f t) h = spent t h" "spent (authTokens_update g t) h = spent t h"
  by (simp_all add: spent_def)

lemma spent_append:
  "spent t h \<Longrightarrow> rt_tokenHash (row_data r) \<noteq> h \<Longrightarrow> spent (refreshTokens_update (\<lambda>rs. rs @ [r]) t) h"
  by (auto simp: spent_def)

lemma spent_revoke:
  "spent t h \<Longrightarrow> spent (refreshTokens_update (map (touched p (revoke_at s) stamp)) t) h"
  by (auto simp: spent_def row_data_touched revoke_at_def)

text \<open>
  What the auth requests keep: an invariant that does not look at the users and at the tokens of
  links, that survives the revocation of sessions, and a new session with a fresh digest.
\<close>

definition auth_invariant :: "(tables \<Rightarrow> bool) \<Rightarrow> bool" where
  "auth_invariant I \<longleftrightarrow> (\<forall>t f. I (users_update f t) = I t) \<and> (\<forall>t f. I (authTokens_update f t) = I t) \<and>
     (\<forall>t p s stamp. I t \<longrightarrow> I (refreshTokens_update (map (touched p (revoke_at s) stamp)) t)) \<and>
     (\<forall>t c r. I t \<longrightarrow> inserted (refreshTokens t) clash_RefreshToken refs_RefreshToken t c r \<longrightarrow>
        I (refreshTokens_update (\<lambda>rs. rs @ [r]) t))"

lemma auth_invariantD:
  assumes "auth_invariant I"
  shows "I (users_update f t) = I t" "I (authTokens_update g t) = I t"
    and "I t \<Longrightarrow> I (refreshTokens_update (map (touched p (revoke_at s) stamp)) t)"
    and "I t \<Longrightarrow> inserted (refreshTokens t) clash_RefreshToken refs_RefreshToken t c r \<Longrightarrow>
      I (refreshTokens_update (\<lambda>rs. rs @ [r]) t)"
  using assms by (auto simp: auth_invariant_def)

lemma auth_invariant_other:
  assumes "\<And>t f. I (users_update f t) = I t" "\<And>t f. I (authTokens_update f t) = I t"
    and "\<And>t f. I (refreshTokens_update f t) = I t"
  shows "auth_invariant I"
  using assms by (simp add: auth_invariant_def)

lemma auth_invariant_spent: "auth_invariant (\<lambda>t. spent t h)"
  unfolding auth_invariant_def using spent_append spent_revoke
  by (auto simp: inserted_def clash_RefreshToken_def spent_def)

lemma tokenHash_revoked [simp]:
  "rt_tokenHash (row_data (touched p (revoke_at s) stamp r)) = rt_tokenHash (row_data r)"
  by (simp add: row_data_touched revoke_at_def)

lemma auth_invariant_sessions: "auth_invariant sessions_ok"
  by (auto simp: auth_invariant_def sessions_ok_def inserted_def clash_RefreshToken_def comp_def)

context prisma
begin

lemma keeps_auth_statements [keep_intros]:
  assumes "auth_invariant I"
  shows "keeps (on_db (\<lambda>d. I (T d))) (db_do (dg_create (p_refreshToken P) data))"
    and "keeps (on_db (\<lambda>d. I (T d))) (db_do (dg_updateMany (p_refreshToken P) p (revoke_at s)))"
    and "keeps (on_db (\<lambda>d. I (T d))) (db_do (dg_create (p_user P) u))"
    and "keeps (on_db (\<lambda>d. I (T d))) (db_do (dg_update (p_user P) q f))"
    and "keeps (on_db (\<lambda>d. I (T d))) (db_do (dg_updateMany (p_user P) q f))"
    and "keeps (on_db (\<lambda>d. I (T d))) (db_do (dg_create (p_authToken P) a))"
    and "keeps (on_db (\<lambda>d. I (T d))) (db_do (dg_updateMany (p_authToken P) b g))"
    and "keeps (on_db (\<lambda>d. I (T d))) (db_do (dg_deleteMany (p_authToken P) b))"
    and "keeps (on_db (\<lambda>d. I (T d))) (db_do (dg_findUnique (p_user P) q))"
    and "keeps (on_db (\<lambda>d. I (T d))) (db_do (dg_findUnique (p_authToken P) b))"
    and "keeps (on_db (\<lambda>d. I (T d))) (db_do (dg_findUnique (p_refreshToken P) p))"
  by (intro keeps_db_do rtk.keeps_create rtk.keeps_update usr.keeps_create usr.keeps_update
      atk.keeps_create atk.keeps_update atk.keeps_deleteMany usr.keeps_reads atk.keeps_reads
      rtk.keeps_reads; (simp add: auth_invariantD [OF assms] cascade_none_def)?;
      (erule auth_invariantD(4) [OF assms])?)+

lemma keeps_in_transaction:
  assumes "keeps (on_db (\<lambda>d. I (T d))) body"
  shows "keeps (on_db (\<lambda>d. I (T d))) (in_transaction P body)"
  by (rule keeps_transaction) (use assms in \<open>auto simp: on_db_def dest: keepsD\<close>)

lemma keeps_draw [keep_intros]: "keeps (on_db I) (draw f)"
  by (simp add: keeps_def draw_def)

lemma keeps_mail [keep_intros]: "keeps (on_db I) (mail_do f)"
  by (auto simp: keeps_def on_db_def mail_do_def split: prod.split)

lemma keeps_prod [keep_intros]:
  "(\<And>a b. keeps I (f a b)) \<Longrightarrow> keeps I (case x of (a, b) \<Rightarrow> f a b)"
  by (cases x) simp

lemmas auth_tx_defs = rotateRefreshTokenTx_def createUserTx_def createAuthTokenTx_def
  consumeVerificationTx_def consumePasswordResetTx_def revokeRefreshTokenById_def

lemma keeps_auth_transactions [keep_intros]:
  assumes "auth_invariant I"
  shows "keeps (on_db (\<lambda>d. I (T d))) (revokeRefreshTokenById P E i)"
  "keeps (on_db (\<lambda>d. I (T d))) (rotateRefreshToken P E i data)"
  "keeps (on_db (\<lambda>d. I (T d))) (createUserWithAuthData P cu)"
  "keeps (on_db (\<lambda>d. I (T d))) (createAuthToken P at_data)"
  "keeps (on_db (\<lambda>d. I (T d))) (consumeVerificationTokenAndVerifyUser P i uid t)"
  "keeps (on_db (\<lambda>d. I (T d))) (consumePasswordResetTokenAndUpdatePassword P i uid pw t)"
  unfolding rotateRefreshToken_def createUserWithAuthData_def createAuthToken_def
    consumeVerificationTokenAndVerifyUser_def consumePasswordResetTokenAndUpdatePassword_def
    auth_tx_defs
  by (intro keeps_in_transaction keep_intros assms)+

lemmas auth_step_defs = findByEmail_def findById_def findRefreshTokenByHash_def findAuthTokenByHash_def
  createRefreshToken_def AuthRepository_update_def generateRefreshToken_def generateAuthToken_def
  refreshTokenExpiry_def verificationTokenExpiry_def passwordResetTokenExpiry_def signToken_def
  trySendVerificationEmail_def trySendPasswordResetEmail_def sendVerificationEmail_def
  sendPasswordResetEmail_def dispatch_def dummyAuthWork_def issueRefreshToken_def

text \<open>Such an invariant, for example that a refresh token is spent, survives every request.\<close>

lemma keeps_auth:
  assumes "auth_invariant I"
  shows
  "keeps (on_db (\<lambda>d. I (T d))) (register P E K M cf name email pw)"
  "keeps (on_db (\<lambda>d. I (T d))) (login P E K cf email pw)"
  "keeps (on_db (\<lambda>d. I (T d))) (refresh P E K cf tok)"
  "keeps (on_db (\<lambda>d. I (T d))) (logout P E tok)"
  "keeps (on_db (\<lambda>d. I (T d))) (updateCurrentUser P uid nm em)"
  "keeps (on_db (\<lambda>d. I (T d))) (verifyEmailAddress P E tok)"
  "keeps (on_db (\<lambda>d. I (T d))) (resendVerification P E K M cf email)"
  "keeps (on_db (\<lambda>d. I (T d))) (requestPasswordReset P E K M cf email)"
  "keeps (on_db (\<lambda>d. I (T d))) (resetUserPassword P E K tok pw)"
  unfolding register_def login_def refresh_def logout_def updateCurrentUser_def
    verifyEmailAddress_def resendVerification_def requestPasswordReset_def resetUserPassword_def
    auth_step_defs Let_def
  by (intro keep_intros keeps_includeUser assms)+

lemma findRefreshTokenByHash_Inr:
  assumes "findRefreshTokenByHash P h w = (Inr (Some (r, u)), w')"
  shows "T (w_db w') = T (w_db w) \<and> r \<in> set (refreshTokens (T (w_db w))) \<and>
    rt_tokenHash (row_data r) = h \<and> sf_id u = rt_userId (row_data r) \<and> only_tables w w'"
proof -
  from assms obtain d where
      f: "dg_findUnique (p_refreshToken P) (\<lambda>r. rt_tokenHash (row_data r) = h) (w_db w) = (Inr (Some r), d)"
    and u: "includeUser P (rt_userId (row_data r)) (w\<lparr>w_db := d\<rparr>) = (Inr u, w')"
    by (auto simp: findRefreshTokenByHash_def act_simps split: option.splits)
  from rtk.findUnique_Some [OF f] includeUser_Inr [OF u] show ?thesis by simp
qed

lemma refreshTokenExpiry_Inr:
  "refreshTokenExpiry E cf w = (Inr x, w') \<Longrightarrow>
     x = clock E (w_tick w) + cf_REFRESH_TOKEN_TTL_DAYS cf * MS_PER_DAY \<and> w_db w' = w_db w"
  by (auto simp: refreshTokenExpiry_def act_simps)

lemma silent_auth [silent_intros]:
  "silent T (findRefreshTokenByHash P h)" "silent T (refreshTokenExpiry E cf)"
  "silent T (signToken K cf u)" "silent T (generateRefreshToken K)" "silent T (generateAuthToken K)"
  "silent T (findByEmail P email)" "silent T (findById P uid)" "silent T (findAuthTokenByHash P h)"
  "silent T (verificationTokenExpiry E cf)" "silent T (passwordResetTokenExpiry E cf)"
  "silent T (dummyAuthWork K)"
  unfolding auth_step_defs by (intro silent_intros silent_includeUser)+

lemma silent_dispatch [silent_intros]: "silent T (dispatch M cf operation recipient rendered)"
  unfolding silent_def using dispatch_run by metis

lemma silent_caught: "silent T m \<Longrightarrow> (\<And>e. silent T (h e)) \<Longrightarrow> silent T (catch m h)"
  unfolding silent_def catch_def by (auto split: prod.splits sum.splits)

lemma silent_trySend [silent_intros]:
  "silent T (trySendVerificationEmail M cf u tok)" "silent T (trySendPasswordResetEmail M cf u tok)"
  unfolding trySendVerificationEmail_def trySendPasswordResetEmail_def sendVerificationEmail_def
    sendPasswordResetEmail_def
  by (simp_all add: silent_caught silent_dispatch silent_basic)

lemma rotateRefreshToken_Inr:
  assumes "rotateRefreshToken P E i data w = (Inr (Some r), w')"
  shows "\<exists>at_ms stamp. row_data r = data \<and>
    (\<exists>r0\<in>set (refreshTokens (T (w_db w))). active_id i r0) \<and>
    (\<forall>r'\<in>set (refreshTokens (T (w_db w))). rt_tokenHash (row_data r') \<noteq> rt_tokenHash data) \<and>
    T (w_db w') = refreshTokens_update (\<lambda>rs. map (touched (active_id i) (revoke_at at_ms) stamp) rs @ [r])
      (T (w_db w))"
proof -
  from assms obtain w1 where body: "rotateRefreshTokenTx P E i data w = (Inr (Some r), w1)"
    and t: "T (w_db w') = T (w_db w1)"
    unfolding rotateRefreshToken_def by (rule in_transaction_Inr)
  then obtain n d1 d2 where
      up: "dg_updateMany (p_refreshToken P) (active_id i) (revoke_at (clock E (w_tick w))) (w_db w) = (Inr n, d1)"
    and n: "n \<noteq> 0"
    and cr: "dg_create (p_refreshToken P) data d1 = (Inr r, d2)" and w1: "w_db w1 = d2"
    by (auto simp: rotateRefreshTokenTx_def revokeRefreshTokenById_def act_simps split: if_splits)
  from rtk.updateMany_Inr [OF up] obtain stamp where
      len: "n = length (filter (active_id i) (refreshTokens (T (w_db w))))"
    and d1: "T d1 = refreshTokens_update (map (touched (active_id i) (revoke_at (clock E (w_tick w))) stamp)) (T (w_db w))"
    by blast
  have ex: "\<exists>r0\<in>set (refreshTokens (T (w_db w))). active_id i r0"
    using n len by (metis (no_types, lifting) filter_empty_conv list.size(3))
  have ins: "inserted (refreshTokens (T d1)) clash_RefreshToken refs_RefreshToken (T d1) data r"
    and d2: "T d2 = refreshTokens_update (\<lambda>rs. rs @ [r]) (T d1)"
    using rtk.create_Inr [OF cr] by simp_all
  have fresh: "rt_tokenHash (row_data r') \<noteq> rt_tokenHash data"
    if "r' \<in> set (refreshTokens (T (w_db w)))" for r'
  proof -
    have "touched (active_id i) (revoke_at (clock E (w_tick w))) stamp r' \<in> set (refreshTokens (T d1))"
      using that d1 by simp
    then have "rt_tokenHash (row_data (touched (active_id i) (revoke_at (clock E (w_tick w))) stamp r')) \<noteq>
        rt_tokenHash data"
      using ins by (auto simp: inserted_def clash_RefreshToken_def)
    then show ?thesis by (simp add: row_data_touched revoke_at_def split: if_splits)
  qed
  have "T (w_db w') = refreshTokens_update (\<lambda>rs. map (touched (active_id i)
      (revoke_at (clock E (w_tick w))) stamp) rs @ [r]) (T (w_db w))"
    using t w1 d2 d1 by (simp add: comp_def)
  then show ?thesis using ex fresh ins by (auto simp: inserted_def)
qed

text \<open>A successful refresh: the session it was asked for is over, and one new session replaces it.\<close>

lemma refresh_Inr:
  fixes w :: "('d, 'r, 'm) world"
  assumes "refresh P E K cf tok w = (Inr res, w')"
  shows "\<exists>r new at_ms stamp i. r \<in> set (refreshTokens (T (w_db w))) \<and>
    rt_tokenHash (row_data r) = sha256 E tok \<and> rt_revokedAt (row_data r) = None \<and>
    clock E i < rt_expiresAt (row_data r) \<and> sf_id (ar_user res) = rt_userId (row_data r) \<and>
    rt_userId (row_data new) = rt_userId (row_data r) \<and> rt_revokedAt (row_data new) = None \<and>
    rt_tokenHash (row_data new) = sha256 E (ar_refreshToken res) \<and>
    (\<forall>r'\<in>set (refreshTokens (T (w_db w))). rt_tokenHash (row_data r') \<noteq> rt_tokenHash (row_data new)) \<and>
    T (w_db w') = refreshTokens_update (\<lambda>rs. map (touched (active_id (row_id r)) (revoke_at at_ms) stamp) rs @ [new])
      (T (w_db w))"
proof -
  from assms obtain r u w1 nxt w2 x w3 new w4 token where
      f: "findRefreshTokenByHash P (hashRefreshToken E tok) w = (Inr (Some (r, u)), w1)"
    and ok: "rt_revokedAt (row_data r) = None" "clock E (w_tick w1) < rt_expiresAt (row_data r)"
    and g: "generateRefreshToken K (w1\<lparr>w_tick := Suc (w_tick w1)\<rparr>) = (Inr nxt, w2)"
    and ex: "refreshTokenExpiry E cf w2 = (Inr x, w3)"
    and rot: "rotateRefreshToken P E (row_id r)
       (new_session (rt_userId (row_data r)) (hashRefreshToken E nxt) x) w3 = (Inr (Some new), w4)"
    and s: "signToken K cf u w4 = (Inr token, w')"
    and res: "res = \<lparr>ar_user = u, ar_token = token, ar_refreshToken = nxt\<rparr>"
    by (auto simp: refresh_def act_simps split: prod.splits)
  have fr: "T (w_db w1) = T (w_db w)" "r \<in> set (refreshTokens (T (w_db w)))"
    "rt_tokenHash (row_data r) = sha256 E tok" "sf_id u = rt_userId (row_data r)"
    using findRefreshTokenByHash_Inr [OF f] by (simp_all add: hashRefreshToken_def)
  have t3: "T (w_db w3) = T (w_db w)"
    using refreshTokenExpiry_Inr [OF ex] g fr(1) by (auto simp: generateRefreshToken_def act_simps)
  have t': "T (w_db w') = T (w_db w4)" using s by (auto simp: signToken_def act_simps)
  from rotateRefreshToken_Inr [OF rot] obtain at_ms stamp where
      "row_data new = new_session (rt_userId (row_data r)) (hashRefreshToken E nxt) x"
    and "\<forall>r'\<in>set (refreshTokens (T (w_db w))). rt_tokenHash (row_data r') \<noteq> sha256 E nxt"
    and "T (w_db w4) = refreshTokens_update (\<lambda>rs. map (touched (active_id (row_id r)) (revoke_at at_ms) stamp) rs @ [new])
      (T (w_db w))"
    unfolding t3 by (auto simp: new_session_def hashRefreshToken_def)
  then show ?thesis using ok fr t' res
    by (intro exI [of _ r] exI [of _ new] exI [of _ at_ms] exI [of _ stamp] exI [of _ "w_tick w1"])
      (simp add: new_session_def hashRefreshToken_def)
qed

lemma refresh_spends:
  assumes run: "refresh P E K cf tok w = (Inr res, w')" and ok: "sessions_ok (T (w_db w))"
  shows "spent (T (w_db w')) (sha256 E tok)"
proof -
  from refresh_Inr [OF run] obtain r new at_ms stamp where
      r: "r \<in> set (refreshTokens (T (w_db w)))" "rt_tokenHash (row_data r) = sha256 E tok"
         "rt_revokedAt (row_data r) = None"
    and new: "\<forall>r'\<in>set (refreshTokens (T (w_db w))). rt_tokenHash (row_data r') \<noteq> rt_tokenHash (row_data new)"
    and t: "T (w_db w') = refreshTokens_update (\<lambda>rs. map (touched (active_id (row_id r)) (revoke_at at_ms) stamp) rs @ [new])
      (T (w_db w))"
    by blast
  have "\<forall>r'\<in>set (refreshTokens (T (w_db w))). rt_tokenHash (row_data r') = sha256 E tok \<longrightarrow> r' = r"
    using ok r by (auto simp: sessions_ok_def distinct_map inj_on_def)
  then have all: "rt_revokedAt (row_data (touched (active_id (row_id r)) (revoke_at at_ms) stamp r')) \<noteq> None"
    if "r' \<in> set (refreshTokens (T (w_db w)))" "rt_tokenHash (row_data r') = sha256 E tok" for r'
    using that r(3) by (simp add: row_data_touched revoke_at_def active_id_def)
  have h: "rt_tokenHash (row_data (touched (active_id (row_id r)) (revoke_at at_ms) stamp r')) =
      rt_tokenHash (row_data r')" for r'
    by (simp add: row_data_touched revoke_at_def)
  show ?thesis unfolding spent_def t using all r(1,2) new by (auto simp: h)
qed

text \<open>A spent token is refused, and refusing it changes nothing.\<close>

lemma spent_refused:
  assumes "spent (T (w_db w)) (sha256 E tok)"
  shows "\<not> (\<exists>res w'. refresh P E K cf tok w = (Inr res, w'))"
proof (intro notI, elim exE)
  fix res w'
  assume "refresh P E K cf tok w = (Inr res, w')"
  from refresh_Inr [OF this] assms show False by (auto simp: spent_def)
qed

subsection \<open>Single-use tokens\<close>

lemma has_id_touched: "has_id i (map (touched p f s) rs) = has_id i rs"
  by (simp add: has_id_def comp_def)

lemma findAuthTokenByHash_Inr:
  assumes "findAuthTokenByHash P h w = (Inr (Some r), w')"
  shows "T (w_db w') = T (w_db w) \<and> r \<in> set (authTokens (T (w_db w))) \<and> at_tokenHash (row_data r) = h"
  using assms atk.findUnique_Some [of "\<lambda>r. at_tokenHash (row_data r) = h" "w_db w"]
  by (auto simp: findAuthTokenByHash_def act_simps)

lemma consumeVerification_Inr:
  assumes "consumeVerificationTokenAndVerifyUser P i uid t w = (Inr (Some u), w')"
  shows "\<exists>s1 s2. T (w_db w') = users_update (map (touched (\<lambda>u. row_id u = uid) (mark_verified t) s2))
      (authTokens_update (map (touched (unconsumed i) (consume_at t) s1)) (T (w_db w))) \<and>
    (\<exists>r\<in>set (authTokens (T (w_db w))). unconsumed i r) \<and> has_id uid (users (T (w_db w)))"
proof -
  from assms obtain w1 where body: "consumeVerificationTx P i uid t w = (Inr (Some u), w1)"
    and T: "T (w_db w') = T (w_db w1)"
    unfolding consumeVerificationTokenAndVerifyUser_def by (rule in_transaction_Inr)
  then obtain n d1 d2 x where
      up: "dg_updateMany (p_authToken P) (unconsumed i) (consume_at t) (w_db w) = (Inr n, d1)"
    and n: "n \<noteq> 0"
    and us: "dg_update (p_user P) (\<lambda>u. row_id u = uid) (mark_verified t) d1 = (Inr x, d2)"
    and w1: "w_db w1 = d2"
    by (auto simp: consumeVerificationTx_def act_simps split: if_splits)
  from atk.updateMany_Inr [OF up] obtain s1 where
      len: "n = length (filter (unconsumed i) (authTokens (T (w_db w))))"
    and d1: "T d1 = authTokens_update (map (touched (unconsumed i) (consume_at t) s1)) (T (w_db w))" by blast
  have "\<exists>r\<in>set (authTokens (T (w_db w))). unconsumed i r"
    using n len by (metis (no_types, lifting) filter_empty_conv list.size(3))
  with usr.update_Inr [OF us] d1 T w1 show ?thesis by (auto simp: has_id_iff)
qed

lemma consumePasswordReset_Inr:
  assumes "consumePasswordResetTokenAndUpdatePassword P i uid pw t w = (Inr (Some u), w')"
  shows "\<exists>s1 s2 s3. T (w_db w') = refreshTokens_update (map (touched (session_of uid) (revoke_at t) s3))
      (users_update (map (touched (\<lambda>u. row_id u = uid) (set_password pw) s2))
        (authTokens_update (map (touched (unconsumed i) (consume_at t) s1)) (T (w_db w)))) \<and>
    (\<exists>r\<in>set (authTokens (T (w_db w))). unconsumed i r) \<and> has_id uid (users (T (w_db w)))"
proof -
  from assms obtain w1 where body: "consumePasswordResetTx P i uid pw t w = (Inr (Some u), w1)"
    and T: "T (w_db w') = T (w_db w1)"
    unfolding consumePasswordResetTokenAndUpdatePassword_def by (rule in_transaction_Inr)
  then obtain n m k d1 d2 d3 d4 x where
      up: "dg_updateMany (p_authToken P) (unconsumed i) (consume_at t) (w_db w) = (Inr n, d1)"
    and n: "n \<noteq> 0"
    and us: "dg_updateMany (p_user P) (\<lambda>u. row_id u = uid) (set_password pw) d1 = (Inr m, d2)"
    and rt: "dg_updateMany (p_refreshToken P) (session_of uid) (revoke_at t) d2 = (Inr k, d3)"
    and fu: "dg_findUnique (p_user P) (\<lambda>u. row_id u = uid) d3 = (Inr (Some x), d4)"
    and w1: "w_db w1 = d4"
    by (auto simp: consumePasswordResetTx_def act_simps split: if_splits)
  from atk.updateMany_Inr [OF up] obtain s1 where
      len: "n = length (filter (unconsumed i) (authTokens (T (w_db w))))"
    and d1: "T d1 = authTokens_update (map (touched (unconsumed i) (consume_at t) s1)) (T (w_db w))" by blast
  from usr.updateMany_Inr [OF us] obtain s2 where
      d2: "T d2 = users_update (map (touched (\<lambda>u. row_id u = uid) (set_password pw) s2)) (T d1)" by blast
  from rtk.updateMany_Inr [OF rt] obtain s3 where
      d3: "T d3 = refreshTokens_update (map (touched (session_of uid) (revoke_at t) s3)) (T d2)" by blast
  have "\<exists>r\<in>set (authTokens (T (w_db w))). unconsumed i r"
    using n len by (metis (no_types, lifting) filter_empty_conv list.size(3))
  moreover have "has_id uid (users (T d3))"
    using usr.findUnique_Some [OF fu] by (auto simp: has_id_iff)
  then have "has_id uid (users (T (w_db w)))" using d1 d2 d3 by (simp add: has_id_touched)
  moreover have "T (w_db w') = T d3" using T w1 usr.findUnique_Some(1) [OF fu] by simp
  ultimately show ?thesis using d1 d2 d3 by (intro exI [of _ s1] exI [of _ s2] exI [of _ s3]) simp
qed

lemma verifyEmailAddress_Inr:
  assumes "verifyEmailAddress P E tok w = (Inr msg, w')"
  shows "\<exists>r i s1 s2. link_ok (T (w_db w)) EMAIL_VERIFICATION (sha256 E tok) (clock E i) r \<and>
    has_id (at_userId (row_data r)) (users (T (w_db w))) \<and>
    T (w_db w') = users_update (map (touched (\<lambda>u. row_id u = at_userId (row_data r)) (mark_verified (clock E i)) s2))
      (authTokens_update (map (touched (unconsumed (row_id r)) (consume_at (clock E i)) s1)) (T (w_db w)))"
proof -
  from assms obtain r w1 u where f: "findAuthTokenByHash P (hashAuthToken E tok) w = (Inr (Some r), w1)"
    and ok: "at_purpose (row_data r) = EMAIL_VERIFICATION" "at_consumedAt (row_data r) = None"
      "clock E (w_tick w1) < at_expiresAt (row_data r)"
    and c: "consumeVerificationTokenAndVerifyUser P (row_id r) (at_userId (row_data r)) (clock E (w_tick w1))
       (w1\<lparr>w_tick := Suc (w_tick w1)\<rparr>) = (Inr (Some u), w')"
    by (auto simp: verifyEmailAddress_def act_simps)
  have fr: "T (w_db w1) = T (w_db w)" "r \<in> set (authTokens (T (w_db w)))" "at_tokenHash (row_data r) = sha256 E tok"
    using findAuthTokenByHash_Inr [OF f] by (simp_all add: hashAuthToken_def)
  from consumeVerification_Inr [OF c] fr ok show ?thesis
    by (intro exI [of _ r] exI [of _ "w_tick w1"]) (auto simp: link_ok_def)
qed

lemma resetUserPassword_Inr:
  assumes "resetUserPassword P E K tok pw w = (Inr msg, w')"
  shows "\<exists>r i n s1 s2 s3. link_ok (T (w_db w)) PASSWORD_RESET (sha256 E tok) (clock E i) r \<and>
    has_id (at_userId (row_data r)) (users (T (w_db w))) \<and>
    T (w_db w') = refreshTokens_update (map (touched (session_of (at_userId (row_data r))) (revoke_at (clock E i)) s3))
      (users_update (map (touched (\<lambda>u. row_id u = at_userId (row_data r)) (set_password (cr_bcryptHash K n pw)) s2))
        (authTokens_update (map (touched (unconsumed (row_id r)) (consume_at (clock E i)) s1)) (T (w_db w))))"
proof -
  from assms obtain r w1 u where f: "findAuthTokenByHash P (hashAuthToken E tok) w = (Inr (Some r), w1)"
    and ok: "at_purpose (row_data r) = PASSWORD_RESET" "at_consumedAt (row_data r) = None"
      "clock E (w_tick w1) < at_expiresAt (row_data r)"
    and c: "consumePasswordResetTokenAndUpdatePassword P (row_id r) (at_userId (row_data r))
       (cr_bcryptHash K (Suc (w_tick w1)) pw) (clock E (w_tick w1))
       (w1\<lparr>w_tick := Suc (Suc (w_tick w1))\<rparr>) = (Inr (Some u), w')"
    by (auto simp: resetUserPassword_def act_simps)
  have fr: "T (w_db w1) = T (w_db w)" "r \<in> set (authTokens (T (w_db w)))" "at_tokenHash (row_data r) = sha256 E tok"
    using findAuthTokenByHash_Inr [OF f] by (simp_all add: hashAuthToken_def)
  from consumePasswordReset_Inr [OF c] fr ok show ?thesis
    by (intro exI [of _ r] exI [of _ "w_tick w1"] exI [of _ "Suc (w_tick w1)"]) (auto simp: link_ok_def)
qed

text \<open>Who signs in, and with what.\<close>

lemma login_Inr:
  assumes "login P E K cf email pw w = (Inr res, w')"
  shows "\<exists>u h s. u \<in> set (users (T (w_db w))) \<and> us_email (row_data u) = email \<and>
    us_passwordHash (row_data u) = Some h \<and> cr_bcryptCompare K pw h \<and>
    ar_user res = safeUser u \<and> rt_userId (row_data s) = row_id u \<and>
    rt_tokenHash (row_data s) = sha256 E (ar_refreshToken res) \<and> rt_revokedAt (row_data s) = None \<and>
    T (w_db w') = refreshTokens_update (\<lambda>rs. rs @ [s]) (T (w_db w))"
proof -
  from assms obtain u d h tok w1 w2 sig where
      f: "dg_findUnique (p_user P) (\<lambda>u. us_email (row_data u) = email) (w_db w) = (Inr (Some u), d)"
    and h: "us_passwordHash (row_data u) = Some h" "cr_bcryptCompare K pw h"
    and i: "issueRefreshToken P E K cf (row_id u) (w\<lparr>w_db := d\<rparr>) = (Inr tok, w1)"
    and s: "signToken K cf (safeUser u) w1 = (Inr sig, w2)"
    and res: "res = \<lparr>ar_user = safeUser u, ar_token = sig, ar_refreshToken = tok\<rparr>" "w' = w2"
    by (auto simp: login_def findByEmail_def act_simps with_password_Some)
  from i obtain x r d1 where
      c: "dg_create (p_refreshToken P) (new_session (row_id u) (sha256 E tok) x) d = (Inr r, d1)"
    and w1: "w_db w1 = d1"
    by (auto simp: issueRefreshToken_def generateRefreshToken_def refreshTokenExpiry_def
        createRefreshToken_def hashRefreshToken_def act_simps)
  have "T (w_db w') = T d1" using s w1 res by (auto simp: signToken_def act_simps)
  with rtk.create_Inr [OF c] usr.findUnique_Some [OF f] h res show ?thesis
    by (intro exI [of _ u] exI [of _ h] exI [of _ r]) (auto simp: inserted_def new_session_def)
qed

end

end
