(* ===== verification/Balances.thy ===== *)
theory Balances
  imports Expenses
begin

text \<open>
  The balance calculation of \<open>modules/settlements/balance.util.ts\<close>: the map of net balances
  from the expenses and settlements of a group, what it holds for every user, and that a book
  whose expenses are split exactly always balances.
\<close>

section \<open>The calculation\<close>

type_synonym SplitForBalance = SplitAmount

record ExpenseForBalance =
  xb_paidById :: string
  xb_amountMinorUnits :: int
  xb_splits :: "SplitForBalance list"

record SettlementForBalance =
  sb_payerId :: string
  sb_payeeId :: string
  sb_amountMinorUnits :: int

type_synonym balances = "string \<rightharpoonup> int"

text \<open>\<open>balances.get(userId) ?? 0n\<close>\<close>

definition balance_get :: "balances \<Rightarrow> string \<Rightarrow> int" where
  "balance_get b userId = (case b userId of None \<Rightarrow> 0 | Some a \<Rightarrow> a)"

definition credit :: "balances \<Rightarrow> string \<Rightarrow> int \<Rightarrow> balances" where
  "credit balances userId amount = balances(userId \<mapsto> balance_get balances userId + amount)"

definition credit_expense :: "balances \<Rightarrow> ExpenseForBalance \<Rightarrow> balances" where
  "credit_expense balances expense =
     foldl (\<lambda>b split. credit b (sa_userId split) (- sa_amountMinorUnits split))
       (credit balances (xb_paidById expense) (xb_amountMinorUnits expense)) (xb_splits expense)"

definition credit_settlement :: "balances \<Rightarrow> SettlementForBalance \<Rightarrow> balances" where
  "credit_settlement balances settlement =
     credit (credit balances (sb_payerId settlement) (sb_amountMinorUnits settlement))
       (sb_payeeId settlement) (- sb_amountMinorUnits settlement)"

definition calculateBalances ::
  "ExpenseForBalance list \<Rightarrow> SettlementForBalance list \<Rightarrow> balances" where
  "calculateBalances es ss = foldl credit_settlement (foldl credit_expense Map.empty es) ss"

section \<open>The net position of a user\<close>

text \<open>The same, as one sum over the records: what the user paid in less what the user owes.\<close>

definition paid_by :: "string \<Rightarrow> string \<Rightarrow> int \<Rightarrow> int" where
  "paid_by u v a = (if v = u then a else 0)"

definition expense_net :: "string \<Rightarrow> ExpenseForBalance \<Rightarrow> int" where
  "expense_net u e = paid_by u (xb_paidById e) (xb_amountMinorUnits e) -
     (\<Sum>s\<leftarrow>xb_splits e. paid_by u (sa_userId s) (sa_amountMinorUnits s))"

definition settlement_net :: "string \<Rightarrow> SettlementForBalance \<Rightarrow> int" where
  "settlement_net u s = paid_by u (sb_payerId s) (sb_amountMinorUnits s) -
     paid_by u (sb_payeeId s) (sb_amountMinorUnits s)"

definition net_position ::
  "ExpenseForBalance list \<Rightarrow> SettlementForBalance list \<Rightarrow> string \<Rightarrow> int" where
  "net_position es ss u = (\<Sum>e\<leftarrow>es. expense_net u e) + (\<Sum>s\<leftarrow>ss. settlement_net u s)"

lemma balance_get_credit: "balance_get (credit b v a) u = balance_get b u + paid_by u v a"
  by (simp add: balance_get_def credit_def paid_by_def)

lemma balance_get_splits:
  "balance_get (foldl (\<lambda>b s. credit b (sa_userId s) (- sa_amountMinorUnits s)) b xs) u =
     balance_get b u - (\<Sum>s\<leftarrow>xs. paid_by u (sa_userId s) (sa_amountMinorUnits s))"
  by (induction xs arbitrary: b) (auto simp: balance_get_credit paid_by_def)

lemma balance_get_expense: "balance_get (credit_expense b e) u = balance_get b u + expense_net u e"
  by (simp add: credit_expense_def balance_get_splits balance_get_credit expense_net_def)

lemma balance_get_settlement:
  "balance_get (credit_settlement b s) u = balance_get b u + settlement_net u s"
  by (simp add: credit_settlement_def balance_get_credit settlement_net_def paid_by_def)

lemma balance_get_foldl:
  assumes "\<And>b x. balance_get (f b x) u = balance_get b u + net x"
  shows "balance_get (foldl f b xs) u = balance_get b u + (\<Sum>x\<leftarrow>xs. net x)"
  by (induction xs arbitrary: b) (simp_all add: assms)

lemma balance_get_calculate: "balance_get (calculateBalances es ss) u = net_position es ss u"
proof -
  have "balance_get (calculateBalances es ss) u =
          balance_get (foldl credit_expense Map.empty es) u + (\<Sum>s\<leftarrow>ss. settlement_net u s)"
    unfolding calculateBalances_def by (rule balance_get_foldl) (rule balance_get_settlement)
  also have "balance_get (foldl credit_expense Map.empty es) u =
          balance_get Map.empty u + (\<Sum>e\<leftarrow>es. expense_net u e)"
    by (rule balance_get_foldl) (rule balance_get_expense)
  finally show ?thesis by (simp add: balance_get_def net_position_def)
qed

text \<open>Rows may come in any order.\<close>

lemma net_position_mset:
  "mset es = mset es' \<Longrightarrow> mset ss = mset ss' \<Longrightarrow> net_position es ss u = net_position es' ss' u"
  unfolding net_position_def by (metis mset_map sum_mset_sum_list)

section \<open>Who is in the book\<close>

definition expense_users :: "ExpenseForBalance \<Rightarrow> string set" where
  "expense_users e = insert (xb_paidById e) (set (map sa_userId (xb_splits e)))"

definition settlement_users :: "SettlementForBalance \<Rightarrow> string set" where
  "settlement_users s = {sb_payerId s, sb_payeeId s}"

definition book_users :: "ExpenseForBalance list \<Rightarrow> SettlementForBalance list \<Rightarrow> string set" where
  "book_users es ss = (\<Union>e\<in>set es. expense_users e) \<union> (\<Union>s\<in>set ss. settlement_users s)"

lemma dom_credit [simp]: "dom (credit b u a) = insert u (dom b)"
  by (auto simp: credit_def)

lemma dom_foldl:
  assumes "\<And>b x. dom (f b x) = dom b \<union> us x"
  shows "dom (foldl f b xs) = dom b \<union> (\<Union>x\<in>set xs. us x)"
  by (induction xs arbitrary: b) (auto simp: assms)

lemma dom_credit_expense: "dom (credit_expense b e) = dom b \<union> expense_users e"
proof -
  have "dom (credit_expense b e) = dom (credit b (xb_paidById e) (xb_amountMinorUnits e)) \<union>
          (\<Union>s\<in>set (xb_splits e). {sa_userId s})"
    unfolding credit_expense_def by (rule dom_foldl) simp
  then show ?thesis by (auto simp: expense_users_def simp del: dom_eq_empty_conv)
qed

lemma dom_calculateBalances: "dom (calculateBalances es ss) = book_users es ss"
proof -
  have "dom (calculateBalances es ss) =
          dom (foldl credit_expense Map.empty es) \<union> (\<Union>s\<in>set ss. settlement_users s)"
    unfolding calculateBalances_def
    by (rule dom_foldl) (auto simp: credit_settlement_def settlement_users_def)
  also have "dom (foldl credit_expense Map.empty es) = (\<Union>e\<in>set es. expense_users e)"
    using dom_foldl [of credit_expense expense_users Map.empty es] dom_credit_expense by simp
  finally show ?thesis by (simp add: book_users_def)
qed

lemma finite_book_users [simp]: "finite (book_users es ss)"
  by (simp add: book_users_def expense_users_def settlement_users_def)

section \<open>The book balances\<close>

lemma sum_paid_by: "finite U \<Longrightarrow> v \<in> U \<Longrightarrow> (\<Sum>u\<in>U. paid_by u v a) = a"
  by (simp add: paid_by_def)

lemma sum_expense_net:
  assumes "finite U" "expense_users e \<subseteq> U"
  shows "(\<Sum>u\<in>U. expense_net u e) = xb_amountMinorUnits e - sumSplitAmounts (xb_splits e)"
proof -
  have "(\<Sum>u\<in>U. \<Sum>s\<leftarrow>xs. paid_by u (sa_userId s) (sa_amountMinorUnits s)) = sumSplitAmounts xs"
    if "set (map sa_userId xs) \<subseteq> U" for xs
    using that assms(1)
    by (induction xs) (auto simp: sumSplitAmounts_sum sum.distrib sum_paid_by)
  then show ?thesis using assms
    by (simp add: expense_net_def sum_subtractf sum_paid_by expense_users_def)
qed

lemma sum_settlement_net:
  assumes "finite U" "settlement_users s \<subseteq> U"
  shows "(\<Sum>u\<in>U. settlement_net u s) = 0"
  using assms by (simp add: settlement_net_def sum_subtractf sum_paid_by settlement_users_def)

definition balanced_expense :: "ExpenseForBalance \<Rightarrow> bool" where
  "balanced_expense e \<longleftrightarrow> sumSplitAmounts (xb_splits e) = xb_amountMinorUnits e"

lemma sum_net_position:
  assumes "finite U" "book_users es ss \<subseteq> U" "\<forall>e\<in>set es. balanced_expense e"
  shows "(\<Sum>u\<in>U. net_position es ss u) = 0"
proof -
  have "(\<Sum>u\<in>U. \<Sum>e\<leftarrow>es. expense_net u e) = 0"
    using assms(2,3)
    by (induction es) (auto simp: sum.distrib sum_expense_net [OF assms(1)] balanced_expense_def book_users_def)
  moreover have "(\<Sum>u\<in>U. \<Sum>s\<leftarrow>ss. settlement_net u s) = 0"
    using assms(2)
    by (induction ss) (auto simp: sum.distrib sum_settlement_net [OF assms(1)] book_users_def)
  ultimately show ?thesis by (simp add: net_position_def sum.distrib)
qed

end
