(* ===== verification/Idempotency.thy ===== *)
theory Idempotency
  imports Json Activity
begin

text \<open>
  The idempotency layer \<open>modules/idempotency\<close>: the header check of \<open>validate.ts\<close>, the request
  hash of \<open>request-hash.ts\<close> and the decision table of \<open>reconcile.ts\<close>.
\<close>

section \<open>The key header\<close>

definition IDEMPOTENCY_RECORD_TTL_MS :: int where
  "IDEMPOTENCY_RECORD_TTL_MS = 24 * 60 * 60 * 1000"

definition SETTLEMENT_CREATE :: string where
  "SETTLEMENT_CREATE = ''SETTLEMENT_CREATE''"

definition idempotencyKeySchema :: "string \<Rightarrow> string option" where
  "idempotencyKeySchema raw =
     (let s = js_trim raw in
      if 8 \<le> length s \<and> length s \<le> 128 \<and>
         list_all (\<lambda>c. is_alnum c \<or> c \<in> {CHR ''.'', CHR ''_'', CHR ''-''}) s
      then Some s else None)"

definition requireIdempotencyKey :: "string option \<Rightarrow> exn + string" where
  "requireIdempotencyKey header =
     (case header of
        None \<Rightarrow> Inl (BadRequestError IDEMPOTENCY_KEY_MISSING
                  ''Idempotency-Key header is required for this request.'')
      | Some rawKey \<Rightarrow>
          if length (js_trim rawKey) = 0 then
            Inl (BadRequestError IDEMPOTENCY_KEY_MISSING
                  ''Idempotency-Key header is required for this request.'')
          else case idempotencyKeySchema rawKey of
            None \<Rightarrow> Inl (BadRequestError IDEMPOTENCY_KEY_INVALID
              ''Idempotency-Key header must be a valid key between 8 and 128 characters using only letters, digits, underscore, hyphen, or dot.'')
          | Some key \<Rightarrow> Inr key)"

lemma requireIdempotencyKey_Inr:
  "requireIdempotencyKey header = Inr key \<Longrightarrow>
     8 \<le> length key \<and> length key \<le> 128 \<and> (\<exists>raw. header = Some raw \<and> key = js_trim raw)"
  by (auto simp: requireIdempotencyKey_def idempotencyKeySchema_def Let_def
      split: option.splits if_splits)

section \<open>The request hash\<close>

definition createRequestHash :: "env \<Rightarrow> json \<Rightarrow> string" where
  "createRequestHash E v = sha256 E (stringify v)"

section \<open>Reconciling with a stored record\<close>

record IdempotencyContext =
  ic_key :: string
  ic_userId :: string
  ic_requestHash :: string

datatype ReconcileResult = Replay | Reuse

definition keyReusedByOther :: exn where
  "keyReusedByOther = ConflictError IDEMPOTENCY_KEY_REUSED
     ''This Idempotency-Key was already used by a different user.''"

definition keyReusedOtherBody :: exn where
  "keyReusedOtherBody = ConflictError IDEMPOTENCY_KEY_REUSED
     ''This Idempotency-Key was already used with a different request body.''"

definition idempotencyInvalidState :: exn where
  "idempotencyInvalidState = ConflictError IDEMPOTENCY_INVALID_STATE
     ''The idempotency record is in an unexpected state.''"

definition idempotencyInProgress :: exn where
  "idempotencyInProgress = ConflictError IDEMPOTENCY_CONFLICT
     ''A request with this Idempotency-Key is already being processed.''"

definition cachedResourceGone :: exn where
  "cachedResourceGone = ConflictError IDEMPOTENCY_INVALID_STATE
     ''The cached resource for this Idempotency-Key no longer exists.''"

lemma idempotency_errors [code_of_simps, simp]:
  "exn_code keyReusedByOther = Some IDEMPOTENCY_KEY_REUSED"
  "exn_code keyReusedOtherBody = Some IDEMPOTENCY_KEY_REUSED"
  "exn_code idempotencyInvalidState = Some IDEMPOTENCY_INVALID_STATE"
  "exn_code idempotencyInProgress = Some IDEMPOTENCY_CONFLICT"
  "exn_code cachedResourceGone = Some IDEMPOTENCY_INVALID_STATE"
  "\<not> db_exn keyReusedByOther" "\<not> db_exn keyReusedOtherBody" "\<not> db_exn idempotencyInvalidState"
  "\<not> db_exn idempotencyInProgress" "\<not> db_exn cachedResourceGone"
  by (simp_all add: keyReusedByOther_def keyReusedOtherBody_def idempotencyInvalidState_def
      idempotencyInProgress_def cachedResourceGone_def error_class_defs)

text \<open>A nullable string used as a condition: absent and empty are false.\<close>

definition truthy :: "string option \<Rightarrow> bool" where
  "truthy s \<longleftrightarrow> s \<noteq> None \<and> s \<noteq> Some []"

definition reconcileIdempotencyRecord ::
  "IdempotencyRecord \<Rightarrow> IdempotencyContext \<Rightarrow> int \<Rightarrow> exn + ReconcileResult" where
  "reconcileIdempotencyRecord record context now_ms =
     (if id_userId record \<noteq> ic_userId context then Inl keyReusedByOther
      else if id_expiresAt record \<le> now_ms then Inr Reuse
      else if id_requestHash record \<noteq> ic_requestHash context then Inl keyReusedOtherBody
      else if id_status record = COMPLETED \<and> truthy (id_resourceId record) then Inr Replay
      else if id_status record = COMPLETED then Inl idempotencyInvalidState
      else Inl idempotencyInProgress)"

lemma reconcile_Replay:
  "reconcileIdempotencyRecord r c t = Inr Replay \<longleftrightarrow>
     id_userId r = ic_userId c \<and> t < id_expiresAt r \<and> id_requestHash r = ic_requestHash c \<and>
     id_status r = COMPLETED \<and> truthy (id_resourceId r)"
  by (auto simp: reconcileIdempotencyRecord_def)

lemma reconcile_Reuse:
  "reconcileIdempotencyRecord r c t = Inr Reuse \<longleftrightarrow>
     id_userId r = ic_userId c \<and> id_expiresAt r \<le> t"
  by (auto simp: reconcileIdempotencyRecord_def)

lemma reconcile_not_db: "reconcileIdempotencyRecord r c t = Inl e \<Longrightarrow> \<not> db_exn e"
  by (auto simp: reconcileIdempotencyRecord_def split: if_splits)

end
