(* ===== verification/Settlements.thy ===== *)
theory Settlements
  imports Balances RedisStores Idempotency
begin

text \<open>
  Settlements: \<open>modules/settlements/settlement.repository.ts\<close> (one transaction that writes the
  settlement, its event and its idempotency record, with the retry paths around it) and
  \<open>settlement.service.ts\<close> (authorization, the group lock, balances).
\<close>

section \<open>Records\<close>

record GroupMemberUser =
  mu_userId :: string
  mu_user :: SafeUser

record SettlementRecord =
  sr_row :: "Settlement row"
  sr_payer :: SafeUser
  sr_payee :: SafeUser

record BalanceDto =
  bd_userId :: string
  bd_name :: string
  bd_email :: string
  bd_amountMinorUnits :: int

record SettlementDto =
  st_id :: string
  st_groupId :: string
  st_payerId :: string
  st_payeeId :: string
  st_amountMinorUnits :: int
  st_currencyCode :: string
  st_settledAt :: int
  st_createdAt :: int
  st_updatedAt :: int
  st_payer :: SafeUser
  st_payee :: SafeUser

record CreateSettlementInput =
  si_groupId :: string
  si_payerId :: string
  si_payeeId :: string
  si_amountMinorUnits :: int

record SettlementListPage =
  sl_settlements :: "SettlementDto list"
  sl_pagination :: "(pagination \<times> nat) option"

section \<open>Repository\<close>

definition SettlementRepository_findGroupById ::
  "'d prisma \<Rightarrow> string \<Rightarrow> (('d, 'r, 'm) world, Group row option) act" where
  "SettlementRepository_findGroupById P gid = db_do (dg_findUnique (p_group P) (\<lambda>r. row_id r = gid))"

definition findGroupMembers ::
  "'d prisma \<Rightarrow> string \<Rightarrow> (('d, 'r, 'm) world, GroupMemberUser list) act" where
  "findGroupMembers P gid =
     seq (db_do (dg_findMany (p_groupMember P) (select_ordered (in_group_member gid) created_order))) (\<lambda>rows.
     seq (map_act (\<lambda>r. seq (includeUser P (gm_userId (row_data r))) (\<lambda>u. ret (r, u))) rows) (\<lambda>ms.
     ret (map (\<lambda>(r, u). \<lparr>mu_userId = gm_userId (row_data r), mu_user = u\<rparr>) ms)))"

definition expense_for_balance :: "Expense row \<Rightarrow> ExpenseSplit row list \<Rightarrow> ExpenseForBalance" where
  "expense_for_balance e rows =
     \<lparr>xb_paidById = ex_paidById (row_data e), xb_amountMinorUnits = ex_amountMinorUnits (row_data e),
      xb_splits = map (\<lambda>r. \<lparr>sa_userId = sp_userId (row_data r),
        sa_amountMinorUnits = sp_amountMinorUnits (row_data r)\<rparr>) rows\<rparr>"

definition findExpensesForBalances ::
  "'d prisma \<Rightarrow> string \<Rightarrow> (('d, 'r, 'm) world, ExpenseForBalance list) act" where
  "findExpensesForBalances P gid =
     seq (db_do (dg_findMany (p_expense P) (select_where (in_group_expense gid)))) (\<lambda>es.
     map_act (\<lambda>e. seq (db_do (dg_findMany (p_expenseSplit P) (select_where (of_expense (row_id e))))) (\<lambda>rows.
                   ret (expense_for_balance e rows))) es)"

definition in_group_settlement :: "string \<Rightarrow> Settlement row \<Rightarrow> bool" where
  "in_group_settlement gid r \<longleftrightarrow> se_groupId (row_data r) = gid"

definition settlement_for_balance :: "Settlement row \<Rightarrow> SettlementForBalance" where
  "settlement_for_balance r = \<lparr>sb_payerId = se_payerId (row_data r), sb_payeeId = se_payeeId (row_data r),
     sb_amountMinorUnits = se_amountMinorUnits (row_data r)\<rparr>"

definition findSettlementsForBalances ::
  "'d prisma \<Rightarrow> string \<Rightarrow> (('d, 'r, 'm) world, SettlementForBalance list) act" where
  "findSettlementsForBalances P gid =
     seq (db_do (dg_findMany (p_settlement P) (select_where (in_group_settlement gid)))) (\<lambda>rows.
     ret (map settlement_for_balance rows))"

definition settlementInclude ::
  "'d prisma \<Rightarrow> Settlement row \<Rightarrow> (('d, 'r, 'm) world, SettlementRecord) act" where
  "settlementInclude P r =
     seq (includeUser P (se_payerId (row_data r))) (\<lambda>payer.
     seq (includeUser P (se_payeeId (row_data r))) (\<lambda>payee.
     ret \<lparr>sr_row = r, sr_payer = payer, sr_payee = payee\<rparr>))"

definition replaySettlement ::
  "'d prisma \<Rightarrow> IdempotencyRecord \<Rightarrow> (('d, 'r, 'm) world, SettlementRecord) act" where
  "replaySettlement P record =
     seq (guard (truthy (id_resourceId record)) idempotencyInvalidState) (\<lambda>_.
     seq (db_do (dg_findUnique (p_settlement P) (\<lambda>r. Some (row_id r) = id_resourceId record))) (\<lambda>x.
     seq (need x cachedResourceGone) (\<lambda>r.
     settlementInclude P r)))"

definition find_idempotency ::
  "'d prisma \<Rightarrow> string \<Rightarrow> (('d, 'r, 'm) world, IdempotencyRecord row option) act" where
  "find_idempotency P key =
     db_do (dg_findUnique (p_idempotencyRecord P) (\<lambda>r. id_key (row_data r) = key))"

text \<open>The first half of the transaction: replay, or make room for the claim.\<close>

definition check_existing ::
  "'d prisma \<Rightarrow> env \<Rightarrow> IdempotencyContext \<Rightarrow> (('d, 'r, 'm) world, SettlementRecord option) act" where
  "check_existing P E context =
     seq (find_idempotency P (ic_key context)) (\<lambda>existing.
     case existing of
       None \<Rightarrow> ret None
     | Some record \<Rightarrow>
         seq (now E) (\<lambda>t.
         seq (of_result (reconcileIdempotencyRecord (row_data record) context t)) (\<lambda>outcome.
         case outcome of
           Replay \<Rightarrow> seq (replaySettlement P (row_data record)) (\<lambda>s. ret (Some s))
         | Reuse \<Rightarrow>
             seq (db_do (dg_deleteMany (p_idempotencyRecord P) (\<lambda>r. row_id r = row_id record))) (\<lambda>_.
             ret None))))"

definition settlement_event :: "Settlement row \<Rightarrow> ActivityEventInput \<Rightarrow> ActivityEvent" where
  "settlement_event s activity =
     \<lparr>ev_groupId = se_groupId (row_data s), ev_userId = ai_userId activity,
      ev_type = ai_type activity, ev_message = ai_message activity,
      ev_amountMinorUnits = Some (se_amountMinorUnits (row_data s)),
      ev_currencyCode = Some (se_currencyCode (row_data s)), ev_occurredAt = row_createdAt s\<rparr>"

definition complete_record :: "string \<Rightarrow> IdempotencyRecord \<Rightarrow> IdempotencyRecord" where
  "complete_record resourceId r = r\<lparr>id_status := COMPLETED, id_resourceId := Some resourceId\<rparr>"

definition claim_for :: "IdempotencyContext \<Rightarrow> string \<Rightarrow> int \<Rightarrow> IdempotencyRecord" where
  "claim_for context groupId expiresAt =
     \<lparr>id_key = ic_key context, id_userId = ic_userId context,
      id_requestHash = ic_requestHash context, id_status = PENDING,
      id_operation = SETTLEMENT_CREATE, id_scope = Some groupId, id_resourceId = None,
      id_expiresAt = expiresAt\<rparr>"

definition createSettlementTx ::
  "'d prisma \<Rightarrow> env \<Rightarrow> Settlement \<Rightarrow> IdempotencyContext \<Rightarrow> ActivityEventInput \<Rightarrow>
   (('d, 'r, 'm) world, SettlementRecord) act" where
  "createSettlementTx P E data context activity =
     seq (check_existing P E context) (\<lambda>replayed.
     case replayed of
       Some s \<Rightarrow> ret s
     | None \<Rightarrow>
         seq (now E) (\<lambda>t.
         seq (db_do (dg_create (p_idempotencyRecord P)
                (claim_for context (se_groupId data) (t + IDEMPOTENCY_RECORD_TTL_MS)))) (\<lambda>claim.
         seq (db_do (dg_create (p_settlement P) data)) (\<lambda>row.
         seq (settlementInclude P row) (\<lambda>settlement.
         seq (createActivityEvent P (settlement_event row activity)) (\<lambda>_.
         seq (db_do (dg_update (p_idempotencyRecord P) (\<lambda>r. row_id r = row_id claim)
                (complete_record (row_id row)))) (\<lambda>_.
         ret settlement)))))))"

text \<open>The handler of a unique violation: another request with the key got there first.\<close>

definition retry_after_conflict ::
  "'d prisma \<Rightarrow> env \<Rightarrow> IdempotencyContext \<Rightarrow> (('d, 'r, 'm) world, SettlementRecord) act" where
  "retry_after_conflict P E context =
     seq (find_idempotency P (ic_key context)) (\<lambda>existing.
     case existing of
       None \<Rightarrow> throw idempotencyInProgress
     | Some record \<Rightarrow>
         seq (now E) (\<lambda>t.
         seq (of_result (reconcileIdempotencyRecord (row_data record) context t)) (\<lambda>outcome.
         if outcome = Replay then replaySettlement P (row_data record)
         else throw idempotencyInProgress)))"

definition SettlementRepository_createSettlement ::
  "'d prisma \<Rightarrow> env \<Rightarrow> Settlement \<Rightarrow> IdempotencyContext \<Rightarrow> ActivityEventInput \<Rightarrow>
   (('d, 'r, 'm) world, SettlementRecord) act" where
  "SettlementRepository_createSettlement P E data context activity =
     catch (in_transaction P (createSettlementTx P E data context activity)) (\<lambda>error.
       if error = P2002 then retry_after_conflict P E context
       else throw error)"

definition findSettlementById ::
  "'d prisma \<Rightarrow> string \<Rightarrow> (('d, 'r, 'm) world, SettlementRecord option) act" where
  "findSettlementById P sid =
     seq (db_do (dg_findUnique (p_settlement P) (\<lambda>r. row_id r = sid))) (\<lambda>x.
     case x of
       None \<Rightarrow> ret None
     | Some r \<Rightarrow> seq (settlementInclude P r) (\<lambda>s. ret (Some s)))"

definition settled_first :: "Settlement row \<Rightarrow> int \<times> string" where
  "settled_first r = (- se_settledAt (row_data r), [])"

definition settled_first_by_id :: "Settlement row \<Rightarrow> int \<times> string" where
  "settled_first_by_id r = (- se_settledAt (row_data r), row_id r)"

definition findSettlementsByGroupId ::
  "'d prisma \<Rightarrow> string \<Rightarrow> pagination option \<Rightarrow>
   (('d, 'r, 'm) world, SettlementRecord list \<times> nat option) act" where
  "findSettlementsByGroupId P gid pagination =
     (case pagination of
        None \<Rightarrow>
          seq (db_do (dg_findMany (p_settlement P) (select_ordered (in_group_settlement gid) settled_first))) (\<lambda>rows.
          seq (map_act (settlementInclude P) rows) (\<lambda>ss.
          ret (ss, None)))
      | Some pg \<Rightarrow>
          seq (db_do (dg_findMany (p_settlement P)
                 \<lparr>q_where = (\<lambda>_. in_group_settlement gid), q_key = settled_first_by_id,
                  q_skip = (pg_page pg - 1) * int (pg_limit pg), q_take = Some (pg_limit pg)\<rparr>)) (\<lambda>rows.
          seq (map_act (settlementInclude P) rows) (\<lambda>ss.
          seq (db_do (dg_count (p_settlement P) (in_group_settlement gid))) (\<lambda>n.
          ret (ss, Some n)))))"

section \<open>Service\<close>

definition settlementLockKey :: "string \<Rightarrow> string" where
  "settlementLockKey groupId = ''lock:settlement:group:'' @ groupId"

definition settlementUsersMustDiffer :: exn where
  "settlementUsersMustDiffer = BadRequestError SETTLEMENT_USERS_MUST_DIFFER
     ''The settlement sender and receiver must be different users.''"

definition settlementPayerNotMember :: exn where
  "settlementPayerNotMember = ForbiddenError SETTLEMENT_PAYER_NOT_GROUP_MEMBER
     ''The settlement sender must be a member of the group.''"

definition settlementPayeeNotMember :: exn where
  "settlementPayeeNotMember = ForbiddenError SETTLEMENT_PAYEE_NOT_GROUP_MEMBER
     ''The settlement receiver must be a member of the group.''"

definition settlementLocked :: exn where
  "settlementLocked = ConflictError SETTLEMENT_CONCURRENT_LOCKED
     ''Another settlement for this group is being processed. Please retry shortly.''"

definition settlementNotFound :: exn where
  "settlementNotFound = NotFoundError SETTLEMENT_NOT_FOUND ''Settlement not found.''"

lemma settlement_errors [code_of_simps, simp]:
  "exn_code settlementUsersMustDiffer = Some SETTLEMENT_USERS_MUST_DIFFER"
  "exn_code settlementPayerNotMember = Some SETTLEMENT_PAYER_NOT_GROUP_MEMBER"
  "exn_code settlementPayeeNotMember = Some SETTLEMENT_PAYEE_NOT_GROUP_MEMBER"
  "exn_code settlementLocked = Some SETTLEMENT_CONCURRENT_LOCKED"
  "exn_code settlementNotFound = Some SETTLEMENT_NOT_FOUND"
  "\<not> db_exn settlementUsersMustDiffer" "\<not> db_exn settlementPayerNotMember"
  "\<not> db_exn settlementPayeeNotMember" "\<not> db_exn settlementLocked" "\<not> db_exn settlementNotFound"
  by (simp_all add: settlementUsersMustDiffer_def settlementPayerNotMember_def
      settlementPayeeNotMember_def settlementLocked_def settlementNotFound_def error_class_defs)

definition getGroupBalances ::
  "'d prisma \<Rightarrow> string \<Rightarrow> string \<Rightarrow> (('d, 'r, 'm) world, BalanceDto list) act" where
  "getGroupBalances P requesterId groupId =
     seq (SettlementRepository_findGroupById P groupId) (\<lambda>group.
     seq (need group groupNotFound) (\<lambda>_.
     seq (findGroupMembers P groupId) (\<lambda>ms.
     seq (guard (requesterId \<in> set (map mu_userId ms)) notGroupMember) (\<lambda>_.
     seq (findExpensesForBalances P groupId) (\<lambda>es.
     seq (findSettlementsForBalances P groupId) (\<lambda>ss.
     let balances = calculateBalances es ss in
     ret (map (\<lambda>m. \<lparr>bd_userId = mu_userId m, bd_name = sf_name (mu_user m),
                     bd_email = sf_email (mu_user m),
                     bd_amountMinorUnits = js_Number (balance_get balances (mu_userId m))\<rparr>) ms)))))))"

definition settlement_toDto :: "SettlementRecord \<Rightarrow> SettlementDto" where
  "settlement_toDto s = (let r = sr_row s; c = row_data r in
     \<lparr>st_id = row_id r, st_groupId = se_groupId c, st_payerId = se_payerId c,
      st_payeeId = se_payeeId c, st_amountMinorUnits = js_Number (se_amountMinorUnits c),
      st_currencyCode = se_currencyCode c, st_settledAt = se_settledAt c,
      st_createdAt = row_createdAt r, st_updatedAt = row_updatedAt r,
      st_payer = sr_payer s, st_payee = sr_payee s\<rparr>)"

definition lock_conflict_error :: "exn \<Rightarrow> exn" where
  "lock_conflict_error error =
     (case error of DistributedLockConflictError _ \<Rightarrow> settlementLocked | _ \<Rightarrow> error)"

lemma db_exn_lock_conflict [simp]: "db_exn (lock_conflict_error e) = db_exn e"
  by (simp add: lock_conflict_error_def db_exn_def settlementLocked_def error_class_defs split: exn.split)

definition createSettlement ::
  "'d prisma \<Rightarrow> 'r redis \<Rightarrow> env \<Rightarrow> int \<Rightarrow> string \<Rightarrow> CreateSettlementInput \<Rightarrow> IdempotencyContext \<Rightarrow>
   (('d, 'r, 'm) world, SettlementDto) act" where
  "createSettlement P R E ttlMs requesterId input context =
     seq (SettlementRepository_findGroupById P (si_groupId input)) (\<lambda>group.
     seq (need group groupNotFound) (\<lambda>_.
     seq (findGroupMembers P (si_groupId input)) (\<lambda>ms.
     seq (guard (requesterId \<in> set (map mu_userId ms)) notGroupMember) (\<lambda>_.
     seq (guard (si_payerId input \<noteq> si_payeeId input) settlementUsersMustDiffer) (\<lambda>_.
     seq (guard (si_payerId input \<in> set (map mu_userId ms)) settlementPayerNotMember) (\<lambda>_.
     seq (guard (si_payeeId input \<in> set (map mu_userId ms)) settlementPayeeNotMember) (\<lambda>_.
     catch
       (seq (withLock R E ttlMs (settlementLockKey (si_groupId input))
              (seq (now E) (\<lambda>settledAt.
               SettlementRepository_createSettlement P E
                 \<lparr>se_groupId = si_groupId input, se_payerId = si_payerId input,
                  se_payeeId = si_payeeId input, se_amountMinorUnits = si_amountMinorUnits input,
                  se_currencyCode = ''PKR'', se_settledAt = settledAt\<rparr>
                 context
                 \<lparr>ai_userId = requesterId, ai_type = SETTLEMENT_ADDED,
                  ai_message = ''recorded a settlement''\<rparr>))) (\<lambda>settlement.
        seq (metric settlementsCreatedTotal []) (\<lambda>_.
        ret (settlement_toDto settlement))))
       (\<lambda>error. throw (lock_conflict_error error)))))))))"

definition settlement_assertMemberOfGroup ::
  "'d prisma \<Rightarrow> string \<Rightarrow> string \<Rightarrow> (('d, 'r, 'm) world, unit) act" where
  "settlement_assertMemberOfGroup P requesterId groupId =
     seq (findGroupMembers P groupId) (\<lambda>ms.
     guard (requesterId \<in> set (map mu_userId ms)) notGroupMember)"

definition getGroupSettlements ::
  "'d prisma \<Rightarrow> string \<Rightarrow> string \<Rightarrow> pagination option \<Rightarrow>
   (('d, 'r, 'm) world, SettlementListPage) act" where
  "getGroupSettlements P requesterId groupId pagination =
     seq (SettlementRepository_findGroupById P groupId) (\<lambda>group.
     seq (need group groupNotFound) (\<lambda>_.
     seq (settlement_assertMemberOfGroup P requesterId groupId) (\<lambda>_.
     seq (findSettlementsByGroupId P groupId pagination) (\<lambda>(ss, n).
     ret \<lparr>sl_settlements = map settlement_toDto ss,
          sl_pagination = (case pagination of None \<Rightarrow> None
             | Some pg \<Rightarrow> Some (pg, (case n of None \<Rightarrow> 0 | Some k \<Rightarrow> k)))\<rparr>))))"

definition getSettlementById ::
  "'d prisma \<Rightarrow> string \<Rightarrow> string \<Rightarrow> (('d, 'r, 'm) world, SettlementDto) act" where
  "getSettlementById P requesterId settlementId =
     seq (findSettlementById P settlementId) (\<lambda>x.
     seq (need x settlementNotFound) (\<lambda>settlement.
     seq (settlement_assertMemberOfGroup P requesterId (se_groupId (row_data (sr_row settlement)))) (\<lambda>_.
     ret (settlement_toDto settlement))))"

section \<open>The book of a group\<close>

definition book_expenses :: "tables \<Rightarrow> string \<Rightarrow> ExpenseForBalance list" where
  "book_expenses t gid =
     map (\<lambda>e. expense_for_balance e (splits_of t (row_id e))) (filter (in_group_expense gid) (expenses t))"

definition book_settlements :: "tables \<Rightarrow> string \<Rightarrow> SettlementForBalance list" where
  "book_settlements t gid = map settlement_for_balance (filter (in_group_settlement gid) (settlements t))"

definition group_net :: "tables \<Rightarrow> string \<Rightarrow> string \<Rightarrow> int" where
  "group_net t gid u = net_position (book_expenses t gid) (book_settlements t gid) u"

lemma expense_net_mset:
  assumes "mset rows = mset rows'"
  shows "expense_net u (expense_for_balance e rows) = expense_net u (expense_for_balance e rows')"
proof -
  have "(\<Sum>r\<leftarrow>rows. paid_by u (sp_userId (row_data r)) (sp_amountMinorUnits (row_data r))) =
        (\<Sum>r\<leftarrow>rows'. paid_by u (sp_userId (row_data r)) (sp_amountMinorUnits (row_data r)))"
    using assms by (rule sum_list_mset_cong)
  then show ?thesis by (simp add: expense_net_def expense_for_balance_def comp_def)
qed

lemma sum_splits_for_balance:
  "sumSplitAmounts (xb_splits (expense_for_balance e rows)) = split_total rows"
  by (simp add: sumSplitAmounts_sum expense_for_balance_def split_total_def comp_def)

lemma amount_for_balance [simp]:
  "xb_amountMinorUnits (expense_for_balance e rows) = ex_amountMinorUnits (row_data e)"
  by (simp add: expense_for_balance_def)

lemma ledger_book_balanced:
  "ledger_ok t \<Longrightarrow> \<forall>e\<in>set (book_expenses t gid). balanced_expense e"
  by (auto simp: book_expenses_def balanced_expense_def sum_splits_for_balance ledger_okD)

context prisma
begin

lemma settlement_findGroup_Inr:
  assumes "SettlementRepository_findGroupById P gid w = (Inr (Some g), w')"
  shows "T (w_db w') = T (w_db w) \<and> group_row (T (w_db w)) gid g \<and> only_tables w w'"
  using assms findGroup_Inr
  by (simp add: SettlementRepository_findGroupById_def ExpenseRepository_findGroupById_def)

text \<open>The members of a group, each once per membership row, in the order of joining.\<close>

lemma findGroupMembers_Inr:
  assumes "findGroupMembers P gid w = (Inr ms, w')"
  shows "T (w_db w') = T (w_db w) \<and> only_tables w w' \<and>
    mset (map mu_userId ms) =
      mset (map (\<lambda>r. gm_userId (row_data r)) (filter (in_group_member gid) (members (T (w_db w)))))"
proof -
  from assms obtain rows d xs where
      f: "dg_findMany (p_groupMember P) (select_ordered (in_group_member gid) created_order) (w_db w) = (Inr rows, d)"
    and m: "map_act (\<lambda>r. seq (includeUser P (gm_userId (row_data r))) (\<lambda>u. ret (r, u))) rows
              (w\<lparr>w_db := d\<rparr>) = (Inr xs, w')"
    and ms: "ms = map (\<lambda>(r, u). \<lparr>mu_userId = gm_userId (row_data r), mu_user = u\<rparr>) xs"
    by (auto simp: findGroupMembers_def act_simps)
  note i = map_includeUser_Inr [OF m]
  have "map mu_userId ms = map (\<lambda>r. gm_userId (row_data r)) (map fst xs)"
    by (simp add: ms comp_def case_prod_unfold)
  then have "map mu_userId ms = map (\<lambda>r. gm_userId (row_data r)) rows" using i by simp
  then show ?thesis using mem.findMany_ordered [OF f] i by simp
qed

lemma findGroupMembers_member:
  assumes "findGroupMembers P gid w = (Inr ms, w')"
  shows "u \<in> set (map mu_userId ms) \<longleftrightarrow> is_member (T (w_db w)) gid u"
proof -
  have "set (map mu_userId ms) =
      set (map (\<lambda>r. gm_userId (row_data r)) (filter (in_group_member gid) (members (T (w_db w)))))"
    using findGroupMembers_Inr [OF assms] mset_eq_setD by blast
  then show ?thesis by (auto simp: is_member_def member_where_def in_group_member_def)
qed

lemma map_findSplits_Inr:
  "map_act (\<lambda>e. seq (db_do (dg_findMany (p_expenseSplit P) (select_where (of_expense (row_id e))))) (\<lambda>rows.
       ret (expense_for_balance e rows))) rs w = (Inr es, w') \<Longrightarrow>
   T (w_db w') = T (w_db w) \<and> only_tables w w' \<and>
   (\<Sum>e\<leftarrow>es. expense_net u e) =
     (\<Sum>r\<leftarrow>rs. expense_net u (expense_for_balance r (splits_of (T (w_db w)) (row_id r))))"
proof (induction rs arbitrary: w es)
  case Nil
  then show ?case by (auto simp: act_simps)
next
  case (Cons r rs)
  then obtain rows d ys where
      f: "dg_findMany (p_expenseSplit P) (select_where (of_expense (row_id r))) (w_db w) = (Inr rows, d)"
    and rest: "map_act (\<lambda>e. seq (db_do (dg_findMany (p_expenseSplit P) (select_where (of_expense (row_id e))))) (\<lambda>rows.
       ret (expense_for_balance e rows))) rs (w\<lparr>w_db := d\<rparr>) = (Inr ys, w')"
    and es: "es = expense_for_balance r rows # ys"
    by (auto simp: act_simps)
  have "expense_net u (expense_for_balance r rows) =
      expense_net u (expense_for_balance r (splits_of (T (w_db w)) (row_id r)))"
    using spl.findMany_where(2) [OF f] by (intro expense_net_mset) (simp add: splits_of_def)
  with Cons.IH [OF rest] spl.findMany_where(1) [OF f] es show ?case by simp
qed

lemma findExpensesForBalances_Inr:
  assumes "findExpensesForBalances P gid w = (Inr es, w')"
  shows "T (w_db w') = T (w_db w) \<and> only_tables w w' \<and>
    (\<Sum>e\<leftarrow>es. expense_net u e) = (\<Sum>e\<leftarrow>book_expenses (T (w_db w)) gid. expense_net u e)"
proof -
  from assms obtain rows d where
      f: "dg_findMany (p_expense P) (select_where (in_group_expense gid)) (w_db w) = (Inr rows, d)"
    and m: "map_act (\<lambda>e. seq (db_do (dg_findMany (p_expenseSplit P) (select_where (of_expense (row_id e))))) (\<lambda>rows.
       ret (expense_for_balance e rows))) rows (w\<lparr>w_db := d\<rparr>) = (Inr es, w')"
    by (auto simp: findExpensesForBalances_def act_simps)
  let ?f = "\<lambda>r. expense_net u (expense_for_balance r (splits_of (T (w_db w)) (row_id r)))"
  have "(\<Sum>r\<leftarrow>rows. ?f r) = (\<Sum>r\<leftarrow>filter (in_group_expense gid) (expenses (T (w_db w))). ?f r)"
    using exp.findMany_where(2) [OF f] by (rule sum_list_mset_cong)
  then show ?thesis using map_findSplits_Inr [OF m, of u] exp.findMany_where(1) [OF f]
    by (simp add: book_expenses_def comp_def)
qed

lemma findSettlementsForBalances_Inr:
  assumes "findSettlementsForBalances P gid w = (Inr ss, w')"
  shows "T (w_db w') = T (w_db w) \<and> only_tables w w' \<and>
    mset ss = mset (book_settlements (T (w_db w)) gid)"
proof -
  from assms obtain rows d where
      f: "dg_findMany (p_settlement P) (select_where (in_group_settlement gid)) (w_db w) = (Inr rows, d)"
    and "ss = map settlement_for_balance rows" "w' = w\<lparr>w_db := d\<rparr>"
    by (auto simp: findSettlementsForBalances_def act_simps)
  with stl.findMany_where [OF f] show ?thesis by (simp add: book_settlements_def)
qed

text \<open>The balances answered are the net positions of the current members.\<close>

lemma getGroupBalances_Inr:
  assumes "getGroupBalances P uid gid w = (Inr dtos, w')"
  shows "T (w_db w') = T (w_db w) \<and> is_member (T (w_db w)) gid uid \<and>
    mset (map (\<lambda>d. (bd_userId d, bd_amountMinorUnits d)) dtos) =
      mset (map (\<lambda>r. (gm_userId (row_data r), js_Number (group_net (T (w_db w)) gid (gm_userId (row_data r)))))
             (filter (in_group_member gid) (members (T (w_db w)))))"
proof -
  from assms obtain g ms es ss w1 w2 w3 where
      g: "SettlementRepository_findGroupById P gid w = (Inr (Some g), w1)"
    and ms: "findGroupMembers P gid w1 = (Inr ms, w2)"
    and mem: "uid \<in> set (map mu_userId ms)"
    and es: "findExpensesForBalances P gid w2 = (Inr es, w3)"
    and ss: "findSettlementsForBalances P gid w3 = (Inr ss, w')"
    and dtos: "dtos = map (\<lambda>m. \<lparr>bd_userId = mu_userId m, bd_name = sf_name (mu_user m),
                     bd_email = sf_email (mu_user m),
                     bd_amountMinorUnits = js_Number (balance_get (calculateBalances es ss) (mu_userId m))\<rparr>) ms"
    by (auto simp: getGroupBalances_def act_simps Let_def)
  let ?t = "T (w_db w)"
  have t: "T (w_db w1) = ?t" "T (w_db w2) = ?t" "T (w_db w3) = ?t" "T (w_db w') = ?t"
    using settlement_findGroup_Inr [OF g] findGroupMembers_Inr [OF ms]
      findExpensesForBalances_Inr [OF es] findSettlementsForBalances_Inr [OF ss] by simp_all
  have net: "balance_get (calculateBalances es ss) u = group_net ?t gid u" for u
  proof -
    have "(\<Sum>s\<leftarrow>ss. settlement_net u s) = (\<Sum>s\<leftarrow>book_settlements ?t gid. settlement_net u s)"
      using findSettlementsForBalances_Inr [OF ss] t by (intro sum_list_mset_cong) simp
    then show ?thesis using findExpensesForBalances_Inr [OF es, of u] t
      by (simp add: balance_get_calculate group_net_def net_position_def)
  qed
  have d: "map (\<lambda>d. (bd_userId d, bd_amountMinorUnits d)) dtos =
      map (\<lambda>u. (u, js_Number (group_net ?t gid u))) (map mu_userId ms)"
    by (simp add: dtos net comp_def)
  have "mset (map (\<lambda>d. (bd_userId d, bd_amountMinorUnits d)) dtos) =
      image_mset (\<lambda>u. (u, js_Number (group_net ?t gid u))) (mset (map mu_userId ms))"
    unfolding d by (simp only: mset_map)
  also have "mset (map mu_userId ms) =
      mset (map (\<lambda>r. gm_userId (row_data r)) (filter (in_group_member gid) (members ?t)))"
    using findGroupMembers_Inr [OF ms] t by simp
  finally show ?thesis using t mem findGroupMembers_member [OF ms] by (simp add: multiset.map_comp comp_def)
qed

end

text \<open>
  The net positions of the members sum to what the users who left the group still owe; when
  nobody with an entry in the book has left, they cancel out.
\<close>

lemma group_net_members:
  assumes ok: "ledger_ok t"
    and ms: "distinct (map (\<lambda>r. gm_userId (row_data r)) (filter (in_group_member gid) (members t)))"
  shows "(\<Sum>r\<leftarrow>filter (in_group_member gid) (members t). group_net t gid (gm_userId (row_data r))) =
    - (\<Sum>u\<in>{u \<in> book_users (book_expenses t gid) (book_settlements t gid). \<not> is_member t gid u}.
         group_net t gid u)"
proof -
  let ?us = "map (\<lambda>r. gm_userId (row_data r)) (filter (in_group_member gid) (members t))"
  let ?gone = "{u \<in> book_users (book_expenses t gid) (book_settlements t gid). \<not> is_member t gid u}"
  have U: "set ?us = {u. is_member t gid u}"
    by (auto simp: is_member_def member_where_def in_group_member_def)
  have fin: "finite ?gone" by simp
  have disj: "set ?us \<inter> ?gone = {}" unfolding U by blast
  have "(\<Sum>r\<leftarrow>filter (in_group_member gid) (members t). group_net t gid (gm_userId (row_data r))) =
      (\<Sum>u\<leftarrow>?us. group_net t gid u)" by (simp add: comp_def)
  also have "\<dots> = (\<Sum>u\<in>set ?us. group_net t gid u)"
    using ms by (rule sum_list_distinct_conv_sum_set)
  finally have members: "(\<Sum>r\<leftarrow>filter (in_group_member gid) (members t). group_net t gid (gm_userId (row_data r))) =
      (\<Sum>u\<in>set ?us. group_net t gid u)" .
  have "(\<Sum>u\<in>set ?us \<union> ?gone. group_net t gid u) = 0"
    unfolding group_net_def
  proof (rule sum_net_position)
    show "finite (set ?us \<union> ?gone)" using fin by simp
    show "book_users (book_expenses t gid) (book_settlements t gid) \<subseteq> set ?us \<union> ?gone" using U by blast
    show "\<forall>e\<in>set (book_expenses t gid). balanced_expense e" by (rule ledger_book_balanced [OF ok])
  qed
  then show ?thesis
    using sum.union_disjoint [OF finite_set fin disj, of "group_net t gid"] members by linarith
qed

lemma group_net_zero:
  assumes "ledger_ok t"
    and "distinct (map (\<lambda>r. gm_userId (row_data r)) (filter (in_group_member gid) (members t)))"
    and "book_users (book_expenses t gid) (book_settlements t gid) \<subseteq> {u. is_member t gid u}"
  shows "(\<Sum>r\<leftarrow>filter (in_group_member gid) (members t). group_net t gid (gm_userId (row_data r))) = 0"
proof -
  have "{u \<in> book_users (book_expenses t gid) (book_settlements t gid). \<not> is_member t gid u} = {}"
    using assms(3) by auto
  then show ?thesis using group_net_members [OF assms(1,2)] by (simp del: Collect_empty_eq)
qed

section \<open>Recording a settlement once\<close>

text \<open>A settlement stored and the record that answers a retry of the request that made it.\<close>

definition settled :: "tables \<Rightarrow> IdempotencyContext \<Rightarrow> Settlement row \<Rightarrow> IdempotencyRecord row \<Rightarrow> bool" where
  "settled t context s r \<longleftrightarrow> s \<in> set (settlements t) \<and> r \<in> set (idempotencyRecords t) \<and>
     id_key (row_data r) = ic_key context \<and> id_userId (row_data r) = ic_userId context \<and>
     id_requestHash (row_data r) = ic_requestHash context \<and> id_status (row_data r) = COMPLETED \<and>
     id_resourceId (row_data r) = Some (row_id s) \<and> row_id s \<noteq> []"

definition ids_ok :: "tables \<Rightarrow> bool" where
  "ids_ok t \<longleftrightarrow> distinct (map row_id (settlements t)) \<and>
     distinct (map (\<lambda>r. id_key (row_data r)) (idempotencyRecords t))"

lemma ids_okD:
  assumes "ids_ok t"
  shows "s \<in> set (settlements t) \<Longrightarrow> s' \<in> set (settlements t) \<Longrightarrow> row_id s = row_id s' \<Longrightarrow> s = s'"
    and "r \<in> set (idempotencyRecords t) \<Longrightarrow> r' \<in> set (idempotencyRecords t) \<Longrightarrow>
           id_key (row_data r) = id_key (row_data r') \<Longrightarrow> r = r'"
  using assms by (auto simp: ids_ok_def distinct_map dest: inj_onD)

text \<open>The tables after a settlement was made for the first time under its key.\<close>

definition newly_settled ::
  "env \<Rightarrow> tables \<Rightarrow> IdempotencyContext \<Rightarrow> Settlement \<Rightarrow> ActivityEventInput \<Rightarrow>
   Settlement row \<Rightarrow> tables \<Rightarrow> bool" where
  "newly_settled E t context data activity row t' \<longleftrightarrow>
     (\<exists>keep claim ev i.
        row_data row = data \<and> \<not> has_id (row_id row) (settlements t) \<and> row_id row \<noteq> [] \<and>
        row_data ev = settlement_event row activity \<and>
        row_data claim = complete_record (row_id row) (claim_for context (se_groupId data)
          (clock E i + IDEMPOTENCY_RECORD_TTL_MS)) \<and>
        (\<forall>r\<in>set (filter keep (idempotencyRecords t)).
           id_key (row_data r) \<noteq> ic_key context \<and> row_id r \<noteq> row_id claim) \<and>
        (keep = (\<lambda>_. True) \<or> (\<exists>r0\<in>set (idempotencyRecords t). \<exists>j. keep = (\<lambda>r. row_id r \<noteq> row_id r0) \<and>
           id_key (row_data r0) = ic_key context \<and> id_userId (row_data r0) = ic_userId context \<and>
           id_expiresAt (row_data r0) \<le> clock E j)) \<and>
        t' = t\<lparr>settlements := settlements t @ [row], activities := activities t @ [ev],
               idempotencyRecords := filter keep (idempotencyRecords t) @ [claim]\<rparr>)"

lemma newly_settledE:
  assumes "newly_settled E t context data activity row t'"
  obtains keep claim ev i where "\<not> has_id (row_id row) (settlements t)" "row_id row \<noteq> []"
    and "row_data row = data" "row_data ev = settlement_event row activity"
    and "row_data claim = complete_record (row_id row) (claim_for context (se_groupId data)
          (clock E i + IDEMPOTENCY_RECORD_TTL_MS))"
    and "\<forall>r\<in>set (filter keep (idempotencyRecords t)). id_key (row_data r) \<noteq> ic_key context"
    and "t' = t\<lparr>settlements := settlements t @ [row], activities := activities t @ [ev],
               idempotencyRecords := filter keep (idempotencyRecords t) @ [claim]\<rparr>"
  using assms unfolding newly_settled_def by blast

text \<open>Invariants that a settlement keeps, for example those that its tables do not concern.\<close>

definition settlement_keeps :: "env \<Rightarrow> (tables \<Rightarrow> bool) \<Rightarrow> bool" where
  "settlement_keeps E I \<longleftrightarrow> (\<forall>t ctx data activity row t'.
     newly_settled E t ctx data activity row t' \<longrightarrow> I t \<longrightarrow> I t')"

lemma settlement_keeps_other:
  assumes "\<And>t f g h. I (idempotencyRecords_update h (activities_update g (settlements_update f t))) = I t"
  shows "settlement_keeps E I"
  unfolding settlement_keeps_def
proof (intro allI impI)
  fix t ctx data activity row t'
  assume "newly_settled E t ctx data activity row t'" and I: "I t"
  then obtain keep claim ev where "t' = t\<lparr>settlements := settlements t @ [row],
      activities := activities t @ [ev],
      idempotencyRecords := filter keep (idempotencyRecords t) @ [claim]\<rparr>"
    by (elim newly_settledE)
  then show "I t'"
    using I assms [where f = "\<lambda>_. settlements t @ [row]" and t = t and g = "\<lambda>_. activities t @ [ev]" and
        h = "\<lambda>_. filter keep (idempotencyRecords t) @ [claim]"] by simp
qed

lemma newly_settled_settled:
  assumes "newly_settled E t context data activity row t'"
  obtains r i where "settled t' context row r"
    "id_expiresAt (row_data r) = clock E i + IDEMPOTENCY_RECORD_TTL_MS"
  using assms
proof (rule newly_settledE)
  fix keep claim ev i
  assume "row_id row \<noteq> []"
    and "row_data claim = complete_record (row_id row) (claim_for context (se_groupId data)
          (clock E i + IDEMPOTENCY_RECORD_TTL_MS))"
    and "t' = t\<lparr>settlements := settlements t @ [row], activities := activities t @ [ev],
               idempotencyRecords := filter keep (idempotencyRecords t) @ [claim]\<rparr>"
  then show thesis
    by (intro that [of claim i]) (simp_all add: settled_def complete_record_def claim_for_def)
qed

lemma newly_settled_ids_ok:
  assumes "newly_settled E t context data activity row t'" "ids_ok t"
  shows "ids_ok t'"
  using assms(1)
proof (rule newly_settledE)
  fix keep claim ev i
  assume fresh: "\<not> has_id (row_id row) (settlements t)"
    and claim: "row_data claim = complete_record (row_id row) (claim_for context (se_groupId data)
          (clock E i + IDEMPOTENCY_RECORD_TTL_MS))"
    and keys: "\<forall>r\<in>set (filter keep (idempotencyRecords t)). id_key (row_data r) \<noteq> ic_key context"
    and t': "t' = t\<lparr>settlements := settlements t @ [row], activities := activities t @ [ev],
               idempotencyRecords := filter keep (idempotencyRecords t) @ [claim]\<rparr>"
  have "id_key (row_data claim) = ic_key context"
    by (simp add: claim complete_record_def claim_for_def)
  then show ?thesis
    using assms(2) fresh keys by (auto simp: ids_ok_def t' has_id_iff distinct_map inj_on_def)
qed

context prisma
begin

lemma find_idempotency_Inr:
  assumes "find_idempotency P key w = (Inr x, w')"
  shows "T (w_db w') = T (w_db w) \<and> only_tables w w' \<and>
    (case x of
       None \<Rightarrow> (\<forall>r\<in>set (idempotencyRecords (T (w_db w))). id_key (row_data r) \<noteq> key)
     | Some r \<Rightarrow> r \<in> set (idempotencyRecords (T (w_db w))) \<and> id_key (row_data r) = key)"
proof -
  obtain d where f: "dg_findUnique (p_idempotencyRecord P) (\<lambda>r. id_key (row_data r) = key) (w_db w) = (Inr x, d)"
    and w': "w' = w\<lparr>w_db := d\<rparr>"
    using assms by (auto simp: find_idempotency_def act_simps)
  show ?thesis
    using f w' by (cases x) (auto dest: idr.findUnique_None idr.findUnique_Some)
qed

lemma settlementInclude_Inr:
  assumes "settlementInclude P r w = (Inr s, w')"
  shows "T (w_db w') = T (w_db w) \<and> sr_row s = r \<and> only_tables w w'"
proof -
  from assms obtain payer payee w1 where
      "includeUser P (se_payerId (row_data r)) w = (Inr payer, w1)"
      "includeUser P (se_payeeId (row_data r)) w1 = (Inr payee, w')" "sr_row s = r"
    by (auto simp: settlementInclude_def act_simps)
  then show ?thesis by (auto dest!: includeUser_Inr intro: only_tables_trans)
qed

lemma replaySettlement_Inr:
  assumes "replaySettlement P record w = (Inr s, w')"
  shows "T (w_db w') = T (w_db w) \<and> sr_row s \<in> set (settlements (T (w_db w))) \<and>
    id_resourceId record = Some (row_id (sr_row s)) \<and> row_id (sr_row s) \<noteq> []"
proof -
  from assms obtain r d where tr: "truthy (id_resourceId record)"
    and f: "dg_findUnique (p_settlement P) (\<lambda>r. Some (row_id r) = id_resourceId record) (w_db w) = (Inr (Some r), d)"
    and i: "settlementInclude P r (w\<lparr>w_db := d\<rparr>) = (Inr s, w')"
    by (auto simp: replaySettlement_def act_simps)
  from stl.findUnique_Some [OF f] settlementInclude_Inr [OF i] tr show ?thesis
    by (auto simp: truthy_def)
qed

lemma replaySettlement_settled:
  assumes "replaySettlement P (row_data r) w = (Inr s, w')"
    and "r \<in> set (idempotencyRecords (T (w_db w)))" "id_key (row_data r) = ic_key context"
    and "reconcileIdempotencyRecord (row_data r) context t = Inr Replay"
  shows "settled (T (w_db w)) context (sr_row s) r"
  using replaySettlement_Inr [OF assms(1)] assms(2-4)
  by (auto simp: settled_def reconcile_Replay)

lemma check_existing_Inr:
  assumes "check_existing P E context w = (Inr x, w')"
  shows "(\<exists>s r. x = Some s \<and> T (w_db w') = T (w_db w) \<and> settled (T (w_db w)) context (sr_row s) r) \<or>
    (x = None \<and> (\<exists>keep. T (w_db w') = idempotencyRecords_update (filter keep) (T (w_db w)) \<and>
       (keep = (\<lambda>_. True) \<or> (\<exists>r0\<in>set (idempotencyRecords (T (w_db w))). \<exists>j. keep = (\<lambda>r. row_id r \<noteq> row_id r0) \<and>
           id_key (row_data r0) = ic_key context \<and> id_userId (row_data r0) = ic_userId context \<and>
           id_expiresAt (row_data r0) \<le> clock E j))))"
proof -
  from assms obtain y w1 where f: "find_idempotency P (ic_key context) w = (Inr y, w1)"
    by (auto simp: check_existing_def act_simps)
  note f' = find_idempotency_Inr [OF f]
  show ?thesis
  proof (cases y)
    case None
    then have "x = None" "T (w_db w') = idempotencyRecords_update (filter (\<lambda>_. True)) (T (w_db w))"
      using assms f f' by (auto simp: check_existing_def act_simps)
    then show ?thesis by blast
  next
    case (Some r)
    let ?t = "clock E (w_tick w1)" and ?w = "w1\<lparr>w_tick := Suc (w_tick w1)\<rparr>"
    from assms f Some obtain o1 where o1: "reconcileIdempotencyRecord (row_data r) context ?t = Inr o1"
      by (auto simp: check_existing_def act_simps)
    show ?thesis
    proof (cases o1)
      case Replay
      with assms f Some o1 obtain s where rep: "replaySettlement P (row_data r) ?w = (Inr s, w')" and "x = Some s"
        by (auto simp: check_existing_def act_simps)
      then show ?thesis
        using replaySettlement_settled [OF rep _ _ o1 [unfolded Replay]] replaySettlement_Inr [OF rep] f' Some
        by auto
    next
      case Reuse
      with assms f Some o1 obtain n d where
          del: "dg_deleteMany (p_idempotencyRecord P) (\<lambda>x. row_id x = row_id r) (w_db w1) = (Inr n, d)"
        and x: "x = None" and w': "w_db w' = d"
        by (auto simp: check_existing_def act_simps)
      have "T d = idempotencyRecords_update (filter (\<lambda>x. row_id x \<noteq> row_id r)) (T (w_db w))"
        using idr.deleteMany_Inr(2) [OF del] f' by (simp add: cascade_none_def)
      moreover have "id_userId (row_data r) = ic_userId context" "id_expiresAt (row_data r) \<le> ?t"
        using o1 Reuse by (simp_all add: reconcile_Reuse)
      ultimately show ?thesis using f' Some x w' by auto
    qed
  qed
qed

lemma createSettlementTx_Inr:
  assumes "createSettlementTx P E data context activity w = (Inr s, w')"
  shows "(T (w_db w') = T (w_db w) \<and> (\<exists>r. settled (T (w_db w)) context (sr_row s) r)) \<or>
    newly_settled E (T (w_db w)) context data activity (sr_row s) (T (w_db w'))"
proof -
  from assms obtain x w1 where c: "check_existing P E context w = (Inr x, w1)"
    by (auto simp: createSettlementTx_def act_simps)
  show ?thesis
  proof (cases x)
    case (Some y)
    then have "s = y" "w' = w1" using assms c by (auto simp: createSettlementTx_def act_simps)
    then show ?thesis using check_existing_Inr [OF c] Some by auto
  next
    case None
    let ?c = "claim_for context (se_groupId data) (clock E (w_tick w1) + IDEMPOTENCY_RECORD_TTL_MS)"
    from assms c None obtain claim d1 row d2 w2 w3 i u d3 where
        cl: "dg_create (p_idempotencyRecord P) ?c (w_db w1) = (Inr claim, d1)"
      and st: "dg_create (p_settlement P) data d1 = (Inr row, d2)"
      and inc: "settlementInclude P row (w1\<lparr>w_tick := Suc (w_tick w1), w_db := d2\<rparr>) = (Inr s, w2)"
      and ev: "createActivityEvent P (settlement_event row activity) w2 = (Inr i, w3)"
      and up: "dg_update (p_idempotencyRecord P) (\<lambda>r. row_id r = row_id claim)
                (complete_record (row_id row)) (w_db w3) = (Inr u, d3)"
      and w': "w' = w3\<lparr>w_db := d3\<rparr>"
      by (auto simp: createSettlementTx_def act_simps)
    from check_existing_Inr [OF c] None obtain keep where
        t1: "T (w_db w1) = idempotencyRecords_update (filter keep) (T (w_db w))"
      and keep: "keep = (\<lambda>_. True) \<or> (\<exists>r0\<in>set (idempotencyRecords (T (w_db w))). \<exists>j. keep = (\<lambda>r. row_id r \<noteq> row_id r0) \<and>
           id_key (row_data r0) = ic_key context \<and> id_userId (row_data r0) = ic_userId context \<and>
           id_expiresAt (row_data r0) \<le> clock E j)"
      by blast
    let ?rs = "filter keep (idempotencyRecords (T (w_db w)))"
    from idr.create_Inr [OF cl] t1 have
        t2: "T d1 = idempotencyRecords_update (\<lambda>_. ?rs @ [claim]) (T (w_db w))"
      and claim: "row_data claim = ?c"
      and rs: "\<forall>r\<in>set ?rs. id_key (row_data r) \<noteq> ic_key context \<and> row_id r \<noteq> row_id claim"
      by (auto simp: inserted_def clash_defs claim_for_def has_id_iff)
    from stl.create_Inr [OF st] t2 have
        t3: "T d2 = settlements_update (\<lambda>rs. rs @ [row]) (T d1)" and row: "row_data row = data"
        "\<not> has_id (row_id row) (settlements (T (w_db w)))" "row_id row \<noteq> []"
      by (auto simp: inserted_def)
    from settlementInclude_Inr [OF inc] have w2: "T (w_db w2) = T d2" "sr_row s = row" by simp_all
    from createActivityEvent_Inr [OF ev] obtain e where
        t4: "T (w_db w3) = activities_update (\<lambda>rs. rs @ [e]) (T d2)"
      and e: "row_data e = settlement_event row activity" using w2 by auto
    from idr.update_Inr [OF up] obtain stamp where
        t5: "T d3 = idempotencyRecords_update
          (map (touched (\<lambda>r. row_id r = row_id claim) (complete_record (row_id row)) stamp)) (T (w_db w3))"
      by blast
    let ?claim = "touched (\<lambda>r. row_id r = row_id claim) (complete_record (row_id row)) stamp claim"
    have m: "map (touched (\<lambda>r. row_id r = row_id claim) (complete_record (row_id row)) stamp) ?rs = ?rs"
      using rs by (intro map_idI) (auto simp: touched_def)
    have t': "T (w_db w') = (T (w_db w))\<lparr>settlements := settlements (T (w_db w)) @ [row],
        activities := activities (T (w_db w)) @ [e], idempotencyRecords := ?rs @ [?claim]\<rparr>"
      using m by (simp add: w' t5 t4 t3 t2)
    have "newly_settled E (T (w_db w)) context data activity (sr_row s) (T (w_db w'))"
      unfolding newly_settled_def w2(2) t'
      using row e claim rs keep
      by (intro exI [of _ keep] exI [of _ ?claim] exI [of _ e] exI [of _ "w_tick w1"])
        (simp add: row_data_touched)
    then show ?thesis by blast
  qed
qed

text \<open>The outcomes of the repository call, retries after a lost race included.\<close>

lemma silent_settlement_reads [silent_intros]:
  "silent T (SettlementRepository_findGroupById P gid)"
  "silent T (findGroupMembers P gid)"
  "silent T (settlementInclude P r)"
  "silent T (find_idempotency P key)"
  unfolding SettlementRepository_findGroupById_def findGroupMembers_def settlementInclude_def
    find_idempotency_def
  by (intro silent_intros grp.silent_reads mem.silent_reads idr.silent_reads)+

lemma silent_settlement_replay [silent_intros]:
  "silent T (replaySettlement P record)"
  "silent T (findSettlementById P sid)"
  "silent T (findSettlementsByGroupId P gid pagination)"
  "silent T (settlement_assertMemberOfGroup P uid gid)"
  unfolding replaySettlement_def findSettlementById_def findSettlementsByGroupId_def
    settlement_assertMemberOfGroup_def
  by (intro silent_intros stl.silent_reads)+

lemma silent_settlement_queries:
  "silent T (getGroupSettlements P uid gid pagination)"
  "silent T (getSettlementById P uid sid)"
  unfolding getGroupSettlements_def getSettlementById_def by (intro silent_intros)+

lemma silent_retry [silent_intros]: "silent T (retry_after_conflict P E context)"
  unfolding retry_after_conflict_def by (intro silent_intros)

lemma retry_after_conflict_Inr:
  assumes "retry_after_conflict P E context w = (Inr s, w')"
  shows "T (w_db w') = T (w_db w) \<and> (\<exists>r. settled (T (w_db w)) context (sr_row s) r)"
proof -
  from assms obtain r w1 w2 where f: "find_idempotency P (ic_key context) w = (Inr (Some r), w1)"
    and o1: "reconcileIdempotencyRecord (row_data r) context (clock E (w_tick w1)) = Inr Replay"
    and rep: "replaySettlement P (row_data r) w2 = (Inr s, w')" and w2: "w_db w2 = w_db w1"
    by (auto simp: retry_after_conflict_def act_simps split: option.splits if_splits)
  from find_idempotency_Inr [OF f] replaySettlement_Inr [OF rep] w2
    replaySettlement_settled [OF rep _ _ o1]
  show ?thesis by auto
qed

lemma transaction_P2002:
  assumes "in_transaction P body w = (Inl P2002, w')"
  shows "T (w_db w') = T (w_db w)"
  using assms by (cases rule: in_transaction_Inl) (auto simp: P2002_def)

lemma repository_createSettlement_Inr:
  assumes "SettlementRepository_createSettlement P E data context activity w = (Inr s, w')"
  shows "(T (w_db w') = T (w_db w) \<and> (\<exists>r. settled (T (w_db w)) context (sr_row s) r)) \<or>
    newly_settled E (T (w_db w)) context data activity (sr_row s) (T (w_db w'))"
  using assms unfolding SettlementRepository_createSettlement_def catch_Inr_iff
proof (elim disjE exE conjE)
  assume "in_transaction P (createSettlementTx P E data context activity) w = (Inr s, w')"
  then obtain w1 where run: "createSettlementTx P E data context activity w = (Inr s, w1)"
    and "T (w_db w') = T (w_db w1)" by (rule in_transaction_Inr)
  with createSettlementTx_Inr [OF run] show ?thesis by simp
next
  fix e w1
  assume t: "in_transaction P (createSettlementTx P E data context activity) w = (Inl e, w1)"
    and h: "(if e = P2002 then retry_after_conflict P E context else throw e) w1 = (Inr s, w')"
  then have e: "e = P2002" and r: "retry_after_conflict P E context w1 = (Inr s, w')"
    by (auto simp: act_simps split: if_splits)
  from transaction_P2002 [OF t [unfolded e]] retry_after_conflict_Inr [OF r] show ?thesis by auto
qed

lemma clean_repository_createSettlement [clean_intros]:
  "clean T (SettlementRepository_createSettlement P E data context activity)"
  unfolding clean_def
proof (intro allI impI)
  fix w e w'
  assume "SettlementRepository_createSettlement P E data context activity w = (Inl e, w')"
    and ndb: "\<not> db_exn e"
  then obtain e1 w1 where t: "in_transaction P (createSettlementTx P E data context activity) w = (Inl e1, w1)"
    and h: "(if e1 = P2002 then retry_after_conflict P E context else throw e1) w1 = (Inl e, w')"
    unfolding SettlementRepository_createSettlement_def catch_Inl_iff by blast
  show "T (w_db w') = T (w_db w)"
  proof (cases "e1 = P2002")
    case True
    then have "T (w_db w') = T (w_db w1)"
      using h silentD [OF silent_retry] by fastforce
    then show ?thesis using transaction_P2002 t True by simp
  next
    case False
    then have "e = e1" "w' = w1" using h by (auto simp: act_simps)
    then show ?thesis using cleanD [OF clean_transaction t] ndb by simp
  qed
qed

text \<open>The invariants through the repository call.\<close>

lemma keeps_repository_createSettlement:
  assumes "settlement_keeps E I"
  shows "keeps (on_db (\<lambda>d. I (T d))) (SettlementRepository_createSettlement P E data context activity)"
  unfolding SettlementRepository_createSettlement_def
proof (intro keeps_catch keeps_transaction keeps_if keeps_silent silent_intros keeps_throw)
  fix w s w'
  assume "I (T (w_db w))" and run: "createSettlementTx P E data context activity w = (Inr s, w')"
  with createSettlementTx_Inr [OF run] assms show "I (T (w_db w'))"
    unfolding settlement_keeps_def by metis
qed

text \<open>The service.\<close>

lemma createSettlement_Inr:
  fixes w :: "('d, 'r, 'm) world"
  assumes "createSettlement P R E ttl uid input context w = (Inr dto, w')"
  shows "\<exists>s settledAt.
     is_member (T (w_db w)) (si_groupId input) uid \<and> si_payerId input \<noteq> si_payeeId input \<and>
     is_member (T (w_db w)) (si_groupId input) (si_payerId input) \<and>
     is_member (T (w_db w)) (si_groupId input) (si_payeeId input) \<and>
     dto = settlement_toDto s \<and>
     ((T (w_db w') = T (w_db w) \<and> (\<exists>r. settled (T (w_db w)) context (sr_row s) r)) \<or>
      newly_settled E (T (w_db w)) context
        \<lparr>se_groupId = si_groupId input, se_payerId = si_payerId input, se_payeeId = si_payeeId input,
         se_amountMinorUnits = si_amountMinorUnits input, se_currencyCode = ''PKR'',
         se_settledAt = settledAt\<rparr>
        \<lparr>ai_userId = uid, ai_type = SETTLEMENT_ADDED, ai_message = ''recorded a settlement''\<rparr>
        (sr_row s) (T (w_db w')))"
proof -
  let ?op = "\<lambda>settledAt. SettlementRepository_createSettlement P E
                 \<lparr>se_groupId = si_groupId input, se_payerId = si_payerId input,
                  se_payeeId = si_payeeId input, se_amountMinorUnits = si_amountMinorUnits input,
                  se_currencyCode = ''PKR'', se_settledAt = settledAt\<rparr>
                 context
                 \<lparr>ai_userId = uid, ai_type = SETTLEMENT_ADDED,
                  ai_message = ''recorded a settlement''\<rparr>"
  from assms obtain g ms w1 w2 s w3 where
      g: "SettlementRepository_findGroupById P (si_groupId input) w = (Inr (Some g), w1)"
    and ms: "findGroupMembers P (si_groupId input) w1 = (Inr ms, w2)"
    and checks: "uid \<in> set (map mu_userId ms)" "si_payerId input \<noteq> si_payeeId input"
      "si_payerId input \<in> set (map mu_userId ms)" "si_payeeId input \<in> set (map mu_userId ms)"
    and run: "withLock R E ttl (settlementLockKey (si_groupId input)) (seq (now E) ?op) w2 = (Inr s, w3)"
    and dto: "settlement_toDto s = dto" and w': "w_db w' = w_db w3"
    by (auto simp: createSettlement_def act_simps)
  obtain w4 w5 :: "('d, 'r, 'm) world" where op: "seq (now E) ?op w4 = (Inr s, w5)"
    and db: "w_db w4 = w_db w2" "w_db w3 = w_db w5" by (rule withLock_Inr [OF run])
  then have repo: "?op (clock E (w_tick w4)) (w4\<lparr>w_tick := Suc (w_tick w4)\<rparr>) = (Inr s, w5)"
    by (auto simp: act_simps)
  have t: "T (w_db w2) = T (w_db w)" "T (w_db w1) = T (w_db w)"
    using settlement_findGroup_Inr [OF g] findGroupMembers_Inr [OF ms] by simp_all
  show ?thesis
    using repository_createSettlement_Inr [OF repo] checks dto findGroupMembers_member [OF ms] t db w'
    by (intro exI [of _ s] exI [of _ "clock E (w_tick w4)"]) auto
qed

lemma clean_createSettlement: "clean T (createSettlement P R E ttl uid input context)"
  unfolding createSettlement_def
  by (intro clean_seq silent_intros clean_catch_throw clean_seq_tail clean_withLock
      clean_repository_createSettlement never_fails_seq never_fails_basic) simp

lemma keeps_createSettlement:
  assumes "settlement_keeps E I"
  shows "keeps (on_db (\<lambda>d. I (T d))) (createSettlement P R E ttl uid input context)"
  unfolding createSettlement_def
  by (intro keeps_seq [OF keeps_silent] silent_intros keeps_catch keeps_seq keeps_withLock
      keeps_repository_createSettlement assms keep_intros)

end

section \<open>Retries\<close>

definition one_day_clock :: "env \<Rightarrow> bool" where
  "one_day_clock E \<longleftrightarrow> (\<forall>i j. clock E i < clock E j + IDEMPOTENCY_RECORD_TTL_MS)"

definition unexpired :: "env \<Rightarrow> tables \<Rightarrow> string \<Rightarrow> bool" where
  "unexpired E t key \<longleftrightarrow> (\<forall>r\<in>set (idempotencyRecords t). id_key (row_data r) = key \<longrightarrow>
     (\<forall>i. clock E i < id_expiresAt (row_data r)))"

text \<open>Once a record answers for a settlement, and as long as it has not expired, it is the answer.\<close>

lemma settled_not_new:
  assumes s: "settled t context s r" and ok: "ids_ok t" and exp: "unexpired E t (ic_key context)"
  shows "\<not> newly_settled E t context data activity row t'"
proof
  assume "newly_settled E t context data activity row t'"
  then obtain keep claim ev i where
      "\<forall>x\<in>set (filter keep (idempotencyRecords t)). id_key (row_data x) \<noteq> ic_key context"
      and keep: "keep = (\<lambda>_. True) \<or> (\<exists>r0\<in>set (idempotencyRecords t). \<exists>j. keep = (\<lambda>r. row_id r \<noteq> row_id r0) \<and>
           id_key (row_data r0) = ic_key context \<and> id_userId (row_data r0) = ic_userId context \<and>
           id_expiresAt (row_data r0) \<le> clock E j)"
    unfolding newly_settled_def by blast
  then have "\<not> keep r" using s by (auto simp: settled_def)
  with keep obtain r0 j where "r0 \<in> set (idempotencyRecords t)" "id_key (row_data r0) = ic_key context"
    and le: "id_expiresAt (row_data r0) \<le> clock E j" by auto
  then have "clock E j < id_expiresAt (row_data r0)" using exp by (simp add: unexpired_def)
  with le show False by simp
qed

lemma settled_unique:
  assumes "settled t context s r" "settled t context s' r'" "ids_ok t"
  shows "s' = s"
proof -
  have "r' = r" using assms ids_okD(2) [OF assms(3)] by (auto simp: settled_def)
  then show ?thesis using assms ids_okD(1) [OF assms(3)] by (auto simp: settled_def)
qed

lemma newly_settled_unexpired:
  assumes "newly_settled E t context data activity row t'" "one_day_clock E"
  shows "unexpired E t' (ic_key context)"
  using assms(1)
proof (rule newly_settledE)
  fix keep claim ev i
  assume "row_data claim = complete_record (row_id row) (claim_for context (se_groupId data)
          (clock E i + IDEMPOTENCY_RECORD_TTL_MS))"
    and "\<forall>r\<in>set (filter keep (idempotencyRecords t)). id_key (row_data r) \<noteq> ic_key context"
    and "t' = t\<lparr>settlements := settlements t @ [row], activities := activities t @ [ev],
               idempotencyRecords := filter keep (idempotencyRecords t) @ [claim]\<rparr>"
  then show ?thesis using assms(2)
    by (auto simp: unexpired_def one_day_clock_def complete_record_def claim_for_def)
qed

lemma st_id_toDto [simp]: "st_id (settlement_toDto s) = row_id (sr_row s)"
  by (simp add: settlement_toDto_def Let_def)

context prisma
begin

lemma createSettlement_retry:
  assumes first: "createSettlement P R E ttl uid input context w = (Inr dto, w1)"
    and again: "createSettlement P R' E ttl' uid' input' context w2 = (Inr dto', w3)"
    and db: "T (w_db w2) = T (w_db w1)"
    and ok: "ids_ok (T (w_db w))" "unexpired E (T (w_db w)) (ic_key context)" "one_day_clock E"
  shows "T (w_db w3) = T (w_db w1)" and "st_id dto' = st_id dto"
    and "length (settlements (T (w_db w1))) \<le> length (settlements (T (w_db w))) + 1"
proof -
  obtain s settledAt where dto: "dto = settlement_toDto s" and
    run1: "(T (w_db w1) = T (w_db w) \<and> (\<exists>r. settled (T (w_db w)) context (sr_row s) r)) \<or>
      newly_settled E (T (w_db w)) context
        \<lparr>se_groupId = si_groupId input, se_payerId = si_payerId input, se_payeeId = si_payeeId input,
         se_amountMinorUnits = si_amountMinorUnits input, se_currencyCode = ''PKR'',
         se_settledAt = settledAt\<rparr>
        \<lparr>ai_userId = uid, ai_type = SETTLEMENT_ADDED, ai_message = ''recorded a settlement''\<rparr>
        (sr_row s) (T (w_db w1))" (is "?same \<or> ?new")
    using createSettlement_Inr [OF first] by blast
  have "(\<exists>r. settled (T (w_db w1)) context (sr_row s) r) \<and> ids_ok (T (w_db w1)) \<and>
      unexpired E (T (w_db w1)) (ic_key context) \<and>
      length (settlements (T (w_db w1))) \<le> length (settlements (T (w_db w))) + 1"
    using run1
  proof
    assume ?same
    then show ?thesis using ok by simp
  next
    assume new: ?new
    have "length (settlements (T (w_db w1))) = length (settlements (T (w_db w))) + 1"
      using new by (rule newly_settledE) simp
    moreover have "\<exists>r. settled (T (w_db w1)) context (sr_row s) r"
      using new by (rule newly_settled_settled) blast
    ultimately show ?thesis
      using newly_settled_ids_ok [OF new ok(1)] newly_settled_unexpired [OF new ok(3)] by simp
  qed
  then obtain r where t1: "settled (T (w_db w1)) context (sr_row s) r" "ids_ok (T (w_db w1))"
      "unexpired E (T (w_db w1)) (ic_key context)"
    and len: "length (settlements (T (w_db w1))) \<le> length (settlements (T (w_db w))) + 1" by blast
  obtain s' settledAt' where dto': "dto' = settlement_toDto s'" and
    run2: "(T (w_db w3) = T (w_db w1) \<and> (\<exists>r. settled (T (w_db w1)) context (sr_row s') r)) \<or>
      newly_settled E (T (w_db w1)) context
        \<lparr>se_groupId = si_groupId input', se_payerId = si_payerId input', se_payeeId = si_payeeId input',
         se_amountMinorUnits = si_amountMinorUnits input', se_currencyCode = ''PKR'',
         se_settledAt = settledAt'\<rparr>
        \<lparr>ai_userId = uid', ai_type = SETTLEMENT_ADDED, ai_message = ''recorded a settlement''\<rparr>
        (sr_row s') (T (w_db w3))"
    using createSettlement_Inr [OF again] db by auto
  then have same: "T (w_db w3) = T (w_db w1)" "\<exists>r. settled (T (w_db w1)) context (sr_row s') r"
    using settled_not_new [OF t1] by blast+
  show "T (w_db w3) = T (w_db w1)" by (rule same)
  show "st_id dto' = st_id dto" using settled_unique [OF t1(1) _ t1(2)] same(2) dto dto' by auto
  show "length (settlements (T (w_db w1))) \<le> length (settlements (T (w_db w))) + 1" by (rule len)
qed

end

end
