(* ===== verification/Http.thy ===== *)
theory Http
  imports Validators Worker Auth Settlements
begin

text \<open>
  The HTTP layer: the middlewares \<open>authenticate\<close>, \<open>validate\<close> and \<open>requireIdempotencyKey\<close>, the route
  tables of the \<open>routes.ts\<close> files as the chain of middlewares of each endpoint, the
  controllers, and what a request is answered with once \<open>asyncHandler\<close> has forwarded what was
  thrown to the central error handler. Matching a path to a route is Express' business: a
  request names its endpoint, and its parameters, query and body are JSON values.
\<close>

section \<open>Requests\<close>

record http_request =
  rq_authorization :: "string option"
  rq_idempotencyHeader :: "string option"
  rq_requestId :: "string option"
  rq_params :: json
  rq_query :: json
  rq_body :: json
  rq_userId :: string
  rq_idempotencyKey :: string

text \<open>What one process was started with: the clients of its services and its configuration.\<close>

record ('d, 'r, 'm) deployment =
  dp_prisma :: "'d prisma"
  dp_redis :: "'r redis"
  dp_env :: env
  dp_crypto :: crypto
  dp_mailer :: "'m mailer"
  dp_config :: AuthConfig
  dp_queue :: JobQueueConfig
  dp_lockTtlMs :: int
  dp_cacheTtl :: int
  dp_parse :: "schema \<Rightarrow> json \<Rightarrow> issues + json"

section \<open>Middlewares\<close>

text \<open>\<open>s.split(/\s+/)\<close>.\<close>

fun split_spaces :: "string \<Rightarrow> string list" where
  "split_spaces [] = [[]]"
| "split_spaces (c # s) =
     (if js_space c then
        (case s of d # _ \<Rightarrow> if js_space d then split_spaces s else [] # split_spaces s | [] \<Rightarrow> [[], []])
      else (case split_spaces s of w # ws \<Rightarrow> (c # w) # ws | [] \<Rightarrow> [[c]]))"

definition tokenMissing :: exn where
  "tokenMissing = UnauthorizedError TOKEN_MISSING ''Authentication token is required.''"

definition bearerRequired :: exn where
  "bearerRequired = UnauthorizedError TOKEN_MISSING ''Bearer token is required.''"

definition bearer_token :: "string option \<Rightarrow> exn + string" where
  "bearer_token header =
     (case header of
        None \<Rightarrow> Inl tokenMissing
      | Some [] \<Rightarrow> Inl tokenMissing
      | Some h \<Rightarrow>
          (case split_spaces (js_trim h) of
             [scheme, token] \<Rightarrow>
               if js_toLowerCase scheme \<noteq> ''bearer'' \<or> length token = 0 then Inl bearerRequired
               else Inr token
           | _ \<Rightarrow> Inl bearerRequired))"

definition authenticate ::
  "crypto \<Rightarrow> AuthConfig \<Rightarrow> http_request \<Rightarrow> (('d, 'r, 'm) world, http_request) act" where
  "authenticate K cf rq =
     seq (of_result (bearer_token (rq_authorization rq))) (\<lambda>token.
     seq (verifyToken K cf token) (\<lambda>(sub, email).
     ret (rq\<lparr>rq_userId := sub\<rparr>)))"

definition parse_or_throw ::
  "(schema \<Rightarrow> json \<Rightarrow> issues + json) \<Rightarrow> schema option \<Rightarrow> json \<Rightarrow> ('w, json) act" where
  "parse_or_throw parse schema v =
     (case schema of None \<Rightarrow> ret v
      | Some s \<Rightarrow> (case parse s v of Inl issues \<Rightarrow> throw (ZodError issues) | Inr x \<Rightarrow> ret x))"

record validation_schemas =
  vs_body :: "schema option"
  vs_query :: "schema option"
  vs_params :: "schema option"

definition validate ::
  "(schema \<Rightarrow> json \<Rightarrow> issues + json) \<Rightarrow> validation_schemas \<Rightarrow> http_request \<Rightarrow>
   ('w, http_request) act" where
  "validate parse schemas rq =
     seq (parse_or_throw parse (vs_body schemas) (rq_body rq)) (\<lambda>body.
     seq (parse_or_throw parse (vs_query schemas) (rq_query rq)) (\<lambda>query.
     seq (parse_or_throw parse (vs_params schemas) (rq_params rq)) (\<lambda>params.
     ret (rq\<lparr>rq_body := body, rq_query := query, rq_params := params\<rparr>))))"

datatype middleware = Authenticate | RequireIdempotencyKey | Validate validation_schemas

definition run_middleware ::
  "('d, 'r, 'm) deployment \<Rightarrow> middleware \<Rightarrow> http_request \<Rightarrow> (('d, 'r, 'm) world, http_request) act" where
  "run_middleware D mw rq =
     (case mw of
        Authenticate \<Rightarrow> authenticate (dp_crypto D) (dp_config D) rq
      | RequireIdempotencyKey \<Rightarrow>
          seq (of_result (requireIdempotencyKey (rq_idempotencyHeader rq))) (\<lambda>key.
          ret (rq\<lparr>rq_idempotencyKey := key\<rparr>))
      | Validate schemas \<Rightarrow> validate (dp_parse D) schemas rq)"

section \<open>The routes\<close>

datatype endpoint =
    POST_register | POST_login | POST_refresh | POST_logout | POST_verify_email
  | POST_resend_verification | POST_forgot_password | POST_reset_password | GET_me | PATCH_me
  | POST_groups | GET_groups | GET_group | PUT_group | DELETE_group | POST_member | DELETE_member
  | POST_expense | GET_group_expenses | GET_balances | POST_settlement | GET_group_settlements
  | GET_activity | GET_summary | POST_recompute
  | GET_expense | PATCH_expense | DELETE_expense | GET_settlement

definition with_body :: "schema \<Rightarrow> middleware" where
  "with_body s = Validate \<lparr>vs_body = Some s, vs_query = None, vs_params = None\<rparr>"

definition with_params :: "schema \<Rightarrow> middleware" where
  "with_params s = Validate \<lparr>vs_body = None, vs_query = None, vs_params = Some s\<rparr>"

definition with_params_body :: "schema \<Rightarrow> schema \<Rightarrow> middleware" where
  "with_params_body p b = Validate \<lparr>vs_body = Some b, vs_query = None, vs_params = Some p\<rparr>"

definition with_params_query :: "schema \<Rightarrow> schema \<Rightarrow> middleware" where
  "with_params_query p q = Validate \<lparr>vs_body = None, vs_query = Some q, vs_params = Some p\<rparr>"

fun auth_routes :: "endpoint \<Rightarrow> middleware list" where
  "auth_routes POST_register = [with_body registerBodySchema]"
| "auth_routes POST_login = [with_body loginBodySchema]"
| "auth_routes POST_refresh = [with_body refreshTokenBodySchema]"
| "auth_routes POST_logout = [with_body refreshTokenBodySchema]"
| "auth_routes POST_verify_email = [with_body verifyEmailBodySchema]"
| "auth_routes POST_resend_verification = [with_body resendVerificationBodySchema]"
| "auth_routes POST_forgot_password = [with_body forgotPasswordBodySchema]"
| "auth_routes POST_reset_password = [with_body resetPasswordBodySchema]"
| "auth_routes GET_me = [Authenticate]"
| "auth_routes PATCH_me = [Authenticate, with_body updateProfileBodySchema]"
| "auth_routes _ = []"

fun group_routes :: "endpoint \<Rightarrow> middleware list" where
  "group_routes POST_groups = [Authenticate, with_body createGroupBodySchema]"
| "group_routes GET_groups = [Authenticate]"
| "group_routes GET_group = [Authenticate, with_params groupParamsSchema]"
| "group_routes PUT_group = [Authenticate, with_params_body groupParamsSchema updateGroupBodySchema]"
| "group_routes DELETE_group = [Authenticate, with_params groupParamsSchema]"
| "group_routes POST_member = [Authenticate, with_params_body groupParamsSchema addMemberBodySchema]"
| "group_routes DELETE_member = [Authenticate, with_params memberParamsSchema]"
| "group_routes POST_expense =
     [Authenticate, with_params_body expenseTargetParamsSchema createExpenseBodySchema]"
| "group_routes GET_group_expenses =
     [Authenticate, with_params_query expenseTargetParamsSchema paginationQuerySchema]"
| "group_routes GET_balances = [Authenticate, with_params settlementGroupParamsSchema]"
| "group_routes POST_settlement = [Authenticate, RequireIdempotencyKey,
     with_params_body settlementGroupParamsSchema createSettlementBodySchema]"
| "group_routes GET_group_settlements =
     [Authenticate, with_params_query settlementGroupParamsSchema paginationQuerySchema]"
| "group_routes GET_activity =
     [Authenticate, with_params_query activityGroupParamsSchema activityQuerySchema]"
| "group_routes _ = []"

fun summary_routes :: "endpoint \<Rightarrow> middleware list" where
  "summary_routes GET_summary = [Authenticate, with_params summaryGroupParamsSchema]"
| "summary_routes POST_recompute = [Authenticate, with_params summaryGroupParamsSchema]"
| "summary_routes _ = []"

fun expense_routes :: "endpoint \<Rightarrow> middleware list" where
  "expense_routes GET_expense = [Authenticate, with_params expenseParamsSchema]"
| "expense_routes PATCH_expense =
     [Authenticate, with_params_body expenseParamsSchema updateExpenseBodySchema]"
| "expense_routes DELETE_expense = [Authenticate, with_params expenseParamsSchema]"
| "expense_routes _ = []"

fun settlement_routes :: "endpoint \<Rightarrow> middleware list" where
  "settlement_routes GET_settlement = [Authenticate, with_params settlementParamsSchema]"
| "settlement_routes _ = []"

text \<open>An endpoint belongs to one of the routers that \<open>routes/v1/index.ts\<close> mounts.\<close>

definition route_chain :: "endpoint \<Rightarrow> middleware list" where
  "route_chain ep = auth_routes ep @ group_routes ep @ summary_routes ep @ expense_routes ep @
     settlement_routes ep"

definition authenticated :: "endpoint \<Rightarrow> bool" where
  "authenticated ep \<longleftrightarrow> Authenticate \<in> set (route_chain ep)"

fun run_chain ::
  "('d, 'r, 'm) deployment \<Rightarrow> middleware list \<Rightarrow> http_request \<Rightarrow> (('d, 'r, 'm) world, http_request) act" where
  "run_chain D [] rq = ret rq"
| "run_chain D (mw # mws) rq = seq (run_middleware D mw rq) (run_chain D mws)"

section \<open>Controllers\<close>

text \<open>
  Property reads of a validated body. After validation the amounts and page numbers are whole,
  so their integer part is the number itself; a field that the schema requires is there.
\<close>

definition optional_string :: "json \<Rightarrow> string \<Rightarrow> string option" where
  "optional_string v k = (case json_field v k of Some (JString s) \<Rightarrow> Some s | _ \<Rightarrow> None)"

definition string_field :: "json \<Rightarrow> string \<Rightarrow> string" where
  "string_field v k = (case optional_string v k of Some s \<Rightarrow> s | None \<Rightarrow> [])"

definition optional_int :: "json \<Rightarrow> string \<Rightarrow> int option" where
  "optional_int v k = (case json_field v k of Some (JNumber q) \<Rightarrow> Some \<lfloor>q\<rfloor> | _ \<Rightarrow> None)"

definition int_field :: "json \<Rightarrow> string \<Rightarrow> int" where
  "int_field v k = (case optional_int v k of Some n \<Rightarrow> n | None \<Rightarrow> 0)"

definition read_splitType :: "string \<Rightarrow> SplitType" where
  "read_splitType s = (if s = ''EQUAL'' then EQUAL else EXACT)"

definition read_participant :: "json \<Rightarrow> Participant" where
  "read_participant v =
     \<lparr>pt_userId = string_field v ''userId'', pt_amountMinorUnits = optional_int v ''amountMinorUnits''\<rparr>"

definition optional_participants :: "json \<Rightarrow> Participant list option" where
  "optional_participants v =
     (case json_field v ''participants'' of Some (JArray xs) \<Rightarrow> Some (map read_participant xs) | _ \<Rightarrow> None)"

definition read_createExpense :: "string \<Rightarrow> json \<Rightarrow> CreateExpenseInput" where
  "read_createExpense groupId body =
     \<lparr>ci_groupId = groupId, ci_description = string_field body ''description'',
      ci_amountMinorUnits = int_field body ''amountMinorUnits'',
      ci_payerId = string_field body ''payerId'',
      ci_splitType = read_splitType (string_field body ''splitType''),
      ci_participants = (case optional_participants body of Some ps \<Rightarrow> ps | None \<Rightarrow> []),
      ci_expenseDate = optional_string body ''expenseDate''\<rparr>"

definition read_updateExpense :: "json \<Rightarrow> UpdateExpenseInput" where
  "read_updateExpense body =
     \<lparr>ui_description = optional_string body ''description'',
      ui_amountMinorUnits = optional_int body ''amountMinorUnits'',
      ui_payerId = optional_string body ''payerId'',
      ui_splitType = map_option read_splitType (optional_string body ''splitType''),
      ui_participants = optional_participants body,
      ui_expenseDate = optional_string body ''expenseDate''\<rparr>"

definition read_createSettlement :: "string \<Rightarrow> json \<Rightarrow> CreateSettlementInput" where
  "read_createSettlement groupId body =
     \<lparr>si_groupId = groupId, si_payerId = string_field body ''payerId'',
      si_payeeId = string_field body ''payeeId'',
      si_amountMinorUnits = int_field body ''amountMinorUnits''\<rparr>"

text \<open>What the controller of a settlement hashes.\<close>

definition settlement_body :: "string \<Rightarrow> json \<Rightarrow> json" where
  "settlement_body groupId body = JObject
     [(''groupId'', JString groupId), (''payerId'', JString (string_field body ''payerId'')),
      (''payeeId'', JString (string_field body ''payeeId'')),
      (''amountMinorUnits'', JNumber (of_int (int_field body ''amountMinorUnits'')))]"

text \<open>\<open>page\<close> and \<open>limit\<close> of a list: no pagination unless one of them is given.\<close>

definition read_pagination :: "json \<Rightarrow> pagination option" where
  "read_pagination query =
     (let page = optional_int query ''page''; limit = optional_int query ''limit'' in
      if page \<noteq> None \<or> limit \<noteq> None
      then Some \<lparr>pg_page = (case page of Some n \<Rightarrow> n | None \<Rightarrow> 1),
                 pg_limit = nat (case limit of Some n \<Rightarrow> n | None \<Rightarrow> 20)\<rparr>
      else None)"

datatype reply =
    Session AuthResult | Message string | UserReply SafeUser
  | GroupReply GroupResult | GroupsReply "GroupWithMemberCount list" | GroupDetails GroupWithMembers
  | MemberReply MemberResult | ExpenseReply ExpenseDetailDto | ExpensesReply ExpenseListPage
  | BalancesReply "BalanceDto list" | SettlementReply SettlementDto
  | SettlementsReply SettlementListPage | ActivityReply ActivityFeedPage
  | SummaryReply GroupSummaryDto | JobReply QueuedJobDto | NoReply

text \<open>\<open>res.status(s).json(...)\<close> with what the promise resolved to.\<close>

definition answer :: "HTTP_STATUSES \<Rightarrow> ('a \<Rightarrow> reply) \<Rightarrow> ('w, 'a) act \<Rightarrow> ('w, nat \<times> reply) act" where
  "answer status f m = seq m (\<lambda>x. ret (status_number status, f x))"

fun auth_controller ::
  "('d, 'r, 'm) deployment \<Rightarrow> endpoint \<Rightarrow> http_request \<Rightarrow> (('d, 'r, 'm) world, nat \<times> reply) act" where
  "auth_controller D POST_register rq = answer CREATED Session
     (register (dp_prisma D) (dp_env D) (dp_crypto D) (dp_mailer D) (dp_config D)
        (string_field (rq_body rq) ''name'') (string_field (rq_body rq) ''email'')
        (string_field (rq_body rq) ''password''))"
| "auth_controller D POST_login rq = answer OK Session
     (login (dp_prisma D) (dp_env D) (dp_crypto D) (dp_config D)
        (string_field (rq_body rq) ''email'') (string_field (rq_body rq) ''password''))"
| "auth_controller D POST_refresh rq = answer OK Session
     (refresh (dp_prisma D) (dp_env D) (dp_crypto D) (dp_config D)
        (string_field (rq_body rq) ''refreshToken''))"
| "auth_controller D POST_logout rq = answer OK Message
     (logout (dp_prisma D) (dp_env D) (string_field (rq_body rq) ''refreshToken''))"
| "auth_controller D GET_me rq = answer OK UserReply (getMe (dp_prisma D) (rq_userId rq))"
| "auth_controller D PATCH_me rq = answer OK UserReply
     (updateCurrentUser (dp_prisma D) (rq_userId rq)
        (optional_string (rq_body rq) ''name'') (optional_string (rq_body rq) ''email''))"
| "auth_controller D POST_verify_email rq = answer OK Message
     (verifyEmailAddress (dp_prisma D) (dp_env D) (string_field (rq_body rq) ''token''))"
| "auth_controller D POST_resend_verification rq = answer OK Message
     (resendVerification (dp_prisma D) (dp_env D) (dp_crypto D) (dp_mailer D) (dp_config D)
        (string_field (rq_body rq) ''email''))"
| "auth_controller D POST_forgot_password rq = answer OK Message
     (requestPasswordReset (dp_prisma D) (dp_env D) (dp_crypto D) (dp_mailer D) (dp_config D)
        (string_field (rq_body rq) ''email''))"
| "auth_controller D POST_reset_password rq = answer OK Message
     (resetUserPassword (dp_prisma D) (dp_env D) (dp_crypto D)
        (string_field (rq_body rq) ''token'') (string_field (rq_body rq) ''newPassword''))"
| "auth_controller D _ rq = throw (PlainError ''no route'')"

abbreviation path_id :: "http_request \<Rightarrow> string" where
  "path_id rq \<equiv> string_field (rq_params rq) ''id''"

fun group_controller ::
  "('d, 'r, 'm) deployment \<Rightarrow> endpoint \<Rightarrow> http_request \<Rightarrow> (('d, 'r, 'm) world, nat \<times> reply) act" where
  "group_controller D POST_groups rq = answer CREATED GroupReply
     (createGroup (dp_prisma D) (rq_userId rq) (string_field (rq_body rq) ''name''))"
| "group_controller D GET_groups rq = answer OK GroupsReply
     (getUserGroups (dp_prisma D) (rq_userId rq))"
| "group_controller D GET_group rq = answer OK GroupDetails
     (getGroupById (dp_prisma D) (dp_redis D) (dp_env D) (dp_cacheTtl D) (rq_userId rq) (path_id rq))"
| "group_controller D PUT_group rq = answer OK GroupReply
     (updateGroup (dp_prisma D) (dp_redis D) (dp_env D) (rq_userId rq) (path_id rq)
        (string_field (rq_body rq) ''name''))"
| "group_controller D DELETE_group rq = answer NO_CONTENT (\<lambda>_. NoReply)
     (deleteGroup (dp_prisma D) (dp_redis D) (rq_userId rq) (path_id rq))"
| "group_controller D POST_member rq = answer CREATED MemberReply
     (addGroupMember (dp_prisma D) (dp_redis D) (rq_userId rq) (path_id rq)
        (string_field (rq_body rq) ''userId''))"
| "group_controller D DELETE_member rq = answer NO_CONTENT (\<lambda>_. NoReply)
     (removeGroupMember (dp_prisma D) (dp_redis D) (dp_env D) (rq_userId rq) (path_id rq)
        (string_field (rq_params rq) ''memberId''))"
| "group_controller D _ rq = throw (PlainError ''no route'')"

fun expense_controller ::
  "('d, 'r, 'm) deployment \<Rightarrow> endpoint \<Rightarrow> http_request \<Rightarrow> (('d, 'r, 'm) world, nat \<times> reply) act" where
  "expense_controller D POST_expense rq = answer CREATED ExpenseReply
     (createExpense (dp_prisma D) (dp_env D) (rq_userId rq) (read_createExpense (path_id rq) (rq_body rq)))"
| "expense_controller D GET_expense rq = answer OK ExpenseReply
     (getExpenseById (dp_prisma D) (rq_userId rq) (path_id rq))"
| "expense_controller D PATCH_expense rq = answer OK ExpenseReply
     (updateExpense (dp_prisma D) (dp_env D) (rq_userId rq) (path_id rq) (read_updateExpense (rq_body rq)))"
| "expense_controller D DELETE_expense rq = answer NO_CONTENT (\<lambda>_. NoReply)
     (deleteExpense (dp_prisma D) (dp_env D) (rq_userId rq) (path_id rq))"
| "expense_controller D GET_group_expenses rq = answer OK ExpensesReply
     (getGroupExpenses (dp_prisma D) (rq_userId rq) (path_id rq) (read_pagination (rq_query rq)))"
| "expense_controller D _ rq = throw (PlainError ''no route'')"

definition createSettlement_controller ::
  "('d, 'r, 'm) deployment \<Rightarrow> http_request \<Rightarrow> (('d, 'r, 'm) world, SettlementDto) act" where
  "createSettlement_controller D rq =
     createSettlement (dp_prisma D) (dp_redis D) (dp_env D) (dp_lockTtlMs D) (rq_userId rq)
       (read_createSettlement (path_id rq) (rq_body rq))
       \<lparr>ic_key = rq_idempotencyKey rq, ic_userId = rq_userId rq,
        ic_requestHash = createRequestHash (dp_env D) (settlement_body (path_id rq) (rq_body rq))\<rparr>"

fun settlement_controller ::
  "('d, 'r, 'm) deployment \<Rightarrow> endpoint \<Rightarrow> http_request \<Rightarrow> (('d, 'r, 'm) world, nat \<times> reply) act" where
  "settlement_controller D GET_balances rq = answer OK BalancesReply
     (getGroupBalances (dp_prisma D) (rq_userId rq) (path_id rq))"
| "settlement_controller D POST_settlement rq = answer CREATED SettlementReply
     (createSettlement_controller D rq)"
| "settlement_controller D GET_group_settlements rq = answer OK SettlementsReply
     (getGroupSettlements (dp_prisma D) (rq_userId rq) (path_id rq) (read_pagination (rq_query rq)))"
| "settlement_controller D GET_settlement rq = answer OK SettlementReply
     (getSettlementById (dp_prisma D) (rq_userId rq) (path_id rq))"
| "settlement_controller D _ rq = throw (PlainError ''no route'')"

definition activity_controller ::
  "('d, 'r, 'm) deployment \<Rightarrow> http_request \<Rightarrow> (('d, 'r, 'm) world, nat \<times> reply) act" where
  "activity_controller D rq = answer OK ActivityReply
     (getGroupActivity (dp_prisma D) (rq_userId rq) (path_id rq)
        (int_field (rq_query rq) ''page'') (nat (int_field (rq_query rq) ''limit'')))"

fun summary_controller ::
  "('d, 'r, 'm) deployment \<Rightarrow> endpoint \<Rightarrow> http_request \<Rightarrow> (('d, 'r, 'm) world, nat \<times> reply) act" where
  "summary_controller D GET_summary rq = answer OK SummaryReply
     (getGroupSummary (dp_prisma D) (rq_userId rq) (path_id rq))"
| "summary_controller D POST_recompute rq = answer ACCEPTED JobReply
     (enqueueGroupSummaryRecompute (dp_prisma D) (dp_redis D) (dp_env D) (dp_queue D) (rq_userId rq)
        (path_id rq) (rq_requestId rq))"
| "summary_controller D _ rq = throw (PlainError ''no route'')"

definition controller ::
  "('d, 'r, 'm) deployment \<Rightarrow> endpoint \<Rightarrow> http_request \<Rightarrow> (('d, 'r, 'm) world, nat \<times> reply) act" where
  "controller D ep rq =
     (if auth_routes ep \<noteq> [] then auth_controller D ep rq
      else if ep \<in> {GET_balances, POST_settlement, GET_group_settlements, GET_settlement}
        then settlement_controller D ep rq
      else if ep \<in> {POST_expense, GET_group_expenses, GET_expense, PATCH_expense, DELETE_expense}
        then expense_controller D ep rq
      else if ep = GET_activity then activity_controller D rq
      else if summary_routes ep \<noteq> [] then summary_controller D ep rq
      else group_controller D ep rq)"

section \<open>Answering\<close>

datatype http_response = Answered nat reply | Refused error_response

fun response_status :: "http_response \<Rightarrow> nat" where
  "response_status (Answered s _) = s"
| "response_status (Refused e) = er_status e"

definition handle ::
  "('d, 'r, 'm) deployment \<Rightarrow> endpoint \<Rightarrow> http_request \<Rightarrow> (('d, 'r, 'm) world, nat \<times> reply) act" where
  "handle D ep rq = seq (run_chain D (route_chain ep) rq) (controller D ep)"

text \<open>\<open>asyncHandler\<close> and the \<open>next(error)\<close> of the middlewares end in the error handler.\<close>

definition serve ::
  "('d, 'r, 'm) deployment \<Rightarrow> endpoint \<Rightarrow> http_request \<Rightarrow> (('d, 'r, 'm) world, http_response) act" where
  "serve D ep rq =
     catch (seq (handle D ep rq) (\<lambda>(status, body). ret (Answered status body)))
       (\<lambda>e. ret (Refused (errorHandler e)))"

end
