(* ===== verification/Edge.thy ===== *)
theory Edge
  imports Validators RedisStores
begin

text \<open>
  What surrounds the routes: the request guard of \<open>edge/requestGuard.ts\<close>, the request id
  (\<open>utils/requestId.ts\<close>, \<open>middleware/requestId.ts\<close>), \<open>edge/trustProxy.ts\<close>, the three rate limiters'
  stores (\<open>middleware/rateLimiter.ts\<close>), the HTTP metrics with the route templates
  (\<open>metrics/httpMetrics.ts\<close>, \<open>metrics/route.ts\<close>), the CORS allowlist of \<open>app.ts\<close>, and
  the configuration with its production check (\<open>config/env.ts\<close>). \<open>Number(s)\<close> of a header
  and the host name of a URL are parameters (\<open>None\<close>: not finite, not a URL).
\<close>

section \<open>The request guard\<close>

definition EDGE_MAX_BODY_BYTES :: nat where
  "EDGE_MAX_BODY_BYTES = 10 * 1024 * 1024"

definition EDGE_MAX_URL_LENGTH :: nat where
  "EDGE_MAX_URL_LENGTH = 2048"

definition hasControlCharacters :: "string \<Rightarrow> bool" where
  "hasControlCharacters s \<longleftrightarrow> list_ex (\<lambda>c. let n = of_char c :: nat in n \<le> 0x1F \<or> n = 0x7F) s"

definition REQUEST_ID_MAX_LENGTH :: nat where
  "REQUEST_ID_MAX_LENGTH = 128"

definition request_id_char :: "char \<Rightarrow> bool" where
  "request_id_char c \<longleftrightarrow> is_alnum c \<or> c \<in> {CHR ''-'', CHR ''_'', CHR ''.''}"

definition sanitizeRequestId :: "string \<Rightarrow> string option" where
  "sanitizeRequestId raw =
     (if REQUEST_ID_MAX_LENGTH < length raw then None
      else if \<not> (raw \<noteq> [] \<and> list_all request_id_char raw) then None
      else Some raw)"

text \<open>The first value of a repeated header counts.\<close>

record edge_request =
  eq_method :: string
  eq_url :: string
  eq_contentLength :: "string option"
  eq_requestId :: "string list"

definition payloadTooLarge :: error_response where
  "payloadTooLarge = \<lparr>er_status = status_number PAYLOAD_TOO_LARGE,
     er_message = ''Request body too large.'', er_errors = None\<rparr>"

definition edgeRequestGuard ::
  "(string \<Rightarrow> rat option) \<Rightarrow> edge_request \<Rightarrow> error_response + edge_request" where
  "edgeRequestGuard toNumber rq =
     (if hasControlCharacters (eq_method rq @ '' '' @ eq_url rq) then Inl notFoundHandler
      else if EDGE_MAX_URL_LENGTH < length (eq_url rq) then Inl notFoundHandler
      else if (case eq_contentLength rq of None \<Rightarrow> False
          | Some raw \<Rightarrow> (case toNumber raw of None \<Rightarrow> False
              | Some n \<Rightarrow> rat_of_nat EDGE_MAX_BODY_BYTES < n)) then Inl payloadTooLarge
      else Inr (case eq_requestId rq of [] \<Rightarrow> rq
          | raw # _ \<Rightarrow> if sanitizeRequestId raw = None then rq\<lparr>eq_requestId := []\<rparr> else rq))"

definition requestId :: "env \<Rightarrow> edge_request \<Rightarrow> (('d, 'r, 'm) world, string) act" where
  "requestId E rq =
     (case eq_requestId rq of
        [] \<Rightarrow> randomUUID E
      | raw # _ \<Rightarrow> (case sanitizeRequestId raw of None \<Rightarrow> randomUUID E | Some i \<Rightarrow> ret i))"

section \<open>Trusted proxies\<close>

datatype TrustProxySetting = TrustNone | TrustHops int | TrustNames string

definition parseTrustProxyRaw :: "string \<Rightarrow> TrustProxySetting" where
  "parseTrustProxyRaw raw =
     (let value = js_toLowerCase (js_trim raw) in
      if value \<in> {'''', ''false'', ''no'', ''0''} then TrustNone
      else if value \<in> {''true'', ''yes''} then TrustHops 1
      else if value \<noteq> [] \<and> list_all is_digit value then TrustHops (js_Number (int_of_string value))
      else TrustNames (js_trim raw))"

section \<open>Rate limiters\<close>

record Env =
  en_NODE_ENV :: string
  en_PORT :: int
  en_DATABASE_URL :: string
  en_CORS_ORIGIN :: string
  en_JWT_SECRET :: string
  en_JWT_EXPIRES_IN :: string
  en_REFRESH_TOKEN_TTL_DAYS :: int
  en_RATE_LIMIT_WINDOW_MS :: int
  en_RATE_LIMIT_MAX :: int
  en_AUTH_RATE_LIMIT_MAX :: int
  en_AUTH_EMAIL_RATE_LIMIT_MAX :: int
  en_REDIS_URL :: string
  en_TRUST_PROXY :: string
  en_DISTRIBUTED_LOCK_TTL_MS :: int
  en_JOB_QUEUE_MAX_ATTEMPTS :: int
  en_JOB_QUEUE_BASE_BACKOFF_MS :: int
  en_JOB_QUEUE_MAX_BACKOFF_MS :: int
  en_JOB_QUEUE_LEASE_MS :: int
  en_JOB_QUEUE_PAYLOAD_TTL_MS :: int
  en_JOB_QUEUE_POLL_INTERVAL_MS :: int
  en_CACHE_GROUP_TTL_SECONDS :: int
  en_METRICS_ENABLED :: string
  en_METRICS_PORT :: "int option"
  en_EMAIL_ENABLED :: string
  en_EMAIL_HOST :: string
  en_EMAIL_PORT :: int
  en_EMAIL_SECURE :: string
  en_EMAIL_USERNAME :: string
  en_EMAIL_PASSWORD :: string
  en_EMAIL_FROM :: string
  en_EMAIL_FROM_NAME :: string
  en_APP_NAME :: string
  en_APP_BASE_URL :: string
  en_EMAIL_VERIFICATION_TOKEN_TTL_MINUTES :: int
  en_PASSWORD_RESET_TOKEN_TTL_MINUTES :: int

text \<open>What is handed to \<open>express-rate-limit\<close>; without Redis the library's own store is used.\<close>

record limiter_options =
  lo_limit :: int
  lo_windowMs :: int
  lo_statusCode :: nat
  lo_passOnStoreError :: bool
  lo_store :: "rate_limit_store option"

definition createLimiter :: "int \<Rightarrow> int \<Rightarrow> rate_limit_store option \<Rightarrow> limiter_options" where
  "createLimiter limit windowMs store =
     \<lparr>lo_limit = limit, lo_windowMs = windowMs, lo_statusCode = status_number TOO_MANY_REQUESTS,
      lo_passOnStoreError = True, lo_store = store\<rparr>"

definition resolveStore :: "bool \<Rightarrow> string \<Rightarrow> int \<Rightarrow> rate_limit_store option" where
  "resolveStore redis prefix windowMs =
     (if redis then Some \<lparr>rs_prefix = prefix, rs_windowMs = windowMs\<rparr> else None)"

definition apiLimiter :: "Env \<Rightarrow> bool \<Rightarrow> limiter_options" where
  "apiLimiter env redis = createLimiter (en_RATE_LIMIT_MAX env) (en_RATE_LIMIT_WINDOW_MS env)
     (resolveStore redis ''rl:api:'' (en_RATE_LIMIT_WINDOW_MS env))"

definition authLimiter :: "Env \<Rightarrow> bool \<Rightarrow> limiter_options" where
  "authLimiter env redis = createLimiter (en_AUTH_RATE_LIMIT_MAX env) (en_RATE_LIMIT_WINDOW_MS env)
     (resolveStore redis ''rl:auth:'' (en_RATE_LIMIT_WINDOW_MS env))"

definition sensitiveEmailAuthLimiter :: "Env \<Rightarrow> bool \<Rightarrow> limiter_options" where
  "sensitiveEmailAuthLimiter env redis =
     createLimiter (en_AUTH_EMAIL_RATE_LIMIT_MAX env) (en_RATE_LIMIT_WINDOW_MS env)
       (resolveStore redis ''rl:auth-email:'' (en_RATE_LIMIT_WINDOW_MS env))"

section \<open>HTTP metrics\<close>

definition statusClass :: "nat \<Rightarrow> string" where
  "statusClass code =
     (if 200 \<le> code \<and> code < 300 then ''2xx''
      else if 300 \<le> code \<and> code < 400 then ''3xx''
      else if 400 \<le> code \<and> code < 500 then ''4xx''
      else if 500 \<le> code \<and> code < 600 then ''5xx''
      else ''other'')"

definition UNMATCHED_ROUTE :: string where
  "UNMATCHED_ROUTE = ''unmatched''"

text \<open>
  The router stack of Express as far as the code reads it: the name and the mount path of a
  layer, its route object (compared by reference, so here by a number) and its nested stack.
\<close>

datatype ExpressLayer = ExpressLayer
  (layer_name: "string option") (layer_path: "string option") (layer_route: "nat option")
  (layer_stack: "ExpressLayer list option")

fun findMountPrefix :: "ExpressLayer list \<Rightarrow> nat \<Rightarrow> string \<Rightarrow> string option" where
  "findMountPrefix [] target prefix = None"
| "findMountPrefix (ExpressLayer name path route stack # layers) target prefix =
     (if route = Some target then Some prefix
      else
        (case stack of
           None \<Rightarrow> findMountPrefix layers target prefix
         | Some inner \<Rightarrow>
             if route = None \<and> name = Some ''router'' then
               (case path of
                  Some p \<Rightarrow> (case findMountPrefix inner target (prefix @ p) of
                      Some found \<Rightarrow> Some found
                    | None \<Rightarrow> findMountPrefix layers target prefix)
                | None \<Rightarrow> findMountPrefix layers target prefix)
             else findMountPrefix layers target prefix))"

text \<open>The matched route (its identity and its path), the stack of the application, the base URL.\<close>

definition resolveRouteTemplate ::
  "(nat \<times> string option) option \<Rightarrow> ExpressLayer list option \<Rightarrow> string \<Rightarrow> string" where
  "resolveRouteTemplate route stack baseUrl =
     (case route of
        Some (target, Some path) \<Rightarrow>
          if path = [] then UNMATCHED_ROUTE
          else
            (let matchedPrefix = (case stack of None \<Rightarrow> None | Some ls \<Rightarrow> findMountPrefix ls target []);
                 template = (case matchedPrefix of Some p \<Rightarrow> p | None \<Rightarrow> baseUrl) @ path in
             if 1 < length template \<and> last template = CHR ''/'' then butlast template else template)
      | _ \<Rightarrow> UNMATCHED_ROUTE)"

text \<open>The \<open>finish\<close> listener of \<open>requestHttpMetrics\<close>.\<close>

definition requestHttpMetrics ::
  "string \<Rightarrow> string \<Rightarrow> nat \<Rightarrow> rat \<Rightarrow> registry \<Rightarrow> registry" where
  "requestHttpMetrics method route statusCode durationSeconds r =
     (let labels = [(''method'', method), (''route'', route), (''status'', statusClass statusCode)];
          r1 = increment (metric_name httpRequestsTotal) labels 1 r;
          r2 = (if 400 \<le> statusCode then increment (metric_name httpErrorsTotal) labels 1 r1 else r1)
      in observe (metric_name httpRequestDurationSeconds) (Finite durationSeconds)
           [(''method'', method), (''route'', route)] r2)"

section \<open>Origins and configuration\<close>

text \<open>\<open>s.split(",")\<close>, the trimmed entries that are not empty.\<close>

fun split_commas :: "string \<Rightarrow> string list" where
  "split_commas [] = [[]]"
| "split_commas (c # s) = (if c = CHR '','' then [] # split_commas s
     else (case split_commas s of w # ws \<Rightarrow> (c # w) # ws | [] \<Rightarrow> [[c]]))"

definition allowedOrigins :: "string \<Rightarrow> string list" where
  "allowedOrigins corsOrigin = filter (\<lambda>s. s \<noteq> []) (map js_trim (split_commas corsOrigin))"

definition origin_allowed :: "string \<Rightarrow> string option \<Rightarrow> bool" where
  "origin_allowed corsOrigin origin =
     (case origin of None \<Rightarrow> True | Some [] \<Rightarrow> True | Some s \<Rightarrow> s \<in> set (allowedOrigins corsOrigin))"

definition loopback :: "(string \<Rightarrow> string option) \<Rightarrow> string \<Rightarrow> bool" where
  "loopback hostname origin = (case hostname origin of
      Some h \<Rightarrow> h \<in> {''localhost'', ''127.0.0.1'', ''::1''} | None \<Rightarrow> True)"

definition production_problems :: "(string \<Rightarrow> string option) \<Rightarrow> Env \<Rightarrow> string list" where
  "production_problems hostname env =
     (if length (en_JWT_SECRET env) < 32
      then [''JWT_SECRET must be at least 32 characters long in production''] else []) @
     (if allowedOrigins (en_CORS_ORIGIN env) = []
      then [''CORS_ORIGIN must list at least one allowed origin in production''] else []) @
     (if list_ex (loopback hostname) (allowedOrigins (en_CORS_ORIGIN env))
      then [''CORS_ORIGIN must not contain loopback/localhost origins in production (set the real client origin)'']
      else [])"

definition assertProductionSafety :: "(string \<Rightarrow> string option) \<Rightarrow> Env \<Rightarrow> exn + unit" where
  "assertProductionSafety hostname env =
     (if en_NODE_ENV env \<noteq> ''production'' then Inr ()
      else if production_problems hostname env \<noteq> [] then
        Inl (PlainError (''Invalid production environment configuration:'' @ [CHR 0x0A] @ ''  '' @
          join_with ([CHR 0x0A] @ ''  '') (production_problems hostname env)))
      else Inr ())"

definition positive_number :: "int \<Rightarrow> schema" where
  "positive_number d = ZDefault (JNumber (of_int d)) (ZCoerceNumber [Whole, Positive])"

definition string_or :: "string \<Rightarrow> schema" where
  "string_or d = ZDefault (JString d) (ZString [])"

definition flag_or :: "string \<Rightarrow> schema" where
  "flag_or d = ZDefault (JString d) (ZEnum [''true'', ''false''])"

definition env_fields :: "(string \<times> schema) list" where
  "env_fields =
     [(''NODE_ENV'', ZDefault (JString ''development'') (ZEnum [''development'', ''production'', ''test''])),
      (''PORT'', positive_number 3000),
      (''DATABASE_URL'', ZString [Min 1]),
      (''CORS_ORIGIN'', string_or ''http://localhost:3000''),
      (''JWT_SECRET'', ZString [Min 1]),
      (''JWT_EXPIRES_IN'', string_or ''7d''),
      (''REFRESH_TOKEN_TTL_DAYS'', positive_number 30),
      (''RATE_LIMIT_WINDOW_MS'', positive_number 900000),
      (''RATE_LIMIT_MAX'', positive_number 100),
      (''AUTH_RATE_LIMIT_MAX'', positive_number 20),
      (''AUTH_EMAIL_RATE_LIMIT_MAX'', positive_number 5),
      (''REDIS_URL'', string_or ''redis://localhost:6379''),
      (''TRUST_PROXY'', string_or ''false''),
      (''DISTRIBUTED_LOCK_TTL_MS'', positive_number 10000),
      (''JOB_QUEUE_MAX_ATTEMPTS'', positive_number 5),
      (''JOB_QUEUE_BASE_BACKOFF_MS'', positive_number 2000),
      (''JOB_QUEUE_MAX_BACKOFF_MS'', positive_number 60000),
      (''JOB_QUEUE_LEASE_MS'', positive_number 30000),
      (''JOB_QUEUE_PAYLOAD_TTL_MS'', positive_number 86400000),
      (''JOB_QUEUE_POLL_INTERVAL_MS'', positive_number 100),
      (''CACHE_GROUP_TTL_SECONDS'', positive_number 300),
      (''METRICS_ENABLED'', flag_or ''true''),
      (''METRICS_PORT'', ZOptional (ZCoerceNumber [Whole, Positive])),
      (''EMAIL_ENABLED'', flag_or ''false''),
      (''EMAIL_HOST'', string_or ''localhost''),
      (''EMAIL_PORT'', positive_number 587),
      (''EMAIL_SECURE'', flag_or ''true''),
      (''EMAIL_USERNAME'', string_or []),
      (''EMAIL_PASSWORD'', string_or []),
      (''EMAIL_FROM'', string_or ''no-reply@localhost''),
      (''EMAIL_FROM_NAME'', string_or ''Hisab''),
      (''APP_NAME'', string_or ''Hisab Split Bill''),
      (''APP_BASE_URL'', ZDefault (JString ''http://localhost:3000'') (ZString [Url])),
      (''EMAIL_VERIFICATION_TOKEN_TTL_MINUTES'', positive_number 1440),
      (''PASSWORD_RESET_TOKEN_TTL_MINUTES'', positive_number 60)]"

definition envSchema :: schema where
  "envSchema = ZObject False env_fields"

lemma env_fields_distinct: "distinct (map fst env_fields)"
  by (simp add: env_fields_def)


section \<open>Lemmas\<close>

text \<open>Request ids: what is accepted is a short text of tracing characters.\<close>

definition trace_id :: "string \<Rightarrow> bool" where
  "trace_id s \<longleftrightarrow> s \<noteq> [] \<and> length s \<le> 128 \<and> list_all request_id_char s"

lemma sanitizeRequestId_Some: "sanitizeRequestId raw = Some i \<longleftrightarrow> i = raw \<and> trace_id raw"
  by (auto simp: sanitizeRequestId_def trace_id_def REQUEST_ID_MAX_LENGTH_def)

lemma requestId_Inr:
  assumes "requestId E rq w = (res, w')"
  shows "\<exists>i. res = Inr i \<and> (trace_id i \<and> eq_requestId rq \<noteq> [] \<and> i = hd (eq_requestId rq) \<or> i = uuid E (w_tick w)) \<and>
    w' = w\<lparr>w_tick := w_tick w'\<rparr>"
  using assms
  by (auto simp: requestId_def act_simps sanitizeRequestId_Some split: list.splits option.splits)

text \<open>The guard: what passes has no control character in method and URL, and no malformed id.\<close>

lemma edgeRequestGuard_Inr:
  assumes "edgeRequestGuard N rq = Inr rq'"
  shows "\<not> hasControlCharacters (eq_url rq') \<and> length (eq_url rq') \<le> 2048 \<and>
    eq_url rq' = eq_url rq \<and> (eq_requestId rq' = [] \<or> trace_id (hd (eq_requestId rq')))"
  using assms
  by (auto simp: edgeRequestGuard_def hasControlCharacters_def EDGE_MAX_URL_LENGTH_def
      sanitizeRequestId_def trace_id_def REQUEST_ID_MAX_LENGTH_def split: if_splits list.splits option.splits)

text \<open>Where a route object hangs in the router stack, and the mount paths on the way to it.\<close>

inductive mounted :: "ExpressLayer list \<Rightarrow> nat \<Rightarrow> string \<Rightarrow> bool" where
  Here: "ExpressLayer name path (Some target) stack \<in> set layers \<Longrightarrow> mounted layers target []"
| Inside: "ExpressLayer (Some ''router'') (Some p) None (Some inner) \<in> set layers \<Longrightarrow>
     mounted inner target q \<Longrightarrow> mounted layers target (p @ q)"

lemma mounted_mono: "mounted layers target q \<Longrightarrow> set layers \<subseteq> set layers' \<Longrightarrow> mounted layers' target q"
  by (cases rule: mounted.cases) (auto intro: mounted.intros)

inductive_cases mounted_Nil: "mounted [] target q"

lemma findMountPrefix_Some:
  "findMountPrefix layers target prefix = Some r \<Longrightarrow> \<exists>q. r = prefix @ q \<and> mounted layers target q"
proof (induction layers target prefix arbitrary: r rule: findMountPrefix.induct)
  case (2 name path route stack layers target prefix)
  let ?l = "ExpressLayer name path route stack"
  show ?case
  proof (cases "route = Some target")
    case True
    then show ?thesis using 2(6) Here [of name path target stack "?l # layers"] by auto
  next
    case False
    show ?thesis
    proof (cases "\<exists>inner p q. stack = Some inner \<and> route = None \<and> name = Some ''router'' \<and> path = Some p \<and>
        findMountPrefix inner target (prefix @ p) = Some q")
      case True
      then obtain inner p where s: "stack = Some inner" "route = None" "name = Some ''router''" "path = Some p"
        and f: "findMountPrefix inner target (prefix @ p) = Some r" using 2(6) by auto
      have "\<exists>q. r = (prefix @ p) @ q \<and> mounted inner target q"
        by (rule "2.IH") (use False s f in simp_all)
      then obtain q where "r = (prefix @ p) @ q" "mounted inner target q" by blast
      then show ?thesis using Inside [of p inner "?l # layers" target q] s by auto
    next
      case False2: False
      then have f: "findMountPrefix layers target prefix = Some r"
        using 2(6) False by (auto split: option.splits if_splits)
      have "\<exists>q. r = prefix @ q \<and> mounted layers target q"
        using "2.IH" False False2 f
        by (cases stack; cases "route = None \<and> name = Some ''router''"; cases path;
            cases "findMountPrefix (the stack) target (prefix @ the path)") auto
      then show ?thesis using mounted_mono [of layers target _ "?l # layers"] by auto
    qed
  qed
qed simp

lemma findMountPrefix_later:
  "findMountPrefix layers target prefix \<noteq> None \<Longrightarrow> findMountPrefix (l # layers) target prefix \<noteq> None"
  by (cases l) (auto split: option.split)

lemma findMountPrefix_complete:
  "mounted layers target q \<Longrightarrow> findMountPrefix layers target prefix \<noteq> None"
proof (induction arbitrary: prefix rule: mounted.induct)
  case (Here name path target stack layers)
  then show ?case by (induction layers) (use findMountPrefix_later in \<open>auto simp del: findMountPrefix.simps(2)\<close>, simp_all)
next
  case (Inside p inner layers target q)
  from Inside(1) show ?case
  proof (induction layers)
    case (Cons l layers)
    then show ?case
    proof (cases "ExpressLayer (Some ''router'') (Some p) None (Some inner) = l")
      case True
      then show ?thesis using Inside.IH [of "prefix @ p"] by (auto split: option.split)
    next
      case False
      then show ?thesis using Cons findMountPrefix_later by simp
    qed
  qed simp
qed

end
