(* ===== verification/App.thy ===== *)
theory App
  imports Http Edge
begin

text \<open>
  The application as a whole: what any sequence of requests and worker polls makes of the
  tables. \<open>app_ok\<close> collects the invariants of the components; every endpoint keeps each of them,
  whatever it answers.
\<close>

section \<open>The invariant\<close>

definition members_once :: "tables \<Rightarrow> bool" where
  "members_once t \<longleftrightarrow> distinct (map (\<lambda>r. (gm_groupId (row_data r), gm_userId (row_data r))) (members t))"

definition app_ok :: "tables \<Rightarrow> bool" where
  "app_ok t \<longleftrightarrow> ledger_ok t \<and> groups_ok t \<and> members_once t \<and> sessions_ok t \<and> ids_ok t"

lemma empty_tables_ok: "app_ok no_tables"
  by (simp add: app_ok_def ledger_ok_def groups_ok_def members_once_def sessions_ok_def ids_ok_def no_tables_def)

lemma members_once_group:
  "members_once t \<Longrightarrow> distinct (map (\<lambda>r. gm_userId (row_data r)) (filter (in_group_member gid) (members t)))"
  by (auto simp: members_once_def distinct_map in_group_member_def inj_on_def)

section \<open>What each request keeps\<close>

text \<open>Invariants that do not look at the expenses, the splits and the feed.\<close>

definition expense_free :: "(tables \<Rightarrow> bool) \<Rightarrow> bool" where
  "expense_free I \<longleftrightarrow> (\<forall>t f. I (expenses_update f t) = I t) \<and> (\<forall>t f. I (splits_update f t) = I t) \<and>
     (\<forall>t f. I (activities_update f t) = I t)"

lemma cascade_expenses_update:
  "cascade_expenses ids t = splits_update (filter (\<lambda>s. sp_expenseId (row_data s) \<notin> set ids)) t"
  by (simp add: cascade_expenses_def)

context prisma
begin

lemma keeps_expense_statements:
  assumes "expense_free I"
  shows "keeps (on_db (\<lambda>d. I (T d))) (db_do (dg_create (p_expense P) e))"
    and "keeps (on_db (\<lambda>d. I (T d))) (db_do (dg_update (p_expense P) p f))"
    and "keeps (on_db (\<lambda>d. I (T d))) (db_do (dg_delete (p_expense P) p))"
    and "keeps (on_db (\<lambda>d. I (T d))) (db_do (dg_create (p_expenseSplit P) x))"
    and "keeps (on_db (\<lambda>d. I (T d))) (db_do (dg_deleteMany (p_expenseSplit P) q))"
    and "keeps (on_db (\<lambda>d. I (T d))) (createActivityEvent P ev)"
proof -
  have inv: "I (expenses_update f t) = I t" "I (splits_update g t) = I t" "I (activities_update h t) = I t"
    for f g h t using assms by (simp_all add: expense_free_def)
  show "keeps (on_db (\<lambda>d. I (T d))) (db_do (dg_create (p_expense P) e))"
    "keeps (on_db (\<lambda>d. I (T d))) (db_do (dg_update (p_expense P) p f))"
    "keeps (on_db (\<lambda>d. I (T d))) (db_do (dg_delete (p_expense P) p))"
    by (intro keeps_db_do exp.keeps_create exp.keeps_update exp.keeps_delete;
        simp add: inv cascade_expenses_update)+
  show "keeps (on_db (\<lambda>d. I (T d))) (db_do (dg_create (p_expenseSplit P) x))"
    "keeps (on_db (\<lambda>d. I (T d))) (db_do (dg_deleteMany (p_expenseSplit P) q))"
    by (intro keeps_db_do spl.keeps_create spl.keeps_deleteMany; simp add: inv cascade_none_def)+
  show "keeps (on_db (\<lambda>d. I (T d))) (createActivityEvent P ev)"
    unfolding createActivityEvent_def
    by (intro keep_intros act.keeps_create) (simp add: inv)
qed

lemma keeps_expense_details [keep_intros]: "keeps (on_db (\<lambda>d. I (T d))) (expense_details P key e)"
  by (intro keeps_silent silent_intros)

lemma keeps_expense_requests:
  assumes "expense_free I"
  shows "keeps (on_db (\<lambda>d. I (T d))) (createExpense P E uid input)"
    and "keeps (on_db (\<lambda>d. I (T d))) (updateExpense P E uid eid upd)"
    and "keeps (on_db (\<lambda>d. I (T d))) (deleteExpense P E uid eid)"
proof -
  note st = keeps_expense_statements [OF assms]
  have tx: "keeps (on_db (\<lambda>d. I (T d))) (createExpenseWithSplits P data parts a)"
    "keeps (on_db (\<lambda>d. I (T d))) (updateExpenseWithSplits P E eid u parts a)"
    "keeps (on_db (\<lambda>d. I (T d))) (deleteExpenseWithEvent P E eid a)" for data parts a u
    unfolding createExpenseWithSplits_def createExpenseTx_def updateExpenseWithSplits_def
      updateExpenseTx_def deleteExpenseWithEvent_def deleteExpenseTx_def create_splits_def
    by (intro keeps_in_transaction keep_intros st)+
  show "keeps (on_db (\<lambda>d. I (T d))) (createExpense P E uid input)"
    unfolding createExpense_def Let_def
    by (intro keeps_seq [OF keeps_silent] silent_intros keeps_seq tx keep_intros)
  show "keeps (on_db (\<lambda>d. I (T d))) (updateExpense P E uid eid upd)"
    unfolding updateExpense_def Let_def
    by (intro keeps_seq [OF keeps_silent] silent_intros keeps_seq tx keep_intros)
  show "keeps (on_db (\<lambda>d. I (T d))) (deleteExpense P E uid eid)"
    unfolding deleteExpense_def
    by (intro keeps_seq [OF keeps_silent] silent_intros keeps_seq tx keep_intros)
qed

end

section \<open>The invariant through every request\<close>

lemma members_once_updates [simp]:
  "members_once (groups_update g t) = members_once t" "members_once (activities_update h t) = members_once t"
  "members_once (summaries_update k t) = members_once t" "members_once (users_update l t) = members_once t"
  "members_once (authTokens_update m t) = members_once t" "members_once (refreshTokens_update n t) = members_once t"
  "members_once (expenses_update e t) = members_once t" "members_once (splits_update p t) = members_once t"
  "members_once (settlements_update q t) = members_once t"
  "members_once (idempotencyRecords_update r t) = members_once t"
  by (simp_all add: members_once_def)

lemma members_once_filter: "members_once t \<Longrightarrow> members_once (members_update (filter p) t)"
  by (auto simp: members_once_def distinct_map inj_on_def)

lemma members_once_add:
  "members_once t \<Longrightarrow> \<not> is_member t (gm_groupId (row_data m)) (gm_userId (row_data m)) \<Longrightarrow>
     members_once (members_update (\<lambda>rs. rs @ [m]) t)"
  by (auto simp: members_once_def is_member_def member_where_def)

lemma sessions_ok_updates [simp]:
  "sessions_ok (groups_update g t) = sessions_ok t" "sessions_ok (activities_update h t) = sessions_ok t"
  "sessions_ok (summaries_update k t) = sessions_ok t" "sessions_ok (members_update l t) = sessions_ok t"
  "sessions_ok (expenses_update e t) = sessions_ok t" "sessions_ok (splits_update p t) = sessions_ok t"
  "sessions_ok (settlements_update q t) = sessions_ok t"
  "sessions_ok (idempotencyRecords_update r t) = sessions_ok t"
  by (simp_all add: sessions_ok_def)

lemma ids_ok_updates [simp]:
  "ids_ok (groups_update g t) = ids_ok t" "ids_ok (activities_update h t) = ids_ok t"
  "ids_ok (summaries_update k t) = ids_ok t" "ids_ok (members_update l t) = ids_ok t"
  "ids_ok (expenses_update e t) = ids_ok t" "ids_ok (splits_update p t) = ids_ok t"
  "ids_ok (users_update q t) = ids_ok t" "ids_ok (authTokens_update m t) = ids_ok t"
  "ids_ok (refreshTokens_update r t) = ids_ok t"
  by (simp_all add: ids_ok_def)

lemma cascade_groups_update:
  "cascade_groups ids t = splits_update (filter (\<lambda>s. sp_expenseId (row_data s) \<notin>
       set (map row_id (filter (\<lambda>e. ex_groupId (row_data e) \<in> set ids) (expenses t)))))
     (members_update (filter (\<lambda>r. gm_groupId (row_data r) \<notin> set ids))
     (expenses_update (filter (\<lambda>r. ex_groupId (row_data r) \<notin> set ids))
     (settlements_update (filter (\<lambda>r. se_groupId (row_data r) \<notin> set ids))
     (activities_update (filter (\<lambda>r. ev_groupId (row_data r) \<notin> set ids))
     (summaries_update (filter (\<lambda>r. su_groupId (row_data r) \<notin> set ids)) t)))))"
  by (simp add: cascade_groups_def cascade_expenses_def Let_def)

lemma ids_ok_settlements_filter: "ids_ok t \<Longrightarrow> ids_ok (settlements_update (filter p) t)"
  by (auto simp: ids_ok_def distinct_map inj_on_def)

text \<open>A change of a group keeps the three invariants that are not about groups.\<close>

lemma group_changes_keep_members:
  assumes "members_once t"
  shows "group_created u n t t' \<Longrightarrow> members_once t'" "group_renamed gid n t t' \<Longrightarrow> members_once t'"
    "group_deleted gid t t' \<Longrightarrow> members_once t'" "member_added gid u t t' \<Longrightarrow> members_once t'"
    "member_removed gid u t t' \<Longrightarrow> members_once t'"
  using assms
  by (auto simp: group_changes cascade_groups_update is_member_updates
      intro!: members_once_add members_once_filter)

lemma group_changes_keep_sessions:
  assumes "sessions_ok t"
  shows "group_created u n t t' \<Longrightarrow> sessions_ok t'" "group_renamed gid n t t' \<Longrightarrow> sessions_ok t'"
    "group_deleted gid t t' \<Longrightarrow> sessions_ok t'" "member_added gid u t t' \<Longrightarrow> sessions_ok t'"
    "member_removed gid u t t' \<Longrightarrow> sessions_ok t'"
  using assms by (auto simp: group_changes cascade_groups_update)

lemma group_changes_keep_ids:
  assumes "ids_ok t"
  shows "group_created u n t t' \<Longrightarrow> ids_ok t'" "group_renamed gid n t t' \<Longrightarrow> ids_ok t'"
    "group_deleted gid t t' \<Longrightarrow> ids_ok t'" "member_added gid u t t' \<Longrightarrow> ids_ok t'"
    "member_removed gid u t t' \<Longrightarrow> ids_ok t'"
  using assms by (auto simp: group_changes cascade_groups_update intro!: ids_ok_settlements_filter)

lemma settled_keeps_ids: "settlement_keeps E ids_ok"
  unfolding settlement_keeps_def
proof (intro allI impI)
  fix t ctx data activity row t'
  assume "newly_settled E t ctx data activity row t'" and ok: "ids_ok t"
  then obtain keep claim ev i where
      new: "\<not> has_id (row_id row) (settlements t)"
    and c: "row_data claim = complete_record (row_id row) (claim_for ctx (se_groupId data)
          (clock E i + IDEMPOTENCY_RECORD_TTL_MS))"
    and k: "\<forall>r\<in>set (filter keep (idempotencyRecords t)). id_key (row_data r) \<noteq> ic_key ctx"
    and t': "t' = t\<lparr>settlements := settlements t @ [row], activities := activities t @ [ev],
               idempotencyRecords := filter keep (idempotencyRecords t) @ [claim]\<rparr>"
    by (elim newly_settledE)
  have "id_key (row_data claim) = ic_key ctx" using c by (simp add: complete_record_def claim_for_def)
  with new k ok show "ids_ok t'" unfolding t'
    by (auto simp: ids_ok_def has_id_iff distinct_map inj_on_def)
qed

lemma app_okD:
  assumes "app_ok t"
  shows "ledger_ok t" "groups_ok t" "members_once t" "sessions_ok t" "ids_ok t"
  using assms by (simp_all add: app_ok_def)

lemma keeps_app_ok:
  assumes "keeps (on_db (\<lambda>d. ledger_ok (T d))) m" "keeps (on_db (\<lambda>d. groups_ok (T d))) m"
    and "keeps (on_db (\<lambda>d. members_once (T d))) m" "keeps (on_db (\<lambda>d. sessions_ok (T d))) m"
    and "keeps (on_db (\<lambda>d. ids_ok (T d))) m"
  shows "keeps (on_db (\<lambda>d. app_ok (T d))) m"
  using assms unfolding keeps_def on_db_def app_ok_def by blast

lemma groups_ok_cong: "groups t' = groups t \<Longrightarrow> members t' = members t \<Longrightarrow> groups_ok t' = groups_ok t"
  by (simp add: groups_ok_def is_member_def [abs_def])

lemma groups_ok_other [simp]:
  "groups_ok (expenses_update e t) = groups_ok t" "groups_ok (splits_update p t) = groups_ok t"
  "groups_ok (activities_update h t) = groups_ok t" "groups_ok (settlements_update q t) = groups_ok t"
  "groups_ok (idempotencyRecords_update r t) = groups_ok t" "groups_ok (users_update l t) = groups_ok t"
  "groups_ok (authTokens_update m t) = groups_ok t" "groups_ok (refreshTokens_update n t) = groups_ok t"
  "groups_ok (summaries_update k t) = groups_ok t"
  by (rule groups_ok_cong; simp)+

lemma ledger_ok_auth [simp]:
  "ledger_ok (authTokens_update m t) = ledger_ok t" "ledger_ok (refreshTokens_update n t) = ledger_ok t"
  "ledger_ok (idempotencyRecords_update r t) = ledger_ok t" "ledger_ok (summaries_update k t) = ledger_ok t"
  by (rule ledger_ok_cong; simp)+

lemma expense_free_parts:
  "expense_free groups_ok" "expense_free members_once" "expense_free sessions_ok" "expense_free ids_ok"
  by (simp_all add: expense_free_def)

lemma auth_invariant_parts:
  "auth_invariant ledger_ok" "auth_invariant groups_ok" "auth_invariant members_once"
  "auth_invariant ids_ok"
  by (rule auth_invariant_other; simp)+

lemma settlement_keeps_parts:
  "settlement_keeps E ledger_ok" "settlement_keeps E groups_ok" "settlement_keeps E members_once"
  "settlement_keeps E sessions_ok"
  by (rule settlement_keeps_other; simp)+

lemma app_ok_summaries: "app_ok (summaries_update f t) = app_ok t"
  by (simp add: app_ok_def)

context prisma
begin

text \<open>The effects of the group requests, for an invariant of their tables.\<close>

lemma keeps_group_requests:
  assumes "\<And>t t'. I t \<Longrightarrow> group_created uid name t t' \<Longrightarrow> I t'" "\<And>t t'. I t \<Longrightarrow> group_renamed gid name t t' \<Longrightarrow> I t'"
    and "\<And>t t'. I t \<Longrightarrow> group_deleted gid t t' \<Longrightarrow> I t'" "\<And>t t'. I t \<Longrightarrow> member_added gid mid t t' \<Longrightarrow> I t'"
    and "\<And>t t'. I t \<Longrightarrow> member_removed gid mid t t' \<Longrightarrow> I t'"
  shows "keeps (on_db (\<lambda>d. I (T d))) (createGroup P uid name)"
    and "keeps (on_db (\<lambda>d. I (T d))) (updateGroup P R E uid gid name)"
    and "keeps (on_db (\<lambda>d. I (T d))) (deleteGroup P R uid gid)"
    and "keeps (on_db (\<lambda>d. I (T d))) (addGroupMember P R uid gid mid)"
    and "keeps (on_db (\<lambda>d. I (T d))) (removeGroupMember P R E uid gid mid)"
  by (rule keeps_effect, rule effect_mono, rule effect_createGroup effect_updateGroup
        effect_deleteGroup effect_addGroupMember effect_removeGroupMember, use assms in blast)+

lemma keeps_app_groups:
  "keeps (on_db (\<lambda>d. app_ok (T d))) (createGroup P uid name)"
  "keeps (on_db (\<lambda>d. app_ok (T d))) (updateGroup P R E uid gid name)"
  "keeps (on_db (\<lambda>d. app_ok (T d))) (deleteGroup P R uid gid)"
  "keeps (on_db (\<lambda>d. app_ok (T d))) (addGroupMember P R uid gid mid)"
  "keeps (on_db (\<lambda>d. app_ok (T d))) (removeGroupMember P R E uid gid mid)"
  by (intro keeps_app_ok keeps_ledger_groups keeps_groups_ok keeps_group_requests;
      (erule (1) group_changes_keep_members group_changes_keep_sessions group_changes_keep_ids))+

lemma keeps_app_createExpense:
  "equal_ok (ci_amountMinorUnits input) (ci_participants input) \<Longrightarrow>
     keeps (on_db (\<lambda>d. app_ok (T d))) (createExpense P E uid input)"
  by (intro keeps_app_ok keeps_createExpense keeps_expense_requests expense_free_parts)

lemma keeps_app_updateExpense:
  "update_input_ok input \<Longrightarrow> keeps (on_db (\<lambda>d. app_ok (T d))) (updateExpense P E uid eid input)"
  by (intro keeps_app_ok keeps_updateExpense keeps_expense_requests expense_free_parts)

lemma keeps_app_deleteExpense: "keeps (on_db (\<lambda>d. app_ok (T d))) (deleteExpense P E uid eid)"
  by (intro keeps_app_ok keeps_deleteExpense keeps_expense_requests expense_free_parts)

lemma keeps_app_createSettlement:
  "keeps (on_db (\<lambda>d. app_ok (T d))) (createSettlement P R E ttl uid input ctx)"
  by (intro keeps_app_ok keeps_createSettlement settlement_keeps_parts settled_keeps_ids)

lemma keeps_app_auth:
  "keeps (on_db (\<lambda>d. app_ok (T d))) (register P E K M cf name email pw)"
  "keeps (on_db (\<lambda>d. app_ok (T d))) (login P E K cf email pw)"
  "keeps (on_db (\<lambda>d. app_ok (T d))) (refresh P E K cf tok)"
  "keeps (on_db (\<lambda>d. app_ok (T d))) (logout P E tok)"
  "keeps (on_db (\<lambda>d. app_ok (T d))) (updateCurrentUser P uid nm em)"
  "keeps (on_db (\<lambda>d. app_ok (T d))) (verifyEmailAddress P E tok)"
  "keeps (on_db (\<lambda>d. app_ok (T d))) (resendVerification P E K M cf email)"
  "keeps (on_db (\<lambda>d. app_ok (T d))) (requestPasswordReset P E K M cf email)"
  "keeps (on_db (\<lambda>d. app_ok (T d))) (resetUserPassword P E K tok pw)"
  by (intro keeps_app_ok keeps_auth auth_invariant_parts auth_invariant_sessions)+

lemma keeps_app_recompute: "keeps (on_db (\<lambda>d. app_ok (T d))) (recomputeGroupSummary P E gid)"
  by (intro keeps_effect effect_mono [OF effect_recompute]) (auto simp: summarised_def app_ok_summaries)

end

section \<open>Middlewares leave the services alone\<close>

text \<open>The action does nothing but draw from the environment.\<close>

definition quiet :: "(('d, 'r, 'm) world, 'a) act \<Rightarrow> bool" where
  "quiet m \<longleftrightarrow> (\<forall>w r w'. m w = (r, w') \<longrightarrow> w' = w\<lparr>w_tick := w_tick w'\<rparr>)"

lemma quietD: "quiet m \<Longrightarrow> m w = (r, w') \<Longrightarrow> w' = w\<lparr>w_tick := w_tick w'\<rparr>"
  by (simp add: quiet_def)

lemma quiet_same:
  assumes "quiet m" "m w = (r, w')"
  shows "w_db w' = w_db w \<and> w_redis w' = w_redis w \<and> w_mail w' = w_mail w \<and> w_metrics w' = w_metrics w"
proof -
  have "w' = w\<lparr>w_tick := w_tick w'\<rparr>" by (rule quietD [OF assms])
  then show ?thesis by (metis world.select_convs(1-4) world.update_convs(5) world.surjective)
qed

lemma quiet_basic: "quiet (ret a)" "quiet (throw e)" "quiet (of_result x)" "quiet (draw f)"
  by (simp_all add: quiet_def act_simps)

lemma quiet_seq: "quiet m \<Longrightarrow> (\<And>a. quiet (k a)) \<Longrightarrow> quiet (seq m k)"
  unfolding quiet_def
proof (intro allI impI)
  fix w r w'
  assume m: "\<forall>w r w'. m w = (r, w') \<longrightarrow> w' = w\<lparr>w_tick := w_tick w'\<rparr>"
    and k: "\<And>a. \<forall>w r w'. k a w = (r, w') \<longrightarrow> w' = w\<lparr>w_tick := w_tick w'\<rparr>"
    and run: "seq m k w = (r, w')"
  obtain x w1 where x: "m w = (x, w1)" by fastforce
  then have w1: "w1 = w\<lparr>w_tick := w_tick w1\<rparr>" using m by blast
  show "w' = w\<lparr>w_tick := w_tick w'\<rparr>"
  proof (cases x)
    case (Inl e)
    then show ?thesis using run x w1 by (simp add: seq_def)
  next
    case (Inr a)
    then have "k a w1 = (r, w')" using run x by (simp add: seq_def)
    then have "w' = w1\<lparr>w_tick := w_tick w'\<rparr>" using k by blast
    also have "\<dots> = w\<lparr>w_tick := w_tick w'\<rparr>" by (subst w1) simp
    finally show ?thesis .
  qed
qed

lemma quiet_verifyToken: "quiet (verifyToken K cf token)"
  unfolding verifyToken_def
  by (intro quiet_seq) (auto intro: quiet_basic split: jwt_outcome.split option.split)

lemma quiet_parse: "quiet (parse_or_throw parse s v)"
  unfolding parse_or_throw_def by (auto intro: quiet_basic split: option.split sum.split)

lemma quiet_middleware: "quiet (run_middleware D mw rq)"
  unfolding run_middleware_def authenticate_def validate_def
  by (cases mw) (auto intro!: quiet_seq quiet_basic quiet_verifyToken quiet_parse split: prod.split)

lemma quiet_chain: "quiet (run_chain D mws rq)"
  by (induction mws arbitrary: rq) (auto intro: quiet_basic quiet_seq quiet_middleware)

lemma silent_quiet: "quiet m \<Longrightarrow> silent T m"
  unfolding silent_def using quiet_same by metis

section \<open>Validated bodies\<close>

lemma parse_or_throw_Inr [act_simps]:
  "parse_or_throw parse schema v w = (Inr x, w') \<longleftrightarrow>
     (case schema of None \<Rightarrow> x = v | Some s \<Rightarrow> parse s v = Inr x) \<and> w' = w"
  by (auto simp: parse_or_throw_def act_simps split: option.split sum.split)

lemma authenticate_Inr [act_simps]:
  "authenticate K cf rq w = (Inr rq', w') \<longleftrightarrow> (\<exists>token sub email. bearer_token (rq_authorization rq) = Inr token \<and>
     verifyToken K cf token w = (Inr (sub, email), w') \<and> rq' = rq\<lparr>rq_userId := sub\<rparr>)"
  by (auto simp: authenticate_def act_simps)

lemma validate_Inr [act_simps]:
  "validate parse vs rq w = (Inr rq', w') \<longleftrightarrow> w' = w \<and> (\<exists>b q p.
     (case vs_body vs of None \<Rightarrow> b = rq_body rq | Some s \<Rightarrow> parse s (rq_body rq) = Inr b) \<and>
     (case vs_query vs of None \<Rightarrow> q = rq_query rq | Some s \<Rightarrow> parse s (rq_query rq) = Inr q) \<and>
     (case vs_params vs of None \<Rightarrow> p = rq_params rq | Some s \<Rightarrow> parse s (rq_params rq) = Inr p) \<and>
     rq' = rq\<lparr>rq_body := b, rq_query := q, rq_params := p\<rparr>)"
  by (auto simp: validate_def act_simps)

lemmas chain_simps = route_chain_def run_middleware_def with_body_def with_params_def
  with_params_body_def with_params_query_def

lemma chain_body:
  assumes "run_chain D (route_chain ep) rq w = (Inr rq', w')" and "ep = POST_expense \<or> ep = PATCH_expense"
  shows "dp_parse D (if ep = POST_expense then createExpenseBodySchema else updateExpenseBodySchema) (rq_body rq) =
    Inr (rq_body rq')"
  using assms by (auto simp: chain_simps act_simps)

lemma zod_cases:
  assumes "zod_parser F parse"
  shows "case parse s v of Inr x \<Rightarrow> meaning F s (Some v) = Some (Some x)
    | Inl i \<Rightarrow> \<not> (\<exists>x. meaning F s (Some v) = Some (Some x))"
  using assms unfolding zod_parser_def by blast

lemma zod_Inr: "zod_parser F parse \<Longrightarrow> parse s v = Inr x \<Longrightarrow> meaning F s (Some v) = Some (Some x)"
  using zod_cases [of F parse s v] by simp

lemma zod_Inl: "zod_parser F parse \<Longrightarrow> parse s v = Inl i \<Longrightarrow> meaning F s (Some v) \<noteq> Some (Some x)"
  using zod_cases [of F parse s v] by simp

text \<open>The amounts that reach the services are positive safe integers, and somebody takes part.\<close>

lemma optional_int_amount:
  assumes "meaning F safeAmount v = Some (json_field b k)"
  shows "\<exists>n. optional_int b k = Some n \<and> 0 < n \<and> n \<le> MAX_SAFE_INTEGER"
  using meaning_safeAmount [OF assms] by (auto simp: optional_int_def)

lemma read_participants:
  assumes "meaning F (ZArray 1 s) (json_field v ''participants'') = Some (json_field b ''participants'')"
    and "json_nodes v \<le> n"
  shows "\<exists>ps. optional_participants b = Some ps \<and> ps \<noteq> [] \<and> length ps \<le> n"
proof -
  from meaning_array [OF assms(1)] obtain xs ys where
      "json_field v ''participants'' = Some (JArray xs)" "json_field b ''participants'' = Some (JArray ys)"
      "1 \<le> length xs" "length ys = length xs" by blast
  moreover from this have "length xs \<le> json_nodes v"
    using json_nodes_field json_nodes_array le_trans by blast
  ultimately show ?thesis using assms(2) by (auto simp: optional_participants_def)
qed

lemma read_createExpense_ok:
  assumes "meaning F createExpenseBodySchema (Some v) = Some (Some b)" and "json_nodes v \<le> n"
  shows "0 < ci_amountMinorUnits (read_createExpense gid b) \<and>
    ci_amountMinorUnits (read_createExpense gid b) \<le> MAX_SAFE_INTEGER \<and>
    ci_participants (read_createExpense gid b) \<noteq> [] \<and>
    length (ci_participants (read_createExpense gid b)) \<le> n"
proof -
  note fields = meaning_object [OF assms(1) [unfolded createExpenseBodySchema_def]]
  have "meaning F safeAmount (json_field v ''amountMinorUnits'') = Some (json_field b ''amountMinorUnits'')"
    by (rule fields) simp_all
  moreover have "meaning F (ZArray 1 (ZObject False [(''userId'', idSchema),
      (''amountMinorUnits'', ZOptional safeAmount)])) (json_field v ''participants'') =
      Some (json_field b ''participants'')"
    by (rule fields) simp_all
  ultimately show ?thesis
    using optional_int_amount [of F _ b "''amountMinorUnits''"] read_participants [OF _ assms(2)]
    by (fastforce simp: read_createExpense_def int_field_def)
qed

lemma read_updateExpense_ok:
  assumes "meaning F updateExpenseBodySchema (Some v) = Some (Some b)" and "json_nodes v \<le> 2 ^ 53"
  shows "update_input_ok (read_updateExpense b)"
proof -
  from meaning_refine [OF assms(1) [unfolded updateExpenseBodySchema_def]] have obj:
    "meaning F (ZObject True
     [(''description'', ZOptional (ZString [Trim, Min 1, Max 280])),
      (''amountMinorUnits'', ZOptional safeAmount),
      (''payerId'', ZOptional idSchema),
      (''splitType'', ZOptional (ZEnum [''EQUAL'', ''EXACT''])),
      (''participants'', ZOptional (ZArray 1 expenseParticipantSchema)),
      (''expenseDate'', ZOptional (ZString [Datetime]))]) (Some v) = Some (Some b)" by blast
  note fields = meaning_object [OF obj]
  have a: "meaning F (ZOptional safeAmount) (json_field v ''amountMinorUnits'') = Some (json_field b ''amountMinorUnits'')"
    by (rule fields) simp_all
  have p: "meaning F (ZOptional (ZArray 1 expenseParticipantSchema)) (json_field v ''participants'') =
      Some (json_field b ''participants'')"
    by (rule fields) simp_all
  have "case optional_int b ''amountMinorUnits'' of None \<Rightarrow> True | Some n \<Rightarrow> 0 \<le> n"
    using meaning_optional [OF a] optional_int_amount [of F _ b "''amountMinorUnits''"]
    by (fastforce simp: optional_int_def)
  moreover have "case optional_participants b of None \<Rightarrow> True | Some ps \<Rightarrow> ps \<noteq> [] \<and> length ps \<le> 2 ^ 53"
    using meaning_optional [OF p] read_participants [OF _ assms(2), of F expenseParticipantSchema b]
    by (auto simp: optional_participants_def split: option.splits json.splits)
  ultimately show ?thesis by (simp add: update_input_ok_def read_updateExpense_def)
qed

section \<open>Every request\<close>

context prisma
begin

lemma silent_queries:
  "silent T (getMe P uid)" "silent T (getUserGroups P uid)" "silent T (getGroupBalances P uid gid)"
  "silent T (getGroupActivity P uid gid page limit)"
  "silent T (enqueueGroupSummaryRecompute P R E c uid gid rid)"
proof -
  show "silent T (getMe P uid)" unfolding getMe_def by (intro silent_intros)
  show "silent T (getUserGroups P uid)" by (rule silent_getUserGroups)
  show "silent T (getGroupBalances P uid gid)"
    unfolding getGroupBalances_def findExpensesForBalances_def findSettlementsForBalances_def expense_for_balance_def
    by (intro silent_intros exp.silent_reads spl.silent_reads stl.silent_reads)
  show "silent T (getGroupActivity P uid gid page limit)"
    unfolding getGroupActivity_def ActivityRepository_findGroupById_def ActivityRepository_isGroupMember_def
      findActivityByGroupId_def
    by (intro silent_intros grp.silent_reads mem.silent_reads act.silent_reads)
  show "silent T (enqueueGroupSummaryRecompute P R E c uid gid rid)"
    unfolding enqueueGroupSummaryRecompute_def enqueueGroupSummaryRecomputeJob_def enqueue_def Let_def
    by (intro silent_intros)
qed

lemma keeps_answer: "keeps I m \<Longrightarrow> keeps I (answer s f m)"
  unfolding answer_def by (intro keep_intros)

lemma keeps_controller:
  assumes "dp_prisma D = P"
    and "ep = POST_expense \<Longrightarrow> equal_ok (ci_amountMinorUnits (read_createExpense (path_id rq) (rq_body rq)))
       (ci_participants (read_createExpense (path_id rq) (rq_body rq)))"
    and "ep = PATCH_expense \<Longrightarrow> update_input_ok (read_updateExpense (rq_body rq))"
  shows "keeps (on_db (\<lambda>d. app_ok (T d))) (controller D ep rq)"
  using assms(2,3)
  by (cases ep)
    (simp_all add: controller_def activity_controller_def createSettlement_controller_def assms(1),
     (intro keeps_answer keeps_app_groups keeps_app_createExpense keeps_app_updateExpense
        keeps_app_deleteExpense keeps_app_createSettlement keeps_app_auth;
      (intro keeps_silent silent_queries silent_expense_queries silent_settlement_queries
        silent_getGroupById silent_getGroupSummary | simp)?)+)

end

section \<open>Serving a request\<close>

text \<open>The body parser's limit, which the edge and \<open>express.json\<close> share.\<close>

definition body_fits :: "http_request \<Rightarrow> bool" where
  "body_fits rq \<longleftrightarrow> json_nodes (rq_body rq) \<le> EDGE_MAX_BODY_BYTES"

lemma body_fits_le: "body_fits rq \<Longrightarrow> json_nodes (rq_body rq) \<le> 2 ^ 53"
  by (simp add: body_fits_def EDGE_MAX_BODY_BYTES_def)

lemma serve_run:
  "serve D ep rq w =
     (case handle D ep rq w of
        (Inr (s, b), w') \<Rightarrow> (Inr (Answered s b), w')
      | (Inl e, w') \<Rightarrow> (Inr (Refused (errorHandler e)), w'))"
  by (auto simp: serve_def catch_def seq_def ret_def split: prod.split sum.split)

lemma serve_state: "snd (serve D ep rq w) = snd (handle D ep rq w)"
  by (simp add: serve_run split: prod.split sum.split)

lemma serve_returns: "\<exists>resp. fst (serve D ep rq w) = Inr resp"
  by (simp add: serve_run split: prod.split sum.split)

context prisma
begin

lemma keeps_handle:
  fixes D :: "('d, 'r, 'm) deployment"
  assumes "dp_prisma D = P" and "zod_parser F (dp_parse D)" and "body_fits rq"
  shows "keeps (on_db (\<lambda>d. app_ok (T d))) (handle D ep rq)"
  unfolding handle_def
proof (rule keeps_seq_value [where Q = "\<lambda>rq'. (ep = POST_expense \<longrightarrow>
      meaning F createExpenseBodySchema (Some (rq_body rq)) = Some (Some (rq_body rq'))) \<and>
      (ep = PATCH_expense \<longrightarrow> meaning F updateExpenseBodySchema (Some (rq_body rq)) = Some (Some (rq_body rq')))"])
  show "keeps (on_db (\<lambda>d. app_ok (T d))) (run_chain D (route_chain ep) rq)"
    by (intro keeps_silent silent_quiet quiet_chain)
next
  fix w :: "('d, 'r, 'm) world" and rq' w'
  assume "run_chain D (route_chain ep) rq w = (Inr rq', w')"
  from chain_body [OF this] show "(ep = POST_expense \<longrightarrow>
      meaning F createExpenseBodySchema (Some (rq_body rq)) = Some (Some (rq_body rq'))) \<and>
      (ep = PATCH_expense \<longrightarrow> meaning F updateExpenseBodySchema (Some (rq_body rq)) = Some (Some (rq_body rq')))"
    using zod_Inr [OF assms(2)] by auto
next
  fix rq' :: http_request
  assume q: "(ep = POST_expense \<longrightarrow>
      meaning F createExpenseBodySchema (Some (rq_body rq)) = Some (Some (rq_body rq'))) \<and>
      (ep = PATCH_expense \<longrightarrow> meaning F updateExpenseBodySchema (Some (rq_body rq)) = Some (Some (rq_body rq')))"
  show "keeps (on_db (\<lambda>d. app_ok (T d))) (controller D ep rq')"
  proof (rule keeps_controller [OF assms(1)])
    assume "ep = POST_expense"
    with q have "meaning F createExpenseBodySchema (Some (rq_body rq)) = Some (Some (rq_body rq'))" by blast
    from read_createExpense_ok [OF this body_fits_le [OF assms(3)], of "path_id rq'"]
    show "equal_ok (ci_amountMinorUnits (read_createExpense (path_id rq') (rq_body rq')))
       (ci_participants (read_createExpense (path_id rq') (rq_body rq')))"
      by (simp add: equal_ok_def)
  next
    assume "ep = PATCH_expense"
    with q show "update_input_ok (read_updateExpense (rq_body rq'))"
      using read_updateExpense_ok [OF _ body_fits_le [OF assms(3)]] by auto
  qed
qed

end

section \<open>Sequences of requests and polls\<close>

text \<open>
  One step of the application: a request served to the end, or one poll of the worker. Requests
  are taken one after the other; what two overlapping requests may do to each other is the
  subject of the lock and of the queue.
\<close>

inductive app_step :: "('d, 'r, 'm) deployment \<Rightarrow> ('d, 'r, 'm) world \<Rightarrow> ('d, 'r, 'm) world \<Rightarrow> bool"
  for D where
  Request: "body_fits rq \<Longrightarrow> serve D ep rq w = (resp, w') \<Longrightarrow> app_step D w w'"
| Poll: "tick (dp_redis D) (dp_env D) (dp_queue D) (jobRegistry (dp_prisma D) (dp_env D)) w = (res, w') \<Longrightarrow>
    app_step D w w'"

abbreviation app_steps :: "('d, 'r, 'm) deployment \<Rightarrow> ('d, 'r, 'm) world \<Rightarrow> ('d, 'r, 'm) world \<Rightarrow> bool" where
  "app_steps D \<equiv> (app_step D)\<^sup>*\<^sup>*"

text \<open>An invariant of every request and of the recomputation is one of the application.\<close>

context prisma
begin

lemma keeps_redis_call: "keeps (on_db (\<lambda>d. I (T d))) (redis_call R cmd)"
  by (intro keeps_silent silent_intros)

lemma keeps_job_steps:
  "keeps (on_db (\<lambda>d. I (T d))) (discard R type i)" "keeps (on_db (\<lambda>d. I (T d))) (complete R type i)"
  "keeps (on_db (\<lambda>d. I (T d))) (claimNext R E c type)"
  "keeps (on_db (\<lambda>d. I (T d))) (retryAfterFailure R E c type i n ms)"
  "keeps (on_db (\<lambda>d. I (T d))) (job_metric m type)"
proof -
  have d: "silent T (discard R type i)" for i unfolding discard_def by (intro silent_intros)
  show "keeps (on_db (\<lambda>d. I (T d))) (discard R type i)" by (rule keeps_silent [OF d])
  show "keeps (on_db (\<lambda>d. I (T d))) (complete R type i)"
    unfolding complete_def by (intro keeps_silent silent_intros)
  show "keeps (on_db (\<lambda>d. I (T d))) (claimNext R E c type)"
    unfolding claimNext_def dueJobId_def by (intro keeps_silent silent_intros d)
  show "keeps (on_db (\<lambda>d. I (T d))) (retryAfterFailure R E c type i n ms)"
    unfolding retryAfterFailure_def drop_stale_def Let_def by (intro keeps_silent silent_intros)
  show "keeps (on_db (\<lambda>d. I (T d))) (job_metric m type)"
    unfolding job_metric_def by (intro keep_intros)
qed

lemma keeps_tick:
  assumes "\<And>gid. keeps (on_db (\<lambda>d. I (T d)))
      (recomputeGroupSummary P E gid :: (('d, 'r, 'm) world, GroupSummaryDto) act)"
  shows "keeps (on_db (\<lambda>d. I (T d))) (tick R E c (jobRegistry P E) :: (('d, 'r, 'm) world, unit) act)"
proof -
  have "keeps (on_db (\<lambda>d. I (T d)))
      (processType R E c (groupSummaryRegistration P E) type :: (('d, 'r, 'm) world, unit) act)" for type
    unfolding processType_def run_job_def job_failed_def give_up_def groupSummaryRegistration_def
      processGroupSummaryRecomputeJob_def Let_def
    by (intro keeps_seq keeps_job_steps) (auto split: ClaimResult.split intro!: keep_intros keeps_job_steps assms)
  then show ?thesis
    unfolding tick_def jobRegistry_def by (auto intro!: keep_intros)
qed

end

section \<open>Invariants of the running application\<close>

theorem app_step_ok:
  assumes "prisma T (dp_prisma D)" and "zod_parser F (dp_parse D)"
    and "app_step D w w'" and "app_ok (T (w_db w))"
  shows "app_ok (T (w_db w'))"
  using assms(3)
proof cases
  case (Request rq ep resp)
  have "keeps (on_db (\<lambda>d. app_ok (T d))) (handle D ep rq)"
    by (rule prisma.keeps_handle [OF assms(1) refl assms(2) Request(1)])
  moreover have "snd (handle D ep rq w) = w'" using Request(2) serve_state [of D ep rq w] by simp
  ultimately show ?thesis using assms(4) by (auto simp: keeps_def on_db_def)
next
  case (Poll res)
  have "keeps (on_db (\<lambda>d. app_ok (T d)))
      (tick (dp_redis D) (dp_env D) (dp_queue D) (jobRegistry (dp_prisma D) (dp_env D)))"
    by (intro prisma.keeps_tick prisma.keeps_app_recompute assms(1))
  from keepsD [OF this _ Poll] assms(4) show ?thesis by (simp add: on_db_def)
qed

theorem app_steps_ok:
  assumes "prisma T (dp_prisma D)" and "zod_parser F (dp_parse D)"
    and "app_steps D w w'" and "app_ok (T (w_db w))"
  shows "app_ok (T (w_db w'))"
  using assms(3,4) by (induction rule: rtranclp_induct) (auto intro: app_step_ok [OF assms(1,2)])

text \<open>Invariants of the sessions alone, such as that a refresh token is spent.\<close>

definition only_sessions :: "(tables \<Rightarrow> bool) \<Rightarrow> bool" where
  "only_sessions I \<longleftrightarrow> (\<forall>t t'. refreshTokens t = refreshTokens t' \<longrightarrow> I t = I t')"

lemma only_sessions_spent: "only_sessions (\<lambda>t. spent t h)"
  by (simp add: only_sessions_def spent_def)

lemma only_sessionsD: "only_sessions I \<Longrightarrow> refreshTokens t' = refreshTokens t \<Longrightarrow> I t' = I t"
  unfolding only_sessions_def by blast

lemma only_sessions_free:
  assumes "only_sessions I"
  shows "expense_free I" "settlement_keeps E I"
    and "summarised gid t t' \<Longrightarrow> I t' = I t"
    and "group_created u n t t' \<Longrightarrow> I t' = I t" "group_renamed gid n t t' \<Longrightarrow> I t' = I t"
    and "group_deleted gid t t' \<Longrightarrow> I t' = I t" "member_added gid u t t' \<Longrightarrow> I t' = I t"
    and "member_removed gid u t t' \<Longrightarrow> I t' = I t"
proof -
  show "expense_free I" unfolding expense_free_def by (intro conjI allI only_sessionsD [OF assms]) simp_all
  show "settlement_keeps E I" by (intro settlement_keeps_other only_sessionsD [OF assms]) simp
qed (auto simp: summarised_def group_changes cascade_groups_update intro!: only_sessionsD [OF assms])

context prisma
begin

lemma keeps_controller_sessions:
  assumes I: "auth_invariant I" "only_sessions I" and "dp_prisma D = P"
  shows "keeps (on_db (\<lambda>d. I (T d))) (controller D ep rq)"
proof -
  have g: "I t \<Longrightarrow> group_created u n t t' \<Longrightarrow> I t'" "I t \<Longrightarrow> group_renamed gid n t t' \<Longrightarrow> I t'"
    "I t \<Longrightarrow> group_deleted gid t t' \<Longrightarrow> I t'" "I t \<Longrightarrow> member_added gid u t t' \<Longrightarrow> I t'"
    "I t \<Longrightarrow> member_removed gid u t t' \<Longrightarrow> I t'" for u n gid t t'
    using only_sessions_free(4-8) [OF I(2)] by blast+
  have groups: "keeps (on_db (\<lambda>d. I (T d))) (createGroup P uid name)"
    "keeps (on_db (\<lambda>d. I (T d))) (updateGroup P R E uid gid name)"
    "keeps (on_db (\<lambda>d. I (T d))) (deleteGroup P R uid gid)"
    "keeps (on_db (\<lambda>d. I (T d))) (addGroupMember P R uid gid mid)"
    "keeps (on_db (\<lambda>d. I (T d))) (removeGroupMember P R E uid gid mid)" for uid name R E gid mid
    by (rule keeps_group_requests; erule (1) g)+
  note requests = groups keeps_expense_requests [OF only_sessions_free(1) [OF I(2)]]
    keeps_createSettlement [OF only_sessions_free(2) [OF I(2)]] keeps_auth [OF I(1)]
  show ?thesis
    by (cases ep)
      (simp_all add: controller_def activity_controller_def createSettlement_controller_def assms(3),
       (intro keeps_answer requests;
        (intro keeps_silent silent_queries silent_expense_queries silent_settlement_queries
          silent_getGroupById silent_getGroupSummary)?)+)
qed

lemma keeps_handle_sessions:
  assumes "auth_invariant I" "only_sessions I" and "dp_prisma D = P"
  shows "keeps (on_db (\<lambda>d. I (T d))) (handle D ep rq)"
  unfolding handle_def
  by (intro keeps_seq keeps_controller_sessions [OF assms] keeps_silent [OF silent_quiet] quiet_chain)

lemma keeps_recompute_sessions:
  "only_sessions I \<Longrightarrow> keeps (on_db (\<lambda>d. I (T d))) (recomputeGroupSummary P E gid)"
  by (intro keeps_effect effect_mono [OF effect_recompute] impI) (simp add: only_sessions_free(3))

end

lemma app_step_sessions:
  assumes "prisma T (dp_prisma D)" and "auth_invariant I" "only_sessions I"
    and "app_step D w w'" and "I (T (w_db w))"
  shows "I (T (w_db w'))"
  using assms(4)
proof cases
  case (Request rq ep resp)
  have "keeps (on_db (\<lambda>d. I (T d))) (handle D ep rq)"
    by (rule prisma.keeps_handle_sessions [OF assms(1-3) refl])
  moreover have "snd (handle D ep rq w) = w'" using Request(2) serve_state [of D ep rq w] by simp
  ultimately show ?thesis using assms(5) by (auto simp: keeps_def on_db_def)
next
  case (Poll res)
  have "keeps (on_db (\<lambda>d. I (T d)))
      (tick (dp_redis D) (dp_env D) (dp_queue D) (jobRegistry (dp_prisma D) (dp_env D)))"
    by (intro prisma.keeps_tick prisma.keeps_recompute_sessions assms)
  from keepsD [OF this _ Poll] assms(5) show ?thesis by (simp add: on_db_def)
qed

lemma app_steps_spent:
  assumes "prisma T (dp_prisma D)" and "app_steps D w w'" and "spent (T (w_db w)) h"
  shows "spent (T (w_db w')) h"
  using assms(2,3)
  by (induction rule: rtranclp_induct)
    (auto intro: app_step_sessions [OF assms(1) auth_invariant_spent only_sessions_spent])

end
