(* ===== verification/Requests.thy ===== *)
theory Requests
  imports App
begin

text \<open>
  What a request is answered, and what it leaves behind: who it acts for (\<open>authenticate\<close>), what
  the services get to see of its body (\<open>validate\<close> and the controllers), and that a refusal or a
  query leaves the tables as they were.
\<close>

section \<open>Queries and refusals\<close>

text \<open>The endpoints that only read.\<close>

definition is_query :: "endpoint \<Rightarrow> bool" where
  "is_query ep \<longleftrightarrow> ep \<in> {GET_me, GET_groups, GET_group, GET_group_expenses, GET_balances,
     GET_group_settlements, GET_activity, GET_summary, GET_expense, GET_settlement}"

lemma db_exn_internal: "db_exn e \<Longrightarrow> er_status (errorHandler e) = 500"
  by (cases e) (simp_all add: db_exn_def)

context prisma
begin

lemma silent_answer: "silent T m \<Longrightarrow> silent T (answer s f m)"
  unfolding answer_def by (intro silent_seq silent_basic)

lemma clean_answer: "clean T m \<Longrightarrow> clean T (answer s f m)"
  unfolding answer_def by (intro clean_seq_tail never_fails_basic)

lemma silent_controller:
  assumes "dp_prisma D = P" and "is_query ep"
  shows "silent T (controller D ep rq)"
  using assms(2)
  by (cases ep)
    (simp_all add: is_query_def controller_def activity_controller_def assms(1) silent_answer
      silent_queries silent_expense_queries silent_settlement_queries silent_getGroupById silent_getGroupSummary)

lemma clean_controller:
  assumes "dp_prisma D = P" and "auth_routes ep = []"
  shows "clean T (controller D ep rq)"
  using assms(2)
  by (cases ep)
    (simp_all add: controller_def activity_controller_def createSettlement_controller_def assms(1) clean_answer
      clean_createExpense clean_updateExpense clean_deleteExpense clean_group_requests clean_createSettlement
      clean_silent silent_queries silent_expense_queries silent_settlement_queries
      silent_getGroupById silent_getGroupSummary)

lemma silent_handle:
  assumes "dp_prisma D = P" and "is_query ep"
  shows "silent T (handle D ep rq)"
  unfolding handle_def by (intro silent_seq silent_quiet quiet_chain silent_controller assms)

lemma clean_handle:
  assumes "dp_prisma D = P" and "auth_routes ep = []"
  shows "clean T (handle D ep rq)"
  unfolding handle_def by (rule clean_seq [OF silent_quiet [OF quiet_chain] clean_controller [OF assms]])

lemma serve_query:
  assumes "dp_prisma D = P" and "is_query ep" and "serve D ep rq w = (x, w')"
  shows "T (w_db w') = T (w_db w)"
proof -
  obtain r where h: "handle D ep rq w = (r, w')"
    using serve_state [of D ep rq w] assms(3) by (cases "handle D ep rq w") simp
  show ?thesis by (rule silentD [OF silent_handle [OF assms(1,2)] h])
qed

lemma serve_refused:
  assumes "dp_prisma D = P" and "auth_routes ep = []"
    and "serve D ep rq w = (Inr (Refused er), w')" and "er_status er \<noteq> 500"
  shows "T (w_db w') = T (w_db w)"
proof -
  obtain e where run: "handle D ep rq w = (Inl e, w')" and er: "er = errorHandler e"
    using assms(3) by (auto simp: serve_run split: prod.splits sum.splits)
  then have "\<not> db_exn e" using db_exn_internal assms(4) by auto
  then show ?thesis using cleanD [OF clean_handle [OF assms(1,2)] run] by simp
qed

end

section \<open>Who a request acts for\<close>

text \<open>The user that a request's token names, if the token is accepted.\<close>

definition acting_user :: "('d, 'r, 'm) deployment \<Rightarrow> http_request \<Rightarrow> ('d, 'r, 'm) world \<Rightarrow> exn + string" where
  "acting_user D rq w = (case bearer_token (rq_authorization rq) of
      Inl e \<Rightarrow> Inl e
    | Inr token \<Rightarrow> (case fst (verifyToken (dp_crypto D) (dp_config D) token w) of
        Inl e \<Rightarrow> Inl e | Inr (sub, email) \<Rightarrow> Inr sub))"

lemma authenticate_user:
  "fst (authenticate (dp_crypto D) (dp_config D) rq w) =
     (case acting_user D rq w of Inl e \<Rightarrow> Inl e | Inr sub \<Rightarrow> Inr (rq\<lparr>rq_userId := sub\<rparr>))"
  by (auto simp: authenticate_def acting_user_def seq_def of_result_def ret_def split: sum.split prod.split)

lemma bearer_refused: "bearer_token h = Inl e \<Longrightarrow> er_status (errorHandler e) = 401"
  by (auto simp: bearer_token_def tokenMissing_def bearerRequired_def errorHandler_classes
      split: option.splits list.splits if_splits)

lemma verify_refused: "verifyToken K cf token w = (Inl e, w') \<Longrightarrow> er_status (errorHandler e) = 401"
  by (auto simp: verifyToken_def act_simps tokenExpired_def tokenInvalid_def errorHandler_classes
      split: jwt_outcome.splits option.splits)

lemma acting_user_refused: "acting_user D rq w = Inl e \<Longrightarrow> er_status (errorHandler e) = 401"
  unfolding acting_user_def
  by (auto simp: bearer_refused split: sum.splits prod.splits) (metis prod.collapse verify_refused)

lemma authenticated_chain:
  "authenticated ep \<Longrightarrow> \<exists>rest. route_chain ep = Authenticate # rest \<and> Authenticate \<notin> set rest"
  by (cases ep) (simp_all add: authenticated_def chain_simps)

lemma run_chain_user:
  "run_chain D mws rq w = (Inr rq', w') \<Longrightarrow> Authenticate \<notin> set mws \<Longrightarrow> rq_userId rq' = rq_userId rq"
proof (induction mws arbitrary: rq w)
  case (Cons mw mws)
  from Cons.prems obtain rq1 w1 where one: "run_middleware D mw rq w = (Inr rq1, w1)"
    and rest: "run_chain D mws rq1 w1 = (Inr rq', w')"
    by (auto simp: act_simps)
  have "rq_userId rq1 = rq_userId rq"
    using one Cons.prems(2) by (cases mw) (auto simp: run_middleware_def act_simps)
  with Cons.IH [OF rest] Cons.prems(2) show ?case by simp
qed (simp add: act_simps)

text \<open>Without an accepted token, a protected endpoint answers 401 and nothing happens.\<close>

lemma serve_unauthenticated:
  assumes "authenticated ep" and "acting_user D rq w = Inl e"
  shows "\<exists>w'. serve D ep rq w = (Inr (Refused (errorHandler e)), w') \<and> er_status (errorHandler e) = 401 \<and>
    w_db w' = w_db w \<and> w_redis w' = w_redis w \<and> w_mail w' = w_mail w \<and> w_metrics w' = w_metrics w"
proof -
  obtain rest where chain: "route_chain ep = Authenticate # rest" using authenticated_chain [OF assms(1)] by blast
  obtain w' where a: "authenticate (dp_crypto D) (dp_config D) rq w = (Inl e, w')"
    using authenticate_user [of D rq w] assms(2) by (metis prod.collapse sum.case(1))
  have "run_chain D (route_chain ep) rq w = (Inl e, w')"
    using a by (simp add: chain run_middleware_def seq_def)
  moreover from this have "w_db w' = w_db w \<and> w_redis w' = w_redis w \<and> w_mail w' = w_mail w \<and> w_metrics w' = w_metrics w"
    by (rule quiet_same [OF quiet_chain])
  ultimately show ?thesis using acting_user_refused [OF assms(2)] by (simp add: serve_run handle_def seq_def)
qed

text \<open>An answer of a protected endpoint was produced for the user of the token.\<close>

lemma serve_authenticated:
  assumes "authenticated ep" and "serve D ep rq w = (Inr (Answered s b), w')"
  shows "\<exists>sub rq' w1. acting_user D rq w = Inr sub \<and> rq_userId rq' = sub \<and> controller D ep rq' w1 = (Inr (s, b), w')"
proof -
  obtain rest where chain: "route_chain ep = Authenticate # rest" "Authenticate \<notin> set rest"
    using authenticated_chain [OF assms(1)] by blast
  have "handle D ep rq w = (Inr (s, b), w')"
    using assms(2) by (auto simp: serve_run split: prod.splits sum.splits)
  then obtain rq1 w1 rq' w2 where a: "authenticate (dp_crypto D) (dp_config D) rq w = (Inr rq1, w1)"
    and r: "run_chain D rest rq1 w1 = (Inr rq', w2)" and c: "controller D ep rq' w2 = (Inr (s, b), w')"
    by (auto simp: handle_def chain run_middleware_def seq_Inr_iff)
  obtain sub where "acting_user D rq w = Inr sub" "rq1 = rq\<lparr>rq_userId := sub\<rparr>"
    using authenticate_user [of D rq w] a by (auto split: sum.splits)
  then show ?thesis using run_chain_user [OF r chain(2)] c by auto
qed

section \<open>What the services get to see\<close>

definition amount_ok :: "int \<Rightarrow> bool" where
  "amount_ok n \<longleftrightarrow> 0 < n \<and> n \<le> MAX_SAFE_INTEGER"

definition participant_ok :: "formats \<Rightarrow> Participant \<Rightarrow> bool" where
  "participant_ok F p \<longleftrightarrow> zf_isUuid F (pt_userId p) \<and>
     (case pt_amountMinorUnits p of None \<Rightarrow> True | Some n \<Rightarrow> amount_ok n)"

definition typed_expense :: "formats \<Rightarrow> CreateExpenseInput \<Rightarrow> bool" where
  "typed_expense F i \<longleftrightarrow> 1 \<le> length (ci_description i) \<and> length (ci_description i) \<le> 280 \<and>
     amount_ok (ci_amountMinorUnits i) \<and> zf_isUuid F (ci_payerId i) \<and> ci_participants i \<noteq> [] \<and>
     list_all (participant_ok F) (ci_participants i) \<and>
     (case ci_expenseDate i of None \<Rightarrow> True | Some s \<Rightarrow> zf_isDatetime F s)"

definition typed_update :: "formats \<Rightarrow> UpdateExpenseInput \<Rightarrow> bool" where
  "typed_update F i \<longleftrightarrow>
     (case ui_description i of None \<Rightarrow> True | Some s \<Rightarrow> 1 \<le> length s \<and> length s \<le> 280) \<and>
     (case ui_amountMinorUnits i of None \<Rightarrow> True | Some n \<Rightarrow> amount_ok n) \<and>
     (case ui_payerId i of None \<Rightarrow> True | Some s \<Rightarrow> zf_isUuid F s) \<and>
     (case ui_participants i of None \<Rightarrow> True | Some ps \<Rightarrow> ps \<noteq> [] \<and> list_all (participant_ok F) ps) \<and>
     (case ui_expenseDate i of None \<Rightarrow> True | Some s \<Rightarrow> zf_isDatetime F s)"

definition typed_settlement :: "formats \<Rightarrow> CreateSettlementInput \<Rightarrow> bool" where
  "typed_settlement F i \<longleftrightarrow> zf_isUuid F (si_payerId i) \<and> zf_isUuid F (si_payeeId i) \<and>
     amount_ok (si_amountMinorUnits i)"

definition page_ok :: "int \<Rightarrow> nat \<Rightarrow> bool" where
  "page_ok page limit \<longleftrightarrow> 1 \<le> page \<and> 1 \<le> limit \<and> limit \<le> 50"

text \<open>Single fields, required and optional.\<close>

lemma field_text:
  assumes "meaning F (ZString cs) v = Some (json_field b k)"
  shows "\<exists>s0. v = Some (JString s0) \<and> string_checks F cs s0 = Some (string_field b k) \<and>
    optional_string b k = Some (string_field b k)"
  using assms by (auto simp: meaning.simps string_field_def optional_string_def dest!: sym [of "Some _"]
      split: option.splits json.splits)

lemma field_uuid:
  assumes "meaning F idSchema v = Some (json_field b k)"
  shows "zf_isUuid F (string_field b k) \<and> optional_string b k = Some (string_field b k)"
  using field_text [OF assms [unfolded idSchema_def]] by (auto split: if_splits)

lemma field_description:
  assumes "meaning F (ZString [Trim, Min 1, Max n]) v = Some (json_field b k)"
  shows "1 \<le> length (string_field b k) \<and> length (string_field b k) \<le> n \<and>
    optional_string b k = Some (string_field b k)"
  using field_text [OF assms] by (auto split: if_splits)

lemma field_datetime:
  assumes "meaning F (ZString [Datetime]) v = Some (json_field b k)"
  shows "zf_isDatetime F (string_field b k) \<and> optional_string b k = Some (string_field b k)"
  using field_text [OF assms] by (auto split: if_splits)

lemma field_amount:
  assumes "meaning F safeAmount v = Some (json_field b k)"
  shows "amount_ok (int_field b k) \<and> optional_int b k = Some (int_field b k)"
  using optional_int_amount [OF assms] by (auto simp: amount_ok_def int_field_def)

lemma optional_absent:
  "json_field b k = None \<Longrightarrow> optional_string b k = None \<and> optional_int b k = None"
  by (simp add: optional_string_def optional_int_def)

lemma optional_field:
  assumes "meaning F (ZOptional s) v = Some (json_field b k)"
  shows "json_field b k = None \<or> meaning F s v = Some (json_field b k)"
  using meaning_optional [OF assms] by auto

lemma optional_amount:
  "meaning F (ZOptional safeAmount) v = Some (json_field b k) \<Longrightarrow>
     (case optional_int b k of None \<Rightarrow> True | Some n \<Rightarrow> amount_ok n)"
  using optional_field [of F safeAmount v b k] field_amount [of F v b k] optional_absent [of b k] by auto

lemma optional_uuid:
  "meaning F (ZOptional idSchema) v = Some (json_field b k) \<Longrightarrow>
     (case optional_string b k of None \<Rightarrow> True | Some s \<Rightarrow> zf_isUuid F s)"
  using optional_field [of F idSchema v b k] field_uuid [of F v b k] optional_absent [of b k] by auto

lemma optional_description:
  "meaning F (ZOptional (ZString [Trim, Min 1, Max n])) v = Some (json_field b k) \<Longrightarrow>
     (case optional_string b k of None \<Rightarrow> True | Some s \<Rightarrow> 1 \<le> length s \<and> length s \<le> n)"
  using optional_field [of F "ZString [Trim, Min 1, Max n]" v b k] field_description [of F n v b k]
    optional_absent [of b k] by auto

lemma optional_datetime:
  "meaning F (ZOptional (ZString [Datetime])) v = Some (json_field b k) \<Longrightarrow>
     (case optional_string b k of None \<Rightarrow> True | Some s \<Rightarrow> zf_isDatetime F s)"
  using optional_field [of F "ZString [Datetime]" v b k] field_datetime [of F v b k]
    optional_absent [of b k] by auto

text \<open>The participants, one by one.\<close>

lemma meaning_elements:
  assumes "meaning F (ZArray n (ZObject strict fs)) v = Some (Some (JArray ys))" and "x \<in> set ys"
  shows "\<exists>x0. meaning F (ZObject strict fs) (Some x0) = Some (Some x)"
proof -
  let ?s = "ZObject strict fs"
  from assms(1) obtain xs zs where z: "all_some (map (\<lambda>x. meaning F ?s (Some x)) xs) = Some zs" and ys: "ys = map the zs"
    by (auto simp: meaning.simps(5) split: option.splits json.splits if_splits)
  from assms(2) ys obtain i where i: "i < length zs" "x = the (zs ! i)" by (auto simp: in_set_conv_nth)
  with z have "meaning F ?s (Some (xs ! i)) = Some (zs ! i)" by (auto simp: all_some_Some)
  moreover from this have "zs ! i \<noteq> None"
    by (auto simp: meaning.simps(6) dest!: sym [of "Some _"] split: json.splits if_splits)
  ultimately show ?thesis using i(2) by (intro exI [of _ "xs ! i"]) auto
qed

lemma read_participant_ok:
  assumes "meaning F (ZObject strict [(''userId'', idSchema), (''amountMinorUnits'', ZOptional safeAmount)]) (Some x0) =
    Some (Some x)"
  shows "participant_ok F (read_participant x)"
proof -
  note fields = meaning_object [OF assms]
  have "meaning F idSchema (json_field x0 ''userId'') = Some (json_field x ''userId'')" by (rule fields) simp_all
  moreover have "meaning F (ZOptional safeAmount) (json_field x0 ''amountMinorUnits'') =
      Some (json_field x ''amountMinorUnits'')" by (rule fields) simp_all
  ultimately show ?thesis
    using field_uuid optional_amount by (simp add: participant_ok_def read_participant_def)
qed

lemma read_participants_ok:
  assumes "meaning F (ZArray 1 (ZObject strict [(''userId'', idSchema), (''amountMinorUnits'', ZOptional safeAmount)])) v =
    Some (json_field b ''participants'')"
  shows "\<exists>ps. optional_participants b = Some ps \<and> ps \<noteq> [] \<and> list_all (participant_ok F) ps"
proof -
  from meaning_array [OF assms] obtain ys where y: "json_field b ''participants'' = Some (JArray ys)" "ys \<noteq> []"
    by (metis One_nat_def Suc_le_length_iff list.simps(3))
  have "participant_ok F (read_participant x)" if "x \<in> set ys" for x
    using meaning_elements [OF assms [unfolded y(1)] that] read_participant_ok by blast
  then show ?thesis using y by (auto simp: optional_participants_def list_all_iff)
qed

text \<open>The bodies and queries.\<close>

lemma typed_read_createExpense:
  assumes "meaning F createExpenseBodySchema (Some v) = Some (Some b)"
  shows "typed_expense F (read_createExpense gid b)"
proof -
  note fields = meaning_object [OF assms [unfolded createExpenseBodySchema_def]]
  have "meaning F (ZString [Trim, Min 1, Max 280]) (json_field v ''description'') = Some (json_field b ''description'')"
    by (rule fields) simp_all
  note d = field_description [OF this]
  have "meaning F safeAmount (json_field v ''amountMinorUnits'') = Some (json_field b ''amountMinorUnits'')"
    by (rule fields) simp_all
  note a = field_amount [OF this]
  have "meaning F idSchema (json_field v ''payerId'') = Some (json_field b ''payerId'')" by (rule fields) simp_all
  note p = field_uuid [OF this]
  have "meaning F (ZArray 1 (ZObject False [(''userId'', idSchema),
      (''amountMinorUnits'', ZOptional safeAmount)])) (json_field v ''participants'') =
      Some (json_field b ''participants'')"
    by (rule fields) simp_all
  note ps = read_participants_ok [OF this]
  have "meaning F (ZOptional (ZString [Datetime])) (json_field v ''expenseDate'') = Some (json_field b ''expenseDate'')"
    by (rule fields) simp_all
  note e = optional_datetime [OF this]
  from d a p ps e show ?thesis by (auto simp: typed_expense_def read_createExpense_def)
qed

lemma typed_read_updateExpense:
  assumes "meaning F updateExpenseBodySchema (Some v) = Some (Some b)"
  shows "typed_update F (read_updateExpense b)"
proof -
  note fields = meaning_object [OF conjunct1 [OF meaning_refine [OF assms [unfolded updateExpenseBodySchema_def]]]]
  have "meaning F (ZOptional (ZString [Trim, Min 1, Max 280])) (json_field v ''description'') =
      Some (json_field b ''description'')" by (rule fields) simp_all
  note d = optional_description [OF this]
  have "meaning F (ZOptional safeAmount) (json_field v ''amountMinorUnits'') = Some (json_field b ''amountMinorUnits'')"
    by (rule fields) simp_all
  note a = optional_amount [OF this]
  have "meaning F (ZOptional idSchema) (json_field v ''payerId'') = Some (json_field b ''payerId'')"
    by (rule fields) simp_all
  note p = optional_uuid [OF this]
  have "meaning F (ZOptional (ZArray 1 expenseParticipantSchema)) (json_field v ''participants'') =
      Some (json_field b ''participants'')" by (rule fields) simp_all
  then have "json_field b ''participants'' = None \<or>
      meaning F (ZArray 1 expenseParticipantSchema) (json_field v ''participants'') = Some (json_field b ''participants'')"
    by (rule optional_field)
  then have ps: "case optional_participants b of None \<Rightarrow> True | Some ps \<Rightarrow> ps \<noteq> [] \<and> list_all (participant_ok F) ps"
    using read_participants_ok [of F False "json_field v ''participants''" b]
    by (auto simp: expenseParticipantSchema_def optional_participants_def)
  have "meaning F (ZOptional (ZString [Datetime])) (json_field v ''expenseDate'') = Some (json_field b ''expenseDate'')"
    by (rule fields) simp_all
  note e = optional_datetime [OF this]
  from d a p ps e show ?thesis by (simp add: typed_update_def read_updateExpense_def)
qed

lemma typed_read_createSettlement:
  assumes "meaning F createSettlementBodySchema (Some v) = Some (Some b)"
  shows "typed_settlement F (read_createSettlement gid b)"
proof -
  note fields = meaning_object [OF assms [unfolded createSettlementBodySchema_def]]
  have "meaning F idSchema (json_field v ''payerId'') = Some (json_field b ''payerId'')"
    "meaning F idSchema (json_field v ''payeeId'') = Some (json_field b ''payeeId'')"
    "meaning F settlement_safeAmount (json_field v ''amountMinorUnits'') = Some (json_field b ''amountMinorUnits'')"
    by (rule fields; simp)+
  then show ?thesis
    using field_uuid field_amount
    by (simp add: typed_settlement_def read_createSettlement_def settlement_safeAmount_def safeAmount_def)
qed

lemma coerced_page:
  assumes "meaning F (ZCoerceNumber (Whole # Positive # cs)) v = Some (json_field b k)"
  shows "\<exists>n. optional_int b k = Some n \<and> 1 \<le> n \<and> (\<forall>m. AtMost m \<in> set cs \<longrightarrow> n \<le> m)"
proof -
  from assms obtain q where b: "json_field b k = Some (JNumber q)" and q: "q = of_int \<lfloor>q\<rfloor>" "0 < q"
    and m: "list_all (number_ok q) cs"
    by (auto simp: meaning.simps dest!: sym [of "Some _"] split: option.splits if_splits)
  have "\<lfloor>q\<rfloor> \<le> m" if "AtMost m \<in> set cs" for m
    using that m q(1) by (auto simp: list_all_iff dest!: bspec)
  moreover have "1 \<le> \<lfloor>q\<rfloor>" using q by linarith
  ultimately show ?thesis using b by (simp add: optional_int_def)
qed

lemma optional_page:
  assumes "meaning F (ZOptional (ZCoerceNumber (Whole # Positive # cs))) v = Some (json_field b k)"
  shows "case optional_int b k of None \<Rightarrow> True | Some n \<Rightarrow> 1 \<le> n \<and> (\<forall>m. AtMost m \<in> set cs \<longrightarrow> n \<le> m)"
  using optional_field [OF assms]
proof
  assume "json_field b k = None"
  then show ?thesis using optional_absent [of b k] by simp
next
  assume "meaning F (ZCoerceNumber (Whole # Positive # cs)) v = Some (json_field b k)"
  from coerced_page [OF this] show ?thesis by auto
qed

lemma typed_pagination:
  assumes "meaning F paginationQuerySchema (Some v) = Some (Some b)"
  shows "case read_pagination b of None \<Rightarrow> True | Some p \<Rightarrow> page_ok (pg_page p) (pg_limit p)"
proof -
  have "meaning F (ZObject False [(''page'', ZOptional (ZCoerceNumber [Whole, Positive])),
      (''limit'', ZOptional (ZCoerceNumber [Whole, Positive, AtMost 50]))]) (Some v) = Some (Some b)"
    using assms by (simp add: paginationQuerySchema_def partial_object_def)
  note fields = meaning_object [OF this]
  have "meaning F (ZOptional (ZCoerceNumber [Whole, Positive])) (json_field v ''page'') = Some (json_field b ''page'')"
    by (rule fields) simp_all
  note p = optional_page [OF this]
  have "meaning F (ZOptional (ZCoerceNumber [Whole, Positive, AtMost 50])) (json_field v ''limit'') =
      Some (json_field b ''limit'')" by (rule fields) simp_all
  note l = optional_page [OF this]
  show ?thesis using p l by (auto simp: read_pagination_def page_ok_def Let_def nat_le_iff le_nat_iff split: option.splits)
qed

lemma defaulted_page:
  assumes "meaning F (ZDefault (JNumber (of_int d)) (ZCoerceNumber (Whole # Positive # cs))) v = Some (json_field b k)"
    and "1 \<le> d" and "\<forall>m. AtMost m \<in> set cs \<longrightarrow> d \<le> m"
  shows "\<exists>n. optional_int b k = Some n \<and> 1 \<le> n \<and> (\<forall>m. AtMost m \<in> set cs \<longrightarrow> n \<le> m)"
proof (cases v)
  case None
  then show ?thesis using assms by (auto simp: meaning.simps(8) optional_int_def dest!: sym [of "Some _"])
next
  case (Some x)
  then have "meaning F (ZCoerceNumber (Whole # Positive # cs)) v = Some (json_field b k)"
    using assms(1) by (simp add: meaning.simps(8))
  then show ?thesis by (rule coerced_page)
qed

lemma typed_activity_query:
  assumes "meaning F activityQuerySchema (Some v) = Some (Some b)"
  shows "page_ok (int_field b ''page'') (nat (int_field b ''limit''))"
proof -
  note fields = meaning_object [OF assms [unfolded activityQuerySchema_def]]
  have "meaning F (ZDefault (JNumber 1) (ZCoerceNumber [Whole, Positive])) (json_field v ''page'') =
      Some (json_field b ''page'')" by (rule fields) simp_all
  from defaulted_page [of F 1 "[]", simplified, OF this] have p: "1 \<le> int_field b ''page''" by (auto simp: int_field_def)
  have "meaning F (ZDefault (JNumber 20) (ZCoerceNumber [Whole, Positive, AtMost 50])) (json_field v ''limit'') =
      Some (json_field b ''limit'')" by (rule fields) simp_all
  from defaulted_page [of F 20 "[AtMost 50]", simplified, OF this]
  have "1 \<le> int_field b ''limit''" "int_field b ''limit'' \<le> 50" by (auto simp: int_field_def)
  with p show ?thesis by (simp add: page_ok_def nat_le_iff le_nat_iff)
qed

lemma typed_name:
  assumes "meaning F (ZObject True [(''name'', ZString [Trim, Min 1, Max n])]) (Some v) = Some (Some b)"
  shows "1 \<le> length (string_field b ''name'') \<and> length (string_field b ''name'') \<le> n"
proof -
  have "meaning F (ZString [Trim, Min 1, Max n]) (json_field v ''name'') = Some (json_field b ''name'')"
    by (rule meaning_object [OF assms]) simp_all
  from field_description [OF this] show ?thesis by simp
qed

lemma typed_id:
  assumes "meaning F (ZObject strict fs) (Some v) = Some (Some b)" and "distinct (map fst fs)" "(k, idSchema) \<in> set fs"
  shows "zf_isUuid F (string_field b k)"
  using field_uuid [OF meaning_object [OF assms]] by simp

text \<open>What the controller of an endpoint gets once the middlewares have passed the request on.\<close>

definition typed_request :: "formats \<Rightarrow> endpoint \<Rightarrow> http_request \<Rightarrow> bool" where
  "typed_request F ep rq \<longleftrightarrow>
     (case ep of
        POST_expense \<Rightarrow> typed_expense F (read_createExpense (path_id rq) (rq_body rq))
      | PATCH_expense \<Rightarrow> typed_update F (read_updateExpense (rq_body rq))
      | POST_settlement \<Rightarrow> typed_settlement F (read_createSettlement (path_id rq) (rq_body rq)) \<and>
          8 \<le> length (rq_idempotencyKey rq) \<and> length (rq_idempotencyKey rq) \<le> 128
      | GET_group_expenses \<Rightarrow>
          (case read_pagination (rq_query rq) of None \<Rightarrow> True | Some p \<Rightarrow> page_ok (pg_page p) (pg_limit p))
      | GET_group_settlements \<Rightarrow>
          (case read_pagination (rq_query rq) of None \<Rightarrow> True | Some p \<Rightarrow> page_ok (pg_page p) (pg_limit p))
      | GET_activity \<Rightarrow> page_ok (int_field (rq_query rq) ''page'') (nat (int_field (rq_query rq) ''limit''))
      | POST_groups \<Rightarrow> 1 \<le> length (string_field (rq_body rq) ''name'') \<and> length (string_field (rq_body rq) ''name'') \<le> 100
      | PUT_group \<Rightarrow> 1 \<le> length (string_field (rq_body rq) ''name'') \<and> length (string_field (rq_body rq) ''name'') \<le> 100
      | POST_member \<Rightarrow> zf_isUuid F (string_field (rq_body rq) ''userId'')
      | DELETE_member \<Rightarrow> zf_isUuid F (string_field (rq_params rq) ''memberId'')
      | _ \<Rightarrow> True)"

definition names_resource :: "endpoint \<Rightarrow> bool" where
  "names_resource ep \<longleftrightarrow> auth_routes ep = [] \<and> ep \<noteq> POST_groups \<and> ep \<noteq> GET_groups"

lemmas param_schema_defs = groupParamsSchema_def memberParamsSchema_def expenseTargetParamsSchema_def
  settlementGroupParamsSchema_def activityGroupParamsSchema_def summaryGroupParamsSchema_def
  expenseParamsSchema_def settlementParamsSchema_def

lemma chain_path_id:
  assumes zod: "zod_parser F (dp_parse D)" and run: "run_chain D (route_chain ep) rq w = (Inr rq', w')"
    and "names_resource ep"
  shows "zf_isUuid F (path_id rq')"
proof -
  have "(\<exists>v. dp_parse D (ZObject False [(''id'', idSchema)]) v = Inr (rq_params rq')) \<or>
      (\<exists>v. dp_parse D (ZObject False [(''id'', idSchema), (''memberId'', idSchema)]) v = Inr (rq_params rq'))"
    using run assms(3) by (cases ep) (auto simp: names_resource_def chain_simps act_simps param_schema_defs)
  then show ?thesis using zod_Inr [OF zod] typed_id [of F False _ _ _ "''id''"] by fastforce
qed

lemma chain_typed:
  assumes zod: "zod_parser F (dp_parse D)" and run: "run_chain D (route_chain ep) rq w = (Inr rq', w')"
  shows "typed_request F ep rq'"
proof (cases ep)
  case POST_expense
  then show ?thesis using run zod_Inr [OF zod] typed_read_createExpense
    by (fastforce simp: typed_request_def chain_simps act_simps)
next
  case PATCH_expense
  then show ?thesis using run zod_Inr [OF zod] typed_read_updateExpense
    by (fastforce simp: typed_request_def chain_simps act_simps)
next
  case POST_settlement
  then show ?thesis using run zod_Inr [OF zod] typed_read_createSettlement requireIdempotencyKey_Inr
    by (fastforce simp: typed_request_def chain_simps act_simps)
next
  case GET_group_expenses
  then show ?thesis using run zod_Inr [OF zod] typed_pagination
    by (fastforce simp: typed_request_def chain_simps act_simps)
next
  case GET_group_settlements
  then show ?thesis using run zod_Inr [OF zod] typed_pagination
    by (fastforce simp: typed_request_def chain_simps act_simps)
next
  case GET_activity
  then show ?thesis using run zod_Inr [OF zod] typed_activity_query
    by (fastforce simp: typed_request_def chain_simps act_simps)
next
  case POST_groups
  then show ?thesis using run zod_Inr [OF zod] typed_name
    by (fastforce simp: typed_request_def chain_simps act_simps createGroupBodySchema_def)
next
  case PUT_group
  then show ?thesis using run zod_Inr [OF zod] typed_name
    by (fastforce simp: typed_request_def chain_simps act_simps updateGroupBodySchema_def)
next
  case POST_member
  then show ?thesis using run zod_Inr [OF zod] typed_id [of F True _ _ _ "''userId''"]
    by (fastforce simp: typed_request_def chain_simps act_simps addMemberBodySchema_def)
next
  case DELETE_member
  then show ?thesis using run zod_Inr [OF zod] typed_id [of F False _ _ _ "''memberId''"]
    by (fastforce simp: typed_request_def chain_simps act_simps memberParamsSchema_def)
qed (simp_all add: typed_request_def)

section \<open>Budgets\<close>

text \<open>
  The limiters that \<open>createApp\<close> puts in front of an endpoint: every request spends the general
  budget, those under \<open>/auth\<close> a second one, and the e-mail endpoints a third.
\<close>

definition emailAuthLeaves :: "endpoint list" where
  "emailAuthLeaves = [POST_verify_email, POST_resend_verification, POST_forgot_password, POST_reset_password]"

definition limiters :: "Env \<Rightarrow> bool \<Rightarrow> endpoint \<Rightarrow> limiter_options list" where
  "limiters env redis ep = [apiLimiter env redis] @
     (if auth_routes ep \<noteq> [] then [authLimiter env redis] else []) @
     (if ep \<in> set emailAuthLeaves then [sensitiveEmailAuthLimiter env redis] else [])"

lemmas limiter_defs = limiters_def apiLimiter_def authLimiter_def sensitiveEmailAuthLimiter_def
  createLimiter_def resolveStore_def

lemma limiter_prefix:
  assumes "l \<in> set (limiters env redis ep)" and "lo_store l = Some s"
  shows "rs_prefix s \<in> {''rl:api:'', ''rl:auth:'', ''rl:auth-email:''} \<and> rs_windowMs s = en_RATE_LIMIT_WINDOW_MS env"
  using assms by (auto simp: limiter_defs split: if_splits)

text \<open>No counter of one limiter is a counter of another, whatever the client's address is.\<close>

lemma limiter_keys_apart:
  assumes "l \<in> set (limiters env redis ep)" "lo_store l = Some s"
    and "l' \<in> set (limiters env redis ep')" "lo_store l' = Some s'" and "l \<noteq> l'"
  shows "rs_prefix s @ a \<noteq> rs_prefix s' @ b"
proof -
  have "rs_prefix s \<noteq> rs_prefix s'"
    using assms by (auto simp: limiter_defs split: if_splits)
  with limiter_prefix [OF assms(1,2)] limiter_prefix [OF assms(3,4)] show ?thesis by auto
qed

context redis_server
begin

lemma RateLimit_increment_other:
  assumes run: "RateLimit_increment R E s key w = (Inr resp, w')" and pos: "0 < rs_windowMs s"
    and entry: "rv_keys (V (w_redis w)) (rs_prefix s @ key) = window_entry x"
    and hit: "\<And>n d. x = Some (n, d) \<Longrightarrow> 0 < n" and k: "k \<noteq> rs_prefix s @ key"
  shows "rv_keys (V (w_redis w')) k = alive (rv_now (V (w_redis w'))) (rv_keys (V (w_redis w)) k)"
proof -
  from run obtain hits ttl w1 where
      c: "redis_call R (INCREMENT_SCRIPT R (rs_prefix s @ key) (rs_windowMs s)) w = (Inr (hits, ttl), w1)"
    and w': "w_redis w' = w_redis w1"
    by (auto simp: RateLimit_increment_def act_simps split: if_splits)
  obtain r1 r2 where d: "rd_deliver R (w_redis w) = (Delivered, r1)"
    and i: "INCREMENT_SCRIPT R (rs_prefix s @ key) (rs_windowMs s) r1 = ((hits, ttl), r2)"
    and w1: "w1 = w\<lparr>w_redis := r2\<rparr>"
    by (rule redis_call_Inr [OF c])
  let ?t = "rv_now (V r1)"
  have age: "rv_keys (V r1) (rs_prefix s @ key) = window_entry (live_window ?t x)"
    using deliver_law [OF d] entry by (simp add: aged_def alive_window_entry)
  have "0 < n" if "live_window ?t x = Some (n, d)" for n d
    using that hit by (auto simp: live_window_def split: option.splits if_splits)
  note r = INCREMENT_SCRIPT_run [OF i pos age this]
  then show ?thesis using deliver_law [OF d] w' w1 k by (simp add: aged_def)
qed

end

section \<open>The feed, page by page\<close>

definition group_feed :: "tables \<Rightarrow> string \<Rightarrow> ActivityEvent row list" where
  "group_feed t gid = sort_key feed_key (filter (in_group_event gid) (activities t))"

context prisma
begin

lemma getGroupActivity_page:
  assumes "getGroupActivity P uid gid page limit w = (Inr feed, w')"
    and "distinct (map row_id (activities (T (w_db w))))"
  shows "T (w_db w') = T (w_db w) \<and> is_member (T (w_db w)) gid uid \<and>
    map ad_id (af_events feed) = map row_id (page_of ((page - 1) * int limit) (Some limit) (group_feed (T (w_db w)) gid)) \<and>
    af_total feed = length (group_feed (T (w_db w)) gid)"
proof -
  let ?es = "filter (in_group_event gid) (activities (T (w_db w)))"
  from assms(1) obtain d1 g w1 events w2 where
      f: "dg_findUnique (p_group P) (\<lambda>r. row_id r = gid) (w_db w) = (Inr (Some g), d1)"
    and m: "ActivityRepository_isGroupMember P gid uid (w\<lparr>w_db := d1\<rparr>) = (Inr True, w1)"
    and a: "findActivityByGroupId P gid page limit w1 = (Inr (events, af_total feed), w2)"
    and feed: "af_events feed = map activity_toDto events" and w': "w' = w2"
    by (auto simp: getGroupActivity_def ActivityRepository_findGroupById_def act_simps)
  have T1: "T (w_db w1) = T (w_db w)" "is_member (T (w_db w)) gid uid"
    using isGroupMember_Inr [OF m] grp.findUnique_Some(1) [OF f] by simp_all
  from findActivity_Inr [OF a] obtain ys where T2: "T (w_db w2) = T (w_db w)"
    and n: "af_total feed = length ?es"
    and ys: "mset ys = mset ?es" "sorted (map feed_key ys)"
      "map fst events = page_of ((page - 1) * int limit) (Some limit) ys"
    unfolding T1 by blast
  have "distinct (map row_id ?es)" using assms(2) by (simp add: distinct_map_filter)
  then have "distinct (map feed_key ?es)"
    by (auto simp: distinct_map inj_on_def feed_key_def)
  then have "distinct (map feed_key (group_feed (T (w_db w)) gid))"
    unfolding group_feed_def by (metis mset_map mset_sort mset_eq_imp_distinct_iff)
  then have "ys = group_feed (T (w_db w)) gid"
    using ys(1,2) by (intro ordered_unique [where k = feed_key]) (simp_all add: group_feed_def)
  moreover have "map ad_id (af_events feed) = map row_id (map fst events)"
    by (simp add: feed activity_toDto_def split: prod.split)
  ultimately show ?thesis using T1 T2 n ys(3) w' by (simp add: group_feed_def)
qed

lemma getGroupActivity_pages:
  assumes "map_act (\<lambda>i. getGroupActivity P uid gid (int i) limit) is w = (Inr feeds, w')"
    and "distinct (map row_id (activities (T (w_db w))))"
  shows "T (w_db w') = T (w_db w) \<and> map (\<lambda>f. map ad_id (af_events f)) feeds =
      map (\<lambda>i. map row_id (page_of ((int i - 1) * int limit) (Some limit) (group_feed (T (w_db w)) gid))) is \<and>
    list_all (\<lambda>f. length (af_events f) \<le> limit \<and> af_total f = length (group_feed (T (w_db w)) gid)) feeds"
  using assms
proof (induction "is" arbitrary: w feeds)
  case (Cons i js)
  then obtain f fs w1 where f: "getGroupActivity P uid gid (int i) limit w = (Inr f, w1)"
    and fs: "map_act (\<lambda>i. getGroupActivity P uid gid (int i) limit) js w1 = (Inr fs, w')" and feeds: "feeds = f # fs"
    by (auto simp: act_simps)
  note p = getGroupActivity_page [OF f Cons.prems(2)]
  have "length (af_events f) = length (map ad_id (af_events f))" by simp
  also have "\<dots> \<le> limit" using p by (simp add: page_of_def)
  finally show ?case using p Cons.IH [OF fs] Cons.prems(2) feeds by simp
qed (simp add: act_simps)

end

section \<open>Links that work once\<close>

lemma filter_touched_other:
  "filter (\<lambda>u. row_id u \<noteq> i) (map (touched (\<lambda>u. row_id u = i) f s) rs) = filter (\<lambda>u. row_id u \<noteq> i) rs"
  by (induction rs) (simp_all add: touched_def)

lemma link_used_up:
  assumes "link_ok t purpose h n r" and "distinct (map (\<lambda>r. at_tokenHash (row_data r)) (authTokens t))"
    and "authTokens t' = map (touched (unconsumed (row_id r)) (consume_at s) stamp) (authTokens t)"
  shows "\<not> link_ok t' purpose' h n' r'"
proof
  assume "link_ok t' purpose' h n' r'"
  then obtain r0 where r0: "r0 \<in> set (authTokens t)" "r' = touched (unconsumed (row_id r)) (consume_at s) stamp r0"
    and h: "at_tokenHash (row_data r') = h" "at_consumedAt (row_data r') = None"
    unfolding link_ok_def assms(3) by auto
  have "at_tokenHash (row_data r0) = h" using h(1) r0(2) by (simp add: row_data_touched consume_at_def split: if_splits)
  then have "r0 = r" using assms(1,2) r0(1) by (auto simp: link_ok_def distinct_map inj_on_def)
  then show False using assms(1) r0(2) h(2)
    by (simp add: link_ok_def row_data_touched unconsumed_def consume_at_def split: if_splits)
qed

end
