(* ===== verification/HttpMetrics.thy ===== *)
theory HttpMetrics
  imports Edge
begin

text \<open>
  What the \<open>finish\<close> listener of \<open>metrics/httpMetrics.ts\<close> does to the registry the service starts
  with: one count per finished request, in the series of its method, route and status class, and
  in no other.
\<close>

section \<open>The metrics of a request\<close>

lemma defineMetric_other: "md_name d \<noteq> n \<Longrightarrow> map_of (rg_defs (defineMetric d r)) n = map_of (rg_defs r) n"
  by (auto simp: defineMetric_def)

lemma defineMetric_same:
  "isValidDefinition d \<Longrightarrow> map_option (\<lambda>d. (md_kind d, md_labelKeys d)) (map_of (rg_defs (defineMetric d r)) (md_name d)) =
     Some (md_kind d, md_labelKeys d)"
  by (simp add: defineMetric_def)

lemma defineMetrics_other:
  "n \<notin> md_name ` set ds \<Longrightarrow> map_of (rg_defs (fold defineMetric ds r)) n = map_of (rg_defs r) n"
  by (induction ds arbitrary: r) (auto simp: defineMetric_other)

lemma defineMetrics_found:
  assumes "distinct (map md_name ds)" "d \<in> set ds" "isValidDefinition d"
  shows "map_option (\<lambda>d. (md_kind d, md_labelKeys d)) (map_of (rg_defs (fold defineMetric ds r)) (md_name d)) =
    Some (md_kind d, md_labelKeys d)"
  using assms
proof (induction ds arbitrary: r)
  case (Cons x ds)
  show ?case
  proof (cases "x = d")
    case True
    then have "md_name d \<notin> md_name ` set ds" using Cons.prems(1) by simp
    from defineMetrics_other [OF this] show ?thesis using True Cons.prems(3) by (simp add: defineMetric_same)
  qed (use Cons in auto)
qed simp

lemma http_label_keys:
  "list_all metric_name_ok [''method'', ''route'', ''status'']"
  "distinct [''method'', ''route'', ''status'']"
  by code_simp+

lemma catalogue_names: "distinct (map md_name DEFAULT_METRICS)"
  by code_simp

lemma http_metric_defs:
  "map_option (\<lambda>d. (md_kind d, md_labelKeys d)) (map_of (rg_defs createSingleton) (metric_name httpRequestsTotal)) =
     Some (Counter, [''method'', ''route'', ''status''])"
  "map_option (\<lambda>d. (md_kind d, md_labelKeys d)) (map_of (rg_defs createSingleton) (metric_name httpErrorsTotal)) =
     Some (Counter, [''method'', ''route'', ''status''])"
  "map_option (\<lambda>d. (md_kind d, md_labelKeys d)) (map_of (rg_defs createSingleton) (metric_name httpRequestDurationSeconds)) =
     Some (Histogram, [''method'', ''route''])"
proof -
  have "metric_name_ok (metric_name httpRequestsTotal)" "metric_name_ok (metric_name httpErrorsTotal)"
    "metric_name_ok (metric_name httpRequestDurationSeconds)"
    by code_simp+
  then have ok: "isValidDefinition (DEFAULT_METRICS ! 0)" "isValidDefinition (DEFAULT_METRICS ! 1)"
    "isValidDefinition (DEFAULT_METRICS ! 2)"
    using http_label_keys(1)
    by (simp_all add: isValidDefinition_def DEFAULT_METRICS_def counter_def_def histogram_def_def del: metric_name.simps)
  have at: "DEFAULT_METRICS ! 0 \<in> set DEFAULT_METRICS" "DEFAULT_METRICS ! 1 \<in> set DEFAULT_METRICS"
    "DEFAULT_METRICS ! 2 \<in> set DEFAULT_METRICS"
    by (simp_all add: DEFAULT_METRICS_def)
  have second: "md_name (DEFAULT_METRICS ! Suc 0) = metric_name httpErrorsTotal"
    "md_kind (DEFAULT_METRICS ! Suc 0) = Counter"
    "md_labelKeys (DEFAULT_METRICS ! Suc 0) = [''method'', ''route'', ''status'']"
    by (simp_all add: DEFAULT_METRICS_def counter_def_def)
  note found = defineMetrics_found [OF catalogue_names, of _ empty_registry]
  show "map_option (\<lambda>d. (md_kind d, md_labelKeys d)) (map_of (rg_defs createSingleton) (metric_name httpRequestsTotal)) =
       Some (Counter, [''method'', ''route'', ''status''])"
    "map_option (\<lambda>d. (md_kind d, md_labelKeys d)) (map_of (rg_defs createSingleton) (metric_name httpErrorsTotal)) =
       Some (Counter, [''method'', ''route'', ''status''])"
    "map_option (\<lambda>d. (md_kind d, md_labelKeys d)) (map_of (rg_defs createSingleton) (metric_name httpRequestDurationSeconds)) =
       Some (Histogram, [''method'', ''route''])"
    using found [OF at(1) ok(1)] found [OF at(2) ok(2)] found [OF at(3) ok(3)]
    unfolding createSingleton_def registerDefaultMetrics_def
    by (simp_all add: second DEFAULT_METRICS_def [THEN arg_cong, of "\<lambda>xs. xs ! 0"]
      DEFAULT_METRICS_def [THEN arg_cong, of "\<lambda>xs. xs ! 2"] counter_def_def histogram_def_def del: metric_name.simps)
qed
text \<open>The series of a counter of the catalogue: other label values, another series.\<close>

lemma other_series:
  assumes "map_option (\<lambda>d. (md_kind d, md_labelKeys d)) (map_of (rg_defs r) n) = Some (Counter, ks)"
    and "distinct ks" "list_all metric_name_ok ks" and "k \<in> set ks" "map_of l k \<noteq> map_of l' k"
  shows "counterValue n l' (increment n l b r) = counterValue n l' r"
proof -
  have "\<not> same_series r n l n l'"
    using assms seriesKey_inject [of ks l l'] by (auto simp: same_series_def split: option.splits)
  then show ?thesis by (simp add: counterValue_increment)
qed

lemma histogramCount_increment: "histogramCount n l (increment m k b r) = histogramCount n l r"
proof -
  have h: "rg_histograms (increment m k b r) = rg_histograms r"
    by (simp add: increment_def Let_def split: option.split)
  show ?thesis unfolding histogramCount_def histogram_lookup_def increment_defs h ..
qed

definition http_labels :: "string \<Rightarrow> string \<Rightarrow> nat \<Rightarrow> label_values" where
  "http_labels method route code = [(''method'', method), (''route'', route), (''status'', statusClass code)]"

lemma is_counter_http:
  assumes "rg_defs r = rg_defs createSingleton"
  shows "is_counter r (metric_name httpRequestsTotal)" "is_counter r (metric_name httpErrorsTotal)"
  using http_metric_defs(1,2) unfolding is_counter_def assms by (auto split: option.splits)

lemma requestHttpMetrics_counts:
  fixes r :: registry and verb route :: string and code :: nat and d :: rat
  defines "l \<equiv> http_labels verb route code" and "r' \<equiv> requestHttpMetrics verb route code d r"
  assumes "rg_defs r = rg_defs createSingleton"
  shows "counterValue (metric_name httpRequestsTotal) l r' = counterValue (metric_name httpRequestsTotal) l r + 1"
    and "counterValue (metric_name httpErrorsTotal) l r' =
      counterValue (metric_name httpErrorsTotal) l r + (if 400 \<le> code then 1 else 0)"
    and "0 \<le> d \<Longrightarrow> histogramCount (metric_name httpRequestDurationSeconds) [(''method'', verb), (''route'', route)] r' =
      Suc (histogramCount (metric_name httpRequestDurationSeconds) [(''method'', verb), (''route'', route)] r)"
    and "k \<in> {''method'', ''route'', ''status''} \<Longrightarrow> map_of l' k \<noteq> map_of l k \<Longrightarrow> counterValue n l' r' = counterValue n l' r"
    and "n \<notin> {metric_name httpRequestsTotal, metric_name httpErrorsTotal} \<Longrightarrow> counterValue n l' r' = counterValue n l' r"
proof -
  let ?n = "metric_name httpRequestsTotal" and ?e = "metric_name httpErrorsTotal"
    and ?h = "metric_name httpRequestDurationSeconds"
  let ?r1 = "increment ?n l 1 r"
  let ?r2 = "if 400 \<le> code then increment ?e l 1 ?r1 else ?r1"
  have r': "r' = observe ?h (Finite d) [(''method'', verb), (''route'', route)] ?r2"
    by (simp add: r'_def requestHttpMetrics_def l_def http_labels_def Let_def)
  have defs: "rg_defs ?r1 = rg_defs createSingleton" by (simp add: assms(3))
  have same: "same_series r ?n l ?n l" "same_series ?r1 ?e l ?e l"
    using http_metric_defs(1,2) unfolding same_series_def assms(3) defs by (auto split: option.splits)
  have apart: "\<not> same_series q ?n l ?e l" "\<not> same_series q ?e l ?n l" for q by (simp_all add: same_series_def)
  show "counterValue ?n l r' = counterValue ?n l r + 1"
    using same(1) is_counter_http [OF assms(3)] apart by (simp add: r' counterValue_increment)
  show "counterValue ?e l r' = counterValue ?e l r + (if 400 \<le> code then 1 else 0)"
    using same(2) is_counter_http [OF defs] apart by (simp add: r' counterValue_increment)
  show "histogramCount ?h [(''method'', verb), (''route'', route)] r' =
      Suc (histogramCount ?h [(''method'', verb), (''route'', route)] r)" if "0 \<le> d"
  proof -
    obtain hd where "map_of (rg_defs ?r2) ?h = Some hd" "md_kind hd = Histogram"
      using http_metric_defs(3) assms(3) by auto
    from histogramCount_observe(1) [OF this that]
    have "histogramCount ?h [(''method'', verb), (''route'', route)] r' =
        Suc (histogramCount ?h [(''method'', verb), (''route'', route)] ?r2)" unfolding r' by blast
    then show ?thesis by (simp add: histogramCount_increment)
  qed
  note keys = http_label_keys(2,1)
  show "counterValue n l' r' = counterValue n l' r"
    if k: "k \<in> {''method'', ''route'', ''status''}" and other: "map_of l' k \<noteq> map_of l k"
  proof -
    have km: "k \<in> set [''method'', ''route'', ''status'']" using k by simp
    have o: "counterValue n l' (increment m l 1 q) = counterValue n l' q"
      if "m \<in> {?n, ?e}" "rg_defs q = rg_defs createSingleton" for m q
    proof (cases "n = m")
      case True
      have "map_option (\<lambda>d. (md_kind d, md_labelKeys d)) (map_of (rg_defs q) m) =
          Some (Counter, [''method'', ''route'', ''status''])"
        using that http_metric_defs(1,2) by auto
      from other_series [OF this keys km other [symmetric]] True show ?thesis by simp
    next
      case False
      then show ?thesis by (simp add: counterValue_increment same_series_def)
    qed
    show ?thesis using o [of ?n r] o [of ?e ?r1] assms(3) defs by (simp add: r')
  qed
  show "counterValue n l' r' = counterValue n l' r" if "n \<notin> {?n, ?e}"
    using that by (auto simp: r' counterValue_increment same_series_def)
qed

end
