(* ===== verification/Startup.thy ===== *)
theory Startup
  imports Requests HttpMetrics
begin

text \<open>
  How the two processes come up: the validated configuration of \<open>config/env.ts\<close> and the parts of
  the service that are built from it, the connections of \<open>db/prisma.ts\<close> and \<open>redis/redisClient.ts\<close>,
  the readiness probe, and the start of \<open>server.ts\<close> and \<open>worker.ts\<close>. What the drivers do
  (\<open>$connect\<close>, \<open>SELECT 1\<close>, \<open>connect\<close>, \<open>PING\<close>, \<open>listen\<close>) are actions given as arguments.
\<close>

section \<open>Configuration\<close>

definition read_env :: "json \<Rightarrow> Env" where
  "read_env v = \<lparr>en_NODE_ENV = string_field v ''NODE_ENV'',
      en_PORT = int_field v ''PORT'',
      en_DATABASE_URL = string_field v ''DATABASE_URL'',
      en_CORS_ORIGIN = string_field v ''CORS_ORIGIN'',
      en_JWT_SECRET = string_field v ''JWT_SECRET'',
      en_JWT_EXPIRES_IN = string_field v ''JWT_EXPIRES_IN'',
      en_REFRESH_TOKEN_TTL_DAYS = int_field v ''REFRESH_TOKEN_TTL_DAYS'',
      en_RATE_LIMIT_WINDOW_MS = int_field v ''RATE_LIMIT_WINDOW_MS'',
      en_RATE_LIMIT_MAX = int_field v ''RATE_LIMIT_MAX'',
      en_AUTH_RATE_LIMIT_MAX = int_field v ''AUTH_RATE_LIMIT_MAX'',
      en_AUTH_EMAIL_RATE_LIMIT_MAX = int_field v ''AUTH_EMAIL_RATE_LIMIT_MAX'',
      en_REDIS_URL = string_field v ''REDIS_URL'',
      en_TRUST_PROXY = string_field v ''TRUST_PROXY'',
      en_DISTRIBUTED_LOCK_TTL_MS = int_field v ''DISTRIBUTED_LOCK_TTL_MS'',
      en_JOB_QUEUE_MAX_ATTEMPTS = int_field v ''JOB_QUEUE_MAX_ATTEMPTS'',
      en_JOB_QUEUE_BASE_BACKOFF_MS = int_field v ''JOB_QUEUE_BASE_BACKOFF_MS'',
      en_JOB_QUEUE_MAX_BACKOFF_MS = int_field v ''JOB_QUEUE_MAX_BACKOFF_MS'',
      en_JOB_QUEUE_LEASE_MS = int_field v ''JOB_QUEUE_LEASE_MS'',
      en_JOB_QUEUE_PAYLOAD_TTL_MS = int_field v ''JOB_QUEUE_PAYLOAD_TTL_MS'',
      en_JOB_QUEUE_POLL_INTERVAL_MS = int_field v ''JOB_QUEUE_POLL_INTERVAL_MS'',
      en_CACHE_GROUP_TTL_SECONDS = int_field v ''CACHE_GROUP_TTL_SECONDS'',
      en_METRICS_ENABLED = string_field v ''METRICS_ENABLED'',
      en_METRICS_PORT = optional_int v ''METRICS_PORT'',
      en_EMAIL_ENABLED = string_field v ''EMAIL_ENABLED'',
      en_EMAIL_HOST = string_field v ''EMAIL_HOST'',
      en_EMAIL_PORT = int_field v ''EMAIL_PORT'',
      en_EMAIL_SECURE = string_field v ''EMAIL_SECURE'',
      en_EMAIL_USERNAME = string_field v ''EMAIL_USERNAME'',
      en_EMAIL_PASSWORD = string_field v ''EMAIL_PASSWORD'',
      en_EMAIL_FROM = string_field v ''EMAIL_FROM'',
      en_EMAIL_FROM_NAME = string_field v ''EMAIL_FROM_NAME'',
      en_APP_NAME = string_field v ''APP_NAME'',
      en_APP_BASE_URL = string_field v ''APP_BASE_URL'',
      en_EMAIL_VERIFICATION_TOKEN_TTL_MINUTES = int_field v ''EMAIL_VERIFICATION_TOKEN_TTL_MINUTES'',
      en_PASSWORD_RESET_TOKEN_TTL_MINUTES = int_field v ''PASSWORD_RESET_TOKEN_TTL_MINUTES''\<rparr>"

definition invalid_environment :: "issues \<Rightarrow> exn" where
  "invalid_environment issues = PlainError (''Invalid environment configuration:'' @ [CHR 0x0A] @
     join_with [CHR 0x0A] (map (\<lambda>(path, message). ''  '' @ join_with ''.'' path @ '': '' @ message) issues))"

text \<open>\<open>loadEnv\<close> with the module variable \<open>_env\<close>, before and after.\<close>

definition loadEnv ::
  "(schema \<Rightarrow> json \<Rightarrow> issues + json) \<Rightarrow> (string \<Rightarrow> string option) \<Rightarrow> json \<Rightarrow> Env option \<Rightarrow>
   (exn + Env) \<times> Env option" where
  "loadEnv parse hostname processEnv cache =
     (case cache of
        Some env \<Rightarrow> (Inr env, cache)
      | None \<Rightarrow>
          (case parse envSchema processEnv of
             Inl issues \<Rightarrow> (Inl (invalid_environment issues), None)
           | Inr v \<Rightarrow>
               (case assertProductionSafety hostname (read_env v) of
                  Inl e \<Rightarrow> (Inl e, None)
                | Inr _ \<Rightarrow> (Inr (read_env v), Some (read_env v)))))"

definition getEnv :: "Env option \<Rightarrow> exn + Env" where
  "getEnv cache = (case cache of
      None \<Rightarrow> Inl (PlainError ''Environment not loaded. Call loadEnv() first.'') | Some env \<Rightarrow> Inr env)"

definition resetEnv :: "Env option \<Rightarrow> Env option" where
  "resetEnv cache = None"

definition buildQueueConfig :: "Env \<Rightarrow> JobQueueConfig" where
  "buildQueueConfig env = \<lparr>jc_maxAttempts = nat (en_JOB_QUEUE_MAX_ATTEMPTS env),
     jc_baseBackoffMs = en_JOB_QUEUE_BASE_BACKOFF_MS env, jc_maxBackoffMs = en_JOB_QUEUE_MAX_BACKOFF_MS env,
     jc_leaseMs = en_JOB_QUEUE_LEASE_MS env, jc_payloadTtlMs = en_JOB_QUEUE_PAYLOAD_TTL_MS env\<rparr>"

record SmtpProviderConfig =
  sm_host :: string
  sm_port :: int
  sm_secure :: bool
  sm_username :: string
  sm_password :: string

datatype EmailProviderChoice = SmtpEmailProvider SmtpProviderConfig | LogEmailProvider

definition createEmailProvider :: "Env \<Rightarrow> EmailProviderChoice" where
  "createEmailProvider env =
     (if en_EMAIL_ENABLED env = ''true'' then
        SmtpEmailProvider \<lparr>sm_host = en_EMAIL_HOST env, sm_port = en_EMAIL_PORT env,
          sm_secure = (en_EMAIL_SECURE env = ''true''), sm_username = en_EMAIL_USERNAME env,
          sm_password = en_EMAIL_PASSWORD env\<rparr>
      else LogEmailProvider)"

text \<open>The credentials that the SMTP transport is created with.\<close>

definition smtp_auth :: "SmtpProviderConfig \<Rightarrow> (string \<times> string) option" where
  "smtp_auth c = (if 0 < length (sm_username c) then Some (sm_username c, sm_password c) else None)"

section \<open>Connections\<close>

type_synonym ('d, 'r, 'm) driver_call = "(('d, 'r, 'm) world, unit) act"

definition connectDatabase ::
  "('d, 'r, 'm) driver_call \<Rightarrow> ('d, 'r, 'm) driver_call \<Rightarrow> (('d, 'r, 'm) world, unit) act" where
  "connectDatabase connect select1 =
     catch (seq connect (\<lambda>_. select1))
       (\<lambda>e. seq (metric databaseConnectionErrorsTotal []) (\<lambda>_. throw e))"

definition isDatabaseReachable :: "('d, 'r, 'm) driver_call \<Rightarrow> (('d, 'r, 'm) world, bool) act" where
  "isDatabaseReachable select1 = catch (seq select1 (\<lambda>_. ret True)) (\<lambda>_. ret False)"

definition connectRedis ::
  "('d, 'r, 'm) driver_call \<Rightarrow> ('d, 'r, 'm) driver_call \<Rightarrow> (('d, 'r, 'm) world, bool) act" where
  "connectRedis connect ping =
     catch (seq connect (\<lambda>_. seq ping (\<lambda>_. ret True))) (\<lambda>_. ret False)"

text \<open>\<open>GET /health/ready\<close>: the status, and whether PostgreSQL and Redis are ready.\<close>

definition ready_handler ::
  "('d, 'r, 'm) driver_call \<Rightarrow> bool \<Rightarrow> ('d, 'r, 'm) driver_call \<Rightarrow> (('d, 'r, 'm) world, nat \<times> bool \<times> bool) act" where
  "ready_handler select1 redisAvailable ping =
     seq (isDatabaseReachable select1) (\<lambda>dbReady.
     seq (if redisAvailable then catch (seq ping (\<lambda>_. ret True)) (\<lambda>_. ret False) else ret True) (\<lambda>redisReady.
     if \<not> dbReady then ret (status_number SERVICE_UNAVAILABLE, False, redisReady)
     else ret (status_number OK, True, redisReady)))"

text \<open>\<open>GET /metrics\<close> and the worker's own listener send the same text.\<close>

definition metrics_response :: "registry \<Rightarrow> nat \<times> string \<times> string" where
  "metrics_response r = (200, ''text/plain; version=0.0.4; charset=utf-8'', renderPrometheus r)"

section \<open>Starting the processes\<close>

text \<open>\<open>server.ts\<close>: the port that is listened on, and whether the limiters share Redis.\<close>

definition server_start ::
  "exn + Env \<Rightarrow> ('d, 'r, 'm) driver_call \<Rightarrow> ('d, 'r, 'm) driver_call \<Rightarrow> ('d, 'r, 'm) driver_call \<Rightarrow>
   ('d, 'r, 'm) driver_call \<Rightarrow> (('d, 'r, 'm) world, int \<times> bool) act" where
  "server_start loaded dbConnect select1 redisConnect ping =
     seq (of_result loaded) (\<lambda>env.
     seq (connectDatabase dbConnect select1) (\<lambda>_.
     seq (connectRedis redisConnect ping) (\<lambda>redis.
     ret (en_PORT env, redis))))"

text \<open>\<open>worker.ts\<close>: the poll interval, and the port of the metrics listener, if there is one.\<close>

definition worker_start ::
  "exn + Env \<Rightarrow> ('d, 'r, 'm) driver_call \<Rightarrow> ('d, 'r, 'm) driver_call \<Rightarrow> ('d, 'r, 'm) driver_call \<Rightarrow>
   ('d, 'r, 'm) driver_call \<Rightarrow> (('d, 'r, 'm) world, int \<times> int option) act" where
  "worker_start loaded dbConnect select1 redisConnect ping =
     seq (of_result loaded) (\<lambda>env.
     seq (connectDatabase dbConnect select1) (\<lambda>_.
     seq (connectRedis redisConnect ping) (\<lambda>redisConnected.
     seq (guard redisConnected
            (PlainError ''Redis is unavailable; the background worker cannot start without it.'')) (\<lambda>_.
     ret (en_JOB_QUEUE_POLL_INTERVAL_MS env,
          if en_METRICS_ENABLED env = ''true'' then
            (case en_METRICS_PORT env of None \<Rightarrow> None | Some port \<Rightarrow> if port = 0 then None else Some port)
          else None)))))"

section \<open>What a loaded configuration promises\<close>

lemma loadEnv_twice:
  "loadEnv parse hostname processEnv cache = (Inr env, cache') \<Longrightarrow>
     cache' = Some env \<and> loadEnv parse hostname' processEnv' cache' = (Inr env, cache')"
  by (auto simp: loadEnv_def split: option.splits sum.splits)

lemma loadEnv_first:
  assumes "zod_parser F parse" and "loadEnv parse hostname processEnv None = (Inr env, cache)"
  shows "\<exists>v. meaning F envSchema (Some processEnv) = Some (Some v) \<and> env = read_env v \<and>
    assertProductionSafety hostname env = Inr ()"
  using assms(2) zod_Inr [OF assms(1)] by (auto simp: loadEnv_def split: sum.splits)

lemma positive_setting:
  assumes "meaning F envSchema (Some p) = Some (Some v)" and "(k, positive_number d) \<in> set env_fields" and "1 \<le> d"
  shows "0 < int_field v k"
proof -
  have "meaning F (positive_number d) (json_field p k) = Some (json_field v k)"
    using assms(1,2) unfolding envSchema_def by (rule meaning_object [OF _ env_fields_distinct])
  then show ?thesis
    using defaulted_page [of F d "[]" "json_field p k" v k] assms(3) by (auto simp: positive_number_def int_field_def)
qed

text \<open>The durations and limits are positive, so what the queue and the limiters require holds.\<close>

lemma loaded_settings:
  assumes "zod_parser F parse" and "loadEnv parse hostname processEnv None = (Inr env, cache)"
  shows "0 < jc_leaseMs (buildQueueConfig env)" "0 < jc_payloadTtlMs (buildQueueConfig env)"
    "0 < jc_maxAttempts (buildQueueConfig env)" "0 < jc_baseBackoffMs (buildQueueConfig env)"
    "0 < en_RATE_LIMIT_WINDOW_MS env" "0 < en_RATE_LIMIT_MAX env" "0 < en_DISTRIBUTED_LOCK_TTL_MS env"
    "0 < en_CACHE_GROUP_TTL_SECONDS env"
proof -
  from loadEnv_first [OF assms] obtain v where v: "meaning F envSchema (Some processEnv) = Some (Some v)"
    and env: "env = read_env v" by blast
  note p = positive_setting [OF v]
  have "0 < int_field v ''JOB_QUEUE_LEASE_MS''" by (rule p [of _ 30000]) (simp_all add: env_fields_def)
  then show "0 < jc_leaseMs (buildQueueConfig env)" by (simp add: env buildQueueConfig_def read_env_def)
  have "0 < int_field v ''JOB_QUEUE_PAYLOAD_TTL_MS''" by (rule p [of _ 86400000]) (simp_all add: env_fields_def)
  then show "0 < jc_payloadTtlMs (buildQueueConfig env)" by (simp add: env buildQueueConfig_def read_env_def)
  have "0 < int_field v ''JOB_QUEUE_MAX_ATTEMPTS''" by (rule p [of _ 5]) (simp_all add: env_fields_def)
  then show "0 < jc_maxAttempts (buildQueueConfig env)" by (simp add: env buildQueueConfig_def read_env_def)
  have "0 < int_field v ''JOB_QUEUE_BASE_BACKOFF_MS''" by (rule p [of _ 2000]) (simp_all add: env_fields_def)
  then show "0 < jc_baseBackoffMs (buildQueueConfig env)" by (simp add: env buildQueueConfig_def read_env_def)
  have "0 < int_field v ''RATE_LIMIT_WINDOW_MS''" by (rule p [of _ 900000]) (simp_all add: env_fields_def)
  then show "0 < en_RATE_LIMIT_WINDOW_MS env" by (simp add: env read_env_def)
  have "0 < int_field v ''RATE_LIMIT_MAX''" by (rule p [of _ 100]) (simp_all add: env_fields_def)
  then show "0 < en_RATE_LIMIT_MAX env" by (simp add: env read_env_def)
  have "0 < int_field v ''DISTRIBUTED_LOCK_TTL_MS''" by (rule p [of _ 10000]) (simp_all add: env_fields_def)
  then show "0 < en_DISTRIBUTED_LOCK_TTL_MS env" by (simp add: env read_env_def)
  have "0 < int_field v ''CACHE_GROUP_TTL_SECONDS''" by (rule p [of _ 300]) (simp_all add: env_fields_def)
  then show "0 < en_CACHE_GROUP_TTL_SECONDS env" by (simp add: env read_env_def)
qed

lemma production_is_safe:
  assumes "assertProductionSafety hostname env = Inr ()" and "en_NODE_ENV env = ''production''"
  shows "32 \<le> length (en_JWT_SECRET env) \<and> allowedOrigins (en_CORS_ORIGIN env) \<noteq> [] \<and>
    list_all (\<lambda>origin. \<not> loopback hostname origin) (allowedOrigins (en_CORS_ORIGIN env))"
  using assms by (auto simp: assertProductionSafety_def production_problems_def list_ex_iff list_all_iff split: if_splits)

text \<open>
  Node answers \<open>[::1]\<close>, with brackets, as the host name of an IPv6 URL, so the check does not
  recognise that loopback address.
\<close>

lemma ipv6_loopback_passes:
  assumes "hostname ''http://[::1]:3000'' = Some ''[::1]''"
  shows "\<not> loopback hostname ''http://[::1]:3000''"
  using assms by (simp add: loopback_def)

text \<open>The server starts without Redis; the worker does not, and neither starts without PostgreSQL.\<close>

lemma server_start_degrades:
  assumes "loaded = Inr env" and "dbConnect w = (Inr (), w1)" "select1 w1 = (Inr (), w2)" and "redisConnect w2 = (Inl e, w3)"
  shows "server_start loaded dbConnect select1 redisConnect ping w = (Inr (en_PORT env, False), w3)"
  using assms by (simp add: server_start_def connectDatabase_def connectRedis_def seq_def catch_def of_result_def ret_def)

lemma worker_needs_redis:
  assumes "dbConnect w = (Inr (), w1)" "select1 w1 = (Inr (), w2)" and "redisConnect w2 = (Inl e, w3)"
  shows "\<exists>e'. worker_start (Inr env) dbConnect select1 redisConnect ping w = (Inl e', w3)"
  using assms by (simp add: worker_start_def connectDatabase_def connectRedis_def seq_def catch_def of_result_def ret_def
      guard_def throw_def)

end
