(* ===== verification/Examples.thy ===== *)
theory Examples
  imports Startup
begin

text \<open>
  The concrete data the properties are applied to: a small group with an expense and a
  settlement in the in-memory tables, one session and two auth links, an environment whose
  clock stands still and whose identifiers never repeat, stand-ins for the libraries of the
  auth service, and a world with an empty in-memory Redis.
\<close>

definition demo_user :: "string \<Rightarrow> string \<Rightarrow> User row" where
  "demo_user i name = \<lparr>row_id = i, row_createdAt = 1, row_updatedAt = 1,
     row_data = \<lparr>us_name = name, us_email = name @ ''@x.pk'', us_passwordHash = Some ''#pw'',
                 us_emailVerifiedAt = Some 1\<rparr>\<rparr>"

definition demo_member :: "string \<Rightarrow> string \<Rightarrow> string \<Rightarrow> GroupMember row" where
  "demo_member i gid uid = \<lparr>row_id = i, row_createdAt = 2, row_updatedAt = 2,
     row_data = \<lparr>gm_groupId = gid, gm_userId = uid\<rparr>\<rparr>"

definition demo_split :: "string \<Rightarrow> string \<Rightarrow> int \<Rightarrow> ExpenseSplit row" where
  "demo_split i uid a = \<lparr>row_id = i, row_createdAt = 3, row_updatedAt = 3,
     row_data = \<lparr>sp_expenseId = ''e1'', sp_userId = uid, sp_amountMinorUnits = a\<rparr>\<rparr>"

definition demo_tables :: tables where
  "demo_tables = no_tables\<lparr>
     users := [demo_user ''u1'' ''Ann'', demo_user ''u2'' ''Bob'', demo_user ''u3'' ''Cid''],
     groups := [\<lparr>row_id = ''g1'', row_createdAt = 2, row_updatedAt = 2,
                 row_data = \<lparr>gr_name = ''Trip'', gr_createdById = ''u1''\<rparr>\<rparr>],
     members := [demo_member ''m1'' ''g1'' ''u1'', demo_member ''m2'' ''g1'' ''u2''],
     expenses := [\<lparr>row_id = ''e1'', row_createdAt = 3, row_updatedAt = 3,
                   row_data = \<lparr>ex_groupId = ''g1'', ex_paidById = ''u1'', ex_description = ''Bus'',
                     ex_amountMinorUnits = 101, ex_currencyCode = ''PKR'', ex_splitType = EQUAL,
                     ex_expenseDate = 3\<rparr>\<rparr>],
     splits := [demo_split ''p1'' ''u1'' 51, demo_split ''p2'' ''u2'' 50],
     settlements := [\<lparr>row_id = ''s1'', row_createdAt = 4, row_updatedAt = 4,
                      row_data = \<lparr>se_groupId = ''g1'', se_payerId = ''u2'', se_payeeId = ''u1'',
                        se_amountMinorUnits = 20, se_currencyCode = ''PKR'', se_settledAt = 4\<rparr>\<rparr>],
     refreshTokens := [\<lparr>row_id = ''t1'', row_createdAt = 5, row_updatedAt = 5,
                        row_data = new_session ''u1'' ''old'' 9000\<rparr>],
     authTokens := [\<lparr>row_id = ''a1'', row_createdAt = 6, row_updatedAt = 6,
                     row_data = new_auth_token ''u1'' EMAIL_VERIFICATION ''v1'' 9000\<rparr>,
                    \<lparr>row_id = ''a2'', row_createdAt = 6, row_updatedAt = 6,
                     row_data = new_auth_token ''u1'' PASSWORD_RESET ''r1'' 9000\<rparr>]\<rparr>"

definition demo_env :: env where
  "demo_env = \<lparr>clock = (\<lambda>_. 5000), uuid = (\<lambda>n. replicate (Suc n) CHR ''u''), isDate = (\<lambda>_. True),
     parseDate = int_of_string, toISOString = string_of_int, sha256 = (\<lambda>s. s)\<rparr>"

definition demo_crypto :: crypto where
  "demo_crypto = \<lparr>cr_randomToken = (\<lambda>n. replicate (Suc n) CHR ''t''),
     cr_bcryptHash = (\<lambda>_ pw. CHR ''#'' # pw), cr_bcryptCompare = (\<lambda>pw h. h = CHR ''#'' # pw),
     cr_jwtSign = (\<lambda>_ _ _ payload. stringify payload),
     cr_jwtVerify = (\<lambda>_ _ tok. case JSON_parse tok of None \<Rightarrow> JwtRejected | Some p \<Rightarrow> JwtPayload p)\<rparr>"

definition demo_config :: AuthConfig where
  "demo_config = \<lparr>cf_JWT_SECRET = ''k'', cf_JWT_EXPIRES_IN = ''7d'', cf_REFRESH_TOKEN_TTL_DAYS = 30,
     cf_EMAIL_VERIFICATION_TOKEN_TTL_MINUTES = 30, cf_PASSWORD_RESET_TOKEN_TTL_MINUTES = 30,
     cf_APP_NAME = ''A'', cf_APP_BASE_URL = ''http://a/'', cf_EMAIL_FROM = ''n@a'',
     cf_EMAIL_FROM_NAME = ''A''\<rparr>"

definition demo_mailer :: "unit mailer" where
  "demo_mailer = LogEmailProvider_send"

definition demo_redis :: fake_redis where
  "demo_redis = \<lparr>fk_now = 0, fk_store = Map.empty, fk_zsets = (\<lambda>_. []), fk_plan = []\<rparr>"

type_synonym demo_world = "(mem_db, fake_redis, unit) world"

definition demo_world :: demo_world where
  "demo_world = \<lparr>w_db = \<lparr>md_tables = demo_tables, md_plan = []\<rparr>, w_redis = demo_redis, w_mail = (),
     w_metrics = empty_registry, w_tick = 0\<rparr>"

text \<open>A run that returned is the value it returned and the world it left.\<close>

definition ran :: "(exn + 'a) \<times> 'w \<Rightarrow> bool" where
  "ran x \<longleftrightarrow> \<not> isl (fst x)"

lemma ran_eq: "ran x \<Longrightarrow> x = (Inr (projr (fst x)), snd x)"
  by (cases x; cases "fst x") (auto simp: ran_def)

lemma failed_eq: "\<not> ran x \<Longrightarrow> x = (Inl (projl (fst x)), snd x)"
  by (cases x; cases "fst x") (auto simp: ran_def)

lemma inj_demo_uuid: "inj (uuid demo_env)"
  by (rule injI) (simp add: demo_env_def del: replicate_Suc)

lemma iso_demo: "iso_dates demo_env"
  by (simp add: iso_dates_def demo_env_def)

definition demo_expense :: CreateExpenseInput where
  "demo_expense = \<lparr>ci_groupId = ''g1'', ci_description = ''Tea'', ci_amountMinorUnits = 31,
     ci_payerId = ''u2'', ci_splitType = EQUAL,
     ci_participants = [\<lparr>pt_userId = ''u1'', pt_amountMinorUnits = None\<rparr>,
                        \<lparr>pt_userId = ''u2'', pt_amountMinorUnits = None\<rparr>],
     ci_expenseDate = None\<rparr>"

definition demo_update :: UpdateExpenseInput where
  "demo_update = \<lparr>ui_description = None, ui_amountMinorUnits = Some 75, ui_payerId = Some ''u2'',
     ui_splitType = None, ui_participants = None, ui_expenseDate = None\<rparr>"

definition demo_settlement :: CreateSettlementInput where
  "demo_settlement = \<lparr>si_groupId = ''g1'', si_payerId = ''u2'', si_payeeId = ''u1'',
     si_amountMinorUnits = 10\<rparr>"

definition demo_context :: IdempotencyContext where
  "demo_context = \<lparr>ic_key = ''key-0001'', ic_userId = ''u2'', ic_requestHash = ''h''\<rparr>"

definition demo_limits :: rate_limit_store where
  "demo_limits = \<lparr>rs_prefix = ''rl:api:'', rs_windowMs = 1000\<rparr>"

text \<open>The same world with the one counter of the cache defined.\<close>

definition counting_world :: demo_world where
  "counting_world = demo_world\<lparr>w_metrics :=
     defineMetric (counter_def cacheFailuresTotal [''operation''] ''help'') empty_registry\<rparr>"

definition demo_queue :: JobQueueConfig where
  "demo_queue = \<lparr>jc_maxAttempts = 2, jc_baseBackoffMs = 2000, jc_maxBackoffMs = 60000,
     jc_leaseMs = 30000, jc_payloadTtlMs = 90000\<rparr>"

text \<open>A world with one job enqueued, and the claim of that job.\<close>

definition demo_enqueue :: "json \<Rightarrow> demo_world \<Rightarrow> (exn + string \<times> json) \<times> demo_world" where
  "demo_enqueue payload = enqueue fake_redis demo_env demo_queue GROUP_SUMMARY_RECOMPUTE payload
     \<lparr>jo_requestId = None, jo_scheduledFor = None\<rparr>"

lemmas demo_defs = demo_world_def demo_redis_def demo_env_def demo_queue_def

lemmas redis_run = seq_def guard_def ret_def now_def randomUUID_def metric_def redis_call_def
  redis_do_def catch_def attempt_def fake_redis_def fake_deliver_def fake_set_def fake_del_def
  evictExpired_def may_set_def Let_def rd_del.simps

lemmas queue_run = enqueue_def claimNext_def dueJobId_def CLAIM_SCRIPT_def discard_def
  JOB_TYPES_def GROUP_SUMMARY_RECOMPUTE_def queueKey_def dataKey_def inflightKey_def

definition demo_queued :: "json \<Rightarrow> demo_world" where
  "demo_queued payload = snd (demo_enqueue payload demo_world)"

lemma demo_enqueue_run: "demo_enqueue p demo_world =
    (Inr (''u'', make_envelope ''u'' GROUP_SUMMARY_RECOMPUTE p (toISOString demo_env 5000) None), demo_queued p)"
  by (simp add: demo_queued_def demo_enqueue_def queue_run redis_run demo_defs del: stringify.simps)

lemma demo_claim:
  assumes "wf_json p" "is_object (Some p)"
  shows "fst (claimNext fake_redis demo_env demo_queue GROUP_SUMMARY_RECOMPUTE (demo_queued p)) =
     Inr (Claimed ''u'' (make_envelope ''u'' GROUP_SUMMARY_RECOMPUTE p (toISOString demo_env 5000) None))"
  using parse_made_envelope [OF assms, of "''u''" GROUP_SUMMARY_RECOMPUTE "string_of_int 5000" None]
  by (simp add: demo_queued_def demo_enqueue_def queue_run redis_run demo_defs del: stringify.simps)

lemma demo_claim_time:
  assumes "wf_json p" "is_object (Some p)"
  shows "rv_now (fake_view (w_redis (snd (claimNext fake_redis demo_env demo_queue GROUP_SUMMARY_RECOMPUTE (demo_queued p))))) = 0"
  using parse_made_envelope [OF assms, of "''u''" GROUP_SUMMARY_RECOMPUTE "string_of_int 5000" None]
  by (simp add: demo_queued_def demo_enqueue_def queue_run redis_run demo_defs fake_view_def del: stringify.simps)

lemma demo_claim_plan:
  assumes "wf_json p" "is_object (Some p)"
  shows "fk_plan (w_redis (snd (claimNext fake_redis demo_env demo_queue GROUP_SUMMARY_RECOMPUTE (demo_queued p)))) = []"
  using parse_made_envelope [OF assms, of "''u''" GROUP_SUMMARY_RECOMPUTE "string_of_int 5000" None]
  by (simp add: demo_queued_def demo_enqueue_def queue_run redis_run demo_defs fake_view_def del: stringify.simps)

lemma discard_runs:
  assumes "fk_plan (w_redis w) = []"
  shows "ran (discard fake_redis type i w)"
  using assms by (simp add: ran_def discard_def redis_run)

lemma process_discards:
  assumes "claimNext R E c type w = (Inr (Claimed i e), w1)"
    and "jr_schema registration (envelope_payload e) = None" and "ran (discard R type i w1)"
  shows "ran (processType R E c registration type w)"
proof -
  obtain u w2 where "discard R type i w1 = (Inr u, w2)"
    using ran_eq [OF assms(3)] by blast
  then show ?thesis
    by (simp add: ran_def processType_def run_job_def seq_def catch_def job_metric_def metric_def assms(1,2))
qed

text \<open>A job whose payload names no group is discarded by the worker.\<close>

lemma demo_process:
  "ran (processType fake_redis demo_env demo_queue (groupSummaryRegistration mem_prisma demo_env)
    GROUP_SUMMARY_RECOMPUTE (demo_queued (JObject [])))"
proof -
  let ?claim = "claimNext fake_redis demo_env demo_queue GROUP_SUMMARY_RECOMPUTE (demo_queued (JObject []))"
  let ?e = "make_envelope ''u'' GROUP_SUMMARY_RECOMPUTE (JObject []) (toISOString demo_env 5000) None"
  have p: "wf_json (JObject [])" "is_object (Some (JObject []))" by (simp_all add: is_object_def)
  obtain w1 where c: "?claim = (Inr (Claimed ''u'' ?e), w1)" and w1: "fk_plan (w_redis w1) = []"
    using demo_claim [OF p] demo_claim_plan [OF p] by (metis prod.collapse)
  have "groupSummaryPayloadSchema (envelope_payload ?e) = None"
    by (simp add: envelope_payload_def make_envelope_fields groupSummaryPayloadSchema_def json_field_Nil)
  then show ?thesis
    by (intro process_discards [OF c] discard_runs w1) (simp add: groupSummaryRegistration_def)
qed

text \<open>A parser that does what Zod promises, and the service assembled from the stand-ins.\<close>

definition demo_formats :: formats where
  "demo_formats = \<lparr>zf_isUuid = (\<lambda>s. s \<noteq> []), zf_isEmail = (\<lambda>s. s \<noteq> []), zf_isDatetime = (\<lambda>s. s \<noteq> []),
     zf_isUrl = (\<lambda>s. s \<noteq> []), zf_Number = (\<lambda>v. case v of JNumber q \<Rightarrow> Some q | _ \<Rightarrow> None)\<rparr>"

definition demo_parse :: "schema \<Rightarrow> json \<Rightarrow> issues + json" where
  "demo_parse s v = (case meaning demo_formats s (Some v) of Some (Some x) \<Rightarrow> Inr x | _ \<Rightarrow> Inl [([], ''Invalid'')])"

lemma demo_zod: "zod_parser demo_formats demo_parse"
  by (auto simp: zod_parser_def demo_parse_def split: option.split)

definition demo_deployment :: "(mem_db, fake_redis, unit) deployment" where
  "demo_deployment = \<lparr>dp_prisma = mem_prisma, dp_redis = fake_redis, dp_env = demo_env, dp_crypto = demo_crypto,
     dp_mailer = demo_mailer, dp_config = demo_config, dp_queue = demo_queue, dp_lockTtlMs = 10000,
     dp_cacheTtl = 300, dp_parse = demo_parse\<rparr>"

lemma demo_prisma: "prisma md_tables (dp_prisma demo_deployment)"
  by (simp add: demo_deployment_def prisma_mem)

definition demo_token :: string where
  "demo_token = stringify (JObject [(''sub'', JString ''u2''), (''email'', JString ''b'')])"

definition demo_request :: http_request where
  "demo_request = \<lparr>rq_authorization = Some (''Bearer '' @ demo_token), rq_idempotencyHeader = None,
     rq_requestId = None, rq_params = JObject [(''id'', JString ''g1'')], rq_query = JObject [],
     rq_body = JObject [(''description'', JString ''Tea''), (''amountMinorUnits'', JNumber 31),
       (''payerId'', JString ''u2''), (''splitType'', JString ''EQUAL''),
       (''participants'', JArray [JObject [(''userId'', JString ''u1'')], JObject [(''userId'', JString ''u2'')]])],
     rq_userId = [], rq_idempotencyKey = []\<rparr>"

definition ran_with :: "nat \<Rightarrow> (exn + http_response) \<times> 'w \<Rightarrow> bool" where
  "ran_with status x \<longleftrightarrow> (case fst x of Inr r \<Rightarrow> response_status r = status | Inl _ \<Rightarrow> False)"

lemma demo_fits: "body_fits demo_request"
  by (simp add: body_fits_def demo_request_def EDGE_MAX_BODY_BYTES_def)

lemma demo_app_ok: "app_ok demo_tables"
proof -
  have "ledger_ok demo_tables" "groups_ok demo_tables" "members_once demo_tables" "sessions_ok demo_tables"
    "ids_ok demo_tables"
    by code_simp+
  then show ?thesis by (simp add: app_ok_def)
qed

definition demo_event :: "string \<Rightarrow> int \<Rightarrow> ActivityEvent row" where
  "demo_event i t = \<lparr>row_id = i, row_createdAt = t, row_updatedAt = t,
     row_data = \<lparr>ev_groupId = ''g1'', ev_userId = ''u1'', ev_type = EXPENSE_ADDED, ev_message = ''m'',
       ev_amountMinorUnits = None, ev_currencyCode = None, ev_occurredAt = t\<rparr>\<rparr>"

text \<open>The same world with three events on file.\<close>

definition demo_feed_world :: demo_world where
  "demo_feed_world = demo_world\<lparr>w_db := \<lparr>md_tables = demo_tables\<lparr>activities :=
     [demo_event ''x1'' 10, demo_event ''x2'' 30, demo_event ''x3'' 20]\<rparr>, md_plan = []\<rparr>\<rparr>"

text \<open>The configuration that the defaults give for a production process.\<close>

definition demo_process_env :: json where
  "demo_process_env = JObject [(''NODE_ENV'', JString ''production''), (''DATABASE_URL'', JString ''db''),
     (''JWT_SECRET'', JString (replicate 32 CHR ''k'')), (''CORS_ORIGIN'', JString ''https://a.example'')]"

definition demo_Env :: Env where
  "demo_Env = read_env (projr (demo_parse envSchema demo_process_env))"

end
