(* ===== verification/OpenApi.thy ===== *)
theory OpenApi
  imports Json
begin

text \<open>
  The types of \<open>docs/openapi.types.ts\<close>, the builders of \<open>docs/helpers.ts\<close>, and what a schema of
  an OpenAPI 3.0 document says of a JSON value. A schema object is the list of its keywords (all
  its fields are optional, and an object satisfies a schema when it satisfies every keyword of it);
  a reference is looked up in the components. The prose of the document (\<open>description\<close>,
  \<open>summary\<close>, titles) constrains nothing and is left out. Formats and patterns are strings to the
  document: what they accept is a parameter, the \<open>checks\<close> of the reader.
\<close>

section \<open>Documents\<close>

datatype http_method = GET | POST | PUT | DELETE | PATCH | HEAD | OPTIONS | TRACE

datatype schema_type = TString | TNumber | TInteger | TBoolean | TObject | TArray

datatype api_schema = Ref string | Obj "schema_field list"
  and schema_field =
    Type schema_type
  | Format string
  | Enum "json list"
  | Items api_schema
  | Properties "(string \<times> api_schema) list"
  | Required "string list"
  | AdditionalProperties bool
  | Nullable bool
  | Example json
  | Default json
  | AllOf "api_schema list"
  | OneOf "api_schema list"
  | AnyOf "api_schema list"
  | Minimum int
  | Maximum int
  | MinLength nat
  | MaxLength nat
  | Pattern string
  | MinItems nat
  | MaxItems nat
  | UniqueItems bool
  | Deprecated bool
  | ReadOnly bool
  | WriteOnly bool

record MediaTypeObject =
  mt_schema :: api_schema
  mt_example :: "json option"

datatype place = InPath | InQuery | InHeader | InCookie

record ParameterObject =
  pm_name :: string
  pm_in :: place
  pm_required :: bool
  pm_schema :: api_schema

record RequestBodyObject =
  rb_required :: bool
  rb_content :: "(string \<times> MediaTypeObject) list"

datatype response = ResponseRef string | ResponseObject "(string \<times> MediaTypeObject) list"

text \<open>A security requirement names schemes; \<open>op_security = None\<close> is an operation without the field.\<close>

type_synonym security_requirement = "(string \<times> string list) list"

record OperationObject =
  op_tags :: "string list"
  op_operationId :: string
  op_parameters :: "ParameterObject list"
  op_requestBody :: "RequestBodyObject option"
  op_responses :: "(nat \<times> response) list"
  op_security :: "security_requirement list option"

type_synonym PathItemObject = "(http_method \<times> OperationObject) list"

record SecuritySchemeObject =
  ss_type :: string
  ss_scheme :: string
  ss_bearerFormat :: string

record ComponentsObject =
  co_schemas :: "(string \<times> api_schema) list"
  co_responses :: "(string \<times> response) list"
  co_parameters :: "(string \<times> ParameterObject) list"
  co_securitySchemes :: "(string \<times> SecuritySchemeObject) list"

record OpenApiDocument =
  oa_openapi :: string
  oa_version :: string
  oa_servers :: "string list"
  oa_tags :: "string list"
  oa_paths :: "(string \<times> PathItemObject) list"
  oa_components :: ComponentsObject
  oa_security :: "security_requirement list"

section \<open>Builders\<close>

definition reference :: "string \<Rightarrow> string" where
  "reference target = ''#/components/'' @ target"

definition ref :: "string \<Rightarrow> api_schema" where
  "ref name = Ref (''#/components/schemas/'' @ name)"

definition successEnvelope :: "api_schema \<Rightarrow> api_schema" where
  "successEnvelope data = Obj
     [Type TObject,
      Properties [(''success'', Obj [Type TBoolean, Enum [JBool True]]), (''data'', data)],
      Required [''success'', ''data'']]"

definition jsonContent :: "api_schema \<Rightarrow> json option \<Rightarrow> MediaTypeObject" where
  "jsonContent schema example = \<lparr>mt_schema = schema, mt_example = example\<rparr>"

definition jsonResponse :: "api_schema \<Rightarrow> json option \<Rightarrow> response" where
  "jsonResponse schema example = ResponseObject [(''application/json'', jsonContent schema example)]"

definition componentResponse :: "string \<Rightarrow> response" where
  "componentResponse componentName = ResponseRef (reference (''responses/'' @ componentName))"

text \<open>\<open>{...s, k: v}\<close> for a schema: the fields of \<open>s\<close> and the new ones.\<close>

definition spread :: "api_schema \<Rightarrow> schema_field list \<Rightarrow> api_schema" where
  "spread s ks = (case s of Obj ks' \<Rightarrow> Obj (ks' @ ks) | Ref r \<Rightarrow> Ref r)"

section \<open>What a schema accepts\<close>

fun has_type :: "schema_type \<Rightarrow> json \<Rightarrow> bool" where
  "has_type TString v = (case v of JString _ \<Rightarrow> True | _ \<Rightarrow> False)"
| "has_type TNumber v = (case v of JNumber _ \<Rightarrow> True | _ \<Rightarrow> False)"
| "has_type TInteger v = (case v of JNumber q \<Rightarrow> q = of_int \<lfloor>q\<rfloor> | _ \<Rightarrow> False)"
| "has_type TBoolean v = (case v of JBool _ \<Rightarrow> True | _ \<Rightarrow> False)"
| "has_type TObject v = (case v of JObject _ \<Rightarrow> True | _ \<Rightarrow> False)"
| "has_type TArray v = (case v of JArray _ \<Rightarrow> True | _ \<Rightarrow> False)"

record checks =
  ck_format :: "string \<Rightarrow> string \<Rightarrow> bool"
  ck_pattern :: "string \<Rightarrow> string \<Rightarrow> bool"

text \<open>With \<open>additionalProperties: false\<close> an object has no keys but the properties.\<close>

fun property_names :: "schema_field list \<Rightarrow> string list" where
  "property_names [] = []"
| "property_names (Properties ps # ks) = map fst ps @ property_names ks"
| "property_names (_ # ks) = property_names ks"

definition no_extra :: "schema_field list \<Rightarrow> json \<Rightarrow> bool" where
  "no_extra ks v \<longleftrightarrow> (AdditionalProperties False \<in> set ks \<longrightarrow>
     (case v of JObject kvs \<Rightarrow> list_all (\<lambda>(k, _). k \<in> set (property_names ks)) kvs | _ \<Rightarrow> True))"

text \<open>The size of a property, for the recursion below.\<close>

lemma property_size: "(k, s) \<in> set ps \<Longrightarrow> size s \<le> size_list (size_prod (\<lambda>_. 0) size) ps"
  by (induction ps) auto

text \<open>
  \<open>conforms F C n s v\<close>: the value satisfies the schema, references being looked up in \<open>C\<close> and
  unfolded at most \<open>n\<close> deep (running out of depth refuses the value, so that a theorem that a
  value conforms says that \<open>n\<close> was enough).
\<close>

function (sequential) conforms ::
    "checks \<Rightarrow> (string \<rightharpoonup> api_schema) \<Rightarrow> nat \<Rightarrow> api_schema \<Rightarrow> json \<Rightarrow> bool"
  and conforms_field ::
    "checks \<Rightarrow> (string \<rightharpoonup> api_schema) \<Rightarrow> nat \<Rightarrow> bool \<Rightarrow> schema_field \<Rightarrow> json \<Rightarrow> bool" where
  "conforms F C n (Ref r) v =
     (case n of 0 \<Rightarrow> False
      | Suc m \<Rightarrow> (case C r of None \<Rightarrow> False | Some s \<Rightarrow> conforms F C m s v))"
| "conforms F C n (Obj ks) v =
     (no_extra ks v \<and> list_all (\<lambda>k. conforms_field F C n (Nullable True \<in> set ks) k v) ks)"
| "conforms_field F C n null (Type t) v = (has_type t v \<or> null \<and> v = JNull)"
| "conforms_field F C n null (Format f) v = (case v of JString s \<Rightarrow> ck_format F f s | _ \<Rightarrow> True)"
| "conforms_field F C n null (Enum vs) v = (v \<in> set vs)"
| "conforms_field F C n null (Items s) v =
     (case v of JArray xs \<Rightarrow> list_all (conforms F C n s) xs | _ \<Rightarrow> True)"
| "conforms_field F C n null (Properties ps) v =
     list_all (\<lambda>(k, s). case json_field v k of None \<Rightarrow> True | Some x \<Rightarrow> conforms F C n s x) ps"
| "conforms_field F C n null (Required ks) v =
     (case v of JObject _ \<Rightarrow> list_all (\<lambda>k. json_field v k \<noteq> None) ks | _ \<Rightarrow> True)"
| "conforms_field F C n null (AllOf ss) v = list_all (\<lambda>s. conforms F C n s v) ss"
| "conforms_field F C n null (OneOf ss) v = (length (filter (\<lambda>s. conforms F C n s v) ss) = 1)"
| "conforms_field F C n null (AnyOf ss) v = list_ex (\<lambda>s. conforms F C n s v) ss"
| "conforms_field F C n null (Minimum b) v = (case v of JNumber q \<Rightarrow> of_int b \<le> q | _ \<Rightarrow> True)"
| "conforms_field F C n null (Maximum b) v = (case v of JNumber q \<Rightarrow> q \<le> of_int b | _ \<Rightarrow> True)"
| "conforms_field F C n null (MinLength b) v = (case v of JString s \<Rightarrow> b \<le> length s | _ \<Rightarrow> True)"
| "conforms_field F C n null (MaxLength b) v = (case v of JString s \<Rightarrow> length s \<le> b | _ \<Rightarrow> True)"
| "conforms_field F C n null (Pattern p) v = (case v of JString s \<Rightarrow> ck_pattern F p s | _ \<Rightarrow> True)"
| "conforms_field F C n null (MinItems b) v = (case v of JArray xs \<Rightarrow> b \<le> length xs | _ \<Rightarrow> True)"
| "conforms_field F C n null (MaxItems b) v = (case v of JArray xs \<Rightarrow> length xs \<le> b | _ \<Rightarrow> True)"
| "conforms_field F C n null (UniqueItems b) v =
     (case v of JArray xs \<Rightarrow> b \<longrightarrow> distinct xs | _ \<Rightarrow> True)"
| "conforms_field F C n null _ v = True"
  by pat_completeness auto

termination
  by (relation "measures [case_sum (\<lambda>(_, _, n, _). n) (\<lambda>(_, _, n, _). n),
        case_sum (\<lambda>(_, _, _, s, _). size s) (\<lambda>(_, _, _, _, k, _). size k)]")
    (auto simp: less_Suc_eq_le size_list_estimation' dest!: property_size)

end
