(* ===== verification/ApiComponents.thy ===== *)
theory ApiComponents
  imports OpenApi
begin

text \<open>
  The reusable components of the API document (\<open>docs/components\<close>): schemas, responses, parameters
  and the security scheme.
\<close>

section \<open>Schemas\<close>

definition UuidRef :: api_schema where
  "UuidRef = Ref ''#/components/schemas/Uuid''"

definition uuidSchema :: api_schema where
  "uuidSchema =
     Obj [Type TString, Format ''uuid'', Example (JString ''9b1deb4d-3b7d-4bad-9bdd-2b0d7b3dcb6d'')]"

definition dateTimeSchema :: api_schema where
  "dateTimeSchema = Obj [Type TString, Format ''date-time'']"

definition minorUnitsSchema :: api_schema where
  "minorUnitsSchema = Obj [Type TInteger, Example (JNumber 1000)]"

definition userSchema :: api_schema where
  "userSchema =
     Obj [
       Type TObject,
       Properties [
         (''id'', UuidRef),
         (''name'', Obj [Type TString, Example (JString ''Ahmed Raza'')]),
         (''email'',
           Obj [Type TString, Format ''email'', Example (JString ''ahmed@example.com'')])],
       Required [''id'', ''name'', ''email'']]"

definition authSessionSchema :: api_schema where
  "authSessionSchema =
     Obj [
       Type TObject,
       Properties [
         (''user'', Ref ''#/components/schemas/User''),
         (''token'', Obj [Type TString, Example (JString ''<access-token>'')]),
         (''refreshToken'', Obj [Type TString, Example (JString ''<refresh-token>'')])],
       Required [''user'', ''token'', ''refreshToken'']]"

definition messageResultSchema :: api_schema where
  "messageResultSchema =
     Obj [
       Type TObject,
       Properties [
         (''message'', Obj [Type TString, Example (JString ''Signed out successfully.'')])],
       Required [''message'']]"

definition registerRequestSchema :: api_schema where
  "registerRequestSchema =
     Obj [
       Type TObject,
       Properties [
         (''name'', Obj [Type TString, Example (JString ''Ahmed Raza'')]),
         (''email'', Obj [Type TString, Format ''email'', Example (JString ''ahmed@example.com'')]),
         (''password'',
           Obj [Type TString, Format ''password'', Example (JString ''a-secure-password'')])],
       Required [''name'', ''email'', ''password'']]"

definition loginRequestSchema :: api_schema where
  "loginRequestSchema =
     Obj [
       Type TObject,
       Properties [
         (''email'', Obj [Type TString, Format ''email'', Example (JString ''ahmed@example.com'')]),
         (''password'',
           Obj [Type TString, Format ''password'', Example (JString ''a-secure-password'')])],
       Required [''email'', ''password'']]"

definition refreshTokenRequestSchema :: api_schema where
  "refreshTokenRequestSchema =
     Obj [
       Type TObject,
       Properties [(''refreshToken'', Obj [Type TString, Example (JString ''<refresh-token>'')])],
       Required [''refreshToken'']]"

definition verifyEmailRequestSchema :: api_schema where
  "verifyEmailRequestSchema =
     Obj [
       Type TObject,
       Properties [(''token'', Obj [Type TString, Example (JString ''<verification-token>'')])],
       Required [''token'']]"

definition emailRequestSchema :: api_schema where
  "emailRequestSchema =
     Obj [
       Type TObject,
       Properties [
         (''email'',
           Obj [Type TString, Format ''email'', Example (JString ''ahmed@example.com'')])],
       Required [''email'']]"

definition resetPasswordRequestSchema :: api_schema where
  "resetPasswordRequestSchema =
     Obj [
       Type TObject,
       Properties [
         (''token'', Obj [Type TString, Example (JString ''<reset-token>'')]),
         (''newPassword'',
           Obj [Type TString, Format ''password'', Example (JString ''a-new-secure-password'')])],
       Required [''token'', ''newPassword'']]"

definition createGroupRequestSchema :: api_schema where
  "createGroupRequestSchema =
     Obj [
       Type TObject,
       Properties [(''name'', Obj [Type TString, Example (JString ''Trip to Naran'')])],
       Required [''name'']]"

definition updateGroupRequestSchema :: api_schema where
  "updateGroupRequestSchema =
     Obj [
       Type TObject,
       Properties [(''name'', Obj [Type TString, Example (JString ''Trip to Hunza'')])],
       Required [''name'']]"

definition updateCurrentUserRequestSchema :: api_schema where
  "updateCurrentUserRequestSchema =
     Obj [
       Type TObject,
       Properties [
         (''name'', Obj [Type TString, Example (JString ''Ahmed Raza'')]),
         (''email'',
           Obj [Type TString, Format ''email'', Example (JString ''ahmed@example.com'')])]]"

definition addMemberRequestSchema :: api_schema where
  "addMemberRequestSchema =
     Obj [
       Type TObject,
       Properties [
         (''userId'',
           Obj [
             Type TString,
             Format ''uuid'',
             Example (JString ''b2d9c1e0-1a2b-4c3d-9e4f-5a6b7c8d9e0f'')])],
       Required [''userId'']]"

definition groupSchema :: api_schema where
  "groupSchema =
     Obj [
       Type TObject,
       Properties [
         (''id'', UuidRef),
         (''name'', Obj [Type TString, Example (JString ''Trip to Naran'')]),
         (''createdById'',
           Obj [
             Type TString,
             Format ''uuid'',
             Example (JString ''9b1deb4d-3b7d-4bad-9bdd-2b0d7b3dcb6d'')]),
         (''createdAt'', Ref ''#/components/schemas/DateTime''),
         (''updatedAt'', Ref ''#/components/schemas/DateTime'')],
       Required [''id'', ''name'', ''createdById'', ''createdAt'', ''updatedAt'']]"

definition groupWithMemberCountSchema :: api_schema where
  "groupWithMemberCountSchema =
     Obj [
       Type TObject,
       AllOf [
         Ref ''#/components/schemas/Group'',
         Obj [
           Type TObject,
           Properties [(''memberCount'', Obj [Type TInteger, Example (JNumber 4)])],
           Required [''memberCount'']]]]"

definition groupWithMembersSchema :: api_schema where
  "groupWithMembersSchema =
     Obj [
       Type TObject,
       AllOf [
         Ref ''#/components/schemas/Group'',
         Obj [
           Type TObject,
           Properties [(''members'', Obj [Type TArray, Items (Ref ''#/components/schemas/User'')])],
           Required [''members'']]]]"

definition groupMemberSchema :: api_schema where
  "groupMemberSchema =
     Obj [
       Type TObject,
       Properties [
         (''id'', UuidRef),
         (''groupId'', Obj [Type TString, Format ''uuid'']),
         (''userId'', Obj [Type TString, Format ''uuid'']),
         (''createdAt'', Ref ''#/components/schemas/DateTime'')],
       Required [''id'', ''groupId'', ''userId'', ''createdAt'']]"

definition expenseSplitSchema :: api_schema where
  "expenseSplitSchema =
     Obj [
       Type TObject,
       Properties [
         (''id'', UuidRef),
         (''userId'', Obj [Type TString, Format ''uuid'']),
         (''amountMinorUnits'', minorUnitsSchema),
         (''user'', Ref ''#/components/schemas/User'')],
       Required [''id'', ''userId'', ''amountMinorUnits'', ''user'']]"

definition expenseSchema :: api_schema where
  "expenseSchema =
     Obj [
       Type TObject,
       Properties [
         (''id'', UuidRef),
         (''groupId'', Obj [Type TString, Format ''uuid'']),
         (''paidById'', Obj [Type TString, Format ''uuid'']),
         (''description'', Obj [Type TString, Example (JString ''Dinner'')]),
         (''amountMinorUnits'', minorUnitsSchema),
         (''currencyCode'', Obj [Type TString, Example (JString ''PKR'')]),
         (''splitType'', Obj [Type TString, Enum [JString ''EQUAL'', JString ''EXACT'']]),
         (''expenseDate'', Ref ''#/components/schemas/DateTime''),
         (''payer'', Ref ''#/components/schemas/User''),
         (''splits'', Obj [Type TArray, Items (Ref ''#/components/schemas/ExpenseSplit'')]),
         (''createdAt'', Ref ''#/components/schemas/DateTime''),
         (''updatedAt'', Ref ''#/components/schemas/DateTime'')],
       Required [
         ''id'',
         ''groupId'',
         ''paidById'',
         ''description'',
         ''amountMinorUnits'',
         ''currencyCode'',
         ''splitType'',
         ''expenseDate'',
         ''payer'',
         ''splits'',
         ''createdAt'',
         ''updatedAt'']]"

definition expenseSummarySchema :: api_schema where
  "expenseSummarySchema =
     Obj [
       Type TObject,
       Properties [
         (''id'', UuidRef),
         (''groupId'', Obj [Type TString, Format ''uuid'']),
         (''paidById'', Obj [Type TString, Format ''uuid'']),
         (''description'', Obj [Type TString, Example (JString ''Dinner'')]),
         (''amountMinorUnits'', minorUnitsSchema),
         (''currencyCode'', Obj [Type TString, Example (JString ''PKR'')]),
         (''splitType'', Obj [Type TString, Enum [JString ''EQUAL'', JString ''EXACT'']]),
         (''expenseDate'', Ref ''#/components/schemas/DateTime''),
         (''payer'', Ref ''#/components/schemas/User''),
         (''splitCount'', Obj [Type TInteger, Example (JNumber 3)]),
         (''createdAt'', Ref ''#/components/schemas/DateTime''),
         (''updatedAt'', Ref ''#/components/schemas/DateTime'')],
       Required [
         ''id'',
         ''groupId'',
         ''paidById'',
         ''description'',
         ''amountMinorUnits'',
         ''currencyCode'',
         ''splitType'',
         ''expenseDate'',
         ''payer'',
         ''splitCount'',
         ''createdAt'',
         ''updatedAt'']]"

definition expenseParticipantInputSchema :: api_schema where
  "expenseParticipantInputSchema =
     Obj [
       Type TObject,
       Properties [
         (''userId'', Obj [Type TString, Format ''uuid'']),
         (''amountMinorUnits'', minorUnitsSchema)],
       Required [''userId'']]"

definition createExpenseRequestSchema :: api_schema where
  "createExpenseRequestSchema =
     Obj [
       Type TObject,
       Properties [
         (''description'', Obj [Type TString, Example (JString ''Dinner'')]),
         (''amountMinorUnits'', minorUnitsSchema),
         (''payerId'', Obj [Type TString, Format ''uuid'']),
         (''splitType'', Obj [Type TString, Enum [JString ''EQUAL'', JString ''EXACT'']]),
         (''participants'',
           Obj [
             Type TArray,
             MinItems 1,
             Items (Ref ''#/components/schemas/ExpenseParticipantInput'')]),
         (''expenseDate'', Obj [Type TString, Format ''date-time''])],
       Required [
         ''description'',
         ''amountMinorUnits'',
         ''payerId'',
         ''splitType'',
         ''participants'']]"

definition updateExpenseRequestSchema :: api_schema where
  "updateExpenseRequestSchema =
     Obj [
       Type TObject,
       Properties [
         (''description'', Obj [Type TString, Example (JString ''Dinner'')]),
         (''amountMinorUnits'', minorUnitsSchema),
         (''payerId'', Obj [Type TString, Format ''uuid'']),
         (''splitType'', Obj [Type TString, Enum [JString ''EQUAL'', JString ''EXACT'']]),
         (''participants'',
           Obj [
             Type TArray,
             MinItems 1,
             Items (Ref ''#/components/schemas/ExpenseParticipantInput'')]),
         (''expenseDate'', Obj [Type TString, Format ''date-time''])]]"

definition settlementSchema :: api_schema where
  "settlementSchema =
     Obj [
       Type TObject,
       Properties [
         (''id'', UuidRef),
         (''groupId'', Obj [Type TString, Format ''uuid'']),
         (''payerId'', Obj [Type TString, Format ''uuid'']),
         (''payeeId'', Obj [Type TString, Format ''uuid'']),
         (''amountMinorUnits'', minorUnitsSchema),
         (''currencyCode'', Obj [Type TString, Example (JString ''PKR'')]),
         (''settledAt'', Ref ''#/components/schemas/DateTime''),
         (''createdAt'', Ref ''#/components/schemas/DateTime''),
         (''updatedAt'', Ref ''#/components/schemas/DateTime''),
         (''payer'', Ref ''#/components/schemas/User''),
         (''payee'', Ref ''#/components/schemas/User'')],
       Required [
         ''id'',
         ''groupId'',
         ''payerId'',
         ''payeeId'',
         ''amountMinorUnits'',
         ''currencyCode'',
         ''settledAt'',
         ''createdAt'',
         ''updatedAt'',
         ''payer'',
         ''payee'']]"

definition createSettlementRequestSchema :: api_schema where
  "createSettlementRequestSchema =
     Obj [
       Type TObject,
       Properties [
         (''payerId'', Obj [Type TString, Format ''uuid'']),
         (''payeeId'', Obj [Type TString, Format ''uuid'']),
         (''amountMinorUnits'', minorUnitsSchema)],
       Required [''payerId'', ''payeeId'', ''amountMinorUnits'']]"

definition balanceSchema :: api_schema where
  "balanceSchema =
     Obj [
       Type TObject,
       Properties [
         (''userId'', Obj [Type TString, Format ''uuid'']),
         (''name'', Obj [Type TString, Example (JString ''Ahmed Raza'')]),
         (''email'', Obj [Type TString, Format ''email'', Example (JString ''ahmed@example.com'')]),
         (''amountMinorUnits'', Obj [Type TInteger, Example (JNumber (-60))])],
       Required [''userId'', ''name'', ''email'', ''amountMinorUnits'']]"

definition activityEventSchema :: api_schema where
  "activityEventSchema =
     Obj [
       Type TObject,
       Properties [
         (''id'', UuidRef),
         (''groupId'', Obj [Type TString, Format ''uuid'']),
         (''userId'', Obj [Type TString, Format ''uuid'']),
         (''type'',
           Obj [
             Type TString,
             Enum [
               JString ''EXPENSE_ADDED'',
               JString ''EXPENSE_UPDATED'',
               JString ''EXPENSE_DELETED'',
               JString ''SETTLEMENT_ADDED'',
               JString ''GROUP_CREATED'',
               JString ''GROUP_UPDATED'',
               JString ''MEMBER_ADDED'',
               JString ''MEMBER_REMOVED'']]),
         (''message'',
           Obj [
             Type TString,
             Example (JString (''added the expense '' @ [CHR 0x22] @ ''Dinner'' @ [CHR 0x22]))]),
         (''amountMinorUnits'', spread minorUnitsSchema [Nullable True]),
         (''currencyCode'', Obj [Type TString, Nullable True, Example (JString ''PKR'')]),
         (''occurredAt'', Ref ''#/components/schemas/DateTime''),
         (''createdAt'', Ref ''#/components/schemas/DateTime''),
         (''user'', Ref ''#/components/schemas/User'')],
       Required [
         ''id'',
         ''groupId'',
         ''userId'',
         ''type'',
         ''message'',
         ''amountMinorUnits'',
         ''currencyCode'',
         ''occurredAt'',
         ''createdAt'',
         ''user'']]"

definition paginationSchema :: api_schema where
  "paginationSchema =
     Obj [
       Type TObject,
       Properties [
         (''page'', Obj [Type TInteger, Example (JNumber 1)]),
         (''limit'', Obj [Type TInteger, Example (JNumber 20)]),
         (''total'', Obj [Type TInteger, Example (JNumber 42)])],
       Required [''page'', ''limit'', ''total'']]"

definition groupSummarySchema :: api_schema where
  "groupSummarySchema =
     Obj [
       Type TObject,
       Properties [
         (''id'', UuidRef),
         (''groupId'', Obj [Type TString, Format ''uuid'']),
         (''totalSpentMinorUnits'', minorUnitsSchema),
         (''expenseCount'', Obj [Type TInteger, Example (JNumber 12)]),
         (''settlementCount'', Obj [Type TInteger, Example (JNumber 3)]),
         (''memberCount'', Obj [Type TInteger, Example (JNumber 5)]),
         (''currencyCode'', Obj [Type TString, Example (JString ''PKR'')]),
         (''computedAt'', Ref ''#/components/schemas/DateTime'')],
       Required [
         ''id'',
         ''groupId'',
         ''totalSpentMinorUnits'',
         ''expenseCount'',
         ''settlementCount'',
         ''memberCount'',
         ''currencyCode'',
         ''computedAt'']]"

definition queuedJobSchema :: api_schema where
  "queuedJobSchema =
     Obj [
       Type TObject,
       Properties [
         (''jobId'', Obj [Type TString, Format ''uuid'']),
         (''type'', Obj [Type TString, Enum [JString ''GROUP_SUMMARY_RECOMPUTE'']]),
         (''status'', Obj [Type TString, Enum [JString ''queued'']])],
       Required [''jobId'', ''type'', ''status'']]"

definition errorBodySchema :: api_schema where
  "errorBodySchema =
     Obj [
       Type TObject,
       Properties [
         (''success'', Obj [Type TBoolean, Enum [JBool False]]),
         (''message'', Obj [Type TString, Example (JString ''Group not found.'')]),
         (''errors'',
           Obj [
             Type TArray,
             Items
               (Obj [
                 Type TObject,
                 Properties [
                   (''field'', Obj [Type TString, Example (JString ''body.email'')]),
                   (''message'', Obj [Type TString, Example (JString ''Invalid email address'')])],
                 Required [''field'', ''message'']])])],
       Required [''success'', ''message'']]"

definition livenessResponseSchema :: api_schema where
  "livenessResponseSchema =
     Obj [
       Type TObject,
       Properties [(''status'', Obj [Type TString, Enum [JString ''ok'']])],
       Required [''status'']]"

definition readinessReadyResponseSchema :: api_schema where
  "readinessReadyResponseSchema =
     Obj [
       Type TObject,
       Properties [(''status'', Obj [Type TString, Enum [JString ''ready'']])],
       Required [''status'']]"

definition readinessUnavailableResponseSchema :: api_schema where
  "readinessUnavailableResponseSchema =
     Obj [
       Type TObject,
       Properties [
         (''status'', Obj [Type TString, Enum [JString ''unavailable'']]),
         (''message'', Obj [Type TString, Example (JString ''Service is not ready yet.'')])],
       Required [''status'', ''message'']]"

section \<open>Responses\<close>

definition errorContent :: "json \<Rightarrow> MediaTypeObject" where
  "errorContent example = jsonContent (Ref ''#/components/schemas/ErrorBody'') (Some example)"

definition badRequestResponse :: response where
  "badRequestResponse =
     ResponseObject [
       (''application/json'',
         errorContent
           (JObject [
             (''success'', JBool False),
             (''message'', JString ''Validation failed''),
             (''errors'',
               JArray [
                 JObject [
                   (''field'', JString ''body.email''),
                   (''message'', JString ''Invalid email address'')]])]))]"

definition unauthorizedResponse :: response where
  "unauthorizedResponse =
     ResponseObject [
       (''application/json'',
         errorContent
           (JObject [
             (''success'', JBool False),
             (''message'', JString ''Invalid or malformed token.'')]))]"

definition forbiddenResponse :: response where
  "forbiddenResponse =
     ResponseObject [
       (''application/json'',
         errorContent
           (JObject [
             (''success'', JBool False),
             (''message'', JString ''You are not a member of this group.'')]))]"

definition notFoundResponse :: response where
  "notFoundResponse =
     ResponseObject [
       (''application/json'',
         errorContent
           (JObject [(''success'', JBool False), (''message'', JString ''Group not found.'')]))]"

definition conflictResponse :: response where
  "conflictResponse =
     ResponseObject [
       (''application/json'',
         errorContent
           (JObject [
             (''success'', JBool False),
             (''message'',
               JString ''Another settlement for this group is being processed. Please retry shortly.'')]))]"

definition payloadTooLargeResponse :: response where
  "payloadTooLargeResponse =
     ResponseObject [
       (''application/json'',
         errorContent
           (JObject [
             (''success'', JBool False),
             (''message'', JString ''Request body too large.'')]))]"

definition tooManyRequestsResponse :: response where
  "tooManyRequestsResponse =
     ResponseObject [
       (''application/json'',
         errorContent
           (JObject [(''success'', JBool False), (''message'', JString ''Too many requests'')]))]"

definition internalServerErrorResponse :: response where
  "internalServerErrorResponse =
     ResponseObject [
       (''application/json'',
         errorContent
           (JObject [
             (''success'', JBool False),
             (''message'',
               JString ''Something went wrong on our side. Please try again later.'')]))]"

definition serviceUnavailableResponse :: response where
  "serviceUnavailableResponse =
     ResponseObject [
       (''application/json'',
         errorContent
           (JObject [
             (''success'', JBool False),
             (''message'', JString ''Service is not ready yet.'')]))]"

definition noContentResponse :: response where
  "noContentResponse = ResponseObject []"

section \<open>Parameters\<close>

definition uuidPathParameter :: "string \<Rightarrow> ParameterObject" where
  "uuidPathParameter name = \<lparr>pm_name = name, pm_in = InPath, pm_required = True,
     pm_schema = Obj [Type TString, Format ''uuid'']\<rparr>"

definition groupIdPathParameter :: ParameterObject where
  "groupIdPathParameter = uuidPathParameter ''id''"

definition expenseIdPathParameter :: ParameterObject where
  "expenseIdPathParameter = uuidPathParameter ''id''"

definition settlementIdPathParameter :: ParameterObject where
  "settlementIdPathParameter = uuidPathParameter ''id''"

definition memberIdPathParameter :: ParameterObject where
  "memberIdPathParameter = uuidPathParameter ''memberId''"

definition pageQueryParameter :: ParameterObject where
  "pageQueryParameter =
     \<lparr>pm_name = ''page'',
      pm_in = InQuery,
      pm_required = False,
      pm_schema = Obj [Type TInteger, Minimum 1, Default (JNumber 1)]\<rparr>"

definition limitQueryParameter :: ParameterObject where
  "limitQueryParameter =
     \<lparr>pm_name = ''limit'',
      pm_in = InQuery,
      pm_required = False,
      pm_schema = Obj [Type TInteger, Minimum 1, Maximum 50, Default (JNumber 20)]\<rparr>"

definition idempotencyKeyHeaderParameter :: ParameterObject where
  "idempotencyKeyHeaderParameter =
     \<lparr>pm_name = ''Idempotency-Key'',
      pm_in = InHeader,
      pm_required = True,
      pm_schema = Obj [Type TString, MinLength 8, MaxLength 128, Pattern ''^[A-Za-z0-9._-]+$'']\<rparr>"

section \<open>Security\<close>

definition bearerAuthSecurityScheme :: SecuritySchemeObject where
  "bearerAuthSecurityScheme =
     \<lparr>ss_type = ''http'', ss_scheme = ''bearer'', ss_bearerFormat = ''JWT''\<rparr>"

end
