(* ===== verification/ApiPaths.thy ===== *)
theory ApiPaths
  imports ApiComponents
begin

text \<open>
  The documented operations (\<open>docs/paths\<close>): one definition for each operation, named after its
  \<open>operationId\<close>, and the path items of each module.
\<close>

section \<open>Health\<close>

definition HEALTH_TAG :: string where
  "HEALTH_TAG = ''Health''"

definition doc_getLiveness :: OperationObject where
  "doc_getLiveness =
     \<lparr>op_tags = [HEALTH_TAG],
      op_operationId = ''getLiveness'',
      op_parameters = [],
      op_requestBody = None,
      op_responses = [
       (200,
         jsonResponse
           (Ref ''#/components/schemas/LivenessResponse'')
           (Some (JObject [(''status'', JString ''ok'')])))],
      op_security = Some []\<rparr>"

definition doc_getReadiness :: OperationObject where
  "doc_getReadiness =
     \<lparr>op_tags = [HEALTH_TAG],
      op_operationId = ''getReadiness'',
      op_parameters = [],
      op_requestBody = None,
      op_responses = [
       (200,
         jsonResponse
           (Ref ''#/components/schemas/ReadinessReadyResponse'')
           (Some (JObject [(''status'', JString ''ready'')]))),
       (503,
         jsonResponse
           (Ref ''#/components/schemas/ReadinessUnavailableResponse'')
           (Some
             (JObject [
               (''status'', JString ''unavailable''),
               (''message'', JString ''Service is not ready yet.'')])))],
      op_security = Some []\<rparr>"

definition healthPaths :: "(string \<times> PathItemObject) list" where
  "healthPaths =
     [(''/health'', [(GET, doc_getLiveness)]), (''/health/ready'', [(GET, doc_getReadiness)])]"

section \<open>Metrics\<close>

definition METRICS_TAG :: string where
  "METRICS_TAG = ''Metrics''"

definition doc_getMetrics :: OperationObject where
  "doc_getMetrics =
     \<lparr>op_tags = [METRICS_TAG],
      op_operationId = ''getMetrics'',
      op_parameters = [],
      op_requestBody = None,
      op_responses = [
       (200, ResponseObject [(''text/plain'', jsonContent (Obj [Type TString]) None)])],
      op_security = Some []\<rparr>"

definition metricsPaths :: "(string \<times> PathItemObject) list" where
  "metricsPaths = [(''/metrics'', [(GET, doc_getMetrics)])]"

section \<open>Authentication\<close>

definition AUTH_TAG :: string where
  "AUTH_TAG = ''Authentication''"

definition session :: "json \<Rightarrow> response" where
  "session example = jsonResponse (successEnvelope (ref ''AuthSession''))
     (Some (JObject [(''success'', JBool True), (''data'', example)]))"

definition message_response :: "string \<Rightarrow> response" where
  "message_response example = jsonResponse (successEnvelope (ref ''MessageResult''))
     (Some (JObject [(''success'', JBool True), (''data'', JObject [(''message'', JString example)])]))"

definition doc_registerUser :: OperationObject where
  "doc_registerUser =
     \<lparr>op_tags = [AUTH_TAG],
      op_operationId = ''registerUser'',
      op_parameters = [],
      op_requestBody = Some
       \<lparr>rb_required = True,
        rb_content = [
         (''application/json'',
           jsonContent
             (ref ''RegisterRequest'')
             (Some
               (JObject [
                 (''name'', JString ''Ahmed Raza''),
                 (''email'', JString ''ahmed@example.com''),
                 (''password'', JString ''a-secure-password'')])))]\<rparr>,
      op_responses = [
       (201,
         session
           (JObject [
             (''user'',
               JObject [
                 (''id'', JString ''9b1deb4d-3b7d-4bad-9bdd-2b0d7b3dcb6d''),
                 (''name'', JString ''Ahmed Raza''),
                 (''email'', JString ''ahmed@example.com'')]),
             (''token'', JString ''<access-token>''),
             (''refreshToken'', JString ''<refresh-token>'')])),
       (400, componentResponse ''BadRequest''),
       (409, componentResponse ''Conflict'')],
      op_security = Some []\<rparr>"

definition doc_loginUser :: OperationObject where
  "doc_loginUser =
     \<lparr>op_tags = [AUTH_TAG],
      op_operationId = ''loginUser'',
      op_parameters = [],
      op_requestBody = Some
       \<lparr>rb_required = True,
        rb_content = [
         (''application/json'',
           jsonContent
             (ref ''LoginRequest'')
             (Some
               (JObject [
                 (''email'', JString ''ahmed@example.com''),
                 (''password'', JString ''a-secure-password'')])))]\<rparr>,
      op_responses = [
       (200,
         session
           (JObject [
             (''user'',
               JObject [
                 (''id'', JString ''9b1deb4d-3b7d-4bad-9bdd-2b0d7b3dcb6d''),
                 (''name'', JString ''Ahmed Raza''),
                 (''email'', JString ''ahmed@example.com'')]),
             (''token'', JString ''<access-token>''),
             (''refreshToken'', JString ''<refresh-token>'')])),
       (400, componentResponse ''BadRequest''),
       (401, componentResponse ''Unauthorized'')],
      op_security = Some []\<rparr>"

definition doc_refreshSession :: OperationObject where
  "doc_refreshSession =
     \<lparr>op_tags = [AUTH_TAG],
      op_operationId = ''refreshSession'',
      op_parameters = [],
      op_requestBody = Some
       \<lparr>rb_required = True,
        rb_content = [
         (''application/json'',
           jsonContent
             (ref ''RefreshTokenRequest'')
             (Some (JObject [(''refreshToken'', JString ''<refresh-token>'')])))]\<rparr>,
      op_responses = [
       (200,
         session
           (JObject [
             (''user'',
               JObject [
                 (''id'', JString ''9b1deb4d-3b7d-4bad-9bdd-2b0d7b3dcb6d''),
                 (''name'', JString ''Ahmed Raza''),
                 (''email'', JString ''ahmed@example.com'')]),
             (''token'', JString ''<access-token>''),
             (''refreshToken'', JString ''<new-refresh-token>'')])),
       (400, componentResponse ''BadRequest''),
       (401, componentResponse ''Unauthorized'')],
      op_security = Some []\<rparr>"

definition doc_logoutUser :: OperationObject where
  "doc_logoutUser =
     \<lparr>op_tags = [AUTH_TAG],
      op_operationId = ''logoutUser'',
      op_parameters = [],
      op_requestBody = Some
       \<lparr>rb_required = True,
        rb_content = [
         (''application/json'',
           jsonContent
             (ref ''RefreshTokenRequest'')
             (Some (JObject [(''refreshToken'', JString ''<refresh-token>'')])))]\<rparr>,
      op_responses = [
       (200,
         jsonResponse
           (successEnvelope (ref ''MessageResult''))
           (Some
             (JObject [
               (''success'', JBool True),
               (''data'', JObject [(''message'', JString ''Signed out successfully.'')])]))),
       (400, componentResponse ''BadRequest'')],
      op_security = Some []\<rparr>"

definition doc_getCurrentUser :: OperationObject where
  "doc_getCurrentUser =
     \<lparr>op_tags = [AUTH_TAG],
      op_operationId = ''getCurrentUser'',
      op_parameters = [],
      op_requestBody = None,
      op_responses = [
       (200,
         jsonResponse
           (successEnvelope
             (Obj [Type TObject, Properties [(''user'', ref ''User'')], Required [''user'']]))
           (Some
             (JObject [
               (''success'', JBool True),
               (''data'',
                 JObject [
                   (''user'',
                     JObject [
                       (''id'', JString ''9b1deb4d-3b7d-4bad-9bdd-2b0d7b3dcb6d''),
                       (''name'', JString ''Ahmed Raza''),
                       (''email'', JString ''ahmed@example.com'')])])]))),
       (401, componentResponse ''Unauthorized''),
       (404, componentResponse ''NotFound'')],
      op_security = None\<rparr>"

definition doc_updateCurrentUser :: OperationObject where
  "doc_updateCurrentUser =
     \<lparr>op_tags = [AUTH_TAG],
      op_operationId = ''updateCurrentUser'',
      op_parameters = [],
      op_requestBody = Some
       \<lparr>rb_required = True,
        rb_content = [
         (''application/json'',
           jsonContent
             (ref ''UpdateCurrentUserRequest'')
             (Some (JObject [(''name'', JString ''Ahmed Raza'')])))]\<rparr>,
      op_responses = [
       (200,
         jsonResponse
           (successEnvelope
             (Obj [Type TObject, Properties [(''user'', ref ''User'')], Required [''user'']]))
           (Some
             (JObject [
               (''success'', JBool True),
               (''data'',
                 JObject [
                   (''user'',
                     JObject [
                       (''id'', JString ''9b1deb4d-3b7d-4bad-9bdd-2b0d7b3dcb6d''),
                       (''name'', JString ''Ahmed Raza''),
                       (''email'', JString ''ahmed@example.com'')])])]))),
       (400, componentResponse ''BadRequest''),
       (401, componentResponse ''Unauthorized''),
       (404, componentResponse ''NotFound''),
       (409, componentResponse ''Conflict'')],
      op_security = None\<rparr>"

definition doc_verifyEmailAddress :: OperationObject where
  "doc_verifyEmailAddress =
     \<lparr>op_tags = [AUTH_TAG],
      op_operationId = ''verifyEmailAddress'',
      op_parameters = [],
      op_requestBody = Some
       \<lparr>rb_required = True,
        rb_content = [
         (''application/json'',
           jsonContent
             (ref ''VerifyEmailRequest'')
             (Some (JObject [(''token'', JString ''<verification-token>'')])))]\<rparr>,
      op_responses = [
       (200, message_response ''Email verified successfully.''),
       (400, componentResponse ''BadRequest''),
       (401, componentResponse ''Unauthorized'')],
      op_security = Some []\<rparr>"

definition doc_resendVerificationEmail :: OperationObject where
  "doc_resendVerificationEmail =
     \<lparr>op_tags = [AUTH_TAG],
      op_operationId = ''resendVerificationEmail'',
      op_parameters = [],
      op_requestBody = Some
       \<lparr>rb_required = True,
        rb_content = [
         (''application/json'',
           jsonContent
             (ref ''EmailRequest'')
             (Some (JObject [(''email'', JString ''ahmed@example.com'')])))]\<rparr>,
      op_responses = [
       (200,
         message_response
           ''If that email address belongs to an account, a verification email is on its way.''),
       (400, componentResponse ''BadRequest'')],
      op_security = Some []\<rparr>"

definition doc_requestPasswordReset :: OperationObject where
  "doc_requestPasswordReset =
     \<lparr>op_tags = [AUTH_TAG],
      op_operationId = ''requestPasswordReset'',
      op_parameters = [],
      op_requestBody = Some
       \<lparr>rb_required = True,
        rb_content = [
         (''application/json'',
           jsonContent
             (ref ''EmailRequest'')
             (Some (JObject [(''email'', JString ''ahmed@example.com'')])))]\<rparr>,
      op_responses = [
       (200,
         message_response
           ''If that email address belongs to an account, a password reset email is on its way.''),
       (400, componentResponse ''BadRequest'')],
      op_security = Some []\<rparr>"

definition doc_resetUserPassword :: OperationObject where
  "doc_resetUserPassword =
     \<lparr>op_tags = [AUTH_TAG],
      op_operationId = ''resetUserPassword'',
      op_parameters = [],
      op_requestBody = Some
       \<lparr>rb_required = True,
        rb_content = [
         (''application/json'',
           jsonContent
             (ref ''ResetPasswordRequest'')
             (Some
               (JObject [
                 (''token'', JString ''<reset-token>''),
                 (''newPassword'', JString ''a-new-secure-password'')])))]\<rparr>,
      op_responses = [
       (200,
         message_response ''Your password has been reset. Please sign in with your new password.''),
       (400, componentResponse ''BadRequest''),
       (401, componentResponse ''Unauthorized'')],
      op_security = Some []\<rparr>"

definition authPaths :: "(string \<times> PathItemObject) list" where
  "authPaths =
     [
       (''/api/v1/auth/register'', [(POST, doc_registerUser)]),
       (''/api/v1/auth/login'', [(POST, doc_loginUser)]),
       (''/api/v1/auth/refresh'', [(POST, doc_refreshSession)]),
       (''/api/v1/auth/logout'', [(POST, doc_logoutUser)]),
       (''/api/v1/auth/me'', [(GET, doc_getCurrentUser), (PATCH, doc_updateCurrentUser)]),
       (''/api/v1/auth/verify-email'', [(POST, doc_verifyEmailAddress)]),
       (''/api/v1/auth/resend-verification'', [(POST, doc_resendVerificationEmail)]),
       (''/api/v1/auth/forgot-password'', [(POST, doc_requestPasswordReset)]),
       (''/api/v1/auth/reset-password'', [(POST, doc_resetUserPassword)])]"

section \<open>Groups\<close>

definition GROUPS_TAG :: string where
  "GROUPS_TAG = ''Groups''"

definition groupData :: "string \<Rightarrow> api_schema" where
  "groupData schemaName = successEnvelope (Obj
     [Type TObject, Properties [(''group'', ref schemaName)], Required [''group'']])"

definition doc_createGroup :: OperationObject where
  "doc_createGroup =
     \<lparr>op_tags = [GROUPS_TAG],
      op_operationId = ''createGroup'',
      op_parameters = [],
      op_requestBody = Some
       \<lparr>rb_required = True,
        rb_content = [
         (''application/json'',
           jsonContent
             (ref ''CreateGroupRequest'')
             (Some (JObject [(''name'', JString ''Trip to Naran'')])))]\<rparr>,
      op_responses = [
       (201,
         jsonResponse
           (groupData ''Group'')
           (Some
             (JObject [
               (''success'', JBool True),
               (''data'',
                 JObject [
                   (''group'',
                     JObject [
                       (''id'', JString ''550e8400-e29b-41d4-a716-446655440000''),
                       (''name'', JString ''Trip to Naran''),
                       (''createdById'', JString ''9b1deb4d-3b7d-4bad-9bdd-2b0d7b3dcb6d''),
                       (''createdAt'', JString ''2026-01-15T10:30:00.000Z''),
                       (''updatedAt'', JString ''2026-01-15T10:30:00.000Z'')])])]))),
       (400, componentResponse ''BadRequest''),
       (401, componentResponse ''Unauthorized'')],
      op_security = None\<rparr>"

definition doc_listGroups :: OperationObject where
  "doc_listGroups =
     \<lparr>op_tags = [GROUPS_TAG],
      op_operationId = ''listGroups'',
      op_parameters = [],
      op_requestBody = None,
      op_responses = [
       (200,
         jsonResponse
           (successEnvelope
             (Obj [
               Type TObject,
               Properties [(''groups'', Obj [Type TArray, Items (ref ''GroupWithMemberCount'')])],
               Required [''groups'']]))
           (Some
             (JObject [
               (''success'', JBool True),
               (''data'',
                 JObject [
                   (''groups'',
                     JArray [
                       JObject [
                         (''id'', JString ''550e8400-e29b-41d4-a716-446655440000''),
                         (''name'', JString ''Trip to Naran''),
                         (''createdById'', JString ''9b1deb4d-3b7d-4bad-9bdd-2b0d7b3dcb6d''),
                         (''createdAt'', JString ''2026-01-15T10:30:00.000Z''),
                         (''updatedAt'', JString ''2026-01-15T10:30:00.000Z''),
                         (''memberCount'', JNumber 4)]])])]))),
       (401, componentResponse ''Unauthorized'')],
      op_security = None\<rparr>"

definition doc_getGroup :: OperationObject where
  "doc_getGroup =
     \<lparr>op_tags = [GROUPS_TAG],
      op_operationId = ''getGroup'',
      op_parameters = [groupIdPathParameter],
      op_requestBody = None,
      op_responses = [
       (200,
         jsonResponse
           (groupData ''GroupWithMembers'')
           (Some
             (JObject [
               (''success'', JBool True),
               (''data'',
                 JObject [
                   (''group'',
                     JObject [
                       (''id'', JString ''550e8400-e29b-41d4-a716-446655440000''),
                       (''name'', JString ''Trip to Naran''),
                       (''createdById'', JString ''9b1deb4d-3b7d-4bad-9bdd-2b0d7b3dcb6d''),
                       (''createdAt'', JString ''2026-01-15T10:30:00.000Z''),
                       (''updatedAt'', JString ''2026-01-15T10:30:00.000Z''),
                       (''members'',
                         JArray [
                           JObject [
                             (''id'', JString ''9b1deb4d-3b7d-4bad-9bdd-2b0d7b3dcb6d''),
                             (''name'', JString ''Ahmed Raza''),
                             (''email'', JString ''ahmed@example.com'')],
                           JObject [
                             (''id'', JString ''b2d9c1e0-1a2b-4c3d-9e4f-5a6b7c8d9e0f''),
                             (''name'', JString ''Sana Malik''),
                             (''email'', JString ''sana@example.com'')]])])])]))),
       (401, componentResponse ''Unauthorized''),
       (403, componentResponse ''Forbidden''),
       (404, componentResponse ''NotFound'')],
      op_security = None\<rparr>"

definition doc_updateGroup :: OperationObject where
  "doc_updateGroup =
     \<lparr>op_tags = [GROUPS_TAG],
      op_operationId = ''updateGroup'',
      op_parameters = [groupIdPathParameter],
      op_requestBody = Some
       \<lparr>rb_required = True,
        rb_content = [
         (''application/json'',
           jsonContent
             (ref ''UpdateGroupRequest'')
             (Some (JObject [(''name'', JString ''Trip to Hunza'')])))]\<rparr>,
      op_responses = [
       (200,
         jsonResponse
           (groupData ''Group'')
           (Some
             (JObject [
               (''success'', JBool True),
               (''data'',
                 JObject [
                   (''group'',
                     JObject [
                       (''id'', JString ''550e8400-e29b-41d4-a716-446655440000''),
                       (''name'', JString ''Trip to Hunza''),
                       (''createdById'', JString ''9b1deb4d-3b7d-4bad-9bdd-2b0d7b3dcb6d''),
                       (''createdAt'', JString ''2026-01-15T10:30:00.000Z''),
                       (''updatedAt'', JString ''2026-01-16T09:00:00.000Z'')])])]))),
       (400, componentResponse ''BadRequest''),
       (401, componentResponse ''Unauthorized''),
       (403, componentResponse ''Forbidden''),
       (404, componentResponse ''NotFound'')],
      op_security = None\<rparr>"

definition doc_deleteGroup :: OperationObject where
  "doc_deleteGroup =
     \<lparr>op_tags = [GROUPS_TAG],
      op_operationId = ''deleteGroup'',
      op_parameters = [groupIdPathParameter],
      op_requestBody = None,
      op_responses = [
       (204, componentResponse ''NoContent''),
       (401, componentResponse ''Unauthorized''),
       (403, componentResponse ''Forbidden''),
       (404, componentResponse ''NotFound'')],
      op_security = None\<rparr>"

definition doc_addGroupMember :: OperationObject where
  "doc_addGroupMember =
     \<lparr>op_tags = [GROUPS_TAG],
      op_operationId = ''addGroupMember'',
      op_parameters = [groupIdPathParameter],
      op_requestBody = Some
       \<lparr>rb_required = True,
        rb_content = [
         (''application/json'',
           jsonContent
             (ref ''AddMemberRequest'')
             (Some (JObject [(''userId'', JString ''b2d9c1e0-1a2b-4c3d-9e4f-5a6b7c8d9e0f'')])))]\<rparr>,
      op_responses = [
       (201,
         jsonResponse
           (successEnvelope
             (Obj [
               Type TObject,
               Properties [(''member'', ref ''GroupMember'')],
               Required [''member'']]))
           (Some
             (JObject [
               (''success'', JBool True),
               (''data'',
                 JObject [
                   (''member'',
                     JObject [
                       (''id'', JString ''b2d9c1e0-1a2b-4c3d-9e4f-5a6b7c8d9e0f''),
                       (''groupId'', JString ''550e8400-e29b-41d4-a716-446655440000''),
                       (''userId'', JString ''b2d9c1e0-1a2b-4c3d-9e4f-5a6b7c8d9e0f''),
                       (''createdAt'', JString ''2026-01-16T11:00:00.000Z'')])])]))),
       (400, componentResponse ''BadRequest''),
       (401, componentResponse ''Unauthorized''),
       (403, componentResponse ''Forbidden''),
       (404, componentResponse ''NotFound''),
       (409, componentResponse ''Conflict'')],
      op_security = None\<rparr>"

definition doc_removeGroupMember :: OperationObject where
  "doc_removeGroupMember =
     \<lparr>op_tags = [GROUPS_TAG],
      op_operationId = ''removeGroupMember'',
      op_parameters = [groupIdPathParameter, memberIdPathParameter],
      op_requestBody = None,
      op_responses = [
       (204, componentResponse ''NoContent''),
       (401, componentResponse ''Unauthorized''),
       (403, componentResponse ''Forbidden''),
       (404, componentResponse ''NotFound''),
       (409, componentResponse ''Conflict'')],
      op_security = None\<rparr>"

definition groupsPaths :: "(string \<times> PathItemObject) list" where
  "groupsPaths =
     [
       (''/api/v1/groups'', [(POST, doc_createGroup), (GET, doc_listGroups)]),
       (''/api/v1/groups/{id}'',
         [(GET, doc_getGroup), (PUT, doc_updateGroup), (DELETE, doc_deleteGroup)]),
       (''/api/v1/groups/{id}/members'', [(POST, doc_addGroupMember)]),
       (''/api/v1/groups/{id}/members/{memberId}'', [(DELETE, doc_removeGroupMember)])]"

section \<open>Expenses\<close>

definition EXPENSES_TAG :: string where
  "EXPENSES_TAG = ''Expenses''"

definition expenseData :: "string \<Rightarrow> api_schema" where
  "expenseData schemaName = successEnvelope (Obj
     [Type TObject, Properties [(''expense'', ref schemaName)], Required [''expense'']])"

definition expenseExample :: json where
  "expenseExample =
     JObject [
       (''id'', JString ''4c2a0f8e-9d31-4b6e-8b7a-5d5d5d5d5d5d''),
       (''groupId'', JString ''550e8400-e29b-41d4-a716-446655440000''),
       (''paidById'', JString ''9b1deb4d-3b7d-4bad-9bdd-2b0d7b3dcb6d''),
       (''description'', JString ''Dinner''),
       (''amountMinorUnits'', JNumber 1000),
       (''currencyCode'', JString ''PKR''),
       (''splitType'', JString ''EQUAL''),
       (''expenseDate'', JString ''2026-01-15T18:30:00.000Z''),
       (''payer'',
         JObject [
           (''id'', JString ''9b1deb4d-3b7d-4bad-9bdd-2b0d7b3dcb6d''),
           (''name'', JString ''Ahmed Raza''),
           (''email'', JString ''ahmed@example.com'')]),
       (''splits'',
         JArray [
           JObject [
             (''id'', JString ''1a1a1a1a-2b2b-4c4c-8d8d-5e5e5e5e5e5e''),
             (''userId'', JString ''9b1deb4d-3b7d-4bad-9bdd-2b0d7b3dcb6d''),
             (''amountMinorUnits'', JNumber 334),
             (''user'',
               JObject [
                 (''id'', JString ''9b1deb4d-3b7d-4bad-9bdd-2b0d7b3dcb6d''),
                 (''name'', JString ''Ahmed Raza''),
                 (''email'', JString ''ahmed@example.com'')])],
           JObject [
             (''id'', JString ''2b2b2b2b-3c3c-4d4d-9e9e-6f6f6f6f6f6f''),
             (''userId'', JString ''b2d9c1e0-1a2b-4c3d-9e4f-5a6b7c8d9e0f''),
             (''amountMinorUnits'', JNumber 333),
             (''user'',
               JObject [
                 (''id'', JString ''b2d9c1e0-1a2b-4c3d-9e4f-5a6b7c8d9e0f''),
                 (''name'', JString ''Sana Malik''),
                 (''email'', JString ''sana@example.com'')])],
           JObject [
             (''id'', JString ''3c3c3c3c-4d4d-4e4e-afaf-707070707070''),
             (''userId'', JString ''7a7a7a7a-8b8b-4c4c-adad-1e1e1e1e1e1e''),
             (''amountMinorUnits'', JNumber 333),
             (''user'',
               JObject [
                 (''id'', JString ''7a7a7a7a-8b8b-4c4c-adad-1e1e1e1e1e1e''),
                 (''name'', JString ''Usman Tariq''),
                 (''email'', JString ''usman@example.com'')])]]),
       (''createdAt'', JString ''2026-01-15T18:35:00.000Z''),
       (''updatedAt'', JString ''2026-01-15T18:35:00.000Z'')]"

definition doc_createExpense :: OperationObject where
  "doc_createExpense =
     \<lparr>op_tags = [EXPENSES_TAG],
      op_operationId = ''createExpense'',
      op_parameters = [groupIdPathParameter],
      op_requestBody = Some
       \<lparr>rb_required = True,
        rb_content = [
         (''application/json'',
           jsonContent
             (ref ''CreateExpenseRequest'')
             (Some
               (JObject [
                 (''description'', JString ''Dinner''),
                 (''amountMinorUnits'', JNumber 1000),
                 (''payerId'', JString ''9b1deb4d-3b7d-4bad-9bdd-2b0d7b3dcb6d''),
                 (''splitType'', JString ''EQUAL''),
                 (''participants'',
                   JArray [
                     JObject [(''userId'', JString ''9b1deb4d-3b7d-4bad-9bdd-2b0d7b3dcb6d'')],
                     JObject [(''userId'', JString ''b2d9c1e0-1a2b-4c3d-9e4f-5a6b7c8d9e0f'')],
                     JObject [(''userId'', JString ''7a7a7a7a-8b8b-4c4c-adad-1e1e1e1e1e1e'')]]),
                 (''expenseDate'', JString ''2026-01-15T18:30:00.000Z'')])))]\<rparr>,
      op_responses = [
       (201,
         jsonResponse
           (expenseData ''Expense'')
           (Some
             (JObject [
               (''success'', JBool True),
               (''data'', JObject [(''expense'', expenseExample)])]))),
       (400, componentResponse ''BadRequest''),
       (401, componentResponse ''Unauthorized''),
       (403, componentResponse ''Forbidden''),
       (404, componentResponse ''NotFound'')],
      op_security = None\<rparr>"

definition doc_listGroupExpenses :: OperationObject where
  "doc_listGroupExpenses =
     \<lparr>op_tags = [EXPENSES_TAG],
      op_operationId = ''listGroupExpenses'',
      op_parameters = [groupIdPathParameter, pageQueryParameter, limitQueryParameter],
      op_requestBody = None,
      op_responses = [
       (200,
         jsonResponse
           (successEnvelope
             (Obj [
               Type TObject,
               Properties [
                 (''expenses'', Obj [Type TArray, Items (ref ''ExpenseSummary'')]),
                 (''pagination'', ref ''Pagination'')],
               Required [''expenses'']]))
           (Some
             (JObject [
               (''success'', JBool True),
               (''data'',
                 JObject [
                   (''expenses'',
                     JArray [
                       JObject [
                         (''id'', JString ''4c2a0f8e-9d31-4b6e-8b7a-5d5d5d5d5d5d''),
                         (''groupId'', JString ''550e8400-e29b-41d4-a716-446655440000''),
                         (''paidById'', JString ''9b1deb4d-3b7d-4bad-9bdd-2b0d7b3dcb6d''),
                         (''description'', JString ''Dinner''),
                         (''amountMinorUnits'', JNumber 1000),
                         (''currencyCode'', JString ''PKR''),
                         (''splitType'', JString ''EQUAL''),
                         (''expenseDate'', JString ''2026-01-15T18:30:00.000Z''),
                         (''payer'',
                           JObject [
                             (''id'', JString ''9b1deb4d-3b7d-4bad-9bdd-2b0d7b3dcb6d''),
                             (''name'', JString ''Ahmed Raza''),
                             (''email'', JString ''ahmed@example.com'')]),
                         (''splitCount'', JNumber 3),
                         (''createdAt'', JString ''2026-01-15T18:35:00.000Z''),
                         (''updatedAt'', JString ''2026-01-15T18:35:00.000Z'')]])])]))),
       (401, componentResponse ''Unauthorized''),
       (403, componentResponse ''Forbidden''),
       (404, componentResponse ''NotFound'')],
      op_security = None\<rparr>"

definition doc_getExpense :: OperationObject where
  "doc_getExpense =
     \<lparr>op_tags = [EXPENSES_TAG],
      op_operationId = ''getExpense'',
      op_parameters = [expenseIdPathParameter],
      op_requestBody = None,
      op_responses = [
       (200,
         jsonResponse
           (expenseData ''Expense'')
           (Some
             (JObject [
               (''success'', JBool True),
               (''data'', JObject [(''expense'', expenseExample)])]))),
       (401, componentResponse ''Unauthorized''),
       (403, componentResponse ''Forbidden''),
       (404, componentResponse ''NotFound'')],
      op_security = None\<rparr>"

definition doc_updateExpense :: OperationObject where
  "doc_updateExpense =
     \<lparr>op_tags = [EXPENSES_TAG],
      op_operationId = ''updateExpense'',
      op_parameters = [expenseIdPathParameter],
      op_requestBody = Some
       \<lparr>rb_required = True,
        rb_content = [
         (''application/json'',
           jsonContent
             (ref ''UpdateExpenseRequest'')
             (Some (JObject [(''amountMinorUnits'', JNumber 1200)])))]\<rparr>,
      op_responses = [
       (200,
         jsonResponse
           (expenseData ''Expense'')
           (Some
             (JObject [
               (''success'', JBool True),
               (''data'', JObject [(''expense'', expenseExample)])]))),
       (400, componentResponse ''BadRequest''),
       (401, componentResponse ''Unauthorized''),
       (403, componentResponse ''Forbidden''),
       (404, componentResponse ''NotFound'')],
      op_security = None\<rparr>"

definition doc_deleteExpense :: OperationObject where
  "doc_deleteExpense =
     \<lparr>op_tags = [EXPENSES_TAG],
      op_operationId = ''deleteExpense'',
      op_parameters = [expenseIdPathParameter],
      op_requestBody = None,
      op_responses = [
       (204, ResponseObject []),
       (401, componentResponse ''Unauthorized''),
       (403, componentResponse ''Forbidden''),
       (404, componentResponse ''NotFound'')],
      op_security = None\<rparr>"

definition expensesPaths :: "(string \<times> PathItemObject) list" where
  "expensesPaths =
     [
       (''/api/v1/groups/{id}/expenses'',
         [(POST, doc_createExpense), (GET, doc_listGroupExpenses)]),
       (''/api/v1/expenses/{id}'',
         [(GET, doc_getExpense), (PATCH, doc_updateExpense), (DELETE, doc_deleteExpense)])]"

section \<open>Settlements\<close>

definition SETTLEMENTS_TAG :: string where
  "SETTLEMENTS_TAG = ''Settlements''"

definition settlementData :: "string \<Rightarrow> api_schema" where
  "settlementData schemaName = successEnvelope (Obj
     [Type TObject, Properties [(''settlement'', ref schemaName)], Required [''settlement'']])"

definition settlementExample :: json where
  "settlementExample =
     JObject [
       (''id'', JString ''f47ac10b-58cc-4372-a567-0e02b2c3d479''),
       (''groupId'', JString ''550e8400-e29b-41d4-a716-446655440000''),
       (''payerId'', JString ''b2d9c1e0-1a2b-4c3d-9e4f-5a6b7c8d9e0f''),
       (''payeeId'', JString ''9b1deb4d-3b7d-4bad-9bdd-2b0d7b3dcb6d''),
       (''amountMinorUnits'', JNumber 500),
       (''currencyCode'', JString ''PKR''),
       (''settledAt'', JString ''2026-01-17T12:00:00.000Z''),
       (''createdAt'', JString ''2026-01-17T12:00:00.000Z''),
       (''updatedAt'', JString ''2026-01-17T12:00:00.000Z''),
       (''payer'',
         JObject [
           (''id'', JString ''b2d9c1e0-1a2b-4c3d-9e4f-5a6b7c8d9e0f''),
           (''name'', JString ''Sana Malik''),
           (''email'', JString ''sana@example.com'')]),
       (''payee'',
         JObject [
           (''id'', JString ''9b1deb4d-3b7d-4bad-9bdd-2b0d7b3dcb6d''),
           (''name'', JString ''Ahmed Raza''),
           (''email'', JString ''ahmed@example.com'')])]"

definition doc_getGroupBalances :: OperationObject where
  "doc_getGroupBalances =
     \<lparr>op_tags = [SETTLEMENTS_TAG],
      op_operationId = ''getGroupBalances'',
      op_parameters = [groupIdPathParameter],
      op_requestBody = None,
      op_responses = [
       (200,
         jsonResponse
           (successEnvelope
             (Obj [
               Type TObject,
               Properties [(''balances'', Obj [Type TArray, Items (ref ''Balance'')])],
               Required [''balances'']]))
           (Some
             (JObject [
               (''success'', JBool True),
               (''data'',
                 JObject [
                   (''balances'',
                     JArray [
                       JObject [
                         (''userId'', JString ''9b1deb4d-3b7d-4bad-9bdd-2b0d7b3dcb6d''),
                         (''name'', JString ''Ahmed Raza''),
                         (''email'', JString ''ahmed@example.com''),
                         (''amountMinorUnits'', JNumber 160)],
                       JObject [
                         (''userId'', JString ''b2d9c1e0-1a2b-4c3d-9e4f-5a6b7c8d9e0f''),
                         (''name'', JString ''Sana Malik''),
                         (''email'', JString ''sana@example.com''),
                         (''amountMinorUnits'', JNumber (-60))],
                       JObject [
                         (''userId'', JString ''7a7a7a7a-8b8b-4c4c-adad-1e1e1e1e1e1e''),
                         (''name'', JString ''Usman Tariq''),
                         (''email'', JString ''usman@example.com''),
                         (''amountMinorUnits'', JNumber (-100))]])])]))),
       (401, componentResponse ''Unauthorized''),
       (403, componentResponse ''Forbidden''),
       (404, componentResponse ''NotFound'')],
      op_security = None\<rparr>"

definition doc_createSettlement :: OperationObject where
  "doc_createSettlement =
     \<lparr>op_tags = [SETTLEMENTS_TAG],
      op_operationId = ''createSettlement'',
      op_parameters = [groupIdPathParameter, idempotencyKeyHeaderParameter],
      op_requestBody = Some
       \<lparr>rb_required = True,
        rb_content = [
         (''application/json'',
           jsonContent
             (ref ''CreateSettlementRequest'')
             (Some
               (JObject [
                 (''payerId'', JString ''b2d9c1e0-1a2b-4c3d-9e4f-5a6b7c8d9e0f''),
                 (''payeeId'', JString ''9b1deb4d-3b7d-4bad-9bdd-2b0d7b3dcb6d''),
                 (''amountMinorUnits'', JNumber 500)])))]\<rparr>,
      op_responses = [
       (201,
         jsonResponse
           (settlementData ''Settlement'')
           (Some
             (JObject [
               (''success'', JBool True),
               (''data'', JObject [(''settlement'', settlementExample)])]))),
       (400, componentResponse ''BadRequest''),
       (401, componentResponse ''Unauthorized''),
       (403, componentResponse ''Forbidden''),
       (404, componentResponse ''NotFound''),
       (409, componentResponse ''Conflict'')],
      op_security = None\<rparr>"

definition doc_listGroupSettlements :: OperationObject where
  "doc_listGroupSettlements =
     \<lparr>op_tags = [SETTLEMENTS_TAG],
      op_operationId = ''listGroupSettlements'',
      op_parameters = [groupIdPathParameter, pageQueryParameter, limitQueryParameter],
      op_requestBody = None,
      op_responses = [
       (200,
         jsonResponse
           (successEnvelope
             (Obj [
               Type TObject,
               Properties [
                 (''settlements'', Obj [Type TArray, Items (ref ''Settlement'')]),
                 (''pagination'', ref ''Pagination'')],
               Required [''settlements'']]))
           (Some
             (JObject [
               (''success'', JBool True),
               (''data'', JObject [(''settlements'', JArray [settlementExample])])]))),
       (401, componentResponse ''Unauthorized''),
       (403, componentResponse ''Forbidden''),
       (404, componentResponse ''NotFound'')],
      op_security = None\<rparr>"

definition doc_getSettlement :: OperationObject where
  "doc_getSettlement =
     \<lparr>op_tags = [SETTLEMENTS_TAG],
      op_operationId = ''getSettlement'',
      op_parameters = [settlementIdPathParameter],
      op_requestBody = None,
      op_responses = [
       (200,
         jsonResponse
           (settlementData ''Settlement'')
           (Some
             (JObject [
               (''success'', JBool True),
               (''data'', JObject [(''settlement'', settlementExample)])]))),
       (401, componentResponse ''Unauthorized''),
       (403, componentResponse ''Forbidden''),
       (404, componentResponse ''NotFound'')],
      op_security = None\<rparr>"

definition settlementsPaths :: "(string \<times> PathItemObject) list" where
  "settlementsPaths =
     [
       (''/api/v1/groups/{id}/balances'', [(GET, doc_getGroupBalances)]),
       (''/api/v1/groups/{id}/settlements'',
         [(POST, doc_createSettlement), (GET, doc_listGroupSettlements)]),
       (''/api/v1/settlements/{id}'', [(GET, doc_getSettlement)])]"

section \<open>Activity\<close>

definition ACTIVITY_TAG :: string where
  "ACTIVITY_TAG = ''Activity''"

definition doc_listGroupActivity :: OperationObject where
  "doc_listGroupActivity =
     \<lparr>op_tags = [ACTIVITY_TAG],
      op_operationId = ''listGroupActivity'',
      op_parameters = [groupIdPathParameter, pageQueryParameter, limitQueryParameter],
      op_requestBody = None,
      op_responses = [
       (200,
         jsonResponse
           (Obj [
             Type TObject,
             Properties [
               (''success'', Obj [Type TBoolean, Enum [JBool True]]),
               (''data'',
                 Obj [
                   Type TObject,
                   Properties [(''events'', Obj [Type TArray, Items (ref ''ActivityEvent'')])],
                   Required [''events'']]),
               (''pagination'', Ref ''#/components/schemas/Pagination'')],
             Required [''success'', ''data'', ''pagination'']])
           (Some
             (JObject [
               (''success'', JBool True),
               (''data'',
                 JObject [
                   (''events'',
                     JArray [
                       JObject [
                         (''id'', JString ''d3d29d70-1d25-11ec-9621-0242ac130002''),
                         (''groupId'', JString ''550e8400-e29b-41d4-a716-446655440000''),
                         (''userId'', JString ''9b1deb4d-3b7d-4bad-9bdd-2b0d7b3dcb6d''),
                         (''type'', JString ''EXPENSE_ADDED''),
                         (''message'',
                           JString (''added the expense '' @ [CHR 0x22] @ ''Dinner'' @ [CHR 0x22])),
                         (''amountMinorUnits'', JNumber 1000),
                         (''currencyCode'', JString ''PKR''),
                         (''occurredAt'', JString ''2026-01-15T18:35:00.000Z''),
                         (''createdAt'', JString ''2026-01-15T18:35:00.000Z''),
                         (''user'',
                           JObject [
                             (''id'', JString ''9b1deb4d-3b7d-4bad-9bdd-2b0d7b3dcb6d''),
                             (''name'', JString ''Ahmed Raza''),
                             (''email'', JString ''ahmed@example.com'')])]])]),
               (''pagination'',
                 JObject [
                   (''page'', JNumber 1),
                   (''limit'', JNumber 20),
                   (''total'', JNumber 42)])]))),
       (400, componentResponse ''BadRequest''),
       (401, componentResponse ''Unauthorized''),
       (403, componentResponse ''Forbidden''),
       (404, componentResponse ''NotFound'')],
      op_security = None\<rparr>"

definition activityPaths :: "(string \<times> PathItemObject) list" where
  "activityPaths = [(''/api/v1/groups/{id}/activity'', [(GET, doc_listGroupActivity)])]"

section \<open>Group summaries\<close>

definition SUMMARY_TAG :: string where
  "SUMMARY_TAG = ''Group Summary''"

definition summaryData :: api_schema where
  "summaryData = successEnvelope (Obj
     [Type TObject, Properties [(''summary'', ref ''GroupSummary'')], Required [''summary'']])"

definition summaryExample :: json where
  "summaryExample =
     JObject [
       (''id'', JString ''9f8e7d6c-5b4a-3928-1706-0e02b2c3d479''),
       (''groupId'', JString ''550e8400-e29b-41d4-a716-446655440000''),
       (''totalSpentMinorUnits'', JNumber 50000),
       (''expenseCount'', JNumber 12),
       (''settlementCount'', JNumber 3),
       (''memberCount'', JNumber 5),
       (''currencyCode'', JString ''PKR''),
       (''computedAt'', JString ''2026-01-18T08:00:00.000Z'')]"

definition doc_getGroupSummary :: OperationObject where
  "doc_getGroupSummary =
     \<lparr>op_tags = [SUMMARY_TAG],
      op_operationId = ''getGroupSummary'',
      op_parameters = [groupIdPathParameter],
      op_requestBody = None,
      op_responses = [
       (200,
         jsonResponse
           summaryData
           (Some
             (JObject [
               (''success'', JBool True),
               (''data'', JObject [(''summary'', summaryExample)])]))),
       (401, componentResponse ''Unauthorized''),
       (403, componentResponse ''Forbidden''),
       (404, componentResponse ''NotFound'')],
      op_security = None\<rparr>"

definition doc_recomputeGroupSummary :: OperationObject where
  "doc_recomputeGroupSummary =
     \<lparr>op_tags = [SUMMARY_TAG],
      op_operationId = ''recomputeGroupSummary'',
      op_parameters = [groupIdPathParameter],
      op_requestBody = None,
      op_responses = [
       (202,
         jsonResponse
           (successEnvelope
             (Obj [Type TObject, Properties [(''job'', ref ''QueuedJob'')], Required [''job'']]))
           (Some
             (JObject [
               (''success'', JBool True),
               (''data'',
                 JObject [
                   (''job'',
                     JObject [
                       (''jobId'', JString ''c9b1deb4-3b7d-4bad-9bdd-2b0d7b3dcb6d''),
                       (''type'', JString ''GROUP_SUMMARY_RECOMPUTE''),
                       (''status'', JString ''queued'')])])]))),
       (401, componentResponse ''Unauthorized''),
       (403, componentResponse ''Forbidden''),
       (404, componentResponse ''NotFound''),
       (500, componentResponse ''InternalServerError'')],
      op_security = None\<rparr>"

definition summaryPaths :: "(string \<times> PathItemObject) list" where
  "summaryPaths =
     [
       (''/api/v1/groups/{id}/summary'', [(GET, doc_getGroupSummary)]),
       (''/api/v1/groups/{id}/summary/recompute'', [(POST, doc_recomputeGroupSummary)])]"

end
