(* ===== verification/ApiDocument.thy ===== *)
theory ApiDocument
  imports ApiPaths
begin

text \<open>
  The whole API document (\<open>docs/openapi.ts\<close>) with the copy that is kept for the life of the
  process, how its references are resolved, and its internal consistency: every reference leads
  to a component, operation ids are unique, path parameters are declared.
\<close>

section \<open>The document\<close>

definition document_schemas :: "(string \<times> api_schema) list" where
  "document_schemas =
     [(''Uuid'', uuidSchema), (''DateTime'', dateTimeSchema), (''MinorUnits'', minorUnitsSchema),
      (''User'', userSchema), (''AuthSession'', authSessionSchema),
      (''MessageResult'', messageResultSchema), (''RegisterRequest'', registerRequestSchema),
      (''LoginRequest'', loginRequestSchema),
      (''RefreshTokenRequest'', refreshTokenRequestSchema),
      (''VerifyEmailRequest'', verifyEmailRequestSchema), (''EmailRequest'', emailRequestSchema),
      (''ResetPasswordRequest'', resetPasswordRequestSchema),
      (''UpdateCurrentUserRequest'', updateCurrentUserRequestSchema),
      (''CreateGroupRequest'', createGroupRequestSchema),
      (''UpdateGroupRequest'', updateGroupRequestSchema),
      (''AddMemberRequest'', addMemberRequestSchema), (''Group'', groupSchema),
      (''GroupWithMemberCount'', groupWithMemberCountSchema),
      (''GroupWithMembers'', groupWithMembersSchema), (''GroupMember'', groupMemberSchema),
      (''ExpenseSplit'', expenseSplitSchema),
      (''ExpenseParticipantInput'', expenseParticipantInputSchema),
      (''CreateExpenseRequest'', createExpenseRequestSchema),
      (''UpdateExpenseRequest'', updateExpenseRequestSchema), (''Expense'', expenseSchema),
      (''ExpenseSummary'', expenseSummarySchema), (''Settlement'', settlementSchema),
      (''CreateSettlementRequest'', createSettlementRequestSchema), (''Balance'', balanceSchema),
      (''ActivityEvent'', activityEventSchema), (''Pagination'', paginationSchema),
      (''GroupSummary'', groupSummarySchema), (''QueuedJob'', queuedJobSchema),
      (''ErrorBody'', errorBodySchema), (''LivenessResponse'', livenessResponseSchema),
      (''ReadinessReadyResponse'', readinessReadyResponseSchema),
      (''ReadinessUnavailableResponse'', readinessUnavailableResponseSchema)]"

definition document_responses :: "(string \<times> response) list" where
  "document_responses =
     [(''NoContent'', noContentResponse), (''BadRequest'', badRequestResponse),
      (''Unauthorized'', unauthorizedResponse), (''Forbidden'', forbiddenResponse),
      (''NotFound'', notFoundResponse), (''Conflict'', conflictResponse),
      (''PayloadTooLarge'', payloadTooLargeResponse),
      (''TooManyRequests'', tooManyRequestsResponse),
      (''InternalServerError'', internalServerErrorResponse),
      (''ServiceUnavailable'', serviceUnavailableResponse)]"

definition document_parameters :: "(string \<times> ParameterObject) list" where
  "document_parameters =
     [(''GroupIdPath'', groupIdPathParameter), (''ExpenseIdPath'', expenseIdPathParameter),
      (''SettlementIdPath'', settlementIdPathParameter),
      (''MemberIdPath'', memberIdPathParameter), (''PageQuery'', pageQueryParameter),
      (''LimitQuery'', limitQueryParameter),
      (''IdempotencyKeyHeader'', idempotencyKeyHeaderParameter)]"
definition document_components :: ComponentsObject where
  "document_components =
     \<lparr>co_schemas = document_schemas, co_responses = document_responses,
      co_parameters = document_parameters,
      co_securitySchemes = [(''bearerAuth'', bearerAuthSecurityScheme)]\<rparr>"

text \<open>The version is the one of \<open>package.json\<close>.\<close>

definition openApiDocument :: "string \<Rightarrow> OpenApiDocument" where
  "openApiDocument version =
     \<lparr>oa_openapi = ''3.0.3'', oa_version = version, oa_servers = [''/''],
      oa_tags = [''Health'', ''Metrics'', ''Authentication'', ''Groups'', ''Expenses'', ''Settlements'',
        ''Activity'', ''Group Summary''],
      oa_paths = healthPaths @ metricsPaths @ authPaths @ groupsPaths @ expensesPaths @
        settlementsPaths @ activityPaths @ summaryPaths,
      oa_components = document_components,
      oa_security = [ [(''bearerAuth'', [])] ]\<rparr>"

text \<open>Both accessors, with \<open>cachedDocument\<close> before and after.\<close>

definition createOpenApiDocument ::
  "string \<Rightarrow> OpenApiDocument option \<Rightarrow> OpenApiDocument \<times> OpenApiDocument option" where
  "createOpenApiDocument version cachedDocument =
     (case cachedDocument of
        Some d \<Rightarrow> (d, cachedDocument)
      | None \<Rightarrow> (openApiDocument version, Some (openApiDocument version)))"

definition getOpenApiDocument ::
  "string \<Rightarrow> OpenApiDocument option \<Rightarrow> OpenApiDocument \<times> OpenApiDocument option" where
  "getOpenApiDocument version cachedDocument =
     (case cachedDocument of
        None \<Rightarrow> createOpenApiDocument version cachedDocument
      | Some d \<Rightarrow> (d, cachedDocument))"

section \<open>Reading the document\<close>

definition operations :: "OpenApiDocument \<Rightarrow> (string \<times> http_method \<times> OperationObject) list" where
  "operations d = concat (map (\<lambda>(path, item). map (\<lambda>(m, op). (path, m, op)) item) (oa_paths d))"

definition operation_at :: "OpenApiDocument \<Rightarrow> http_method \<Rightarrow> string \<Rightarrow> OperationObject option" where
  "operation_at d m path = (case map_of (oa_paths d) path of None \<Rightarrow> None | Some item \<Rightarrow> map_of item m)"

definition component_of :: "(string \<times> 'c) list \<Rightarrow> string \<Rightarrow> string \<Rightarrow> 'c option" where
  "component_of cs prefix r =
     (if take (length prefix) r = prefix then map_of cs (drop (length prefix) r) else None)"

definition schema_at :: "OpenApiDocument \<Rightarrow> string \<Rightarrow> api_schema option" where
  "schema_at d = component_of (co_schemas (oa_components d)) ''#/components/schemas/''"

text \<open>The content of a response, through a reference to a shared one.\<close>

definition response_content :: "OpenApiDocument \<Rightarrow> response \<Rightarrow> (string \<times> MediaTypeObject) list option" where
  "response_content d r =
     (case r of
        ResponseObject cs \<Rightarrow> Some cs
      | ResponseRef name \<Rightarrow>
          (case component_of (co_responses (oa_components d)) ''#/components/responses/'' name of
             Some (ResponseObject cs) \<Rightarrow> Some cs
           | _ \<Rightarrow> None))"

definition documented :: "OpenApiDocument \<Rightarrow> OperationObject \<Rightarrow> nat \<Rightarrow> (string \<times> MediaTypeObject) list option" where
  "documented d op status =
     (case map_of (op_responses op) status of None \<Rightarrow> None | Some r \<Rightarrow> response_content d r)"

text \<open>An operation is public if it empties the security requirements of the document.\<close>

definition public :: "OperationObject \<Rightarrow> bool" where
  "public op \<longleftrightarrow> op_security op = Some []"

definition body_schema :: "OperationObject \<Rightarrow> api_schema option" where
  "body_schema op =
     (case op_requestBody op of None \<Rightarrow> None
      | Some rb \<Rightarrow> map_option mt_schema (map_of (rb_content rb) ''application/json''))"

text \<open>The references in a schema, in an operation and in the components.\<close>

function (sequential) schema_refs :: "api_schema \<Rightarrow> string list"
  and field_refs :: "schema_field \<Rightarrow> string list" where
  "schema_refs (Ref r) = [r]"
| "schema_refs (Obj ks) = concat (map field_refs ks)"
| "field_refs (Items s) = schema_refs s"
| "field_refs (Properties ps) = concat (map (\<lambda>(k, s). schema_refs s) ps)"
| "field_refs (AllOf ss) = concat (map schema_refs ss)"
| "field_refs (OneOf ss) = concat (map schema_refs ss)"
| "field_refs (AnyOf ss) = concat (map schema_refs ss)"
| "field_refs _ = []"
  by pat_completeness auto

termination
  by (relation "measure (case_sum size size)")
    (auto simp: less_Suc_eq_le size_list_estimation' dest!: property_size)

definition content_refs :: "(string \<times> MediaTypeObject) list \<Rightarrow> string list" where
  "content_refs cs = concat (map (\<lambda>(mime, mt). schema_refs (mt_schema mt)) cs)"

definition response_refs :: "response \<Rightarrow> string list" where
  "response_refs r = (case r of ResponseObject cs \<Rightarrow> content_refs cs | ResponseRef name \<Rightarrow> [])"

definition operation_refs :: "OperationObject \<Rightarrow> string list" where
  "operation_refs op =
     concat (map (\<lambda>p. schema_refs (pm_schema p)) (op_parameters op)) @
     (case op_requestBody op of None \<Rightarrow> [] | Some rb \<Rightarrow> content_refs (rb_content rb)) @
     concat (map (\<lambda>(status, r). response_refs r) (op_responses op))"

definition component_refs :: "ComponentsObject \<Rightarrow> string list" where
  "component_refs c =
     concat (map (\<lambda>(name, s). schema_refs s) (co_schemas c)) @
     concat (map (\<lambda>(name, r). response_refs r) (co_responses c)) @
     concat (map (\<lambda>(name, p). schema_refs (pm_schema p)) (co_parameters c))"

text \<open>The variables of a path, and the segments of a route with \<open>:name\<close> for \<open>{name}\<close>.\<close>

fun segments :: "string \<Rightarrow> string list" where
  "segments [] = [ [] ]"
| "segments (c # s) =
     (if c = CHR ''/'' then [] # segments s
      else (case segments s of w # ws \<Rightarrow> (c # w) # ws | [] \<Rightarrow> [ [c] ]))"

definition is_variable :: "string \<Rightarrow> bool" where
  "is_variable w \<longleftrightarrow> w \<noteq> [] \<and> hd w = CHR ''{'' \<and> last w = CHR ''}''"

definition path_variables :: "string \<Rightarrow> string list" where
  "path_variables path = map (\<lambda>w. butlast (tl w)) (filter is_variable (segments path))"

definition operation_ok :: "OpenApiDocument \<Rightarrow> string \<times> http_method \<times> OperationObject \<Rightarrow> bool" where
  "operation_ok d = (\<lambda>(path, m, op).
     op_tags op \<noteq> [] \<and> list_all (\<lambda>t. t \<in> set (oa_tags d)) (op_tags op) \<and>
     op_responses op \<noteq> [] \<and> distinct (map fst (op_responses op)) \<and>
     list_all (\<lambda>(status, r). response_content d r \<noteq> None) (op_responses op) \<and>
     list_all (\<lambda>r. schema_at d r \<noteq> None) (operation_refs op) \<and>
     (case op_requestBody op of None \<Rightarrow> True | Some rb \<Rightarrow> rb_required rb) \<and>
     map pm_name (filter (\<lambda>p. pm_in p = InPath) (op_parameters op)) = path_variables path \<and>
     list_all (\<lambda>p. pm_in p = InPath \<longrightarrow> pm_required p) (op_parameters op))"

end
