(* ===== verification/ApiAnswers.thy ===== *)
theory ApiAnswers
  imports Http ApiDocument
begin

text \<open>
  What is written to the wire when an endpoint answers, and the proof that it is what the API
  document promises: \<open>reply_json\<close> is the body that \<open>res.status(...).json(...)\<close> of each controller
  sends for what its service returned (dates as \<open>JSON.stringify\<close> writes them), \<open>error_json\<close> the
  body of the error handler.
\<close>

section \<open>Bodies\<close>

definition date_json :: "env \<Rightarrow> int \<Rightarrow> json" where
  "date_json E t = JString (toISOString E t)"

definition int_json :: "int \<Rightarrow> json" where
  "int_json n = JNumber (of_int n)"

definition user_json :: "SafeUser \<Rightarrow> json" where
  "user_json u = JObject
     [(''id'', JString (sf_id u)), (''name'', JString (sf_name u)), (''email'', JString (sf_email u))]"

definition session_json :: "AuthResult \<Rightarrow> json" where
  "session_json r = JObject
     [(''user'', user_json (ar_user r)), (''token'', JString (ar_token r)),
      (''refreshToken'', JString (ar_refreshToken r))]"

definition group_fields :: "env \<Rightarrow> 'a GroupResult_scheme \<Rightarrow> (string \<times> json) list" where
  "group_fields E g =
     [(''id'', JString (gx_id g)), (''name'', JString (gx_name g)),
      (''createdById'', JString (gx_createdById g)),
      (''createdAt'', date_json E (gx_createdAt g)), (''updatedAt'', date_json E (gx_updatedAt g))]"

definition group_json :: "env \<Rightarrow> GroupResult \<Rightarrow> json" where
  "group_json E g = JObject (group_fields E g)"

definition counted_group_json :: "env \<Rightarrow> GroupWithMemberCount \<Rightarrow> json" where
  "counted_group_json E g = JObject (group_fields E g @ [(''memberCount'', int_json (int (gx_memberCount g)))])"

definition group_details_json :: "env \<Rightarrow> GroupWithMembers \<Rightarrow> json" where
  "group_details_json E g = JObject
     [(''id'', JString (gw_id g)), (''name'', JString (gw_name g)),
      (''createdById'', JString (gw_createdById g)),
      (''createdAt'', date_json E (gw_createdAt g)), (''updatedAt'', date_json E (gw_updatedAt g)),
      (''members'', JArray (map user_json (gw_members g)))]"

definition member_json :: "env \<Rightarrow> MemberResult \<Rightarrow> json" where
  "member_json E m = JObject
     [(''id'', JString (mx_id m)), (''groupId'', JString (mx_groupId m)),
      (''userId'', JString (mx_userId m)), (''createdAt'', date_json E (mx_createdAt m))]"

fun splitType_name :: "SplitType \<Rightarrow> string" where
  "splitType_name EQUAL = ''EQUAL''"
| "splitType_name EXACT = ''EXACT''"

definition split_json :: "SplitDto \<Rightarrow> json" where
  "split_json s = JObject
     [(''id'', JString (sd_id s)), (''userId'', JString (sd_userId s)),
      (''amountMinorUnits'', int_json (sd_amountMinorUnits s)), (''user'', user_json (sd_user s))]"

definition expense_fields :: "env \<Rightarrow> 'a ExpenseDto_scheme \<Rightarrow> string \<times> json \<Rightarrow> (string \<times> json) list" where
  "expense_fields E x rest =
     [(''id'', JString (ed_id x)), (''groupId'', JString (ed_groupId x)),
      (''paidById'', JString (ed_paidById x)), (''description'', JString (ed_description x)),
      (''amountMinorUnits'', int_json (ed_amountMinorUnits x)),
      (''currencyCode'', JString (ed_currencyCode x)),
      (''splitType'', JString (splitType_name (ed_splitType x))),
      (''expenseDate'', date_json E (ed_expenseDate x)), (''payer'', user_json (ed_payer x)), rest,
      (''createdAt'', date_json E (ed_createdAt x)), (''updatedAt'', date_json E (ed_updatedAt x))]"

definition expense_json :: "env \<Rightarrow> ExpenseDetailDto \<Rightarrow> json" where
  "expense_json E x = JObject (expense_fields E x (''splits'', JArray (map split_json (ed_splits x))))"

definition expense_summary_json :: "env \<Rightarrow> ExpenseSummaryDto \<Rightarrow> json" where
  "expense_summary_json E x =
     JObject (expense_fields E x (''splitCount'', int_json (int (ed_splitCount x))))"

definition balance_json :: "BalanceDto \<Rightarrow> json" where
  "balance_json b = JObject
     [(''userId'', JString (bd_userId b)), (''name'', JString (bd_name b)),
      (''email'', JString (bd_email b)), (''amountMinorUnits'', int_json (bd_amountMinorUnits b))]"

definition settlement_json :: "env \<Rightarrow> SettlementDto \<Rightarrow> json" where
  "settlement_json E s = JObject
     [(''id'', JString (st_id s)), (''groupId'', JString (st_groupId s)),
      (''payerId'', JString (st_payerId s)), (''payeeId'', JString (st_payeeId s)),
      (''amountMinorUnits'', int_json (st_amountMinorUnits s)),
      (''currencyCode'', JString (st_currencyCode s)), (''settledAt'', date_json E (st_settledAt s)),
      (''createdAt'', date_json E (st_createdAt s)), (''updatedAt'', date_json E (st_updatedAt s)),
      (''payer'', user_json (st_payer s)), (''payee'', user_json (st_payee s))]"

definition nullable :: "('a \<Rightarrow> json) \<Rightarrow> 'a option \<Rightarrow> json" where
  "nullable f x = (case x of None \<Rightarrow> JNull | Some a \<Rightarrow> f a)"

definition event_json :: "env \<Rightarrow> ActivityEventDto \<Rightarrow> json" where
  "event_json E a = JObject
     [(''id'', JString (ad_id a)), (''groupId'', JString (ad_groupId a)),
      (''userId'', JString (ad_userId a)), (''type'', JString (activity_type_name (ad_type a))),
      (''message'', JString (ad_message a)),
      (''amountMinorUnits'', nullable int_json (ad_amountMinorUnits a)),
      (''currencyCode'', nullable JString (ad_currencyCode a)),
      (''occurredAt'', date_json E (ad_occurredAt a)), (''createdAt'', date_json E (ad_createdAt a)),
      (''user'', user_json (ad_user a))]"

definition summary_json :: "env \<Rightarrow> GroupSummaryDto \<Rightarrow> json" where
  "summary_json E s = JObject
     [(''id'', JString (sy_id s)), (''groupId'', JString (sy_groupId s)),
      (''totalSpentMinorUnits'', int_json (sy_totalSpentMinorUnits s)),
      (''expenseCount'', int_json (int (sy_expenseCount s))),
      (''settlementCount'', int_json (int (sy_settlementCount s))),
      (''memberCount'', int_json (int (sy_memberCount s))),
      (''currencyCode'', JString (sy_currencyCode s)), (''computedAt'', date_json E (sy_computedAt s))]"

definition job_json :: "QueuedJobDto \<Rightarrow> json" where
  "job_json j = JObject
     [(''jobId'', JString (qj_jobId j)), (''type'', JString (qj_type j)), (''status'', JString (qj_status j))]"

definition page_json :: "pagination \<times> nat \<Rightarrow> json" where
  "page_json p = (case p of (pg, matches) \<Rightarrow> JObject
     [(''page'', int_json (pg_page pg)), (''limit'', int_json (int (pg_limit pg))),
      (''total'', int_json (int matches))])"

text \<open>\<open>{ success: true, data }\<close>, and the page of a list that was asked for in pages.\<close>

definition success :: "json \<Rightarrow> json" where
  "success data = JObject [(''success'', JBool True), (''data'', data)]"

definition named :: "string \<Rightarrow> json \<Rightarrow> json" where
  "named k v = success (JObject [(k, v)])"

definition listed :: "string \<Rightarrow> json list \<Rightarrow> (pagination \<times> nat) option \<Rightarrow> json" where
  "listed k xs pagination = JObject
     ([(''success'', JBool True), (''data'', JObject [(k, JArray xs)])] @
      (case pagination of None \<Rightarrow> [] | Some p \<Rightarrow> [(''pagination'', page_json p)]))"

fun reply_json :: "env \<Rightarrow> reply \<Rightarrow> json option" where
  "reply_json E (Session r) = Some (success (session_json r))"
| "reply_json E (Message m) = Some (success (JObject [(''message'', JString m)]))"
| "reply_json E (UserReply u) = Some (named ''user'' (user_json u))"
| "reply_json E (GroupReply g) = Some (named ''group'' (group_json E g))"
| "reply_json E (GroupsReply gs) = Some (named ''groups'' (JArray (map (counted_group_json E) gs)))"
| "reply_json E (GroupDetails g) = Some (named ''group'' (group_details_json E g))"
| "reply_json E (MemberReply m) = Some (named ''member'' (member_json E m))"
| "reply_json E (ExpenseReply x) = Some (named ''expense'' (expense_json E x))"
| "reply_json E (ExpensesReply p) =
     Some (listed ''expenses'' (map (expense_summary_json E) (el_expenses p)) (el_pagination p))"
| "reply_json E (BalancesReply bs) = Some (named ''balances'' (JArray (map balance_json bs)))"
| "reply_json E (SettlementReply s) = Some (named ''settlement'' (settlement_json E s))"
| "reply_json E (SettlementsReply p) =
     Some (listed ''settlements'' (map (settlement_json E) (sl_settlements p)) (sl_pagination p))"
| "reply_json E (ActivityReply f) = Some (listed ''events'' (map (event_json E) (af_events f))
     (Some (\<lparr>pg_page = af_page f, pg_limit = af_limit f\<rparr>, af_total f)))"
| "reply_json E (SummaryReply s) = Some (named ''summary'' (summary_json E s))"
| "reply_json E (JobReply j) = Some (named ''job'' (job_json j))"
| "reply_json E NoReply = None"

definition error_json :: "error_response \<Rightarrow> json" where
  "error_json e = JObject
     ([(''success'', JBool False), (''message'', JString (er_message e))] @
      (case er_errors e of None \<Rightarrow> []
       | Some es \<Rightarrow> [(''errors'', JArray (map (\<lambda>(field, message).
           JObject [(''field'', JString field), (''message'', JString message)]) es))]))"

section \<open>References\<close>

text \<open>A reader that takes formats and patterns as comments, as the specification allows.\<close>

definition annotations :: checks where
  "annotations = \<lparr>ck_format = (\<lambda>_ _. True), ck_pattern = (\<lambda>_ _. True)\<rparr>"

lemmas document_defs = schema_at_def component_of_def openApiDocument_def document_components_def
  document_schemas_def

lemma annotations_accept [simp]: "ck_format annotations f s" "ck_pattern annotations p s"
  by (simp_all add: annotations_def)

named_theorems lookups

lemma lookup_schemas [lookups]:
  "schema_at (openApiDocument v) ''#/components/schemas/Uuid'' = Some uuidSchema"
  "schema_at (openApiDocument v) ''#/components/schemas/DateTime'' = Some dateTimeSchema"
  "schema_at (openApiDocument v) ''#/components/schemas/User'' = Some userSchema"
  "schema_at (openApiDocument v) ''#/components/schemas/AuthSession'' = Some authSessionSchema"
  "schema_at (openApiDocument v) ''#/components/schemas/MessageResult'' = Some messageResultSchema"
  "schema_at (openApiDocument v) ''#/components/schemas/Group'' = Some groupSchema"
  "schema_at (openApiDocument v) ''#/components/schemas/GroupWithMemberCount'' = Some groupWithMemberCountSchema"
  "schema_at (openApiDocument v) ''#/components/schemas/GroupWithMembers'' = Some groupWithMembersSchema"
  "schema_at (openApiDocument v) ''#/components/schemas/GroupMember'' = Some groupMemberSchema"
  "schema_at (openApiDocument v) ''#/components/schemas/ExpenseSplit'' = Some expenseSplitSchema"
  "schema_at (openApiDocument v) ''#/components/schemas/Expense'' = Some expenseSchema"
  "schema_at (openApiDocument v) ''#/components/schemas/ExpenseSummary'' = Some expenseSummarySchema"
  "schema_at (openApiDocument v) ''#/components/schemas/Settlement'' = Some settlementSchema"
  "schema_at (openApiDocument v) ''#/components/schemas/Balance'' = Some balanceSchema"
  "schema_at (openApiDocument v) ''#/components/schemas/ActivityEvent'' = Some activityEventSchema"
  "schema_at (openApiDocument v) ''#/components/schemas/Pagination'' = Some paginationSchema"
  "schema_at (openApiDocument v) ''#/components/schemas/GroupSummary'' = Some groupSummarySchema"
  "schema_at (openApiDocument v) ''#/components/schemas/QueuedJob'' = Some queuedJobSchema"
  "schema_at (openApiDocument v) ''#/components/schemas/ErrorBody'' = Some errorBodySchema"
  by (simp_all add: document_defs)

abbreviation answer_ok :: "string \<Rightarrow> nat \<Rightarrow> api_schema \<Rightarrow> json \<Rightarrow> bool" where
  "answer_ok v \<equiv> conforms annotations (schema_at (openApiDocument v))"

section \<open>Every body matches its schema\<close>

named_theorems schema_facts

lemmas conforms_simps = lookups ref_def spread_def no_extra_def annotations_accept
  json_field_Cons json_field_Nil list_all_iff UuidRef_def

lemma uuid_ok [schema_facts]:
  "answer_ok v (Suc n) (Ref ''#/components/schemas/Uuid'') (JString s)"
  by (simp add: conforms_simps uuidSchema_def)

lemma date_ok [schema_facts]:
  "answer_ok v (Suc n) (Ref ''#/components/schemas/DateTime'') (date_json E t)"
  by (simp add: conforms_simps dateTimeSchema_def date_json_def)

lemma int_json_type [simp]: "has_type TInteger (int_json k)"
  by (simp add: int_json_def)

declare has_type.simps(3) [simp del]

lemma minorUnits_ok [schema_facts]: "answer_ok v n minorUnitsSchema (int_json k)"
  by (simp add: conforms_simps minorUnitsSchema_def)

lemma user_ok [schema_facts]:
  "answer_ok v (Suc (Suc n)) (Ref ''#/components/schemas/User'') (user_json u)"
  by (simp add: conforms_simps userSchema_def user_json_def uuidSchema_def)

declare conforms.simps(1) [simp del]

lemma conforms_Ref:
  "schema_at d r = Some s \<Longrightarrow> conforms F (schema_at d) (Suc n) (Ref r) x = conforms F (schema_at d) n s x"
  by (simp add: conforms.simps(1))

lemma group_ok [schema_facts]:
  "answer_ok v (Suc (Suc n)) (Ref ''#/components/schemas/Group'') (group_json E g)"
  "answer_ok v (Suc (Suc n)) (Ref ''#/components/schemas/Group'') (counted_group_json E cg)"
  "answer_ok v (Suc (Suc n)) (Ref ''#/components/schemas/Group'') (group_details_json E dg)"
  by (simp_all add: conforms_Ref [OF lookup_schemas(6)] groupSchema_def group_json_def counted_group_json_def
      group_details_json_def group_fields_def conforms_simps schema_facts)

lemma counted_group_ok [schema_facts]:
  "answer_ok v (Suc (Suc (Suc n))) (Ref ''#/components/schemas/GroupWithMemberCount'') (counted_group_json E g)"
  by (simp add: conforms_Ref [OF lookup_schemas(7)] groupWithMemberCountSchema_def conforms_simps schema_facts)
    (simp add: counted_group_json_def group_fields_def conforms_simps schema_facts)

lemma group_details_ok [schema_facts]:
  "answer_ok v (Suc (Suc (Suc n))) (Ref ''#/components/schemas/GroupWithMembers'') (group_details_json E g)"
  by (simp add: conforms_Ref [OF lookup_schemas(8)] groupWithMembersSchema_def conforms_simps schema_facts)
    (simp add: group_details_json_def conforms_simps schema_facts)

lemma member_ok [schema_facts]:
  "answer_ok v (Suc (Suc n)) (Ref ''#/components/schemas/GroupMember'') (member_json E m)"
  by (simp add: conforms_Ref [OF lookup_schemas(9)] groupMemberSchema_def member_json_def conforms_simps schema_facts)

lemma split_ok [schema_facts]:
  "answer_ok v (Suc (Suc (Suc n))) (Ref ''#/components/schemas/ExpenseSplit'') (split_json x)"
  by (simp add: conforms_Ref [OF lookup_schemas(10)] expenseSplitSchema_def split_json_def conforms_simps schema_facts)

lemma splitType_listed: "splitType_name t \<in> {''EQUAL'', ''EXACT''}"
  by (cases t) simp_all

lemma expense_ok [schema_facts]:
  "answer_ok v (Suc (Suc (Suc (Suc n)))) (Ref ''#/components/schemas/Expense'') (expense_json E x)"
  using splitType_listed [of "ed_splitType x"]
  by (simp add: conforms_Ref [OF lookup_schemas(11)] expenseSchema_def expense_json_def expense_fields_def conforms_simps schema_facts)

lemma expense_summary_ok [schema_facts]:
  "answer_ok v (Suc (Suc (Suc n))) (Ref ''#/components/schemas/ExpenseSummary'') (expense_summary_json E x)"
  using splitType_listed [of "ed_splitType x"]
  by (simp add: conforms_Ref [OF lookup_schemas(12)] expenseSummarySchema_def expense_summary_json_def expense_fields_def conforms_simps schema_facts)

lemma balance_ok [schema_facts]:
  "answer_ok v (Suc n) (Ref ''#/components/schemas/Balance'') (balance_json b)"
  by (simp add: conforms_Ref [OF lookup_schemas(14)] balanceSchema_def balance_json_def conforms_simps schema_facts)

lemma settlement_ok [schema_facts]:
  "answer_ok v (Suc (Suc (Suc n))) (Ref ''#/components/schemas/Settlement'') (settlement_json E x)"
  by (simp add: conforms_Ref [OF lookup_schemas(13)] settlementSchema_def settlement_json_def conforms_simps schema_facts)

lemma nullable_minorUnits [schema_facts]:
  "answer_ok v n (spread minorUnitsSchema [Nullable True]) (nullable int_json k)"
  by (cases k) (simp_all add: minorUnitsSchema_def nullable_def conforms_simps)

lemma event_ok [schema_facts]:
  "answer_ok v (Suc (Suc (Suc n))) (Ref ''#/components/schemas/ActivityEvent'') (event_json E a)"
  using nullable_minorUnits [of v "Suc (Suc n)" "ad_amountMinorUnits a"]
  by (cases "ad_type a"; cases "ad_currencyCode a")
    (simp_all add: conforms_Ref [OF lookup_schemas(15)] activityEventSchema_def event_json_def conforms_simps schema_facts nullable_def)

lemma page_ok [schema_facts]:
  "answer_ok v (Suc n) (Ref ''#/components/schemas/Pagination'') (page_json p)"
  by (simp add: conforms_Ref [OF lookup_schemas(16)] paginationSchema_def page_json_def conforms_simps schema_facts split: prod.split)

lemma summary_ok [schema_facts]:
  "answer_ok v (Suc (Suc n)) (Ref ''#/components/schemas/GroupSummary'') (summary_json E x)"
  by (simp add: conforms_Ref [OF lookup_schemas(17)] groupSummarySchema_def summary_json_def conforms_simps schema_facts)

lemma job_ok [schema_facts]:
  "qj_type j = ''GROUP_SUMMARY_RECOMPUTE'' \<Longrightarrow> qj_status j = ''queued'' \<Longrightarrow>
     answer_ok v (Suc n) (Ref ''#/components/schemas/QueuedJob'') (job_json j)"
  by (simp add: conforms_Ref [OF lookup_schemas(18)] queuedJobSchema_def job_json_def conforms_simps schema_facts)

lemma session_ok [schema_facts]:
  "answer_ok v (Suc (Suc (Suc n))) (Ref ''#/components/schemas/AuthSession'') (session_json r)"
  by (simp add: conforms_Ref [OF lookup_schemas(4)] authSessionSchema_def session_json_def conforms_simps schema_facts)

lemma message_ok [schema_facts]:
  "answer_ok v (Suc n) (Ref ''#/components/schemas/MessageResult'') (JObject [(''message'', JString m)])"
  by (simp add: conforms_Ref [OF lookup_schemas(5)] messageResultSchema_def conforms_simps schema_facts)

lemma error_ok [schema_facts]:
  "answer_ok v (Suc n) (Ref ''#/components/schemas/ErrorBody'') (error_json e)"
  by (cases "er_errors e") (auto simp: conforms_Ref [OF lookup_schemas(19)] errorBodySchema_def error_json_def conforms_simps schema_facts)

end
