(* ===== verification/ApiRoutes.thy ===== *)
theory ApiRoutes
  imports ApiAnswers
begin

text \<open>
  Where the routers hang: the method and the path of every endpoint as \<open>app.ts\<close>,
  \<open>routes/v1/index.ts\<close> and the \<open>routes.ts\<close> files mount them, and the operation that the API
  document has for it. A path of Express names its variables \<open>:id\<close>, a path of the document
  \<open>{id}\<close>; a route \<open>"/"\<close> of a mounted router is reached at the mount path itself.
\<close>

section \<open>The mounted routes\<close>

fun auth_paths :: "endpoint \<Rightarrow> (http_method \<times> string) option" where
  "auth_paths POST_register = Some (POST, ''/register'')"
| "auth_paths POST_login = Some (POST, ''/login'')"
| "auth_paths POST_refresh = Some (POST, ''/refresh'')"
| "auth_paths POST_logout = Some (POST, ''/logout'')"
| "auth_paths POST_verify_email = Some (POST, ''/verify-email'')"
| "auth_paths POST_resend_verification = Some (POST, ''/resend-verification'')"
| "auth_paths POST_forgot_password = Some (POST, ''/forgot-password'')"
| "auth_paths POST_reset_password = Some (POST, ''/reset-password'')"
| "auth_paths GET_me = Some (GET, ''/me'')"
| "auth_paths PATCH_me = Some (PATCH, ''/me'')"
| "auth_paths _ = None"

fun group_paths :: "endpoint \<Rightarrow> (http_method \<times> string) option" where
  "group_paths POST_groups = Some (POST, ''/'')"
| "group_paths GET_groups = Some (GET, ''/'')"
| "group_paths GET_group = Some (GET, ''/:id'')"
| "group_paths PUT_group = Some (PUT, ''/:id'')"
| "group_paths DELETE_group = Some (DELETE, ''/:id'')"
| "group_paths POST_member = Some (POST, ''/:id/members'')"
| "group_paths DELETE_member = Some (DELETE, ''/:id/members/:memberId'')"
| "group_paths POST_expense = Some (POST, ''/:id/expenses'')"
| "group_paths GET_group_expenses = Some (GET, ''/:id/expenses'')"
| "group_paths GET_balances = Some (GET, ''/:id/balances'')"
| "group_paths POST_settlement = Some (POST, ''/:id/settlements'')"
| "group_paths GET_group_settlements = Some (GET, ''/:id/settlements'')"
| "group_paths GET_activity = Some (GET, ''/:id/activity'')"
| "group_paths _ = None"

fun summary_paths :: "endpoint \<Rightarrow> (http_method \<times> string) option" where
  "summary_paths GET_summary = Some (GET, ''/'')"
| "summary_paths POST_recompute = Some (POST, ''/recompute'')"
| "summary_paths _ = None"

fun expense_paths :: "endpoint \<Rightarrow> (http_method \<times> string) option" where
  "expense_paths GET_expense = Some (GET, ''/:id'')"
| "expense_paths PATCH_expense = Some (PATCH, ''/:id'')"
| "expense_paths DELETE_expense = Some (DELETE, ''/:id'')"
| "expense_paths _ = None"

fun settlement_paths :: "endpoint \<Rightarrow> (http_method \<times> string) option" where
  "settlement_paths GET_settlement = Some (GET, ''/:id'')"
| "settlement_paths _ = None"

definition mount :: "string \<Rightarrow> (http_method \<times> string) option \<Rightarrow> (http_method \<times> string) option" where
  "mount prefix route =
     map_option (\<lambda>(m, path). (m, if path = ''/'' then prefix else prefix @ path)) route"

fun first_route :: "'a option list \<Rightarrow> 'a option" where
  "first_route [] = None"
| "first_route (r # rs) = (case r of None \<Rightarrow> first_route rs | Some x \<Rightarrow> Some x)"

definition v1_routes :: "endpoint \<Rightarrow> (http_method \<times> string) option" where
  "v1_routes ep = first_route
     [mount ''/auth'' (auth_paths ep),
      mount ''/groups'' (first_route [group_paths ep, mount ''/:id/summary'' (summary_paths ep)]),
      mount ''/expenses'' (expense_paths ep),
      mount ''/settlements'' (settlement_paths ep)]"

definition app_route :: "endpoint \<Rightarrow> (http_method \<times> string) option" where
  "app_route ep = mount ''/api/v1'' (v1_routes ep)"

section \<open>The documented operation of an endpoint\<close>

fun with_slashes :: "string list \<Rightarrow> string" where
  "with_slashes [] = []"
| "with_slashes [w] = w"
| "with_slashes (w # ws) = w @ ''/'' @ with_slashes ws"

definition braces :: "string \<Rightarrow> string" where
  "braces w = (case w of c # name \<Rightarrow> if c = CHR '':'' then ''{'' @ name @ ''}'' else w | [] \<Rightarrow> [])"

definition templated :: "string \<Rightarrow> string" where
  "templated path = with_slashes (map braces (segments path))"

definition doc_operation :: "OpenApiDocument \<Rightarrow> endpoint \<Rightarrow> OperationObject option" where
  "doc_operation d ep =
     (case app_route ep of None \<Rightarrow> None | Some (m, path) \<Rightarrow> operation_at d m (templated path))"

definition all_endpoints :: "endpoint list" where
  "all_endpoints =
     [POST_register, POST_login, POST_refresh, POST_logout, POST_verify_email,
      POST_resend_verification, POST_forgot_password, POST_reset_password, GET_me, PATCH_me,
      POST_groups, GET_groups, GET_group, PUT_group, DELETE_group, POST_member, DELETE_member,
      POST_expense, GET_group_expenses, GET_balances, POST_settlement, GET_group_settlements,
      GET_activity, GET_summary, POST_recompute, GET_expense, PATCH_expense, DELETE_expense,
      GET_settlement]"

lemma all_endpoints: "ep \<in> set all_endpoints"
  by (cases ep) (simp_all add: all_endpoints_def)

text \<open>The table of the document, endpoint by endpoint.\<close>

fun operation_of :: "endpoint \<Rightarrow> OperationObject" where
  "operation_of POST_register = doc_registerUser"
| "operation_of POST_login = doc_loginUser"
| "operation_of POST_refresh = doc_refreshSession"
| "operation_of POST_logout = doc_logoutUser"
| "operation_of POST_verify_email = doc_verifyEmailAddress"
| "operation_of POST_resend_verification = doc_resendVerificationEmail"
| "operation_of POST_forgot_password = doc_requestPasswordReset"
| "operation_of POST_reset_password = doc_resetUserPassword"
| "operation_of GET_me = doc_getCurrentUser"
| "operation_of PATCH_me = doc_updateCurrentUser"
| "operation_of POST_groups = doc_createGroup"
| "operation_of GET_groups = doc_listGroups"
| "operation_of GET_group = doc_getGroup"
| "operation_of PUT_group = doc_updateGroup"
| "operation_of DELETE_group = doc_deleteGroup"
| "operation_of POST_member = doc_addGroupMember"
| "operation_of DELETE_member = doc_removeGroupMember"
| "operation_of POST_expense = doc_createExpense"
| "operation_of GET_group_expenses = doc_listGroupExpenses"
| "operation_of GET_balances = doc_getGroupBalances"
| "operation_of POST_settlement = doc_createSettlement"
| "operation_of GET_group_settlements = doc_listGroupSettlements"
| "operation_of GET_activity = doc_listGroupActivity"
| "operation_of GET_summary = doc_getGroupSummary"
| "operation_of POST_recompute = doc_recomputeGroupSummary"
| "operation_of GET_expense = doc_getExpense"
| "operation_of PATCH_expense = doc_updateExpense"
| "operation_of DELETE_expense = doc_deleteExpense"
| "operation_of GET_settlement = doc_getSettlement"

lemmas route_defs = app_route_def v1_routes_def mount_def templated_def braces_def operation_at_def
  openApiDocument_def healthPaths_def metricsPaths_def authPaths_def groupsPaths_def
  expensesPaths_def settlementsPaths_def activityPaths_def summaryPaths_def

lemma doc_operation: "doc_operation (openApiDocument v) ep = Some (operation_of ep)"
  by (cases ep) (simp_all add: doc_operation_def route_defs)

end
