(* ===== verification/ApiConformance.thy ===== *)
theory ApiConformance
  imports ApiRoutes Requests
begin

text \<open>
  The API document against the routes and the controllers: the security of an operation is that of
  its route, it has a request body exactly if the route validates one, and every answer of a
  controller has the status and the body that its operation promises.
\<close>

section \<open>The routes\<close>

definition validated_body :: "endpoint \<Rightarrow> schema option" where
  "validated_body ep = first_route
     (map (\<lambda>mw. case mw of Validate s \<Rightarrow> vs_body s | _ \<Rightarrow> None) (route_chain ep))"

definition validated_query :: "endpoint \<Rightarrow> schema option" where
  "validated_query ep = first_route
     (map (\<lambda>mw. case mw of Validate s \<Rightarrow> vs_query s | _ \<Rightarrow> None) (route_chain ep))"

definition validated_params :: "endpoint \<Rightarrow> schema option" where
  "validated_params ep = first_route
     (map (\<lambda>mw. case mw of Validate s \<Rightarrow> vs_params s | _ \<Rightarrow> None) (route_chain ep))"

lemmas route_chain_defs = route_chain_def with_body_def with_params_def with_params_body_def
  with_params_query_def

lemmas operation_defs = doc_registerUser_def doc_loginUser_def doc_refreshSession_def
  doc_logoutUser_def doc_verifyEmailAddress_def doc_resendVerificationEmail_def
  doc_requestPasswordReset_def doc_resetUserPassword_def doc_getCurrentUser_def
  doc_updateCurrentUser_def doc_createGroup_def doc_listGroups_def doc_getGroup_def
  doc_updateGroup_def doc_deleteGroup_def doc_addGroupMember_def doc_removeGroupMember_def
  doc_createExpense_def doc_listGroupExpenses_def doc_getGroupBalances_def doc_createSettlement_def
  doc_listGroupSettlements_def doc_listGroupActivity_def doc_getGroupSummary_def
  doc_recomputeGroupSummary_def doc_getExpense_def doc_updateExpense_def doc_deleteExpense_def
  doc_getSettlement_def

lemma documented_security: "public (operation_of ep) \<longleftrightarrow> \<not> authenticated ep"
  by (cases ep) (simp_all add: public_def operation_defs authenticated_def route_chain_defs)

lemma documented_body: "body_schema (operation_of ep) = None \<longleftrightarrow> validated_body ep = None"
  by (cases ep) (simp_all add: body_schema_def operation_defs validated_body_def route_chain_defs)

section \<open>Answers\<close>

text \<open>No reference of the document is nested deeper.\<close>

definition ref_depth :: nat where
  "ref_depth = 5"

definition body_documented :: "OpenApiDocument \<Rightarrow> OperationObject \<Rightarrow> nat \<Rightarrow> json option \<Rightarrow> bool" where
  "body_documented d op status body \<longleftrightarrow>
     (case documented d op status of None \<Rightarrow> False
      | Some cs \<Rightarrow>
          (case body of None \<Rightarrow> cs = []
           | Some b \<Rightarrow>
               (case map_of cs ''application/json'' of None \<Rightarrow> False
                | Some mt \<Rightarrow> conforms annotations (schema_at d) ref_depth (mt_schema mt) b)))"

lemma answer_run:
  "answer s f m w = (Inr (st, r), w') \<Longrightarrow> st = status_number s \<and> (\<exists>x. r = f x \<and> m w = (Inr x, w'))"
  by (auto simp: answer_def act_simps split: sum.splits)

lemma enqueued_receipt:
  "enqueueGroupSummaryRecompute P R E c uid gid rid w = (Inr j, w') \<Longrightarrow>
     qj_type j = ''GROUP_SUMMARY_RECOMPUTE'' \<and> qj_status j = ''queued''"
  by (auto simp: enqueueGroupSummaryRecompute_def enqueueGroupSummaryRecomputeJob_def
      GROUP_SUMMARY_RECOMPUTE_def act_simps split: sum.splits prod.splits if_splits)

lemma ref_depth_unfold: "ref_depth = Suc (Suc (Suc (Suc (Suc 0))))"
  by (simp add: ref_depth_def)

text \<open>The status with which an endpoint answers and the schema of what it sends.\<close>

fun answer_status :: "endpoint \<Rightarrow> nat" where
  "answer_status POST_register = 201"
| "answer_status POST_groups = 201"
| "answer_status POST_member = 201"
| "answer_status POST_expense = 201"
| "answer_status POST_settlement = 201"
| "answer_status POST_recompute = 202"
| "answer_status DELETE_group = 204"
| "answer_status DELETE_member = 204"
| "answer_status DELETE_expense = 204"
| "answer_status _ = 200"

definition one_field :: "string \<Rightarrow> api_schema \<Rightarrow> api_schema" where
  "one_field k s = Obj [Type TObject, Properties [(k, s)], Required [k] ]"

definition paged :: "string \<Rightarrow> api_schema \<Rightarrow> api_schema" where
  "paged k s = successEnvelope (Obj
     [Type TObject,
      Properties [(k, Obj [Type TArray, Items s]), (''pagination'', ref ''Pagination'')],
      Required [k] ])"

fun answer_schema :: "endpoint \<Rightarrow> api_schema" where
  "answer_schema POST_register = successEnvelope (ref ''AuthSession'')"
| "answer_schema POST_login = successEnvelope (ref ''AuthSession'')"
| "answer_schema POST_refresh = successEnvelope (ref ''AuthSession'')"
| "answer_schema GET_me = successEnvelope (one_field ''user'' (ref ''User''))"
| "answer_schema PATCH_me = successEnvelope (one_field ''user'' (ref ''User''))"
| "answer_schema POST_groups = groupData ''Group''"
| "answer_schema PUT_group = groupData ''Group''"
| "answer_schema GET_group = groupData ''GroupWithMembers''"
| "answer_schema GET_groups = successEnvelope
     (one_field ''groups'' (Obj [Type TArray, Items (ref ''GroupWithMemberCount'')]))"
| "answer_schema POST_member = successEnvelope (one_field ''member'' (ref ''GroupMember''))"
| "answer_schema POST_expense = expenseData ''Expense''"
| "answer_schema GET_expense = expenseData ''Expense''"
| "answer_schema PATCH_expense = expenseData ''Expense''"
| "answer_schema GET_group_expenses = paged ''expenses'' (ref ''ExpenseSummary'')"
| "answer_schema GET_balances = successEnvelope
     (one_field ''balances'' (Obj [Type TArray, Items (ref ''Balance'')]))"
| "answer_schema POST_settlement = settlementData ''Settlement''"
| "answer_schema GET_settlement = settlementData ''Settlement''"
| "answer_schema GET_group_settlements = paged ''settlements'' (ref ''Settlement'')"
| "answer_schema GET_activity = Obj
     [Type TObject,
      Properties
        [(''success'', Obj [Type TBoolean, Enum [JBool True] ]),
         (''data'', one_field ''events'' (Obj [Type TArray, Items (ref ''ActivityEvent'')])),
         (''pagination'', ref ''Pagination'')],
      Required [''success'', ''data'', ''pagination''] ]"
| "answer_schema GET_summary = summaryData"
| "answer_schema POST_recompute = successEnvelope (one_field ''job'' (ref ''QueuedJob''))"
| "answer_schema _ = successEnvelope (ref ''MessageResult'')"

lemma documented_answer:
  "answer_status ep \<noteq> 204 \<Longrightarrow>
     \<exists>ex. map_of (op_responses (operation_of ep)) (answer_status ep) = Some (jsonResponse (answer_schema ep) ex)"
  by (cases ep) (simp_all add: operation_defs session_def message_response_def one_field_def paged_def ref_def
      jsonResponse_def jsonContent_def)

lemma documented_no_content:
  "answer_status ep = 204 \<Longrightarrow> documented (openApiDocument v) (operation_of ep) 204 = Some []"
  by (cases ep) (simp_all add: operation_defs documented_def response_content_def componentResponse_def
      reference_def component_of_def openApiDocument_def document_components_def
      document_responses_def noContentResponse_def)

lemma body_documented_json:
  assumes "answer_status ep \<noteq> 204"
    and "conforms annotations (schema_at (openApiDocument v)) ref_depth (answer_schema ep) b"
  shows "body_documented (openApiDocument v) (operation_of ep) (answer_status ep) (Some b)"
  using documented_answer [OF assms(1)] assms(2)
  by (auto simp: body_documented_def documented_def response_content_def jsonResponse_def jsonContent_def)

lemma success_conforms:
  "answer_ok v n (successEnvelope s) (success b) = answer_ok v n s b"
  by (simp add: successEnvelope_def success_def conforms_simps)

lemma one_field_conforms:
  "answer_ok v n (one_field k s) (JObject [(k, b)]) = answer_ok v n s b"
  by (simp add: one_field_def conforms_simps)

lemma named_conforms:
  "answer_ok v n (successEnvelope (one_field k s)) (named k b) = answer_ok v n s b"
  by (simp add: named_def success_conforms one_field_conforms)

lemma paged_conforms:
  assumes "\<And>x. x \<in> set xs \<Longrightarrow> answer_ok v n s x" and "k \<noteq> ''pagination''"
  shows "answer_ok v n (paged k s) (listed k xs p)"
  using assms by (cases p) (simp_all add: paged_def listed_def successEnvelope_def conforms_simps)

lemma array_conforms:
  "answer_ok v n (Obj [Type TArray, Items s]) (JArray xs) = (\<forall>x\<in>set xs. answer_ok v n s x)"
  by (simp add: conforms_simps)

lemmas data_defs = groupData_def [folded one_field_def] expenseData_def [folded one_field_def]
  settlementData_def [folded one_field_def] summaryData_def [folded one_field_def]

lemma reply_conforms:
  assumes "controller D ep rq w = (Inr (st, r), w')"
  shows "st = answer_status ep \<and>
    (if answer_status ep = 204 then reply_json (dp_env D) r = None
     else \<exists>b. reply_json (dp_env D) r = Some b \<and> answer_ok v ref_depth (answer_schema ep) b)"
proof (cases ep)
  case GET_activity
  then show ?thesis using assms
    by (auto dest!: answer_run simp: controller_def activity_controller_def listed_def conforms_simps
        ref_depth_def numeral_eq_Suc schema_facts one_field_conforms array_conforms)
qed (use assms in \<open>auto dest!: answer_run enqueued_receipt simp: controller_def success_conforms named_conforms
    list_all_iff no_extra_def data_defs ref_def schema_facts ref_depth_unfold intro!: paged_conforms\<close>)

lemma controller_answer:
  assumes "controller D ep rq w = (Inr (st, r), w')"
  shows "body_documented (openApiDocument v) (operation_of ep) st (reply_json (dp_env D) r)"
proof (cases "answer_status ep = 204")
  case True
  then show ?thesis using reply_conforms [OF assms] documented_no_content [OF True]
    by (simp add: body_documented_def)
next
  case False
  then show ?thesis using reply_conforms [OF assms, of v] body_documented_json [OF False]
    by auto
qed

end
