(* ===== verification/Refusals.thy ===== *)
theory Refusals
  imports Requests
begin

text \<open>
  Which refusals an endpoint can send: \<open>raises S m\<close> bounds the statuses that the error handler
  answers for what an action throws (500 always being possible), with one rule for each
  combinator and one fact for each service operation, and \<open>refusals\<close> is the bound that follows
  for an endpoint from its middlewares and its service.
\<close>

section \<open>Statuses of refusals\<close>

abbreviation status_of :: "exn \<Rightarrow> nat" where
  "status_of e \<equiv> er_status (errorHandler e)"

definition raises :: "nat set \<Rightarrow> ('w, 'a) act \<Rightarrow> bool" where
  "raises S m \<longleftrightarrow> (\<forall>w e w'. m w = (Inl e, w') \<longrightarrow> status_of e \<in> insert 500 S)"

named_theorems raise_intros

lemma raisesI: "(\<And>w e w'. m w = (Inl e, w') \<Longrightarrow> status_of e \<in> insert 500 S) \<Longrightarrow> raises S m"
  by (simp add: raises_def)

lemma raisesD: "raises S m \<Longrightarrow> m w = (Inl e, w') \<Longrightarrow> status_of e \<in> insert 500 S"
  unfolding raises_def by blast

lemma raises_basic [raise_intros]:
  "raises S (ret a)" "raises S (now E)" "raises S (randomUUID E)" "raises S (metric m l)"
  "raises S (draw f)" "raises S (attempt n)"
  by (auto simp: raises_def act_simps)

lemma raises_throw [raise_intros]: "status_of e \<in> insert 500 S \<Longrightarrow> raises S (throw e)"
  by (auto simp: raises_def act_simps)

lemma raises_guard [raise_intros]: "status_of e \<in> insert 500 S \<Longrightarrow> raises S (guard b e)"
  by (auto simp: raises_def act_simps)

lemma raises_need [raise_intros]: "status_of e \<in> insert 500 S \<Longrightarrow> raises S (need x e)"
  by (auto simp: raises_def act_simps)

lemma raises_result [raise_intros]:
  "(\<And>e. r = Inl e \<Longrightarrow> status_of e \<in> insert 500 S) \<Longrightarrow> raises S (of_result r)"
  by (auto simp: raises_def act_simps)

lemma raises_seq [raise_intros]:
  "raises S m \<Longrightarrow> (\<And>a. raises S (k a)) \<Longrightarrow> raises S (seq m k)"
  unfolding raises_def act_simps by blast

lemma raises_catch_all [raise_intros]: "(\<And>e. raises S (h e)) \<Longrightarrow> raises S (catch m h)"
  unfolding raises_def act_simps by blast

lemma raises_catch:
  "raises S m \<Longrightarrow> (\<And>e. status_of e \<in> insert 500 S \<Longrightarrow> raises S (h e)) \<Longrightarrow> raises S (catch m h)"
  unfolding raises_def act_simps by blast

lemma raises_map_act [raise_intros]: "(\<And>x. raises S (f x)) \<Longrightarrow> raises S (map_act f xs)"
  by (induction xs) (auto intro!: raise_intros)

lemma raises_if [raise_intros]: "raises S m \<Longrightarrow> raises S n \<Longrightarrow> raises S (if b then m else n)"
  by simp

lemma raises_case_option [raise_intros]:
  "raises S m \<Longrightarrow> (\<And>a. raises S (f a)) \<Longrightarrow> raises S (case x of None \<Rightarrow> m | Some a \<Rightarrow> f a)"
  by (cases x) simp_all

lemma raises_case_prod [raise_intros]: "(\<And>a b. raises S (f a b)) \<Longrightarrow> raises S (case x of (a, b) \<Rightarrow> f a b)"
  by (cases x) simp

lemma raises_case_sum [raise_intros]:
  "(\<And>a. raises S (f a)) \<Longrightarrow> (\<And>b. raises S (g b)) \<Longrightarrow> raises S (case x of Inl a \<Rightarrow> f a | Inr b \<Rightarrow> g b)"
  by (cases x) simp_all

lemma raises_let [raise_intros]: "raises S (f x) \<Longrightarrow> raises S (let y = x in f y)"
  by simp

lemma raises_db [raise_intros]: "(\<And>d e d'. f d = (Inl e, d') \<Longrightarrow> db_exn e) \<Longrightarrow> raises S (db_do f)"
  by (auto simp: raises_def act_simps dest!: db_exn_internal)

lemma raises_redis_call [raise_intros]: "raises S (redis_call R cmd)"
  by (auto simp: raises_def redis_call_def act_simps split: delivery.splits prod.splits)

lemma raises_finally [raise_intros]: "raises S m \<Longrightarrow> raises S f \<Longrightarrow> raises S (finally_do m f)"
  by (auto simp: raises_def finally_do_def act_simps; blast)

lemma raises_mono: "raises S m \<Longrightarrow> S \<subseteq> S' \<Longrightarrow> raises S' m"
  unfolding raises_def by blast

section \<open>Statements and transactions\<close>

context prisma_table
begin

lemma raises_statements:
  "raises S (db_do (dg_findMany D q))" "raises S (db_do (dg_findUnique D p))"
  "raises S (db_do (dg_count D p))" "raises S (db_do (dg_sum D f p))"
  "raises S (db_do (dg_create D c))" "raises S (db_do (dg_update D p g))"
  "raises S (db_do (dg_updateMany D p g))" "raises S (db_do (dg_upsert D p g c))"
  "raises S (db_do (dg_delete D p))" "raises S (db_do (dg_deleteMany D p))"
proof -
  have st: "statement E R t (Inl e) t' \<Longrightarrow> db_exn e" for E :: "tables \<Rightarrow> 'x \<Rightarrow> bool" and R t e t'
    by (auto simp: statement_def)
  show "raises S (db_do (dg_findMany D q))" by (rule raises_db) (auto dest: findMany_law)
  show "raises S (db_do (dg_findUnique D p))" by (rule raises_db) (auto dest: findUnique_law)
  show "raises S (db_do (dg_count D p))" by (rule raises_db) (auto dest: count_law)
  show "raises S (db_do (dg_sum D f p))" by (rule raises_db) (auto dest: sum_law)
  show "raises S (db_do (dg_create D c))" by (rule raises_db) (rule st [OF create_law])
  show "raises S (db_do (dg_update D p g))" by (rule raises_db) (rule st [OF update_law])
  show "raises S (db_do (dg_updateMany D p g))" by (rule raises_db) (rule st [OF updateMany_law])
  show "raises S (db_do (dg_upsert D p g c))" by (rule raises_db) (rule st [OF upsert_law])
  show "raises S (db_do (dg_delete D p))" by (rule raises_db) (rule st [OF delete_law])
  show "raises S (db_do (dg_deleteMany D p))" by (rule raises_db) (rule st [OF deleteMany_law])
qed

end

lemma named_statuses [simp]:
  "status_of groupNotFound = 404" "status_of notGroupMember = 403" "status_of (notGroupOwner m) = 403"
  "status_of userNotFound = 404" "status_of alreadyGroupMember = 409" "status_of cannotRemoveOwner = 409"
  "status_of memberNotFound = 404" "status_of payerNotMember = 403" "status_of expenseNotFound = 404"
  "status_of duplicateSplitUser = 400" "status_of splitUserNotMember = 403"
  "status_of missingSplitAmount = 400" "status_of splitTotalMismatch = 400"
  "status_of settlementUsersMustDiffer = 400" "status_of settlementPayerNotMember = 403"
  "status_of settlementPayeeNotMember = 403" "status_of settlementLocked = 409"
  "status_of settlementNotFound = 404" "status_of keyReusedByOther = 409"
  "status_of keyReusedOtherBody = 409" "status_of idempotencyInvalidState = 409"
  "status_of idempotencyInProgress = 409" "status_of cachedResourceGone = 409"
  "status_of groupSummaryNotFound = 404" "status_of jobEnqueueFailed = 500"
  "status_of emailInUse = 409" "status_of invalidCredentials = 401"
  "status_of refreshTokenInvalid = 401" "status_of authUserNotFound = 404"
  "status_of verificationInvalid = 401" "status_of verificationUsed = 401"
  "status_of verificationExpired = 401" "status_of resetInvalid = 401" "status_of resetUsed = 401"
  "status_of resetExpired = 401" "status_of (PrismaKnownRequestError c) = 500"
  "status_of (PrismaFailure m) = 500"
  by (simp_all add: groupNotFound_def notGroupMember_def notGroupOwner_def userNotFound_def
      alreadyGroupMember_def cannotRemoveOwner_def memberNotFound_def payerNotMember_def
      expenseNotFound_def duplicateSplitUser_def splitUserNotMember_def missingSplitAmount_def
      splitTotalMismatch_def settlementUsersMustDiffer_def settlementPayerNotMember_def
      settlementPayeeNotMember_def settlementLocked_def settlementNotFound_def keyReusedByOther_def
      keyReusedOtherBody_def idempotencyInvalidState_def idempotencyInProgress_def
      cachedResourceGone_def groupSummaryNotFound_def jobEnqueueFailed_def emailInUse_def
      invalidCredentials_def refreshTokenInvalid_def authUserNotFound_def verificationInvalid_def
      verificationUsed_def verificationExpired_def resetInvalid_def resetUsed_def resetExpired_def
      error_class_defs)

section \<open>What each service can refuse\<close>

lemma splits_statuses:
  "exactSplits a ps = Inl e \<Longrightarrow> status_of e = 400"
  "splitsFor t a ps = Inl e \<Longrightarrow> status_of e = 400"
  "reconcileSplits t a ps ids = Inl e \<Longrightarrow> status_of e \<in> {400, 403}"
  "updatedSplits t a qs ids stored = Inl e \<Longrightarrow> status_of e \<in> {400, 403}"
proof -
  show exact: "exactSplits a ps = Inl e \<Longrightarrow> status_of e = 400" for a ps e
    by (auto simp: exactSplits_def Let_def split: if_splits)
  show for_type: "splitsFor t a ps = Inl e \<Longrightarrow> status_of e = 400" for t a ps e
    using exact by (auto simp: splitsFor_def equalSplits_def split: SplitType.splits)
  show reconcile: "reconcileSplits t a ps ids = Inl e \<Longrightarrow> status_of e \<in> {400, 403}" for t a ps ids e
    using for_type by (auto simp: reconcileSplits_def Let_def split: if_splits)
  show "updatedSplits t a qs ids stored = Inl e \<Longrightarrow> status_of e \<in> {400, 403}"
    using reconcile by (auto simp: updatedSplits_def split: option.splits if_splits)
qed

lemma reconcile_status: "reconcileIdempotencyRecord r c t = Inl e \<Longrightarrow> status_of e = 409"
  by (auto simp: reconcileIdempotencyRecord_def split: if_splits)

context prisma
begin

lemma raises_transaction [raise_intros]: "raises S m \<Longrightarrow> raises S (in_transaction P m)"
  unfolding raises_def in_transaction_def
  by (auto split: prod.splits sum.splits dest!: db_exn_internal commit_law)

lemmas raises_db_calls = usr.raises_statements grp.raises_statements mem.raises_statements
  exp.raises_statements spl.raises_statements stl.raises_statements act.raises_statements
  sum.raises_statements rtk.raises_statements atk.raises_statements idr.raises_statements

lemma raises_includes:
  "raises S (includeUser P u)" "raises S (createActivityEvent P ev)"
  "raises S (settlementInclude P s)" "raises S (expense_details P key x)"
  unfolding includeUser_def createActivityEvent_def settlementInclude_def expense_details_def
  by (intro raise_intros raises_db_calls; simp)+

lemma raises_auth_repository:
  "raises S (findByEmail P em)" "raises S (findById P uid)" "raises S (AuthRepository_update P uid patch)"
  "raises S (findRefreshTokenByHash P h)" "raises S (createRefreshToken P rt)"
  "raises S (revokeRefreshTokenById P E i)" "raises S (rotateRefreshToken P E i rt)"
  "raises S (createUserWithAuthData P cu)" "raises S (createAuthToken P token)"
  "raises S (findAuthTokenByHash P h)" "raises S (consumeVerificationTokenAndVerifyUser P i uid t)"
  "raises S (consumePasswordResetTokenAndUpdatePassword P i uid ph t)"
  unfolding findByEmail_def findById_def AuthRepository_update_def findRefreshTokenByHash_def
    createRefreshToken_def revokeRefreshTokenById_def rotateRefreshToken_def rotateRefreshTokenTx_def
    createUserWithAuthData_def createUserTx_def createAuthToken_def createAuthTokenTx_def
    findAuthTokenByHash_def consumeVerificationTokenAndVerifyUser_def consumeVerificationTx_def
    consumePasswordResetTokenAndUpdatePassword_def consumePasswordResetTx_def
  by (intro raise_intros raises_db_calls raises_includes; simp)+

lemma raises_tokens:
  "raises S (generateRefreshToken K)" "raises S (generateAuthToken K)" "raises S (refreshTokenExpiry E cf)"
  "raises S (verificationTokenExpiry E cf)" "raises S (passwordResetTokenExpiry E cf)"
  "raises S (signToken K cf u)" "raises S (dummyAuthWork K)" "raises S (trySendVerificationEmail M cf u t)"
  "raises S (trySendPasswordResetEmail M cf u t)"
  unfolding generateRefreshToken_def generateAuthToken_def refreshTokenExpiry_def
    verificationTokenExpiry_def passwordResetTokenExpiry_def signToken_def dummyAuthWork_def
    trySendVerificationEmail_def trySendPasswordResetEmail_def
  by (intro raise_intros)+

lemma raises_auth:
  "raises {409} (register P E K M cf n em pw)" "raises {401} (login P E K cf em pw)"
  "raises {401} (refresh P E K cf tok)" "raises {} (logout P E tok)" "raises {404} (getMe P uid)"
  "raises {404, 409} (updateCurrentUser P uid nm eml)"
  "raises {401} (verifyEmailAddress P E tok)" "raises {} (resendVerification P E K M cf em)"
  "raises {} (requestPasswordReset P E K M cf em)" "raises {401} (resetUserPassword P E K tok pw)"
  unfolding register_def login_def issueRefreshToken_def refresh_def logout_def getMe_def updateCurrentUser_def
    verifyEmailAddress_def resendVerification_def requestPasswordReset_def resetUserPassword_def
  by (intro raise_intros raises_auth_repository raises_tokens; simp)+

lemma raises_group_repository:
  "raises S (GroupRepository_findGroupById P gid)" "raises S (createGroupWithOwner P uid name a)"
  "raises S (findGroupByIdWithMembers P gid)" "raises S (findGroupsByUserId P uid)"
  "raises S (findUserById P uid)" "raises S (isGroupMember P gid uid)"
  "raises S (GroupRepository_updateGroup P E gid name a)" "raises S (GroupRepository_deleteGroup P gid)"
  "raises S (GroupRepository_addGroupMember P gid uid a)" "raises S (findGroupMember P gid uid)"
  "raises S (GroupRepository_removeGroupMember P E gid uid a)"
  unfolding GroupRepository_findGroupById_def createGroupWithOwner_def createGroupTx_def
    findGroupByIdWithMembers_def findGroupsByUserId_def findUserById_def isGroupMember_def
    GroupRepository_updateGroup_def updateGroupTx_def GroupRepository_deleteGroup_def
    GroupRepository_addGroupMember_def addGroupMemberTx_def findGroupMember_def
    GroupRepository_removeGroupMember_def removeGroupMemberTx_def
  by (intro raise_intros raises_db_calls raises_includes; simp)+

lemma raises_cache:
  "raises S (getCachedGroupById R E gid)" "raises S (setCachedGroupById R E ttl gid g)"
  "raises S (invalidateGroupCache R gid)"
  unfolding getCachedGroupById_def setCachedGroupById_def invalidateGroupCache_def cache_failure_def
  by (intro raise_intros)+

lemma raises_groups:
  "raises {} (createGroup P uid name)" "raises {} (getUserGroups P uid)"
  "raises {403, 404} (getGroupById P R E ttl uid gid)" "raises {403, 404} (updateGroup P R E uid gid name)"
  "raises {403, 404} (deleteGroup P R uid gid)" "raises {403, 404, 409} (addGroupMember P R uid gid mid)"
  "raises {403, 404, 409} (removeGroupMember P R E uid gid mid)"
  unfolding createGroup_def getUserGroups_def getGroupById_def updateGroup_def deleteGroup_def
    addGroupMember_def removeGroupMember_def
  by (intro raise_intros raises_group_repository raises_cache; simp)+

lemma raises_expense_repository:
  "raises S (ExpenseRepository_findGroupById P gid)" "raises S (findGroupMemberIds P gid)"
  "raises S (createExpenseWithSplits P x parts a)" "raises S (findExpenseById P i)"
  "raises S (updateExpenseWithSplits P E i u parts a)" "raises S (deleteExpenseWithEvent P E i a)"
  "raises S (findExpensesByGroupId P gid pg)"
  unfolding ExpenseRepository_findGroupById_def findGroupMemberIds_def createExpenseWithSplits_def
    createExpenseTx_def findExpenseById_def updateExpenseWithSplits_def updateExpenseTx_def
    deleteExpenseWithEvent_def deleteExpenseTx_def findExpensesByGroupId_def create_splits_def
    expense_summary_def
  by (intro raise_intros raises_db_calls raises_includes; simp)+

lemma raises_date: "raises S m \<Longrightarrow> raises S (date_or E s m)"
  unfolding date_or_def by (intro raise_intros)

lemma raises_expenses:
  "raises {400, 403, 404} (createExpense P E uid input)" "raises {403, 404} (getExpenseById P uid i)"
  "raises {400, 403, 404} (updateExpense P E uid i upd)" "raises {403, 404} (deleteExpense P E uid i)"
  "raises {403, 404} (getGroupExpenses P uid gid pg)"
  unfolding createExpense_def getExpenseById_def updateExpense_def deleteExpense_def
    getGroupExpenses_def assertMemberOfGroup_def
  by (intro raise_intros raises_expense_repository raises_date;
      auto dest: splits_statuses)+

lemma raises_settlement_repository:
  "raises S (SettlementRepository_findGroupById P gid)" "raises S (findGroupMembers P gid)"
  "raises S (findExpensesForBalances P gid)" "raises S (findSettlementsForBalances P gid)"
  "raises S (find_idempotency P k)" "raises S (findSettlementById P i)"
  "raises S (findSettlementsByGroupId P gid pg)"
  unfolding SettlementRepository_findGroupById_def findGroupMembers_def findExpensesForBalances_def
    findSettlementsForBalances_def find_idempotency_def findSettlementById_def
    findSettlementsByGroupId_def
  by (intro raise_intros raises_db_calls raises_includes)+

lemma raises_replay: "409 \<in> S \<Longrightarrow> raises S (replaySettlement P r)"
  unfolding replaySettlement_def by (intro raise_intros raises_db_calls raises_includes; simp)

lemma raises_outcome:
  "raises S m \<Longrightarrow> raises S n \<Longrightarrow> raises S (case x of Replay \<Rightarrow> m | Reuse \<Rightarrow> n)"
  by (cases x) simp_all

lemma raises_create_settlement:
  assumes "409 \<in> S"
  shows "raises S (SettlementRepository_createSettlement P E data context a)"
  unfolding SettlementRepository_createSettlement_def createSettlementTx_def check_existing_def
    retry_after_conflict_def
  by (rule raises_catch)
    (intro raise_intros raises_outcome raises_db_calls raises_includes raises_settlement_repository
      raises_replay; use assms in \<open>auto dest: reconcile_status\<close>)+

lemma raises_lock: "raises S m \<Longrightarrow> raises S (withLock R E ttl k m)"
  unfolding withLock_def release_quietly_def by (intro raise_intros; simp)

lemma lock_conflict_status: "status_of e \<in> {500, 409} \<Longrightarrow> status_of (lock_conflict_error e) \<in> {500, 409}"
  by (cases e) (simp_all add: lock_conflict_error_def)

lemma raises_settlements:
  "raises {403, 404} (getGroupBalances P uid gid)"
  "raises {400, 403, 404, 409} (createSettlement P R E ttl uid input context)"
  "raises {403, 404} (getGroupSettlements P uid gid pg)" "raises {403, 404} (getSettlementById P uid i)"
proof -
  show "raises {403, 404} (getGroupBalances P uid gid)" "raises {403, 404} (getGroupSettlements P uid gid pg)"
    "raises {403, 404} (getSettlementById P uid i)"
    unfolding getGroupBalances_def getGroupSettlements_def getSettlementById_def
      settlement_assertMemberOfGroup_def
    by (intro raise_intros raises_settlement_repository; simp)+
  have "raises {409} (catch (seq (withLock R E ttl k (seq (now E) (\<lambda>t.
      SettlementRepository_createSettlement P E (data t) context a))) (\<lambda>s. seq (metric m l) (\<lambda>_. ret (f s))))
      (\<lambda>error. throw (lock_conflict_error error)))" for k data a m l f
    by (rule raises_catch; intro raise_intros raises_lock raises_create_settlement)
      (use lock_conflict_status in auto)
  from raises_mono [OF this, of "{400, 403, 404, 409}"]
  show "raises {400, 403, 404, 409} (createSettlement P R E ttl uid input context)"
    unfolding createSettlement_def
    by (intro raises_seq raises_need raises_guard raises_settlement_repository; simp)
qed

lemma raises_activity: "raises {403, 404} (getGroupActivity P uid gid page limit)"
  unfolding getGroupActivity_def ActivityRepository_findGroupById_def
    ActivityRepository_isGroupMember_def findActivityByGroupId_def
  by (intro raise_intros raises_db_calls raises_includes; simp)

lemma raises_summary:
  "raises {403, 404} (getGroupSummary P uid gid)"
  "raises {403, 404} (enqueueGroupSummaryRecompute P R E c uid gid rid)"
  unfolding getGroupSummary_def enqueueGroupSummaryRecompute_def SummaryRepository_findGroupById_def
    SummaryRepository_isGroupMember_def findSummaryByGroupId_def
  by (intro raise_intros raises_db_calls; simp)+

end

section \<open>What each endpoint can refuse\<close>

fun service_refusals :: "endpoint \<Rightarrow> nat set" where
  "service_refusals POST_register = {409}"
| "service_refusals POST_login = {401}"
| "service_refusals POST_refresh = {401}"
| "service_refusals POST_verify_email = {401}"
| "service_refusals POST_reset_password = {401}"
| "service_refusals GET_me = {404}"
| "service_refusals PATCH_me = {404, 409}"
| "service_refusals POST_logout = {}"
| "service_refusals POST_resend_verification = {}"
| "service_refusals POST_forgot_password = {}"
| "service_refusals POST_groups = {}"
| "service_refusals GET_groups = {}"
| "service_refusals POST_member = {403, 404, 409}"
| "service_refusals DELETE_member = {403, 404, 409}"
| "service_refusals POST_expense = {400, 403, 404}"
| "service_refusals PATCH_expense = {400, 403, 404}"
| "service_refusals POST_settlement = {400, 403, 404, 409}"
| "service_refusals _ = {403, 404}"

lemma raises_answer: "raises S m \<Longrightarrow> raises S (answer s f m)"
  unfolding answer_def by (intro raise_intros)

lemma raises_controller:
  assumes "prisma T (dp_prisma D)"
  shows "raises (service_refusals ep) (controller D ep rq)"
  by (cases ep)
    (simp_all add: controller_def activity_controller_def createSettlement_controller_def raises_answer
      prisma.raises_auth [OF assms] prisma.raises_groups [OF assms] prisma.raises_expenses [OF assms]
      prisma.raises_settlements [OF assms] prisma.raises_activity [OF assms] prisma.raises_summary [OF assms])

fun middleware_refusals :: "middleware \<Rightarrow> nat set" where
  "middleware_refusals Authenticate = {401}"
| "middleware_refusals _ = {400}"

definition refusals :: "endpoint \<Rightarrow> nat set" where
  "refusals ep = \<Union> (middleware_refusals ` set (route_chain ep)) \<union> service_refusals ep"

lemma raises_middleware: "raises (middleware_refusals mw) (run_middleware D mw rq)"
proof (cases mw)
  case Authenticate
  have token: "raises {401} (verifyToken (dp_crypto D) (dp_config D) token)" for token
    by (rule raisesI) (simp add: verify_refused)
  show ?thesis
    unfolding Authenticate run_middleware_def authenticate_def
    by (simp, intro raise_intros; simp add: bearer_refused token)
next
  case RequireIdempotencyKey
  then show ?thesis
    unfolding run_middleware_def
    by (simp, intro raise_intros)
      (auto simp: requireIdempotencyKey_def idempotencyKeySchema_def Let_def error_class_defs
        split: option.splits if_splits)
next
  case (Validate s)
  then show ?thesis
    unfolding run_middleware_def
    by (simp add: validate_def parse_or_throw_def split_def, intro raise_intros) simp_all
qed

lemma raises_chain: "\<Union> (middleware_refusals ` set mws) \<subseteq> S \<Longrightarrow> raises S (run_chain D mws rq)"
proof (induction mws arbitrary: rq)
  case (Cons mw mws)
  have "raises S (run_middleware D mw rq)" for rq
    by (rule raises_mono [OF raises_middleware]) (use Cons.prems in simp)
  moreover have "raises S (run_chain D mws rq)" for rq
    by (rule Cons.IH) (use Cons.prems in simp)
  ultimately show ?case by (simp add: raises_seq)
qed (simp add: raises_basic)

lemma serve_refusals:
  assumes "prisma T (dp_prisma D)" and run: "serve D ep rq w = (Inr (Refused er), w')"
  shows "er_status er \<in> insert 500 (refusals ep)"
proof -
  have "raises (refusals ep) (run_chain D (route_chain ep) rq)"
    by (rule raises_chain) (simp add: refusals_def)
  moreover have "raises (refusals ep) (controller D ep rq')" for rq'
    by (rule raises_mono [OF raises_controller [OF assms(1)]]) (simp add: refusals_def)
  ultimately have "raises (refusals ep) (handle D ep rq)"
    unfolding handle_def by (rule raises_seq)
  from raisesD [OF this] run show ?thesis
    by (auto simp: serve_run split: prod.splits sum.splits)
qed

end
