(* ===== verification/ApiErrors.thy ===== *)
theory ApiErrors
  imports ApiConformance Refusals
begin

text \<open>
  The refusals of an endpoint against the API document: every refusal is one that the operation
  lists, with the shared error body, but for an internal error and for the 400 of the endpoints
  that validate a path or a query and list no 400.
\<close>

section \<open>The refusals that the document lists\<close>

definition error_content :: "OpenApiDocument \<Rightarrow> response \<Rightarrow> bool" where
  "error_content d r \<longleftrightarrow> (case response_content d r of None \<Rightarrow> False
     | Some cs \<Rightarrow> map_option mt_schema (map_of cs ''application/json'') = Some (ref ''ErrorBody''))"

lemma error_content [simp]:
  "error_content (openApiDocument v) (componentResponse ''BadRequest'')"
  "error_content (openApiDocument v) (componentResponse ''Unauthorized'')"
  "error_content (openApiDocument v) (componentResponse ''Forbidden'')"
  "error_content (openApiDocument v) (componentResponse ''NotFound'')"
  "error_content (openApiDocument v) (componentResponse ''Conflict'')"
  by (simp_all add: error_content_def response_content_def componentResponse_def reference_def
      component_of_def openApiDocument_def document_components_def document_responses_def
      badRequestResponse_def unauthorizedResponse_def forbiddenResponse_def notFoundResponse_def
      conflictResponse_def errorContent_def jsonContent_def ref_def)

lemma error_documented:
  assumes "map_of (op_responses op) st = Some r" and "error_content (openApiDocument v) r"
  shows "body_documented (openApiDocument v) op st (Some (error_json er))"
  using assms error_ok [of v 4 er]
  by (auto simp: body_documented_def documented_def error_content_def ref_def ref_depth_def
      split: option.splits)

text \<open>The endpoints that validate a path or a query, but whose operation lists no 400.\<close>

definition unlisted_400 :: "endpoint list" where
  "unlisted_400 =
     [GET_group, DELETE_group, DELETE_member, GET_group_expenses, GET_balances,
      GET_group_settlements, GET_summary, POST_recompute, GET_expense, DELETE_expense, GET_settlement]"

lemma unlisted_400:
  "ep \<in> set unlisted_400 \<longleftrightarrow> 400 \<in> refusals ep \<and> documented (openApiDocument v) (operation_of ep) 400 = None"
  by (cases ep) (simp_all add: refusals_def route_chain_defs operation_defs documented_def unlisted_400_def
      response_content_def componentResponse_def reference_def component_of_def openApiDocument_def
      document_components_def document_responses_def badRequestResponse_def)

lemma refusal_listed:
  "st \<in> refusals ep \<Longrightarrow> \<not> (st = 400 \<and> ep \<in> set unlisted_400) \<Longrightarrow>
     \<exists>r. map_of (op_responses (operation_of ep)) st = Some r \<and> error_content (openApiDocument v) r"
  by (cases ep) (auto simp: refusals_def route_chain_defs unlisted_400_def operation_defs)

lemma refusal_documented:
  assumes "prisma T (dp_prisma D)" and "serve D ep rq w = (Inr (Refused er), w')"
  shows "er_status er = 500 \<or> er_status er = 400 \<and> ep \<in> set unlisted_400 \<or>
    body_documented (openApiDocument v) (operation_of ep) (er_status er) (Some (error_json er))"
  using serve_refusals [OF assms] refusal_listed [of "er_status er" ep v] error_documented by blast

end
