(* ===== verification/ApiRequests.thy ===== *)
theory ApiRequests
  imports ApiConformance
begin

text \<open>
  The requests of the document against the validators: a body that passes the validator of an
  endpoint is one that the documented request schema accepts.
\<close>

section \<open>Accepted values\<close>

definition accepts :: "formats \<Rightarrow> schema \<Rightarrow> json option \<Rightarrow> bool" where
  "accepts F s v \<longleftrightarrow> meaning F s v \<noteq> None"

lemma all_some_accepts: "all_some (map f xs) \<noteq> None \<longleftrightarrow> (\<forall>x\<in>set xs. f x \<noteq> None)"
  by (induction xs) (auto split: option.split)

lemma accepts_dests:
  "accepts F (ZString cs) v \<Longrightarrow> \<exists>s. v = Some (JString s)"
  "accepts F safeAmount v \<Longrightarrow> \<exists>n. v = Some (JNumber (of_int n))"
  "accepts F settlement_safeAmount v \<Longrightarrow> \<exists>n. v = Some (JNumber (of_int n))"
  "accepts F (ZEnum names) v \<Longrightarrow> \<exists>s\<in>set names. v = Some (JString s)"
  "accepts F (ZArray n s) v \<Longrightarrow> \<exists>xs. v = Some (JArray xs) \<and> n \<le> length xs \<and> (\<forall>x\<in>set xs. accepts F s (Some x))"
  "accepts F (ZOptional s) v \<Longrightarrow> v = None \<or> accepts F s v"
  "accepts F (ZRefine p s) v \<Longrightarrow> accepts F s v"
  "accepts F (ZObject strict fs) v \<Longrightarrow>
     \<exists>kvs. v = Some (JObject kvs) \<and> (\<forall>(k, s)\<in>set fs. accepts F s (json_field (JObject kvs) k))"
proof -
  have amount: "accepts F (ZNumber (Whole # cs)) v \<Longrightarrow> \<exists>n. v = Some (JNumber (of_int n))" for cs
  proof -
    assume "accepts F (ZNumber (Whole # cs)) v"
    then obtain q where "v = Some (JNumber q)" and "list_all (number_ok q) (Whole # cs)"
      by (cases v; cases "the v") (auto simp: accepts_def meaning.simps simp del: list.pred_inject split: if_splits)
    then show ?thesis by (metis list.pred_inject(2) number_ok.simps(1))
  qed
  show "accepts F safeAmount v \<Longrightarrow> \<exists>n. v = Some (JNumber (of_int n))"
    "accepts F settlement_safeAmount v \<Longrightarrow> \<exists>n. v = Some (JNumber (of_int n))"
    unfolding safeAmount_def settlement_safeAmount_def by (rule amount; assumption)+
  show "accepts F (ZArray n s) v \<Longrightarrow> \<exists>xs. v = Some (JArray xs) \<and> n \<le> length xs \<and> (\<forall>x\<in>set xs. accepts F s (Some x))"
    using all_some_accepts [of "\<lambda>x. meaning F s (Some x)"]
    by (auto simp: accepts_def meaning.simps split: option.splits json.splits if_splits)
  show "accepts F (ZObject strict fs) v \<Longrightarrow>
     \<exists>kvs. v = Some (JObject kvs) \<and> (\<forall>(k, s)\<in>set fs. accepts F s (json_field (JObject kvs) k))"
    using all_some_accepts [of "\<lambda>(k, s). meaning F s (json_field w k)" fs for w]
    by (auto simp: accepts_def meaning.simps split: option.splits json.splits if_splits)
qed (auto simp: accepts_def meaning.simps split: option.splits json.splits if_splits)

lemma lookup_requests [lookups]:
  "schema_at (openApiDocument v) ''#/components/schemas/RegisterRequest'' = Some registerRequestSchema"
  "schema_at (openApiDocument v) ''#/components/schemas/LoginRequest'' = Some loginRequestSchema"
  "schema_at (openApiDocument v) ''#/components/schemas/RefreshTokenRequest'' = Some refreshTokenRequestSchema"
  "schema_at (openApiDocument v) ''#/components/schemas/VerifyEmailRequest'' = Some verifyEmailRequestSchema"
  "schema_at (openApiDocument v) ''#/components/schemas/EmailRequest'' = Some emailRequestSchema"
  "schema_at (openApiDocument v) ''#/components/schemas/ResetPasswordRequest'' = Some resetPasswordRequestSchema"
  "schema_at (openApiDocument v) ''#/components/schemas/CreateGroupRequest'' = Some createGroupRequestSchema"
  "schema_at (openApiDocument v) ''#/components/schemas/UpdateGroupRequest'' = Some updateGroupRequestSchema"
  "schema_at (openApiDocument v) ''#/components/schemas/UpdateCurrentUserRequest'' =
     Some updateCurrentUserRequestSchema"
  "schema_at (openApiDocument v) ''#/components/schemas/AddMemberRequest'' = Some addMemberRequestSchema"
  "schema_at (openApiDocument v) ''#/components/schemas/ExpenseParticipantInput'' =
     Some expenseParticipantInputSchema"
  "schema_at (openApiDocument v) ''#/components/schemas/CreateExpenseRequest'' = Some createExpenseRequestSchema"
  "schema_at (openApiDocument v) ''#/components/schemas/UpdateExpenseRequest'' = Some updateExpenseRequestSchema"
  "schema_at (openApiDocument v) ''#/components/schemas/CreateSettlementRequest'' =
     Some createSettlementRequestSchema"
  by (simp_all add: document_defs)

lemma accepts_object:
  "accepts F (ZObject strict fs) v \<Longrightarrow>
     (\<And>kvs. v = Some (JObject kvs) \<Longrightarrow> list_all (\<lambda>(k, s). accepts F s (json_field (JObject kvs) k)) fs \<Longrightarrow> P) \<Longrightarrow> P"
  using accepts_dests(8) [of F strict fs v] by (auto simp: list_all_iff)

lemma account_requests_conform:
  "accepts F registerBodySchema (Some b) \<Longrightarrow> answer_ok v n registerRequestSchema b"
  "accepts F loginBodySchema (Some b) \<Longrightarrow> answer_ok v n loginRequestSchema b"
  "accepts F refreshTokenBodySchema (Some b) \<Longrightarrow> answer_ok v n refreshTokenRequestSchema b"
  "accepts F verifyEmailBodySchema (Some b) \<Longrightarrow> answer_ok v n verifyEmailRequestSchema b"
  "accepts F resendVerificationBodySchema (Some b) \<Longrightarrow> answer_ok v n emailRequestSchema b"
  "accepts F forgotPasswordBodySchema (Some b) \<Longrightarrow> answer_ok v n emailRequestSchema b"
  "accepts F resetPasswordBodySchema (Some b) \<Longrightarrow> answer_ok v n resetPasswordRequestSchema b"
  unfolding registerBodySchema_def loginBodySchema_def refreshTokenBodySchema_def verifyEmailBodySchema_def
    resendVerificationBodySchema_def forgotPasswordBodySchema_def resetPasswordBodySchema_def
    emailSchema_def passwordSchema_def authTokenSchema_def registerRequestSchema_def loginRequestSchema_def
    refreshTokenRequestSchema_def verifyEmailRequestSchema_def emailRequestSchema_def
    resetPasswordRequestSchema_def
  by (erule accepts_object; auto simp: conforms_simps dest!: accepts_dests)+

lemma profile_request_conforms:
  "accepts F updateProfileBodySchema (Some b) \<Longrightarrow> answer_ok v n updateCurrentUserRequestSchema b"
  unfolding updateProfileBodySchema_def emailSchema_def updateCurrentUserRequestSchema_def
  by (drule accepts_dests, erule accepts_object)
    (auto simp: conforms_simps dest!: accepts_dests split: option.split)

lemma group_requests_conform:
  "accepts F createGroupBodySchema (Some b) \<Longrightarrow> answer_ok v n createGroupRequestSchema b"
  "accepts F updateGroupBodySchema (Some b) \<Longrightarrow> answer_ok v n updateGroupRequestSchema b"
  "accepts F addMemberBodySchema (Some b) \<Longrightarrow> answer_ok v n addMemberRequestSchema b"
  "accepts F createSettlementBodySchema (Some b) \<Longrightarrow> answer_ok v n createSettlementRequestSchema b"
  unfolding createGroupBodySchema_def updateGroupBodySchema_def addMemberBodySchema_def idSchema_def
    createSettlementBodySchema_def createGroupRequestSchema_def updateGroupRequestSchema_def
    addMemberRequestSchema_def createSettlementRequestSchema_def minorUnitsSchema_def
  by (erule accepts_object; auto simp: conforms_simps has_type.simps dest!: accepts_dests)+

lemma participant_conforms:
  "accepts F expenseParticipantSchema (Some b) \<Longrightarrow> answer_ok v n expenseParticipantInputSchema b"
  unfolding expenseParticipantSchema_def idSchema_def expenseParticipantInputSchema_def minorUnitsSchema_def
  by (erule accepts_object)
    (auto simp: conforms_simps has_type.simps dest!: accepts_dests split: option.split)

text \<open>A field is described by its schema when it is absent or satisfies it.\<close>

definition described :: "string \<Rightarrow> nat \<Rightarrow> api_schema \<Rightarrow> json option \<Rightarrow> bool" where
  "described v n s w \<longleftrightarrow> (case w of None \<Rightarrow> True | Some x \<Rightarrow> answer_ok v n s x)"

lemma described_object:
  "answer_ok v n (Obj [Type TObject, Properties ps, Required rs]) (JObject kvs) \<longleftrightarrow>
     list_all (\<lambda>(k, s). described v n s (json_field (JObject kvs) k)) ps \<and>
     list_all (\<lambda>k. json_field (JObject kvs) k \<noteq> None) rs"
  "answer_ok v n (Obj [Type TObject, Properties ps]) (JObject kvs) \<longleftrightarrow>
     list_all (\<lambda>(k, s). described v n s (json_field (JObject kvs) k)) ps"
  by (simp_all add: described_def no_extra_def)

lemma described_field:
  "accepts F (ZString cs) w \<Longrightarrow> described v n (Obj [Type TString, Example x]) w \<and> w \<noteq> None"
  "accepts F (ZString cs) w \<Longrightarrow> described v n (Obj [Type TString, Format f]) w \<and> w \<noteq> None"
  "accepts F idSchema w \<Longrightarrow> described v n (Obj [Type TString, Format f]) w \<and> w \<noteq> None"
  "accepts F safeAmount w \<Longrightarrow> described v n minorUnitsSchema w \<and> w \<noteq> None"
  "accepts F (ZEnum [''EQUAL'', ''EXACT'']) w \<Longrightarrow>
     described v n (Obj [Type TString, Enum [JString ''EQUAL'', JString ''EXACT'']]) w \<and> w \<noteq> None"
  "accepts F (ZArray 1 expenseParticipantSchema) w \<Longrightarrow>
     described v (Suc n) (Obj [Type TArray, MinItems 1,
       Items (Ref ''#/components/schemas/ExpenseParticipantInput'')]) w \<and> w \<noteq> None"
  by (auto simp: described_def conforms_simps has_type.simps minorUnitsSchema_def idSchema_def
      conforms_Ref [OF lookup_requests(11)] intro!: participant_conforms [of F] dest!: accepts_dests)

lemma described_optional:
  assumes "accepts F (ZOptional s) w" and "accepts F s w \<Longrightarrow> described v n t w \<and> w \<noteq> None"
  shows "described v n t w"
  using accepts_dests(6) [OF assms(1)] assms(2) by (auto simp: described_def)

lemma expense_requests_conform:
  "accepts F createExpenseBodySchema (Some b) \<Longrightarrow> answer_ok v (Suc n) createExpenseRequestSchema b"
  "accepts F updateExpenseBodySchema (Some b) \<Longrightarrow> answer_ok v (Suc n) updateExpenseRequestSchema b"
proof -
  assume "accepts F createExpenseBodySchema (Some b)"
  then show "answer_ok v (Suc n) createExpenseRequestSchema b"
    unfolding createExpenseBodySchema_def createExpenseRequestSchema_def
      expenseParticipantSchema_def [symmetric]
    by (elim accepts_object)
      (simp del: conforms.simps One_nat_def not_None_eq add: described_object;
        intro conjI; elim conjE; (erule described_field [THEN conjunct1] | erule described_field [THEN conjunct2] |
          erule described_optional, erule described_field))
next
  assume "accepts F updateExpenseBodySchema (Some b)"
  then show "answer_ok v (Suc n) updateExpenseRequestSchema b"
    unfolding updateExpenseBodySchema_def updateExpenseRequestSchema_def
    by (elim accepts_object [OF accepts_dests(7)])
      (simp del: conforms.simps One_nat_def not_None_eq add: described_object;
        intro conjI; elim conjE; (erule described_field [THEN conjunct1] | erule described_field [THEN conjunct2] |
          erule described_optional, erule described_field))
qed

lemmas request_conforms = account_requests_conform profile_request_conforms group_requests_conform
  expense_requests_conform

text \<open>The body that the validator of an endpoint accepts is the documented one.\<close>

lemma accepted_body:
  assumes "validated_body ep = Some s" and "accepts F s (Some b)"
  shows "\<exists>sch. body_schema (operation_of ep) = Some sch \<and> answer_ok v ref_depth sch b"
  using assms
  by (cases ep) (auto simp: body_schema_def operation_defs validated_body_def route_chain_defs jsonContent_def
      ref_def ref_depth_unfold conforms_Ref lookups request_conforms)

lemma chain_accepts_body:
  assumes zod: "zod_parser F (dp_parse D)" and run: "run_chain D (route_chain ep) rq w = (Inr rq', w')"
    and s: "validated_body ep = Some s"
  shows "accepts F s (Some (rq_body rq))"
proof -
  have "\<exists>x. dp_parse D s (rq_body rq) = Inr x"
    using run s by (cases ep) (auto simp: validated_body_def chain_simps act_simps)
  then show ?thesis using zod_Inr [OF zod] by (auto simp: accepts_def)
qed

text \<open>The tokens in the examples of the document are no tokens for the validators.\<close>

lemma placeholder_tokens_refused:
  "\<not> accepts F verifyEmailBodySchema (Some (JObject [(''token'', JString ''<verification-token>'')]))"
  "\<not> accepts F resetPasswordBodySchema
     (Some (JObject [(''token'', JString ''<reset-token>''), (''newPassword'', JString p)]))"
  by (simp_all add: accepts_def meaning.simps verifyEmailBodySchema_def resetPasswordBodySchema_def
      authTokenSchema_def json_field_def is_alnum_def is_digit_def)

section \<open>Parameters\<close>

text \<open>The parameters of a place, by name.\<close>

definition parameters_in :: "place \<Rightarrow> OperationObject \<Rightarrow> (string \<times> api_schema) list" where
  "parameters_in p op = map (\<lambda>x. (pm_name x, pm_schema x)) (filter (\<lambda>x. pm_in x = p) (op_parameters op))"

lemma documented_parameters:
  "map fst (parameters_in InQuery (operation_of ep)) =
     (if validated_query ep = None then [] else [''page'', ''limit''])"
  "map fst (parameters_in InHeader (operation_of ep)) =
     (if RequireIdempotencyKey \<in> set (route_chain ep) then [''Idempotency-Key''] else [])"
  "map fst (parameters_in InPath (operation_of ep)) =
     (case validated_params ep of Some (ZObject False fs) \<Rightarrow> map fst fs | _ \<Rightarrow> [])"
  by (cases ep; simp add: parameters_in_def operation_defs validated_query_def validated_params_def
      route_chain_defs groupIdPathParameter_def expenseIdPathParameter_def settlementIdPathParameter_def
      memberIdPathParameter_def uuidPathParameter_def pageQueryParameter_def limitQueryParameter_def
      idempotencyKeyHeaderParameter_def param_schema_defs)+

text \<open>The parameters that reach a controller are what the document says of them.\<close>

lemma whole_positive: "q = of_int \<lfloor>q\<rfloor> \<Longrightarrow> 0 < q \<Longrightarrow> (1::rat) \<le> q"
  by (metis int_one_le_iff_zero_less of_int_0_less_iff of_int_1_le_iff)

lemma coerced_described:
  "meaning F (ZCoerceNumber [Whole, Positive]) u = Some y \<Longrightarrow>
     described v n (Obj [Type TInteger, Minimum 1, Default d]) y"
  "meaning F (ZCoerceNumber [Whole, Positive, AtMost 50]) u = Some y \<Longrightarrow>
     described v n (Obj [Type TInteger, Minimum 1, Maximum 50, Default d]) y"
  by (auto simp: meaning.simps described_def conforms_simps has_type.simps whole_positive
      split: option.splits if_splits)

lemma optional_described:
  assumes "meaning F (ZOptional s) u = Some y" and "\<And>u. meaning F s u = Some y \<Longrightarrow> described v n t y"
  shows "described v n t y"
  using meaning_optional [OF assms(1)] assms(2) by (auto simp: described_def)

lemma default_described:
  assumes "meaning F (ZDefault d s) u = Some y" and "\<And>u. meaning F s u = Some y \<Longrightarrow> described v n t y"
    and "answer_ok v n t d"
  shows "described v n t y"
  using assms by (cases u) (auto simp: described_def meaning.simps)

lemma query_described:
  assumes "meaning F s (Some q) = Some (Some b)" and "s = paginationQuerySchema \<or> s = activityQuerySchema"
  shows "described v n (pm_schema pageQueryParameter) (json_field b ''page'')"
    and "described v n (pm_schema limitQueryParameter) (json_field b ''limit'')"
proof -
  let ?page = "ZCoerceNumber [Whole, Positive]" and ?limit = "ZCoerceNumber [Whole, Positive, AtMost 50]"
  have fields: "meaning F s' (json_field q k) = Some (json_field b k)"
    if "s = ZObject strict fs" "distinct (map fst fs)" "(k, s') \<in> set fs" for strict fs k s'
    using meaning_object that assms(1) by blast
  have "meaning F (ZOptional ?page) (json_field q ''page'') = Some (json_field b ''page'') \<or>
      meaning F (ZDefault (JNumber 1) ?page) (json_field q ''page'') = Some (json_field b ''page'')"
    using assms(2) fields by (auto simp: paginationQuerySchema_def activityQuerySchema_def partial_object_def)
  then show "described v n (pm_schema pageQueryParameter) (json_field b ''page'')"
    by (auto simp: pageQueryParameter_def conforms_simps has_type.simps
        elim!: optional_described default_described intro: coerced_described)
  have "meaning F (ZOptional ?limit) (json_field q ''limit'') = Some (json_field b ''limit'') \<or>
      meaning F (ZDefault (JNumber 20) ?limit) (json_field q ''limit'') = Some (json_field b ''limit'')"
    using assms(2) fields by (auto simp: paginationQuerySchema_def activityQuerySchema_def partial_object_def)
  then show "described v n (pm_schema limitQueryParameter) (json_field b ''limit'')"
    by (auto simp: limitQueryParameter_def conforms_simps has_type.simps
        elim!: optional_described default_described intro: coerced_described)
qed

lemma chain_query:
  assumes zod: "zod_parser F (dp_parse D)" and run: "run_chain D (route_chain ep) rq w = (Inr rq', w')"
    and s: "validated_query ep = Some s"
  shows "meaning F s (Some (rq_query rq)) = Some (Some (rq_query rq')) \<and>
    (s = paginationQuerySchema \<or> s = activityQuerySchema)"
proof -
  have "dp_parse D s (rq_query rq) = Inr (rq_query rq') \<and> (s = paginationQuerySchema \<or> s = activityQuerySchema)"
    using run s by (cases ep) (auto simp: validated_query_def chain_simps act_simps)
  then show ?thesis using zod_Inr [OF zod] by auto
qed

lemma chain_key:
  assumes "zod_parser F (dp_parse D)" and "run_chain D (route_chain ep) rq w = (Inr rq', w')"
    and "(k, s) \<in> set (parameters_in InHeader (operation_of ep))"
  shows "answer_ok v n s (JString (rq_idempotencyKey rq'))"
  using chain_typed [OF assms(1,2)] assms(3)
  by (cases ep) (auto simp: typed_request_def parameters_in_def operation_defs groupIdPathParameter_def
      expenseIdPathParameter_def settlementIdPathParameter_def memberIdPathParameter_def
      uuidPathParameter_def pageQueryParameter_def limitQueryParameter_def
      idempotencyKeyHeaderParameter_def conforms_simps)

lemma parameters_in_query:
  "(k, s) \<in> set (parameters_in InQuery (operation_of ep)) \<Longrightarrow>
     validated_query ep \<noteq> None \<and> (k = ''page'' \<and> s = pm_schema pageQueryParameter \<or>
       k = ''limit'' \<and> s = pm_schema limitQueryParameter)"
  by (cases ep) (auto simp: parameters_in_def operation_defs groupIdPathParameter_def
      expenseIdPathParameter_def settlementIdPathParameter_def memberIdPathParameter_def
      uuidPathParameter_def pageQueryParameter_def limitQueryParameter_def
      idempotencyKeyHeaderParameter_def validated_query_def route_chain_defs)

lemma chain_parameters:
  assumes "zod_parser F (dp_parse D)" and "run_chain D (route_chain ep) rq w = (Inr rq', w')"
    and "(k, s) \<in> set (parameters_in InQuery (operation_of ep))"
  shows "described v n s (json_field (rq_query rq') k)"
  using parameters_in_query [OF assms(3)] chain_query [OF assms(1,2)] query_described by blast

end
