(* ===== verification/ApiCoverage.thy ===== *)
theory ApiCoverage
  imports ApiRequests
begin

text \<open>
  The document as a whole: its routes are the endpoints and the three probes, its operations are
  well formed, and every reference in it resolves.
\<close>

section \<open>The documented operations\<close>

text \<open>The probes, then the endpoints in the order of the document.\<close>

definition probe_operations :: "(string \<times> http_method \<times> OperationObject) list" where
  "probe_operations = [(''/health'', GET, doc_getLiveness), (''/health/ready'', GET, doc_getReadiness),
     (''/metrics'', GET, doc_getMetrics)]"

definition documented_endpoints :: "endpoint list" where
  "documented_endpoints =
     [POST_register, POST_login, POST_refresh, POST_logout, GET_me, PATCH_me, POST_verify_email,
      POST_resend_verification, POST_forgot_password, POST_reset_password, POST_groups, GET_groups,
      GET_group, PUT_group, DELETE_group, POST_member, DELETE_member, POST_expense,
      GET_group_expenses, GET_expense, PATCH_expense, DELETE_expense, GET_balances,
      POST_settlement, GET_group_settlements, GET_settlement, GET_activity, GET_summary,
      POST_recompute]"

definition served_operation :: "endpoint \<Rightarrow> string \<times> http_method \<times> OperationObject" where
  "served_operation ep = (case app_route ep of
      None \<Rightarrow> ([], GET, operation_of ep)
    | Some (m, path) \<Rightarrow> (templated path, m, operation_of ep))"

lemma documented_endpoints: "set documented_endpoints = UNIV" "distinct documented_endpoints"
proof -
  have "ep \<in> set documented_endpoints" for ep
    by (cases ep) (simp_all add: documented_endpoints_def)
  then show "set documented_endpoints = UNIV" by blast
qed (simp add: documented_endpoints_def)

lemma operations_listed:
  "operations (openApiDocument v) = probe_operations @ map served_operation documented_endpoints"
  by (simp add: operations_def served_operation_def documented_endpoints_def route_defs probe_operations_def)

lemma responses_listed [simp]:
  "response_content (openApiDocument v) (jsonResponse s x) = Some [(''application/json'', jsonContent s x)]"
  "response_content (openApiDocument v) (ResponseObject cs) = Some cs"
  "\<exists>cs. response_content (openApiDocument v) (componentResponse ''BadRequest'') = Some cs"
  "\<exists>cs. response_content (openApiDocument v) (componentResponse ''Unauthorized'') = Some cs"
  "\<exists>cs. response_content (openApiDocument v) (componentResponse ''Forbidden'') = Some cs"
  "\<exists>cs. response_content (openApiDocument v) (componentResponse ''NotFound'') = Some cs"
  "\<exists>cs. response_content (openApiDocument v) (componentResponse ''Conflict'') = Some cs"
  "\<exists>cs. response_content (openApiDocument v) (componentResponse ''NoContent'') = Some cs"
  "\<exists>cs. response_content (openApiDocument v) (componentResponse ''InternalServerError'') = Some cs"
  by (simp_all add: response_content_def jsonResponse_def componentResponse_def reference_def
      component_of_def openApiDocument_def document_components_def document_responses_def
      badRequestResponse_def unauthorizedResponse_def forbiddenResponse_def notFoundResponse_def
      conflictResponse_def noContentResponse_def internalServerErrorResponse_def)

lemma component_response_refs [simp]: "response_refs (componentResponse c) = []"
  by (simp add: response_refs_def componentResponse_def)

lemma empty_response_refs [simp]: "response_refs (ResponseObject []) = []"
  by (simp add: response_refs_def content_refs_def)

lemma document_tags [simp]:
  "oa_tags (openApiDocument v) =
     [''Health'', ''Metrics'', ''Authentication'', ''Groups'', ''Expenses'', ''Settlements'', ''Activity'', ''Group Summary'']"
  by (simp add: openApiDocument_def)

lemmas tag_defs = HEALTH_TAG_def METRICS_TAG_def AUTH_TAG_def GROUPS_TAG_def EXPENSES_TAG_def
  SETTLEMENTS_TAG_def ACTIVITY_TAG_def SUMMARY_TAG_def

lemmas parameter_defs = uuidPathParameter_def groupIdPathParameter_def expenseIdPathParameter_def
  settlementIdPathParameter_def memberIdPathParameter_def pageQueryParameter_def
  limitQueryParameter_def idempotencyKeyHeaderParameter_def

lemma json_response_refs [simp]: "response_refs (jsonResponse s x) = schema_refs s"
  by (simp add: response_refs_def jsonResponse_def content_refs_def jsonContent_def)

lemmas operation_ok_simps = operation_ok_def operation_refs_def content_refs_def path_variables_def
  is_variable_def jsonContent_def ref_def

lemma served_routes:
  "\<exists>m path. served_operation ep = (path, m, operation_of ep) \<and> path_variables path =
     map pm_name (filter (\<lambda>p. pm_in p = InPath) (op_parameters (operation_of ep)))"
  by (cases ep) (simp_all add: served_operation_def app_route_def v1_routes_def mount_def templated_def
      braces_def path_variables_def is_variable_def operation_defs parameter_defs)

lemma listed_tags:
  "op_tags (operation_of ep) \<noteq> [] \<and> set (op_tags (operation_of ep)) \<subseteq> set (oa_tags (openApiDocument v))"
  by (cases ep) (simp_all add: operation_defs tag_defs)

lemma listed_responses:
  "op_responses (operation_of ep) \<noteq> [] \<and> distinct (map fst (op_responses (operation_of ep))) \<and>
     list_all (\<lambda>(status, r). response_content (openApiDocument v) r \<noteq> None) (op_responses (operation_of ep))"
  by (cases ep) (simp_all add: operation_defs session_def message_response_def)

lemma listed_parameters:
  "list_all (\<lambda>p. pm_in p = InPath \<longrightarrow> pm_required p) (op_parameters (operation_of ep)) \<and>
   concat (map (\<lambda>p. schema_refs (pm_schema p)) (op_parameters (operation_of ep))) = []"
  by (cases ep) (simp_all add: operation_defs parameter_defs)

text \<open>The names that requests and responses refer to.\<close>

definition referenced :: "string list" where
  "referenced = map (\<lambda>n. ''#/components/schemas/'' @ n)
     [''User'', ''AuthSession'', ''MessageResult'', ''Group'', ''GroupWithMemberCount'', ''GroupWithMembers'',
      ''GroupMember'', ''Expense'', ''ExpenseSummary'', ''Settlement'', ''Balance'', ''ActivityEvent'',
      ''Pagination'', ''GroupSummary'', ''QueuedJob'', ''RegisterRequest'', ''LoginRequest'',
      ''RefreshTokenRequest'', ''VerifyEmailRequest'', ''EmailRequest'', ''ResetPasswordRequest'',
      ''CreateGroupRequest'', ''UpdateGroupRequest'', ''UpdateCurrentUserRequest'', ''AddMemberRequest'',
      ''CreateExpenseRequest'', ''UpdateExpenseRequest'', ''CreateSettlementRequest'']"

lemma referenced_resolve: "list_all (\<lambda>r. schema_at (openApiDocument v) r \<noteq> None) referenced"
  by (simp add: referenced_def lookups)

lemma listed_body:
  "case op_requestBody (operation_of ep) of None \<Rightarrow> True
   | Some rb \<Rightarrow> rb_required rb \<and> set (content_refs (rb_content rb)) \<subseteq> set referenced"
  by (cases ep) (simp_all add: operation_defs content_refs_def jsonContent_def ref_def referenced_def)

lemma envelope_refs: "schema_refs (successEnvelope s) = schema_refs s"
  by (simp add: successEnvelope_def)

lemma listed_response_refs:
  "set (concat (map (\<lambda>(status, r). response_refs r) (op_responses (operation_of ep)))) \<subseteq> set referenced"
  by (cases ep) (simp_all add: operation_defs session_def message_response_def groupData_def expenseData_def
      settlementData_def summaryData_def envelope_refs ref_def referenced_def)

lemma endpoint_operation_ok: "operation_ok (openApiDocument v) (served_operation ep)"
proof -
  obtain m path where route: "served_operation ep = (path, m, operation_of ep)"
    and vars: "map pm_name (filter (\<lambda>p. pm_in p = InPath) (op_parameters (operation_of ep))) = path_variables path"
    using served_routes [of ep] by auto
  have resolve: "set rs \<subseteq> set referenced \<Longrightarrow> list_all (\<lambda>r. schema_at (openApiDocument v) r \<noteq> None) rs" for rs
    using referenced_resolve [of v] by (auto simp: list_all_iff)
  have "set (operation_refs (operation_of ep)) \<subseteq> set referenced"
    using listed_body [of ep] listed_parameters [of ep] listed_response_refs [of ep]
    by (auto simp: operation_refs_def split: option.splits)
  then show ?thesis
    unfolding route operation_ok_def prod.case
    using vars listed_tags [of ep v] listed_responses [of ep v] listed_parameters [of ep] listed_body [of ep] resolve
    by (simp add: list_all_iff subset_iff split: option.splits)
qed

lemma probe_schemas:
  "schema_at (openApiDocument v) ''#/components/schemas/LivenessResponse'' \<noteq> None"
  "schema_at (openApiDocument v) ''#/components/schemas/ReadinessReadyResponse'' \<noteq> None"
  "schema_at (openApiDocument v) ''#/components/schemas/ReadinessUnavailableResponse'' \<noteq> None"
  by (simp_all add: document_defs)

lemma probe_operation_ok: "list_all (operation_ok (openApiDocument v)) probe_operations"
  using probe_schemas [of v]
  by (simp add: probe_operations_def operation_ok_simps doc_getLiveness_def doc_getReadiness_def
      doc_getMetrics_def tag_defs response_refs_def jsonResponse_def)

lemma operation_ids: "distinct (map (\<lambda>(path, m, op). op_operationId op) (operations (openApiDocument v)))"
proof -
  have "op_operationId (snd (snd (served_operation ep))) = op_operationId (operation_of ep)" for ep
    using served_routes [of ep] by auto
  then have "map (\<lambda>(path, m, op). op_operationId op) (operations (openApiDocument v)) =
      [''getLiveness'', ''getReadiness'', ''getMetrics''] @
      map (\<lambda>ep. op_operationId (operation_of ep)) documented_endpoints"
    by (simp add: operations_listed probe_operations_def doc_getLiveness_def doc_getReadiness_def
        doc_getMetrics_def case_prod_unfold)
  also have "distinct \<dots>"
    by (simp add: documented_endpoints_def operation_defs)
  finally show ?thesis .
qed

lemmas component_schema_defs = UuidRef_def uuidSchema_def dateTimeSchema_def minorUnitsSchema_def userSchema_def
  authSessionSchema_def messageResultSchema_def registerRequestSchema_def loginRequestSchema_def
  refreshTokenRequestSchema_def verifyEmailRequestSchema_def emailRequestSchema_def
  resetPasswordRequestSchema_def createGroupRequestSchema_def updateGroupRequestSchema_def
  updateCurrentUserRequestSchema_def addMemberRequestSchema_def groupSchema_def
  groupWithMemberCountSchema_def groupWithMembersSchema_def groupMemberSchema_def
  expenseSplitSchema_def expenseSchema_def expenseSummarySchema_def
  expenseParticipantInputSchema_def createExpenseRequestSchema_def
  updateExpenseRequestSchema_def settlementSchema_def createSettlementRequestSchema_def
  balanceSchema_def activityEventSchema_def paginationSchema_def groupSummarySchema_def
  queuedJobSchema_def errorBodySchema_def livenessResponseSchema_def
  readinessReadyResponseSchema_def readinessUnavailableResponseSchema_def

text \<open>The components refer to no more than these, errors and the small schemas.\<close>

definition shared :: "string list" where
  "shared = referenced @ map (\<lambda>n. ''#/components/schemas/'' @ n)
     [''Uuid'', ''DateTime'', ''ExpenseSplit'', ''ExpenseParticipantInput'', ''ErrorBody'']"

lemma shared_resolve: "list_all (\<lambda>r. schema_at (openApiDocument v) r \<noteq> None) shared"
  using referenced_resolve [of v] by (simp add: shared_def lookups)

lemma schema_component_refs: "set (concat (map (\<lambda>(name, s). schema_refs s) document_schemas)) \<subseteq> set shared"
  by (simp add: document_schemas_def component_schema_defs spread_def ref_def shared_def referenced_def)

lemma response_component_refs: "set (concat (map (\<lambda>(name, r). response_refs r) document_responses)) \<subseteq> set shared"
  by (simp add: document_responses_def badRequestResponse_def unauthorizedResponse_def
      forbiddenResponse_def notFoundResponse_def conflictResponse_def payloadTooLargeResponse_def
      tooManyRequestsResponse_def internalServerErrorResponse_def serviceUnavailableResponse_def
      noContentResponse_def errorContent_def jsonContent_def response_refs_def content_refs_def shared_def)

lemma component_refs_resolve:
  "list_all (\<lambda>r. schema_at (openApiDocument v) r \<noteq> None) (component_refs (oa_components (openApiDocument v)))"
proof -
  have "set (component_refs (oa_components (openApiDocument v))) \<subseteq> set shared"
    using schema_component_refs response_component_refs
    by (auto simp: component_refs_def openApiDocument_def document_components_def document_parameters_def
        parameter_defs)
  then show ?thesis using shared_resolve [of v] by (auto simp: list_all_iff)
qed

text \<open>The routes of the document are the probes and the routes that the application mounts.\<close>

definition documented_routes :: "OpenApiDocument \<Rightarrow> (http_method \<times> string) list" where
  "documented_routes d = map (\<lambda>(path, m, op). (m, path)) (operations d)"

definition mounted_routes :: "(http_method \<times> string) set" where
  "mounted_routes = {(m, templated path) | m path. \<exists>ep. app_route ep = Some (m, path)}"

lemma documented_routes:
  "set (documented_routes (openApiDocument v)) =
     {(GET, ''/health''), (GET, ''/health/ready''), (GET, ''/metrics'')} \<union> mounted_routes"
proof -
  have routed: "app_route ep \<noteq> None" for ep
    by (cases ep) (simp_all add: app_route_def v1_routes_def mount_def)
  have "(\<lambda>(path, m, op). (m, path)) ` range served_operation = mounted_routes"
  proof (intro set_eqI iffI)
    fix x
    assume "x \<in> (\<lambda>(path, m, op). (m, path)) ` range served_operation"
    then obtain ep where x: "x = (\<lambda>(path, m, op). (m, path)) (served_operation ep)" by blast
    obtain m path where route: "app_route ep = Some (m, path)" using routed [of ep] by auto
    then have "x = (m, templated path)" using x by (simp add: served_operation_def)
    with route show "x \<in> mounted_routes" unfolding mounted_routes_def by blast
  next
    fix x
    assume "x \<in> mounted_routes"
    then obtain m path ep where x: "x = (m, templated path)" "app_route ep = Some (m, path)"
      unfolding mounted_routes_def by blast
    have "served_operation ep = (templated path, m, operation_of ep)"
      using x(2) by (simp add: served_operation_def)
    then show "x \<in> (\<lambda>(path, m, op). (m, path)) ` range served_operation"
      using x(1) by (metis (mono_tags, lifting) case_prod_conv image_eqI rangeI)
  qed
  then show ?thesis
    by (simp add: documented_routes_def operations_listed documented_endpoints(1) probe_operations_def image_image)
qed

lemma document_ok: "list_all (operation_ok (openApiDocument v)) (operations (openApiDocument v))"
  using probe_operation_ok [of v] endpoint_operation_ok [of v]
  by (auto simp: operations_listed list_all_iff)

end
