(* ===== verification/Spec2Isabelle.thy ===== *)
theory Spec2Isabelle
  imports Examples ApiErrors ApiCoverage
begin

text \<open>
  Verification of the backend of the split-bill application Hisab (TypeScript,
  \<open>src/backend/src\<close>): groups of users record shared expenses and settlements, and the service
  answers who owes what.

  \<^bold>\<open>The program.\<close> An Express server and a worker process share PostgreSQL (through Prisma), Redis
  (through ioredis) and a mail transport. A request passes the edge guard, the limiters and the
  request-id and metrics middlewares, is authenticated and validated, and reaches a controller,
  which calls a service; services read and write through repositories, most writes in a Prisma
  transaction together with an activity event. Redis holds rate-limit counters, the group cache,
  the settlement lock and the job queue; the worker polls the queue and recomputes group summaries.

  \<^bold>\<open>How it is modelled.\<close> An operation of the code is an action \<open>('w, 'a) act = 'w \<Rightarrow> (exn + 'a) \<times> 'w\<close>
  (theory Effects): \<open>seq\<close> is \<open>await ...; ...\<close>, \<open>guard\<close> and \<open>need\<close> are the checks that throw,
  \<open>catch\<close> is \<open>try/catch\<close>, \<open>throw\<close> carries the error classes of theory Errors. The world holds the
  database, Redis, the mailer, the metrics registry and a counter \<open>w_tick\<close> that numbers the reads
  of the clock and the draws of randomness, so that \<open>env\<close> may answer each of them differently.
  Code outside the repository is an argument with documented laws:

    \<^item> the Prisma client: locale \<open>prisma\<close> (and \<open>prisma_table\<close> for one model) in theory Prisma. A
      statement either takes effect, or is refused with a database error and has none, or takes
      effect although its answer is lost; a transaction takes effect as a whole or not at all.
      \<open>mem_prisma\<close> interprets it on tables kept in lists.
    \<^item> Redis: locale \<open>redis_server\<close> in theory Redis (commands, expiry, a clock that never goes back,
      commands that get lost on the way); \<open>fake_redis\<close> interprets it.
    \<^item> Zod: \<open>zod_parser\<close> in theory Validators, with the meaning of each schema constructor.
    \<^item> bcryptjs, jsonwebtoken, the random generator, SHA-256, dates: the records \<open>env\<close> and \<open>crypto\<close>.

  \<^bold>\<open>The theories, in the order of their imports.\<close>

    \<^item> Prelude, Json: generic lemmas, JavaScript numbers and strings, \<open>JSON.stringify\<close> and
      \<open>JSON.parse\<close>. The parser has fuel; \<open>JSON_parse\<close> gives \<open>2 * length + 2\<close>, and each step takes a
      character or descends once per character, so what \<open>stringify\<close> wrote is always read back
      (\<open>parse_value_stringify\<close>). Numbers that the service serializes are whole.
    \<^item> Validators: \<open>modules/*/validators.ts\<close>, \<open>utils/idSchema.ts\<close>, \<open>utils/pagination.ts\<close>.
    \<^item> Errors: \<open>constants\<close>, \<open>errors/app.error.ts\<close>, \<open>middleware/errorHandler.ts\<close>. Metrics:
      \<open>metrics/registry.ts\<close>, with the text format and the keys of the series.
    \<^item> Effects, Schema, Prisma: actions, \<open>prisma/schema.prisma\<close> with its unique keys, references and
      cascades, the client. \<open>silent\<close>, \<open>clean\<close>, \<open>keeps\<close> and \<open>effect\<close> are the four things that are
      shown of an operation compositionally: it never writes, a refusal writes nothing, an
      invariant survives, a successful run changes the tables by a given relation.
    \<^item> Redis, Lock, RedisStores, Queue: \<open>redis/*.ts\<close> and \<open>queues/jobQueue.ts\<close>; the lock is a step relation
      over acquisitions, releases and other commands.
    \<^item> Activity, GroupCache, Splits, Expenses, GroupService, Summary, Worker, Email, Auth, Balances,
      Idempotency, Settlements: the modules of \<open>modules/\<close> and \<open>queues/workerRunner.ts\<close>, one theory each;
      repository, service and helpers in the order of the code, then the component's lemmas:
      \<open>ledger_ok\<close> (splits sum to amounts), \<open>groups_ok\<close> (owners are members), \<open>sessions_ok\<close>, \<open>ids_ok\<close>
      (settlements and idempotency keys are unique), and what each operation does on success.
    \<^item> Http, Edge: the middlewares, the route tables, the controllers and the error boundary; the
      request guard, request ids, limiters, HTTP metrics and the configuration schema.
    \<^item> App: the invariant \<open>app_ok\<close> of all components, which every endpoint and every poll keeps
      (\<open>app_step\<close>, \<open>app_steps\<close>). Requests: what requests are answered, who they act for, what the
      services get to see, the pages of the feed, the budgets of the limiters. HttpMetrics: what a
      finished request counts. Startup: loading the configuration, the connections, the start of
      both processes.
    \<^item> OpenApi, ApiComponents, ApiPaths, ApiDocument: \<open>docs/\<close>. The types and builders, the component
      schemas and responses, one definition \<open>doc_<operationId>\<close> for each operation, the document and its
      cached accessors, and \<open>conforms\<close>, what a schema says of a JSON value. A reference is unfolded at
      most \<open>ref_depth = 5\<close> deep; running out refuses the value, so that each conformance theorem also
      says that this is enough. ApiAnswers: the bodies that controllers and the error handler send.
      ApiRoutes: where the routers hang and the documented operation of an endpoint.
    \<^item> ApiConformance, ApiRequests, Refusals, ApiErrors, ApiCoverage: the document against the service, for
      answers, for validated requests and for refusals (\<open>raises\<close> bounds the statuses that an action
      can be refused with, by one rule for each combinator), and the document as a whole.
    \<^item> Examples: concrete data on which the properties below are evaluated.

  \<^bold>\<open>What is shown\<close> is stated before each property: splitting and expenses, balances,
  settlements and idempotent retries, the lock and the limits, serialization, groups and their
  cache, jobs and the worker, summaries, the service as a whole, and the API document.

  \<^bold>\<open>Bounds.\<close> Amounts are unbounded integers in the database and pass \<open>js_Number\<close> (rounding beyond
  \<open>2^53\<close>) where the code calls \<open>Number\<close>; equal splits assume an amount that is not negative and at
  most \<open>2^53\<close> participants, which the body limit of 10 MB guarantees (\<open>body_fits\<close>). Recorded metric
  values are rationals. Strings are lists of one-byte characters, so lengths are those of Latin-1
  texts.

  \<^bold>\<open>Not modelled.\<close> Overlapping requests: \<open>app_step\<close> takes requests one after the other; what overlaps
  may do is covered by the lock, by the conflict branch of the settlement transaction and by the
  in-flight states of the poll loops only. The decision of express-rate-limit, the matching of
  paths to routes, helmet and the body parser (library code); log lines (\<open>utils/logger.ts\<close>); SMTP;
  signal handlers and listening sockets; the prose of the API document and the pages that
  show it (\<open>docs/docs.routes.ts\<close>); the test scripts; the Flutter client. Formats and patterns of the
  API document are read as annotations, which constrain nothing.
\<close>

section \<open>Money\<close>

text \<open>C1. Equal splits: for a nonnegative total and at least one participant, the shares of
  \<open>calculateEqualSplits\<close> go to the participants in their order, sum to the total exactly, are
  never negative, and no two differ by more than one minor unit.\<close>

theorem equal_splits_exact_and_fair:
  assumes "0 \<le> a" "ids \<noteq> []" "length ids \<le> 2 ^ 53"
  shows "map sa_userId (calculateEqualSplits a ids) = ids \<and>
    sumSplitAmounts (calculateEqualSplits a ids) = a \<and>
    list_all (\<lambda>x. 0 \<le> sa_amountMinorUnits x \<and>
      list_all (\<lambda>y. sa_amountMinorUnits y \<le> sa_amountMinorUnits x + 1) (calculateEqualSplits a ids))
      (calculateEqualSplits a ids)"
proof -
  have n: "0 < length ids" using assms(2) by simp
  have shares: "\<exists>i. sa_amountMinorUnits x = equal_share a (length ids) i"
    if "x \<in> set (calculateEqualSplits a ids)" for x
    using that unfolding calculateEqualSplits_share [OF assms(1,3)] by auto
  show ?thesis
    using calculateEqualSplits_users sum_calculateEqualSplits [OF assms]
      equal_share_fair(1,2) [OF assms(1) n] shares
    unfolding list_all_iff by metis
qed

theorem equal_splits_exact_and_fair_witness:
  "map sa_amountMinorUnits (calculateEqualSplits 100 [''a'', ''b'', ''c'']) = [34, 33, 33] \<and>
   sumSplitAmounts (calculateEqualSplits 100 [''a'', ''b'', ''c'']) = 100"
proof (rule conjI)
  show "sumSplitAmounts (calculateEqualSplits 100 [''a'', ''b'', ''c'']) = 100"
    using equal_splits_exact_and_fair [of 100 "[''a'', ''b'', ''c'']"] by simp
  show "map sa_amountMinorUnits (calculateEqualSplits 100 [''a'', ''b'', ''c'']) = [34, 33, 33]"
    by code_simp
qed

text \<open>C2. Creating an expense: a request that succeeds was made by a member, for a payer and
  distinct participants who are members too; it stores one expense with the amount asked for,
  one split per participant in order, whose amounts sum to it, and one activity event, and
  leaves every other row alone.\<close>

theorem createExpense_stores_the_expense:
  assumes "prisma T P"
    and "createExpense P E uid input w = (Inr dto, w')"
    and "equal_ok (ci_amountMinorUnits input) (ci_participants input)"
  shows "\<exists>e rows ev.
    is_member (T (w_db w)) (ci_groupId input) uid \<and>
    is_member (T (w_db w)) (ci_groupId input) (ci_payerId input) \<and>
    distinct (map pt_userId (ci_participants input)) \<and>
    list_all (\<lambda>p. is_member (T (w_db w)) (ci_groupId input) (pt_userId p)) (ci_participants input) \<and>
    \<not> has_id (row_id e) (expenses (T (w_db w))) \<and>
    ex_groupId (row_data e) = ci_groupId input \<and> ex_paidById (row_data e) = ci_payerId input \<and>
    ex_amountMinorUnits (row_data e) = ci_amountMinorUnits input \<and>
    map (\<lambda>r. sp_userId (row_data r)) rows = map pt_userId (ci_participants input) \<and>
    list_all (\<lambda>r. sp_expenseId (row_data r) = row_id e) rows \<and>
    split_total rows = ci_amountMinorUnits input \<and>
    ev_type (row_data ev) = EXPENSE_ADDED \<and> ev_userId (row_data ev) = uid \<and>
    T (w_db w') = activities_update (\<lambda>rs. rs @ [ev]) (splits_update (\<lambda>rs. rs @ rows)
      (expenses_update (\<lambda>rs. rs @ [e]) (T (w_db w))))"
proof -
  from prisma.createExpense_Inr [OF assms(1,2)] obtain e rows ev parts where
      sp: "splitsFor (ci_splitType input) (ci_amountMinorUnits input) (ci_participants input) = Inr parts"
    and rows: "map row_data rows = map (split_row (row_id e)) parts"
    and ev: "row_data ev = expense_event e \<lparr>ai_userId = uid, ai_type = EXPENSE_ADDED,
       ai_message = quoted ''added the expense '' (ci_description input)\<rparr> (row_createdAt e)"
    and rest: "is_member (T (w_db w)) (ci_groupId input) uid"
      "is_member (T (w_db w)) (ci_groupId input) (ci_payerId input)"
      "\<forall>p\<in>set (ci_participants input). is_member (T (w_db w)) (ci_groupId input) (pt_userId p)"
      "distinct (map pt_userId (ci_participants input))"
      "\<not> has_id (row_id e) (expenses (T (w_db w)))"
      "ex_groupId (row_data e) = ci_groupId input" "ex_paidById (row_data e) = ci_payerId input"
      "ex_amountMinorUnits (row_data e) = ci_amountMinorUnits input"
    and t: "T (w_db w') = activities_update (\<lambda>rs. rs @ [ev]) (splits_update (\<lambda>rs. rs @ rows)
      (expenses_update (\<lambda>rs. rs @ [e]) (T (w_db w))))"
    by blast
  have "map (\<lambda>r. sp_userId (row_data r)) rows = map pt_userId (ci_participants input)"
    using users_of_parts [OF rows] splitsFor_users [OF sp] by simp
  moreover have "split_total rows = ci_amountMinorUnits input"
    using split_total_of_parts [OF rows] splitsFor_sum [OF sp assms(3)] by simp
  moreover have "ev_type (row_data ev) = EXPENSE_ADDED" "ev_userId (row_data ev) = uid"
    by (simp_all add: ev expense_event_def)
  moreover have "list_all (\<lambda>r. sp_expenseId (row_data r) = row_id e) rows"
    using rows_of_parts(4) [OF rows] by (simp add: list_all_iff)
  ultimately show ?thesis using rest t unfolding list_all_iff by blast
qed

theorem createExpense_stores_the_expense_witness:
  "\<exists>e rows ev. split_total rows = 31 \<and>
     md_tables (w_db (snd (createExpense mem_prisma demo_env ''u1'' demo_expense demo_world))) =
       activities_update (\<lambda>rs. rs @ [ev]) (splits_update (\<lambda>rs. rs @ rows)
         (expenses_update (\<lambda>rs. rs @ [e]) demo_tables))"
proof -
  have run: "ran (createExpense mem_prisma demo_env ''u1'' demo_expense demo_world)" by code_simp
  have ok: "equal_ok (ci_amountMinorUnits demo_expense) (ci_participants demo_expense)"
    by (simp add: equal_ok_def demo_expense_def)
  have a: "ci_amountMinorUnits demo_expense = 31" "md_tables (w_db demo_world) = demo_tables"
    by (simp_all add: demo_expense_def demo_world_def)
  from createExpense_stores_the_expense [OF prisma_mem ran_eq [OF run] ok] show ?thesis
    unfolding a by blast
qed

section \<open>Balances\<close>

text \<open>C3. The balance map of \<open>calculateBalances\<close> holds, for every user, what the user paid in
  (expenses paid, settlements sent) less what the user owes (splits, settlements received), in
  whatever order the records come, and it has an entry exactly for the users the records name.\<close>

theorem calculateBalances_net_position:
  "balance_get (calculateBalances es ss) u =
     (\<Sum>e\<leftarrow>es. (if xb_paidById e = u then xb_amountMinorUnits e else 0) -
        (\<Sum>s\<leftarrow>xb_splits e. if sa_userId s = u then sa_amountMinorUnits s else 0)) +
     (\<Sum>s\<leftarrow>ss. (if sb_payerId s = u then sb_amountMinorUnits s else 0) -
        (if sb_payeeId s = u then sb_amountMinorUnits s else 0)) \<and>
   dom (calculateBalances es ss) = book_users es ss"
  by (simp add: balance_get_calculate dom_calculateBalances net_position_def expense_net_def [abs_def]
      settlement_net_def [abs_def] paid_by_def [abs_def])

text \<open>C4. Money is neither made nor lost: when the splits of every expense sum to its amount,
  the entries of the balance map sum to zero.\<close>

theorem calculateBalances_sum_zero:
  assumes "list_all balanced_expense es"
  shows "(\<Sum>u\<in>dom (calculateBalances es ss). balance_get (calculateBalances es ss) u) = 0"
  using sum_net_position [of "book_users es ss" es ss] assms
  by (simp add: balance_get_calculate dom_calculateBalances list_all_iff)

theorem calculateBalances_sum_zero_witness:
  "\<exists>es ss. length es = 1 \<and> length ss = 1 \<and>
     balance_get (calculateBalances es ss) ''u1'' = 30 \<and>
     (\<Sum>u\<in>dom (calculateBalances es ss). balance_get (calculateBalances es ss) u) = 0"
proof -
  let ?es = "book_expenses demo_tables ''g1''" and ?ss = "book_settlements demo_tables ''g1''"
  have "list_all balanced_expense ?es" by code_simp
  moreover have "length ?es = 1 \<and> length ?ss = 1 \<and> balance_get (calculateBalances ?es ?ss) ''u1'' = 30"
    by code_simp
  ultimately show ?thesis using calculateBalances_sum_zero [of ?es ?ss] by blast
qed

text \<open>C5. The balances request: it answers a member only, changes nothing, and lists each current
  member once with the net position that the group's expenses, their splits and the settlements
  in the tables give (converted to a JavaScript number).\<close>

theorem getGroupBalances_answers_net_positions:
  assumes "prisma T P" and "getGroupBalances P uid gid w = (Inr dtos, w')"
  shows "T (w_db w') = T (w_db w) \<and> is_member (T (w_db w)) gid uid \<and>
    mset (map (\<lambda>d. (bd_userId d, bd_amountMinorUnits d)) dtos) =
      mset (map (\<lambda>r. (gm_userId (row_data r), js_Number (net_position (book_expenses (T (w_db w)) gid)
          (book_settlements (T (w_db w)) gid) (gm_userId (row_data r)))))
        (filter (in_group_member gid) (members (T (w_db w)))))"
  using prisma.getGroupBalances_Inr [OF assms] by (simp add: group_net_def)

theorem getGroupBalances_answers_net_positions_witness:
  "\<exists>dtos w'. getGroupBalances mem_prisma ''u1'' ''g1'' demo_world = (Inr dtos, w') \<and>
     mset (map (\<lambda>d. (bd_userId d, bd_amountMinorUnits d)) dtos) = mset [(''u1'', 30), (''u2'', - 30)]"
proof -
  let ?run = "getGroupBalances mem_prisma ''u1'' ''g1'' demo_world"
  have run: "ran ?run" by code_simp
  have m: "map (\<lambda>r. (gm_userId (row_data r), js_Number (net_position (book_expenses demo_tables ''g1'')
      (book_settlements demo_tables ''g1'') (gm_userId (row_data r)))))
      (filter (in_group_member ''g1'') (members demo_tables)) = [(''u1'', 30), (''u2'', - 30)]"
    by code_simp
  have w: "md_tables (w_db demo_world) = demo_tables" by (simp add: demo_world_def)
  from getGroupBalances_answers_net_positions [OF prisma_mem ran_eq [OF run]] show ?thesis
    unfolding w m by (intro exI conjI) (rule ran_eq [OF run], simp)
qed

text \<open>C6. What the answered balances sum to: exactly the amount by which users who are no longer
  members are still in debt (minus their net positions), as long as the ledger is sound, users
  are members once and the amounts are safe integers. So the balances cancel out when everybody
  with an entry in the book is still a member, and otherwise they need not.\<close>

theorem getGroupBalances_sum:
  assumes "prisma T P" and "getGroupBalances P uid gid w = (Inr dtos, w')"
    and "ledger_ok (T (w_db w))"
    and "distinct (map (\<lambda>r. gm_userId (row_data r)) (filter (in_group_member gid) (members (T (w_db w)))))"
    and "list_all (\<lambda>r. \<bar>group_net (T (w_db w)) gid (gm_userId (row_data r))\<bar> \<le> MAX_SAFE_INTEGER)
           (filter (in_group_member gid) (members (T (w_db w))))"
  shows "(\<Sum>d\<leftarrow>dtos. bd_amountMinorUnits d) =
    - (\<Sum>u\<in>{u \<in> book_users (book_expenses (T (w_db w)) gid) (book_settlements (T (w_db w)) gid).
            \<not> is_member (T (w_db w)) gid u}. group_net (T (w_db w)) gid u)"
proof -
  let ?t = "T (w_db w)"
  let ?ms = "filter (in_group_member gid) (members ?t)"
  have "mset (map snd (map (\<lambda>d. (bd_userId d, bd_amountMinorUnits d)) dtos)) =
      mset (map snd (map (\<lambda>r. (gm_userId (row_data r), js_Number (group_net ?t gid (gm_userId (row_data r))))) ?ms))"
    using prisma.getGroupBalances_Inr [OF assms(1,2)] by (simp only: mset_map)
  then have "mset (map bd_amountMinorUnits dtos) = mset (map (\<lambda>r. js_Number (group_net ?t gid (gm_userId (row_data r)))) ?ms)"
    by (simp add: comp_def)
  then have "(\<Sum>d\<leftarrow>dtos. bd_amountMinorUnits d) = (\<Sum>r\<leftarrow>?ms. js_Number (group_net ?t gid (gm_userId (row_data r))))"
    by (metis sum_mset_sum_list)
  also have "\<dots> = (\<Sum>r\<leftarrow>?ms. group_net ?t gid (gm_userId (row_data r)))"
    using assms(5) by (intro arg_cong [of _ _ sum_list] map_cong) (auto simp: list_all_iff js_Number_safe)
  also have "\<dots> = - (\<Sum>u\<in>{u \<in> book_users (book_expenses ?t gid) (book_settlements ?t gid).
            \<not> is_member ?t gid u}. group_net ?t gid u)"
    by (rule group_net_members [OF assms(3,4)])
  finally show ?thesis .
qed

text \<open>The witness is the group after its second member has been removed: 30 is missing.\<close>

theorem getGroupBalances_sum_witness:
  "\<exists>dtos w' w1. removeGroupMember mem_prisma fake_redis demo_env ''u1'' ''g1'' ''u2'' demo_world = (Inr (), w1) \<and>
     getGroupBalances mem_prisma ''u1'' ''g1'' w1 = (Inr dtos, w') \<and> (\<Sum>d\<leftarrow>dtos. bd_amountMinorUnits d) = 30"
proof -
  let ?rem = "removeGroupMember mem_prisma fake_redis demo_env ''u1'' ''g1'' ''u2'' demo_world"
  let ?w1 = "snd ?rem"
  let ?t = "md_tables (w_db ?w1)"
  have rem: "ran ?rem" by code_simp
  have run: "ran (getGroupBalances mem_prisma ''u1'' ''g1'' ?w1)" by code_simp
  have ok: "ledger_ok ?t" by code_simp
  have d: "distinct (map (\<lambda>r. gm_userId (row_data r)) (filter (in_group_member ''g1'') (members ?t)))"
    by code_simp
  have s: "list_all (\<lambda>r. \<bar>group_net ?t ''g1'' (gm_userId (row_data r))\<bar> \<le> MAX_SAFE_INTEGER)
      (filter (in_group_member ''g1'') (members ?t))" by code_simp
  have gone: "{u \<in> book_users (book_expenses ?t ''g1'') (book_settlements ?t ''g1''). \<not> is_member ?t ''g1'' u} =
      {''u2''}" by code_simp
  have net: "group_net ?t ''g1'' ''u2'' = - 30" by code_simp
  show ?thesis
    using getGroupBalances_sum [OF prisma_mem ran_eq [OF run] ok d s] ran_eq [OF rem] ran_eq [OF run]
    unfolding gone by (simp add: net) blast
qed


section \<open>Changing and deleting expenses\<close>



text \<open>C8. Deleting an expense: it takes a member of its group, removes exactly the expense and its
  splits (its other rows have no split left), records one event, and changes nothing else.\<close>

theorem deleteExpense_removes_it_with_its_splits:
  assumes "prisma T P" and "deleteExpense P E uid eid w = (Inr u, w')"
  shows "\<exists>e ev. e \<in> set (expenses (T (w_db w))) \<and> row_id e = eid \<and>
    is_member (T (w_db w)) (ex_groupId (row_data e)) uid \<and>
    ev_type (row_data ev) = EXPENSE_DELETED \<and> ev_userId (row_data ev) = uid \<and>
    \<not> has_id eid (expenses (T (w_db w'))) \<and> splits_of (T (w_db w')) eid = [] \<and>
    T (w_db w') = activities_update (\<lambda>rs. rs @ [ev])
       (splits_update (filter (\<lambda>s. sp_expenseId (row_data s) \<noteq> eid))
         (expenses_update (filter (\<lambda>r. row_id r \<noteq> eid)) (T (w_db w))))"
proof -
  from prisma.deleteExpense_Inr [OF assms] obtain e ev where
      e: "e \<in> set (expenses (T (w_db w)))" "row_id e = eid"
        "is_member (T (w_db w)) (ex_groupId (row_data e)) uid"
        "ev_type (row_data ev) = EXPENSE_DELETED" "ev_userId (row_data ev) = uid"
    and t': "T (w_db w') = activities_update (\<lambda>rs. rs @ [ev])
       (splits_update (filter (\<lambda>s. sp_expenseId (row_data s) \<noteq> eid))
         (expenses_update (filter (\<lambda>r. row_id r \<noteq> eid)) (T (w_db w))))"
    by blast
  have "\<not> has_id eid (expenses (T (w_db w')))" "splits_of (T (w_db w')) eid = []"
    by (auto simp: t' has_id_iff splits_of_def of_expense_def filter_empty_conv)
  with e t' show ?thesis by (intro exI [of _ e] exI [of _ ev]) simp
qed

theorem deleteExpense_removes_it_with_its_splits_witness:
  "splits (md_tables (w_db (snd (deleteExpense mem_prisma demo_env ''u2'' ''e1'' demo_world)))) = []"
proof -
  have run: "ran (deleteExpense mem_prisma demo_env ''u2'' ''e1'' demo_world)" by code_simp
  have s: "filter (\<lambda>s. sp_expenseId (row_data s) \<noteq> ''e1'') (splits (md_tables (w_db demo_world))) = []"
    by code_simp
  from deleteExpense_removes_it_with_its_splits [OF prisma_mem ran_eq [OF run]] show ?thesis
    using s by auto
qed


section \<open>Settlements\<close>

text \<open>C9. Recording a settlement: a request that succeeds comes from a member, between two
  different members; either a settlement was already recorded under the same key, user and
  request hash, and then it is answered again and nothing changes, or exactly one settlement
  with the requested data is added, together with one event and the completed record that
  will answer a retry, and the rest of the tables stays.\<close>

theorem createSettlement_records_one:
  assumes "prisma T P" and "createSettlement P R E ttl uid input context w = (Inr dto, w')"
  shows "is_member (T (w_db w)) (si_groupId input) uid \<and> si_payerId input \<noteq> si_payeeId input \<and>
    is_member (T (w_db w)) (si_groupId input) (si_payerId input) \<and>
    is_member (T (w_db w)) (si_groupId input) (si_payeeId input) \<and>
    (\<exists>s r. settled (T (w_db w')) context s r \<and> st_id dto = row_id s \<and>
       (T (w_db w') = T (w_db w) \<or>
        (\<exists>ev records settledAt.
           row_data s = \<lparr>se_groupId = si_groupId input, se_payerId = si_payerId input,
             se_payeeId = si_payeeId input, se_amountMinorUnits = si_amountMinorUnits input,
             se_currencyCode = ''PKR'', se_settledAt = settledAt\<rparr> \<and>
           \<not> has_id (row_id s) (settlements (T (w_db w))) \<and>
           ev_type (row_data ev) = SETTLEMENT_ADDED \<and> ev_userId (row_data ev) = uid \<and>
           T (w_db w') = (T (w_db w))\<lparr>settlements := settlements (T (w_db w)) @ [s],
             activities := activities (T (w_db w)) @ [ev], idempotencyRecords := records\<rparr>)))"
proof -
  let ?t = "T (w_db w)" and ?t' = "T (w_db w')"
  let ?act = "\<lparr>ai_userId = uid, ai_type = SETTLEMENT_ADDED, ai_message = ''recorded a settlement''\<rparr>"
  let ?data = "\<lambda>settledAt. \<lparr>se_groupId = si_groupId input, se_payerId = si_payerId input,
    se_payeeId = si_payeeId input, se_amountMinorUnits = si_amountMinorUnits input,
    se_currencyCode = ''PKR'', se_settledAt = settledAt\<rparr>"
  from prisma.createSettlement_Inr [OF assms] obtain x settledAt where
      who: "is_member ?t (si_groupId input) uid" "si_payerId input \<noteq> si_payeeId input"
        "is_member ?t (si_groupId input) (si_payerId input)" "is_member ?t (si_groupId input) (si_payeeId input)"
    and dto: "dto = settlement_toDto x"
    and out: "(?t' = ?t \<and> (\<exists>r. settled ?t context (sr_row x) r)) \<or>
        newly_settled E ?t context (?data settledAt) ?act (sr_row x) ?t'"
    by blast
  from out show ?thesis
  proof
    assume "?t' = ?t \<and> (\<exists>r. settled ?t context (sr_row x) r)"
    then show ?thesis using who dto by auto
  next
    assume new: "newly_settled E ?t context (?data settledAt) ?act (sr_row x) ?t'"
    obtain r i where r: "settled ?t' context (sr_row x) r" by (rule newly_settled_settled [OF new])
    obtain keep claim ev i where "\<not> has_id (row_id (sr_row x)) (settlements ?t)"
      "row_data (sr_row x) = ?data settledAt" "row_data ev = settlement_event (sr_row x) ?act"
      "?t' = ?t\<lparr>settlements := settlements ?t @ [sr_row x], activities := activities ?t @ [ev],
               idempotencyRecords := filter keep (idempotencyRecords ?t) @ [claim]\<rparr>"
      using newly_settledE [OF new] by metis
    then show ?thesis
      using who dto r by (intro conjI exI [of _ "sr_row x"] exI [of _ r] disjI2 exI [of _ ev]
          exI [of _ "filter keep (idempotencyRecords ?t) @ [claim]"] exI [of _ settledAt])
        (simp_all add: settlement_event_def)
  qed
qed

theorem createSettlement_records_one_witness:
  "\<exists>s r. settled (md_tables (w_db (snd (createSettlement mem_prisma fake_redis demo_env 10000 ''u2''
     demo_settlement demo_context demo_world)))) demo_context s r"
proof -
  have run: "ran (createSettlement mem_prisma fake_redis demo_env 10000 ''u2'' demo_settlement
    demo_context demo_world)" by code_simp
  from createSettlement_records_one [OF prisma_mem ran_eq [OF run]] show ?thesis by blast
qed






section \<open>Redis: lock and rate limit\<close>

text \<open>C12. Mutual exclusion of the group lock: whatever processes acquire, release (also late, after
  their lease ran out), crash or do elsewhere, and whatever calls fail or lose their reply, two
  processes that both hold an unexpired lease are the same process, and the server's key carries
  its token.\<close>

theorem lock_mutual_exclusion:
  assumes "redis_server V R" and "0 < ttl" and "inj (uuid E)"
    and "(lock_step V R E ttl key)\<^sup>*\<^sup>* (w0, \<lambda>_. Idle) (w, pcs)"
    and "pcs p = Holding token d" and "rv_now (V (w_redis w)) < d"
    and "pcs q = Holding token' d'" and "rv_now (V (w_redis w)) < d'"
  shows "p = q \<and> rv_keys (V (w_redis w)) key = Some (token, Some d)"
proof -
  have inv: "lock_inv V E key (w, pcs)"
    by (rule redis_server.lock_inv_reachable [OF assms(1,4,2,3)])
  have "rv_keys (V (w_redis w)) key = Some (token, Some d)"
    "rv_keys (V (w_redis w)) key = Some (token', Some d')"
    using lock_invD(2) [OF inv] assms(5-8) by blast+
  then show ?thesis using lock_invD(3) [OF inv] assms(5,7) by auto
qed

theorem lock_mutual_exclusion_witness:
  "\<exists>w token. acquire fake_redis demo_env 100 ''k'' demo_world = (Inr (Some token), w) \<and>
     rv_keys (fake_view (w_redis w)) ''k'' = Some (token, Some 100)"
proof -
  let ?run = "acquire fake_redis demo_env 100 ''k'' demo_world"
  let ?w = "snd ?run"
  have tok: "fst ?run = Inr (Some ''u'')" by code_simp
  then have run: "?run = (Inr (Some ''u''), ?w)" by (metis prod.collapse)
  have now: "rv_now (fake_view (w_redis ?w)) = 0" by code_simp
  have pos: "(0::int) < 100" by simp
  let ?pcs = "(\<lambda>_. Idle) (0 := Holding ''u'' (rv_now (fake_view (w_redis ?w)) + 100))"
  have reach: "(lock_step fake_view fake_redis demo_env 100 ''k'')\<^sup>*\<^sup>* (demo_world, \<lambda>_. Idle) (?w, ?pcs)"
    by (rule r_into_rtranclp, rule lock_step.Acquired) (simp, rule run)
  have "0 = (0::nat) \<and> rv_keys (fake_view (w_redis ?w)) ''k'' = Some (''u'', Some 100)"
    using lock_mutual_exclusion [OF fake_laws pos inj_demo_uuid reach, of 0 "''u''" 100 0 "''u''" 100]
    by (simp add: now)
  then show ?thesis using run by blast
qed

text \<open>C13. Releasing is safe: a release with one's own token, successful or not, never frees a key
  that carries another token whose lease has not run out.\<close>

theorem release_only_ones_own:
  assumes "redis_server V R" and "release R key token w = (res, w')"
    and "rv_keys (V (w_redis w)) key = Some (token', Some d)" and "token' \<noteq> token"
    and "rv_now (V (w_redis w')) < d"
  shows "rv_keys (V (w_redis w')) key = Some (token', Some d)"
proof -
  obtain r1 where aged: "aged (V (w_redis w)) (V r1)"
    and r1: "V (w_redis w') = V r1 \<or> map_option fst (rv_keys (V r1) key) = Some token \<and>
       V (w_redis w') = (V r1)\<lparr>rv_keys := (rv_keys (V r1))(key := None)\<rparr>"
    by (rule redis_server.release_view [OF assms(1,2)])
  then have "rv_now (V r1) = rv_now (V (w_redis w'))" by auto
  then have "rv_keys (V r1) key = Some (token', Some d)"
    using aged assms(3,5) by (simp add: aged_keys)
  with r1 assms(4) show ?thesis by auto
qed

theorem release_only_ones_own_witness:
  "rv_keys (fake_view (w_redis (snd (release fake_redis ''k'' ''mine''
     (snd (acquire fake_redis demo_env 100 ''k'' demo_world)))))) ''k'' = Some (''u'', Some 100)"
proof -
  let ?w = "snd (acquire fake_redis demo_env 100 ''k'' demo_world)"
  have k: "rv_keys (fake_view (w_redis ?w)) ''k'' = Some (''u'', Some 100)" by code_simp
  have now: "rv_now (fake_view (w_redis (snd (release fake_redis ''k'' ''mine'' ?w)))) < 100" by code_simp
  show ?thesis
    by (rule release_only_ones_own [OF fake_laws surjective_pairing k _ now]) simp
qed



text \<open>C15. Counting hits: starting from no counter for the key, consecutive \<open>increment\<close> calls that
  stay within one window answer 1, 2, 3, and so on, however much time passes between them.\<close>

theorem rate_limit_counts_every_hit:
  assumes "redis_server V R" and "0 < rs_windowMs s"
    and "rv_keys (V (w_redis w)) (rs_prefix s @ key) = None"
    and "map_act (\<lambda>_. RateLimit_increment R E s key) (replicate n ()) w = (Inr resps, w')"
    and "rv_now (V (w_redis w')) < rv_now (V (w_redis w)) + rs_windowMs s"
  shows "map ir_totalHits resps = map int [1..<Suc n]"
  using redis_server.RateLimit_hits_fresh [OF assms(1,4,2,3,5)] by simp

theorem rate_limit_counts_every_hit_witness:
  "\<exists>resps w'. map_act (\<lambda>_. RateLimit_increment fake_redis demo_env demo_limits ''ip'') (replicate 2 ())
     demo_world = (Inr resps, w') \<and> map ir_totalHits resps = [1, 2]"
proof -
  let ?run = "map_act (\<lambda>_. RateLimit_increment fake_redis demo_env demo_limits ''ip'') (replicate 2 ()) demo_world"
  have two: "replicate 2 () = [(), ()]" by (simp add: numeral_2_eq_2)
  have run: "ran ?run" unfolding two by code_simp
  have pos: "0 < rs_windowMs demo_limits" by (simp add: demo_limits_def)
  have free: "rv_keys (fake_view (w_redis demo_world)) (rs_prefix demo_limits @ ''ip'') = None"
    by (simp add: fake_view_def demo_world_def demo_redis_def)
  have window: "rv_now (fake_view (w_redis (snd ?run))) < rv_now (fake_view (w_redis demo_world)) + rs_windowMs demo_limits"
    unfolding two by code_simp
  have "map int [1..<Suc 2] = [1, 2]" by (simp add: upt_rec)
  with rate_limit_counts_every_hit [OF fake_laws pos free ran_eq [OF run] window] show ?thesis
    using ran_eq [OF run] by metis
qed


section \<open>JSON, cache and groups\<close>



text \<open>The group cache reads back what it wrote: an entry is returned unchanged for its own
  group id, and for any other id it is a miss, never another group's data.\<close>

theorem cache_entry_round_trip:
  assumes "iso_dates E"
  shows "deserialize E (serialize E g) gid = (if gid = gw_id g then Some g else None)"
proof (cases "gid = gw_id g")
  case True
  then show ?thesis using deserialize_serialize [OF assms] by simp
next
  case False
  then show ?thesis by (simp add: deserialize_other_id)
qed

theorem cache_entry_round_trip_witness:
  "\<exists>g. gw_members g \<noteq> [] \<and> deserialize demo_env (serialize demo_env g) ''g1'' = Some g"
proof -
  let ?g = "\<lparr>gw_id = ''g1'', gw_name = ''Trip'', gw_createdById = ''u1'', gw_createdAt = 2,
    gw_updatedAt = 2, gw_members = [safeUser (demo_user ''u1'' ''Ann'')]\<rparr>"
  have "deserialize demo_env (serialize demo_env ?g) ''g1'' = Some ?g"
    using cache_entry_round_trip [OF iso_demo, of ?g "''g1''"] by simp
  then show ?thesis by (intro exI [of _ ?g]) simp
qed

text \<open>C17. Reading a group: whoever gets the details is a member according to the tables, cached
  entry or not; the answer is the group asked for, with its owner and members as the tables have
  them, or as the entry that the server holds under this group's key has them.\<close>

theorem getGroupById_members_only:
  assumes "prisma T P" and "redis_server V R" and "getGroupById P R E ttl uid gid w = (Inr x, w')"
  shows "is_member (T (w_db w)) gid uid \<and> T (w_db w') = T (w_db w) \<and>
    (detail_of (T (w_db w)) gid x \<or>
     (\<exists>raw d w1. deserialize E raw gid = Some x \<and> getCachedGroupById R E gid w = (Inr (Some x), w1) \<and>
        rv_keys (V (w_redis w1)) (groupCacheKey gid) = Some (raw, d)))"
  using prisma.getGroupById_Inr [OF assms] by blast

theorem getGroupById_members_only_witness:
  "\<exists>x w'. getGroupById mem_prisma fake_redis demo_env 300 ''u2'' ''g1'' demo_world = (Inr x, w') \<and>
     is_member demo_tables ''g1'' ''u2''"
proof -
  have run: "ran (getGroupById mem_prisma fake_redis demo_env 300 ''u2'' ''g1'' demo_world)" by code_simp
  have w: "md_tables (w_db demo_world) = demo_tables" by (simp add: demo_world_def)
  from getGroupById_members_only [OF prisma_mem fake_laws ran_eq [OF run]] ran_eq [OF run] show ?thesis
    unfolding w by blast
qed

text \<open>C18. No stale entry survives a change: after a rename, a deletion, an addition or a removal
  that succeeded, the server holds no entry for the group, unless dropping it failed, and then
  the failure counter has gone up.\<close>

theorem group_changes_drop_the_cache:
  assumes "prisma T P" and "redis_server V R" and "change_group P R E uid gid c w = (Inr u, w')"
    and "is_counter (w_metrics w) (metric_name cacheFailuresTotal)"
  shows "rv_keys (V (w_redis w')) (groupCacheKey gid) = None \<or>
    counterValue (metric_name cacheFailuresTotal) [(''operation'', ''delete'')] (w_metrics w) <
    counterValue (metric_name cacheFailuresTotal) [(''operation'', ''delete'')] (w_metrics w')"
  by (rule change_group_invalidates [OF assms(2-4)])

text \<open>The witness: a member is added after the group was read into the cache.\<close>

theorem group_changes_drop_the_cache_witness:
  "rv_keys (fake_view (w_redis (snd (change_group mem_prisma fake_redis demo_env ''u1'' ''g1''
     (AddMember ''u3'') (snd (getGroupById mem_prisma fake_redis demo_env 300 ''u2'' ''g1'' counting_world))))))
     (groupCacheKey ''g1'') = None"
proof -
  let ?w = "snd (getGroupById mem_prisma fake_redis demo_env 300 ''u2'' ''g1'' counting_world)"
  let ?run = "change_group mem_prisma fake_redis demo_env ''u1'' ''g1'' (AddMember ''u3'') ?w"
  let ?n = "metric_name cacheFailuresTotal" and ?l = "[(''operation'', ''delete'')]"
  have run: "ran ?run" by code_simp
  have reg: "is_counter (w_metrics ?w) ?n" by code_simp
  have "counterValue ?n ?l (w_metrics ?w) = 0" "counterValue ?n ?l (w_metrics (snd ?run)) = 0"
    by code_simp+
  with group_changes_drop_the_cache [OF prisma_mem fake_laws ran_eq [OF run] reg] show ?thesis by simp
qed

text \<open>C19. Only the owner changes a group: whatever a rename, a deletion, an addition or a removal
  returns or throws, the tables are as they were, or the requester is the group's creator and
  they differ by exactly the change asked for with its event (for a deletion, by the cascade).\<close>

theorem only_the_owner_changes_a_group:
  assumes "prisma T P" and "change_group P R E uid gid c w = (r, w')"
  shows "T (w_db w') = T (w_db w) \<or>
    (\<exists>g. g \<in> set (groups (T (w_db w))) \<and> row_id g = gid \<and> gr_createdById (row_data g) = uid) \<and>
    group_changed gid c (T (w_db w)) (T (w_db w'))"
  using effectD [OF prisma.effect_change_group [OF assms(1)] assms(2)]
  by (auto simp: owned_by_def group_row_def)

theorem only_the_owner_changes_a_group_witness:
  "md_tables (w_db (snd (change_group mem_prisma fake_redis demo_env ''u2'' ''g1'' Delete demo_world))) = demo_tables"
proof -
  have none: "\<not> list_ex (\<lambda>g. row_id g = ''g1'' \<and> gr_createdById (row_data g) = ''u2'') (groups demo_tables)"
    by code_simp
  have w: "md_tables (w_db demo_world) = demo_tables" by (simp add: demo_world_def)
  from only_the_owner_changes_a_group [OF prisma_mem surjective_pairing, of fake_redis demo_env "''u2''" "''g1''" Delete demo_world]
    none show ?thesis by (auto simp: w list_ex_iff)
qed


section \<open>Jobs\<close>

text \<open>C20. Claiming a job: a claim takes a job whose envelope is valid, that is due, and that no
  other queued job precedes; nobody held a live lease on it, and the claimer's lease is written;
  an answer that nothing is due means that every queued job lies in the future; and a malformed
  job leaves no trace in the queue.\<close>

theorem claimNext_takes_the_earliest_due_job:
  assumes "redis_server V R" and "0 < jc_leaseMs c" and "claimNext R E c type w = (Inr res, w')"
  shows "case res of
     Empty \<Rightarrow> (\<forall>m s. rv_zsets (V (w_redis w)) (queueKey type) m = Some s \<longrightarrow> clock E (w_tick w) < s)
   | Busy \<Rightarrow> rv_zsets (V (w_redis w')) = rv_zsets (V (w_redis w))
   | Malformed jobId \<Rightarrow> job_gone type jobId (V (w_redis w'))
   | Claimed jobId e \<Rightarrow> valid_envelope type jobId e \<and>
       rv_zsets (V (w_redis w')) = rv_zsets (V (w_redis w)) \<and>
       (\<exists>s. rv_zsets (V (w_redis w)) (queueKey type) jobId = Some s \<and> s \<le> clock E (w_tick w) \<and>
          (\<forall>m' s'. rv_zsets (V (w_redis w)) (queueKey type) m' = Some s' \<longrightarrow> s \<le> s')) \<and>
       (\<exists>t d. rv_now (V (w_redis w)) \<le> t \<and> alive t (rv_keys (V (w_redis w)) (inflightKey jobId)) = None \<and>
          d = t + jc_leaseMs c \<and> rv_keys (V (w_redis w')) (inflightKey jobId) =
            alive (rv_now (V (w_redis w'))) (Some (uuid E (Suc (w_tick w)), Some d)))"
  by (rule redis_server.claimNext_Inr [OF assms(1,3,2)])

theorem claimNext_takes_the_earliest_due_job_witness:
  "\<exists>e w'. valid_envelope GROUP_SUMMARY_RECOMPUTE ''u'' e \<and>
     claimNext fake_redis demo_env demo_queue GROUP_SUMMARY_RECOMPUTE (demo_queued (JObject [])) =
       (Inr (Claimed ''u'' e), w')"
proof -
  have p: "wf_json (JObject [])" "is_object (Some (JObject []))" by (simp_all add: is_object_def)
  obtain e w' where run: "claimNext fake_redis demo_env demo_queue GROUP_SUMMARY_RECOMPUTE
      (demo_queued (JObject [])) = (Inr (Claimed ''u'' e), w')"
    using demo_claim [OF p] by (metis prod.collapse)
  have pos: "0 < jc_leaseMs demo_queue" by (simp add: demo_queue_def)
  from claimNext_takes_the_earliest_due_job [OF fake_laws pos run] run show ?thesis by auto
qed



text \<open>Retry delays: the delay before each attempt lies between the base and the maximum, and
  does not shrink from one attempt to the next.\<close>

theorem backoff_bounded_and_monotone:
  assumes "0 \<le> jc_baseBackoffMs c" and "jc_baseBackoffMs c \<le> jc_maxBackoffMs c" and "1 \<le> n"
  shows "jc_baseBackoffMs c \<le> backoffFor c n \<and> backoffFor c n \<le> jc_maxBackoffMs c \<and>
    backoffFor c n \<le> backoffFor c (Suc n)"
  using backoffFor_bounds [OF assms] by blast

theorem backoff_bounded_and_monotone_witness:
  "map (backoffFor demo_queue) [1, 5, 6] = [2000, 32000, 60000] \<and> backoffFor demo_queue 3 \<le> backoffFor demo_queue 4"
proof (rule conjI)
  show "map (backoffFor demo_queue) [1, 5, 6] = [2000, 32000, 60000]" by (simp add: backoffFor_def demo_queue_def)
  have "backoffFor demo_queue 3 \<le> backoffFor demo_queue (Suc 3)"
    using backoff_bounded_and_monotone [of demo_queue 3] by (simp add: demo_queue_def)
  then show "backoffFor demo_queue 3 \<le> backoffFor demo_queue 4" by simp
qed

text \<open>C22. What becomes of a claimed job: when the poll that claimed it has returned, whatever the
  processor did, the job holds no lease and either has left the queue for good or, only while
  it has attempts left, is scheduled again after the backoff with the failed attempt on record;
  so no job is attempted more often than configured.\<close>

theorem claimed_job_is_settled:
  assumes "redis_server V R" and "0 < jc_payloadTtlMs c"
    and "claimNext R E c type w = (Inr (Claimed jobId e), w1)"
    and "processType R E c registration type w = (Inr u, w')"
  shows "job_dropped type jobId (V (w_redis w')) \<or>
    envelope_attempts e + 1 < jc_maxAttempts c \<and>
    job_rescheduled E c type jobId (envelope_attempts e + 1) (V (w_redis w'))"
  by (rule redis_server.processType_Inr [OF assms(1,4,3,2)])

theorem claimed_job_is_settled_witness:
  "\<exists>w'. processType fake_redis demo_env demo_queue (groupSummaryRegistration mem_prisma demo_env)
       GROUP_SUMMARY_RECOMPUTE (demo_queued (JObject [])) = (Inr (), w') \<and>
     (job_dropped GROUP_SUMMARY_RECOMPUTE ''u'' (fake_view (w_redis w')) \<or>
      job_rescheduled demo_env demo_queue GROUP_SUMMARY_RECOMPUTE ''u'' 1 (fake_view (w_redis w')))"
proof -
  have p: "wf_json (JObject [])" "is_object (Some (JObject []))" by (simp_all add: is_object_def)
  let ?e = "make_envelope ''u'' GROUP_SUMMARY_RECOMPUTE (JObject []) (toISOString demo_env 5000) None"
  obtain w1 where claim: "claimNext fake_redis demo_env demo_queue GROUP_SUMMARY_RECOMPUTE
      (demo_queued (JObject [])) = (Inr (Claimed ''u'' ?e), w1)"
    using demo_claim [OF p] by (metis prod.collapse)
  have pos: "0 < jc_payloadTtlMs demo_queue" by (simp add: demo_queue_def)
  have "envelope_attempts ?e = 0" by (simp add: envelope_attempts_def make_envelope_fields)
  with claimed_job_is_settled [OF fake_laws pos claim ran_eq [OF demo_process]] ran_eq [OF demo_process]
  show ?thesis by auto
qed



text \<open>What \<open>stop()\<close> does not guarantee: it may return while a loop is still waiting for its
  claim, and that claim's job then runs after \<open>stop()\<close> has returned; and a \<open>stop()\<close> followed by a
  \<open>start()\<close> can leave two loops polling.\<close>

theorem runner_stop_is_not_final:
  "(\<exists>s. runner_step\<^sup>*\<^sup>* new_runner s \<and> rn_stopped s \<and> \<not> rn_running s \<and> rn_inFlight s = 1) \<and>
   (\<exists>s. runner_step\<^sup>*\<^sup>* new_runner s \<and> rn_running s \<and> rn_loops s = [Claiming, Claiming])"
proof (rule conjI)
  let ?r = "\<lambda>running n loops stopping stopped. \<lparr>rn_running = running, rn_inFlight = n, rn_loops = loops,
     rn_stopping = stopping, rn_stopped = stopped\<rparr>"
  have start: "runner_step new_runner (?r True 0 [Checking] False False)"
    using runner_step.Start [of new_runner] by (simp add: new_runner_def)
  have poll: "runner_step (?r True 0 [Checking] False False) (?r True 0 [Claiming] False False)"
    using runner_step.Poll [of "?r True 0 [Checking] False False" 0] by (simp add: loop_at_def loop_to_def)
  have stop: "runner_step (?r True 0 [Claiming] False False) (?r False 0 [Claiming] True False)"
    using runner_step.Stop [of "?r True 0 [Claiming] False False"] by simp
  have returns: "runner_step (?r False 0 [Claiming] True False) (?r False 0 [Claiming] False True)"
    using runner_step.StopReturns [of "?r False 0 [Claiming] True False"] by simp
  have job: "runner_step (?r False 0 [Claiming] False True) (?r False 1 [Processing] False True)"
    using runner_step.Job [of "?r False 0 [Claiming] False True" 0] by (simp add: loop_at_def loop_to_def)
  have restart: "runner_step (?r False 0 [Claiming] False True) (?r True 0 [Claiming, Checking] False False)"
    using runner_step.Start [of "?r False 0 [Claiming] False True"] by simp
  have second: "runner_step (?r True 0 [Claiming, Checking] False False) (?r True 0 [Claiming, Claiming] False False)"
    using runner_step.Poll [of "?r True 0 [Claiming, Checking] False False" 1] by (simp add: loop_at_def loop_to_def)
  have stopped: "runner_step\<^sup>*\<^sup>* new_runner (?r False 0 [Claiming] False True)"
    by (rule rtranclp.rtrancl_into_rtrancl [OF rtranclp.rtrancl_into_rtrancl
          [OF rtranclp.rtrancl_into_rtrancl [OF r_into_rtranclp [of runner_step, OF start] poll] stop] returns])
  have "runner_step\<^sup>*\<^sup>* new_runner (?r False 1 [Processing] False True)"
    by (rule rtranclp.rtrancl_into_rtrancl [OF stopped job])
  then show "\<exists>s. runner_step\<^sup>*\<^sup>* new_runner s \<and> rn_stopped s \<and> \<not> rn_running s \<and> rn_inFlight s = 1"
    by (intro exI [of _ "?r False 1 [Processing] False True"]) simp
  have "runner_step\<^sup>*\<^sup>* new_runner (?r True 0 [Claiming, Claiming] False False)"
    by (rule rtranclp.rtrancl_into_rtrancl [OF rtranclp.rtrancl_into_rtrancl [OF stopped restart] second])
  then show "\<exists>s. runner_step\<^sup>*\<^sup>* new_runner s \<and> rn_running s \<and> rn_loops s = [Claiming, Claiming]"
    by (intro exI [of _ "?r True 0 [Claiming, Claiming] False False"]) simp
qed



text \<open>The job may be delivered twice: a second recomputation of the same tables leaves every
  summary row with the same id, group and numbers as the first.\<close>

theorem recomputeGroupSummary_idempotent:
  assumes "prisma T P" and "recomputeGroupSummary P E gid w = (Inr dto, w1)"
    and "recomputeGroupSummary P E gid w1 = (Inr dto', w2)"
  shows "map (\<lambda>r. (row_id r, su_groupId (row_data r), metrics_of r)) (summaries (T (w_db w2))) =
         map (\<lambda>r. (row_id r, su_groupId (row_data r), metrics_of r)) (summaries (T (w_db w1)))"
  by (rule summarised_twice)
    (use prisma.recomputeGroupSummary_Inr [OF assms(1)] assms(2,3) in blast)+

theorem recomputeGroupSummary_idempotent_witness:
  "\<exists>w1 w2 dto dto'. recomputeGroupSummary mem_prisma demo_env ''g1'' demo_world = (Inr dto, w1) \<and>
     recomputeGroupSummary mem_prisma demo_env ''g1'' w1 = (Inr dto', w2) \<and>
     map (\<lambda>r. (row_id r, metrics_of r)) (summaries (md_tables (w_db w2))) =
     map (\<lambda>r. (row_id r, metrics_of r)) (summaries (md_tables (w_db w1)))"
proof -
  let ?first = "recomputeGroupSummary mem_prisma demo_env ''g1'' demo_world"
  have run1: "ran ?first" by code_simp
  have run2: "ran (recomputeGroupSummary mem_prisma demo_env ''g1'' (snd ?first))" by code_simp
  from recomputeGroupSummary_idempotent [OF prisma_mem ran_eq [OF run1] ran_eq [OF run2]]
  have "map (\<lambda>(i, g, m). (i, m)) (map (\<lambda>r. (row_id r, su_groupId (row_data r), metrics_of r))
      (summaries (md_tables (w_db (snd (recomputeGroupSummary mem_prisma demo_env ''g1'' (snd ?first))))))) =
    map (\<lambda>(i, g, m). (i, m)) (map (\<lambda>r. (row_id r, su_groupId (row_data r), metrics_of r))
      (summaries (md_tables (w_db (snd ?first)))))" by simp
  with ran_eq [OF run1] ran_eq [OF run2] show ?thesis by (auto simp: comp_def)
qed


section \<open>The service as a whole\<close>

text \<open>C25. The tables stay consistent: whatever requests are served to the end and whatever the worker
  polls, and whether they succeed, are refused or fail in the database, the tables still
  satisfy \<open>app_ok\<close> afterwards if they did before, and the empty tables satisfy it. \<open>app_ok\<close> says that
  every expense has splits that sum to its amount and no split is without its expense, every
  group's owner is one of its members, nobody is a member of a group twice, no two sessions
  share a token, and settlements and idempotency keys are unique.\<close>

theorem tables_stay_consistent:
  assumes "prisma T (dp_prisma D)" and "zod_parser F (dp_parse D)"
    and "app_steps D w w'" and "app_ok (T (w_db w))"
  shows "app_ok (T (w_db w')) \<and> app_ok no_tables"
  using app_steps_ok [OF assms] by (simp add: empty_tables_ok)

theorem tables_stay_consistent_witness:
  "\<exists>w'. ran_with 201 (serve demo_deployment POST_expense demo_request demo_world) \<and>
     w' = snd (serve demo_deployment POST_expense demo_request demo_world) \<and>
     length (expenses (md_tables (w_db w'))) = 2 \<and> app_ok (md_tables (w_db w'))"
proof -
  let ?run = "serve demo_deployment POST_expense demo_request demo_world"
  have ran: "ran_with 201 ?run" by code_simp
  have two: "length (expenses (md_tables (w_db (snd ?run)))) = 2" by code_simp
  have "app_step demo_deployment demo_world (snd ?run)"
    by (rule app_step.Request [OF demo_fits prod.collapse [symmetric]])
  then have steps: "app_steps demo_deployment demo_world (snd ?run)" by simp
  have zod: "zod_parser demo_formats (dp_parse demo_deployment)" by (simp add: demo_deployment_def demo_zod)
  have ok: "app_ok (md_tables (w_db demo_world))" using demo_app_ok by (simp add: demo_world_def)
  from tables_stay_consistent [OF demo_prisma zod steps ok] ran two show ?thesis by blast
qed

text \<open>C26. Whose request it is: an endpoint behind \<open>authenticate\<close> answers a request without a
  well-formed bearer token, or with a token that the JWT library or the payload check refuses,
  with 401, and then nothing was read or written in the services; and an answer was produced by
  the controller for the user that the token names.\<close>

theorem protected_endpoints_need_a_token:
  assumes "authenticated ep"
  shows "case acting_user D rq w of
      Inl e \<Rightarrow> \<exists>w'. serve D ep rq w = (Inr (Refused (errorHandler e)), w') \<and>
        er_status (errorHandler e) = 401 \<and> w_db w' = w_db w \<and> w_redis w' = w_redis w \<and>
        w_mail w' = w_mail w \<and> w_metrics w' = w_metrics w
    | Inr sub \<Rightarrow> \<forall>status b w'. serve D ep rq w = (Inr (Answered status b), w') \<longrightarrow>
        (\<exists>rq' w1. rq_userId rq' = sub \<and> controller D ep rq' w1 = (Inr (status, b), w'))"
proof (cases "acting_user D rq w")
  case (Inl e)
  then show ?thesis using serve_unauthenticated [OF assms Inl] by simp
next
  case (Inr sub)
  then show ?thesis using serve_authenticated [OF assms] by fastforce
qed

theorem protected_endpoints_need_a_token_witness:
  "acting_user demo_deployment (demo_request\<lparr>rq_authorization := Some ''Bearer a b''\<rparr>) demo_world = Inl bearerRequired \<and>
   (\<exists>w'. serve demo_deployment GET_balances (demo_request\<lparr>rq_authorization := Some ''Bearer a b''\<rparr>) demo_world =
       (Inr (Refused (errorHandler bearerRequired)), w') \<and> w_db w' = w_db demo_world)"
proof -
  let ?rq = "demo_request\<lparr>rq_authorization := Some ''Bearer a b''\<rparr>"
  have e: "acting_user demo_deployment ?rq demo_world = Inl bearerRequired" by code_simp
  have "authenticated GET_balances" by (simp add: authenticated_def chain_simps)
  from protected_endpoints_need_a_token [OF this, of demo_deployment ?rq demo_world] show ?thesis
    unfolding e sum.case by blast
qed





text \<open>C33. Refresh tokens are good for one use: after a refresh that succeeded, the token it was asked
  with is never accepted again, however many requests and polls come in between.\<close>

theorem refresh_token_is_used_once:
  assumes "prisma T (dp_prisma D)" and "sessions_ok (T (w_db w))"
    and "refresh (dp_prisma D) E K cf tok w = (Inr res, w1)" and "app_steps D w1 w2"
  shows "\<nexists>res2 w3. refresh (dp_prisma D) E K cf tok w2 = (Inr res2, w3)"
  using prisma.spent_refused [OF assms(1)] app_steps_spent [OF assms(1,4)]
    prisma.refresh_spends [OF assms(1,3,2)] by blast

theorem refresh_token_is_used_once_witness:
  "\<exists>res w1. refresh mem_prisma demo_env demo_crypto demo_config ''old'' demo_world = (Inr res, w1) \<and>
     (\<nexists>res2 w3. refresh mem_prisma demo_env demo_crypto demo_config ''old''
        (snd (serve demo_deployment POST_expense demo_request w1)) = (Inr res2, w3))"
proof -
  let ?run = "refresh (dp_prisma demo_deployment) demo_env demo_crypto demo_config ''old'' demo_world"
  let ?w2 = "snd (serve demo_deployment POST_expense demo_request (snd ?run))"
  have ran: "ran ?run" by code_simp
  have p: "dp_prisma demo_deployment = mem_prisma" by (simp add: demo_deployment_def)
  have ok: "sessions_ok (md_tables (w_db demo_world))" using demo_app_ok by (simp add: app_ok_def demo_world_def)
  have "app_step demo_deployment (snd ?run) ?w2"
    by (rule app_step.Request [OF demo_fits prod.collapse [symmetric]])
  then have "app_steps demo_deployment (snd ?run) ?w2" by simp
  from refresh_token_is_used_once [OF demo_prisma ok ran_eq [OF ran] this] ran_eq [OF ran]
  show ?thesis unfolding p by blast
qed


section \<open>Bounded retries and single use\<close>

text \<open>C34. Retries end: the polls that claimed a job and returned number at most as many as the
  configured attempts (or one, when fewer are configured), whatever the processor does and
  whatever happens to the queue in between as long as it leaves this job alone; and each attempt
  sees one more failed attempt on record than the one before.\<close>

theorem job_attempts_are_bounded:
  assumes "redis_server V R" and "0 < jc_leaseMs c" and "0 < jc_payloadTtlMs c"
    and "job_history V R E c registration type jobId es w"
  shows "length es \<le> max 1 (jc_maxAttempts c) \<and>
    map envelope_attempts es = map (\<lambda>k. envelope_attempts (hd es) + k) [0..<length es]"
proof (cases "1 < length es")
  case True
  then have "es \<noteq> []" by auto
  note h = redis_server.job_history_attempts [OF assms(1,4,2,3), rule_format, OF this]
  have "envelope_attempts (last es) = last (map envelope_attempts es)" using \<open>es \<noteq> []\<close> by (simp add: last_map)
  also have "\<dots> = envelope_attempts (hd es) + (length es - 1)"
    unfolding conjunct1 [OF conjunct2 [OF h]] using \<open>es \<noteq> []\<close> by (simp add: last_map)
  finally show ?thesis using h True by auto
next
  case False
  then show ?thesis by (cases es) (auto simp: max_def)
qed

theorem job_attempts_are_bounded_witness:
  "\<exists>es (w :: demo_world). job_history fake_view fake_redis demo_env demo_queue (groupSummaryRegistration mem_prisma demo_env)
       GROUP_SUMMARY_RECOMPUTE ''u'' es w \<and> length es = 1 \<and> length es \<le> max 1 (jc_maxAttempts demo_queue)"
proof -
  have p: "wf_json (JObject [])" "is_object (Some (JObject []))" by (simp_all add: is_object_def)
  obtain e w1 where claim: "claimNext fake_redis demo_env demo_queue GROUP_SUMMARY_RECOMPUTE
      (demo_queued (JObject [])) = (Inr (Claimed ''u'' e), w1)"
    using demo_claim [OF p] by (metis prod.collapse)
  let ?w = "snd (processType fake_redis demo_env demo_queue (groupSummaryRegistration mem_prisma demo_env)
      GROUP_SUMMARY_RECOMPUTE (demo_queued (JObject [])))"
  have h: "job_history fake_view fake_redis demo_env demo_queue (groupSummaryRegistration mem_prisma demo_env)
      GROUP_SUMMARY_RECOMPUTE ''u'' ([] @ [e]) ?w"
    by (rule job_history.Attempt [OF job_history.Start claim ran_eq [OF demo_process]])
  have "0 < jc_leaseMs demo_queue" "0 < jc_payloadTtlMs demo_queue" by (simp_all add: demo_queue_def)
  from job_attempts_are_bounded [OF fake_laws this h] h show ?thesis by (intro exI [of _ "[] @ [e]"] exI [of _ ?w] conjI) simp_all
qed

text \<open>C35. Resetting a password: it takes an unused, unexpired reset link; the user of the link has the
  new password's hash afterwards, every session of that user is revoked, no other user's row
  changes, and the link is used up: a second reset with it is refused.\<close>

theorem password_reset_ends_sessions:
  assumes "prisma T P" and "resetUserPassword P E K tok pw w = (Inr msg, w')"
    and "distinct (map (\<lambda>r. at_tokenHash (row_data r)) (authTokens (T (w_db w))))"
  shows "\<exists>r i n. link_ok (T (w_db w)) PASSWORD_RESET (sha256 E tok) (clock E i) r \<and>
    list_all (\<lambda>u. row_id u = at_userId (row_data r) \<longrightarrow> us_passwordHash (row_data u) = Some (cr_bcryptHash K n pw))
      (users (T (w_db w'))) \<and>
    list_all (\<lambda>s. rt_userId (row_data s) = at_userId (row_data r) \<longrightarrow> rt_revokedAt (row_data s) \<noteq> None)
      (refreshTokens (T (w_db w'))) \<and>
    filter (\<lambda>u. row_id u \<noteq> at_userId (row_data r)) (users (T (w_db w'))) =
      filter (\<lambda>u. row_id u \<noteq> at_userId (row_data r)) (users (T (w_db w))) \<and>
    (\<nexists>pw2 msg2 w2. resetUserPassword P E K tok pw2 w' = (Inr msg2, w2))"
proof -
  from prisma.resetUserPassword_Inr [OF assms(1,2)] obtain r i n s1 s2 s3 where
      l: "link_ok (T (w_db w)) PASSWORD_RESET (sha256 E tok) (clock E i) r"
    and t: "T (w_db w') = refreshTokens_update (map (touched (session_of (at_userId (row_data r))) (revoke_at (clock E i)) s3))
      (users_update (map (touched (\<lambda>u. row_id u = at_userId (row_data r)) (set_password (cr_bcryptHash K n pw)) s2))
        (authTokens_update (map (touched (unconsumed (row_id r)) (consume_at (clock E i)) s1)) (T (w_db w))))"
    by blast
  have u: "list_all (\<lambda>u. row_id u = at_userId (row_data r) \<longrightarrow> us_passwordHash (row_data u) = Some (cr_bcryptHash K n pw))
      (users (T (w_db w')))"
    by (auto simp: t list_all_iff row_data_touched set_password_def)
  have s: "list_all (\<lambda>s. rt_userId (row_data s) = at_userId (row_data r) \<longrightarrow> rt_revokedAt (row_data s) \<noteq> None)
      (refreshTokens (T (w_db w')))"
    by (auto simp: t list_all_iff row_data_touched session_of_def revoke_at_def split: if_splits)
  have o: "filter (\<lambda>u. row_id u \<noteq> at_userId (row_data r)) (users (T (w_db w'))) =
      filter (\<lambda>u. row_id u \<noteq> at_userId (row_data r)) (users (T (w_db w)))"
    by (simp add: t filter_touched_other)
  have "authTokens (T (w_db w')) = map (touched (unconsumed (row_id r)) (consume_at (clock E i)) s1) (authTokens (T (w_db w)))"
    by (simp add: t)
  from link_used_up [OF l assms(3) this] prisma.resetUserPassword_Inr [OF assms(1)]
  have "\<nexists>pw2 msg2 w2. resetUserPassword P E K tok pw2 w' = (Inr msg2, w2)" by blast
  with l u s o show ?thesis by blast
qed

theorem password_reset_ends_sessions_witness:
  "\<exists>w'. resetUserPassword mem_prisma demo_env demo_crypto ''r1'' ''new'' demo_world =
       (Inr ''Your password has been reset. Please sign in with your new password.'', w') \<and>
     (\<nexists>pw2 msg2 w2. resetUserPassword mem_prisma demo_env demo_crypto ''r1'' pw2 w' = (Inr msg2, w2))"
proof -
  let ?run = "resetUserPassword mem_prisma demo_env demo_crypto ''r1'' ''new'' demo_world"
  have ran: "fst ?run = Inr ''Your password has been reset. Please sign in with your new password.''" by code_simp
  then obtain w' where run: "?run = (Inr ''Your password has been reset. Please sign in with your new password.'', w')"
    by (metis prod.collapse)
  have d: "distinct (map (\<lambda>r. at_tokenHash (row_data r)) (authTokens (md_tables (w_db demo_world))))" by code_simp
  from password_reset_ends_sessions [OF prisma_mem run d] run show ?thesis by blast
qed

text \<open>C36. Signing in: a login that succeeds named an existing account and gave a password that the
  stored hash accepts; it adds one open session for that user, under the digest of the refresh
  token it answers, and changes nothing else.\<close>

theorem login_checks_the_password:
  assumes "prisma T P" and "login P E K cf email pw w = (Inr res, w')"
  shows "\<exists>u h s. u \<in> set (users (T (w_db w))) \<and> us_email (row_data u) = email \<and>
    us_passwordHash (row_data u) = Some h \<and> cr_bcryptCompare K pw h \<and>
    ar_user res = safeUser u \<and> rt_userId (row_data s) = row_id u \<and>
    rt_tokenHash (row_data s) = sha256 E (ar_refreshToken res) \<and> rt_revokedAt (row_data s) = None \<and>
    T (w_db w') = refreshTokens_update (\<lambda>rs. rs @ [s]) (T (w_db w))"
  by (rule prisma.login_Inr [OF assms])

theorem login_checks_the_password_witness:
  "\<exists>res w'. login mem_prisma demo_env demo_crypto demo_config ''Ann@x.pk'' ''pw'' demo_world = (Inr res, w') \<and>
     sf_id (ar_user res) = ''u1'' \<and> length (refreshTokens (md_tables (w_db w'))) = 2"
proof -
  let ?run = "login mem_prisma demo_env demo_crypto demo_config ''Ann@x.pk'' ''pw'' demo_world"
  have ran: "ran ?run" by code_simp
  have id: "sf_id (ar_user (projr (fst ?run))) = ''u1''" by code_simp
  have one: "length (refreshTokens (md_tables (w_db demo_world))) = 1" by code_simp
  from login_checks_the_password [OF prisma_mem ran_eq [OF ran]] ran_eq [OF ran] id one
  show ?thesis by (intro exI [of _ "projr (fst ?run)"] exI [of _ "snd ?run"]) auto
qed


section \<open>What surrounds the requests\<close>

text \<open>C37. Every finished request is counted once: the listener adds one to the requests of its
  method, route and status class, one to the errors exactly when the status is 400 or more, and
  one observation to the durations; no series with another method, route or status class and no
  other counter changes.\<close>

theorem finished_request_is_counted_once:
  assumes "rg_defs r = rg_defs createSingleton" and "0 \<le> d"
    and "r' = requestHttpMetrics verb route code d r" and "l = http_labels verb route code"
  shows "counterValue ''http_requests_total'' l r' = counterValue ''http_requests_total'' l r + 1 \<and>
    counterValue ''http_errors_total'' l r' = counterValue ''http_errors_total'' l r + (if 400 \<le> code then 1 else 0) \<and>
    histogramCount ''http_request_duration_seconds'' [(''method'', verb), (''route'', route)] r' =
      Suc (histogramCount ''http_request_duration_seconds'' [(''method'', verb), (''route'', route)] r) \<and>
    (\<forall>n l' k. k \<in> {''method'', ''route'', ''status''} \<longrightarrow> map_of l' k \<noteq> map_of l k \<longrightarrow> counterValue n l' r' = counterValue n l' r) \<and>
    (\<forall>n l'. n \<notin> {''http_requests_total'', ''http_errors_total''} \<longrightarrow> counterValue n l' r' = counterValue n l' r)"
proof -
  note counts = requestHttpMetrics_counts [where verb = verb and route = route and code = code and d = d, OF assms(1)]
  show ?thesis
    unfolding assms(3,4)
    using counts(1,2) counts(3) [OF assms(2)] counts(4,5) by simp
qed

theorem finished_request_is_counted_once_witness:
  "counterValue ''http_errors_total'' (http_labels ''GET'' ''/health'' 503)
     (requestHttpMetrics ''GET'' ''/health'' 503 (1 / 2) createSingleton) =
   counterValue ''http_errors_total'' (http_labels ''GET'' ''/health'' 503) createSingleton + 1 \<and>
   counterValue ''http_requests_total'' (http_labels ''GET'' ''/health'' 200)
     (requestHttpMetrics ''GET'' ''/health'' 503 (1 / 2) createSingleton) =
   counterValue ''http_requests_total'' (http_labels ''GET'' ''/health'' 200) createSingleton"
proof -
  have d: "0 \<le> (1 / 2 :: rat)" by simp
  have k: "''status'' \<in> {''method'', ''route'', ''status''}"
    "map_of (http_labels ''GET'' ''/health'' 200) ''status'' \<noteq> map_of (http_labels ''GET'' ''/health'' 503) ''status''"
    by (simp_all add: http_labels_def statusClass_def)
  note c = finished_request_is_counted_once [where verb = "''GET''" and route = "''/health''" and code = 503, OF refl d refl refl]
  have "counterValue ''http_requests_total'' (http_labels ''GET'' ''/health'' 200)
     (requestHttpMetrics ''GET'' ''/health'' 503 (1 / 2) createSingleton) =
   counterValue ''http_requests_total'' (http_labels ''GET'' ''/health'' 200) createSingleton"
    using conjunct1 [OF conjunct2 [OF conjunct2 [OF conjunct2 [OF c]]]] k by blast
  moreover have "(400::nat) \<le> 503" by simp
  ultimately show ?thesis using conjunct1 [OF conjunct2 [OF c]] by (simp only: if_True simp_thms)
qed

text \<open>The route label: the walk over the router stack finds a mount prefix exactly for the route
  objects that hang in the stack below routers with static paths, and what it finds is the
  concatenation of the mount paths on a way to the route; so a label consists of mount paths and
  a route pattern, and never of what the client sent.\<close>

theorem mount_prefix_is_where_the_route_hangs:
  "case findMountPrefix layers target prefix of
     None \<Rightarrow> \<not> (\<exists>q. mounted layers target q)
   | Some r \<Rightarrow> \<exists>q. r = prefix @ q \<and> mounted layers target q"
  using findMountPrefix_Some [of layers target prefix] findMountPrefix_complete [of layers target _ prefix]
  by (auto split: option.split)

text \<open>C39. The feed, page by page: a member who reads the pages 1 to n of a group's feed gets its
  events, newest first, each of them once, as far as n pages reach; no page is longer than the
  limit, and reading changes nothing.\<close>

theorem activity_pages_are_the_feed:
  assumes "prisma T P" and "distinct (map row_id (activities (T (w_db w))))"
    and "map_act (\<lambda>i. getGroupActivity P uid gid (int i) limit) [1..<Suc n] w = (Inr feeds, w')"
  shows "concat (map (\<lambda>f. map ad_id (af_events f)) feeds) =
      map row_id (take (n * limit) (group_feed (T (w_db w)) gid)) \<and>
    list_all (\<lambda>f. length (af_events f) \<le> limit \<and> af_total f = length (group_feed (T (w_db w)) gid)) feeds \<and>
    T (w_db w') = T (w_db w)"
proof -
  note p = prisma.getGroupActivity_pages [OF assms(1,3,2)]
  let ?ys = "group_feed (T (w_db w)) gid"
  have "concat (map (\<lambda>f. map ad_id (af_events f)) feeds) =
      concat (map (map row_id) (map (\<lambda>i. page_of ((int i - 1) * int limit) (Some limit) ?ys) [1..<Suc n]))"
    using p by (simp add: comp_def)
  also have "\<dots> = map row_id (concat (map (\<lambda>i. page_of ((int i - 1) * int limit) (Some limit) ?ys) [1..<Suc n]))"
    by (simp only: map_concat)
  also have "\<dots> = map row_id (take (n * limit) ?ys)" by (simp only: concat_pages)
  finally show ?thesis using p by blast
qed

theorem activity_pages_are_the_feed_witness:
  "\<exists>feeds w'. map_act (\<lambda>i. getGroupActivity mem_prisma ''u2'' ''g1'' (int i) 2) [1..<Suc 2] demo_feed_world = (Inr feeds, w') \<and>
     concat (map (\<lambda>f. map ad_id (af_events f)) feeds) = [''x2'', ''x3'', ''x1'']"
proof -
  let ?run = "map_act (\<lambda>i. getGroupActivity mem_prisma ''u2'' ''g1'' (int i) 2) [1..<Suc 2] demo_feed_world"
  have ran: "ran ?run" by code_simp
  have d: "distinct (map row_id (activities (md_tables (w_db demo_feed_world))))" by code_simp
  have feed: "map row_id (take (2 * 2) (group_feed (md_tables (w_db demo_feed_world)) ''g1'')) = [''x2'', ''x3'', ''x1'']"
    by code_simp
  obtain feeds w' where run: "?run = (Inr feeds, w')" using ran_eq [OF ran] by blast
  have "concat (map (\<lambda>f. map ad_id (af_events f)) feeds) = [''x2'', ''x3'', ''x1'']"
    using conjunct1 [OF activity_pages_are_the_feed [OF prisma_mem d run]] unfolding feed .
  with run show ?thesis by blast
qed

text \<open>C40. Budgets are separate: a hit that one of the limiters in front of the endpoints counts in
  Redis leaves the counters of every other limiter as they were (unless they have expired), for
  every client key; so requests under one budget do not use up another.\<close>

theorem limiter_budgets_are_separate:
  assumes "redis_server V R" and "l \<in> set (limiters env True ep)" "lo_store l = Some s"
    and "l' \<in> set (limiters env True ep')" "lo_store l' = Some s'" and "l \<noteq> l'"
    and "0 < en_RATE_LIMIT_WINDOW_MS env"
    and "rv_keys (V (w_redis w)) (rs_prefix s @ a) = window_entry x" and "\<forall>n d. x = Some (n, d) \<longrightarrow> 0 < n"
    and "RateLimit_increment R E s a w = (Inr resp, w')"
  shows "rv_keys (V (w_redis w')) (rs_prefix s' @ b) =
    alive (rv_now (V (w_redis w'))) (rv_keys (V (w_redis w)) (rs_prefix s' @ b))"
proof (rule redis_server.RateLimit_increment_other [OF assms(1,10) _ assms(8)])
  show "0 < rs_windowMs s" using limiter_prefix [OF assms(2,3)] assms(7) by simp
  show "rs_prefix s' @ b \<noteq> rs_prefix s @ a"
    using limiter_keys_apart [OF assms(2-5) assms(6)] by metis
qed (use assms(9) in simp)

theorem limiter_budgets_are_separate_witness:
  "\<exists>s s' resp w'. lo_store (apiLimiter demo_Env True) = Some s \<and> lo_store (authLimiter demo_Env True) = Some s' \<and>
     RateLimit_increment fake_redis demo_env s ''ip'' demo_world = (Inr resp, w') \<and>
     rv_keys (fake_view (w_redis w')) (rs_prefix s' @ ''ip'') = None"
proof -
  let ?s = "\<lparr>rs_prefix = ''rl:api:'', rs_windowMs = 900000\<rparr>" and ?s' = "\<lparr>rs_prefix = ''rl:auth:'', rs_windowMs = 900000\<rparr>"
  let ?run = "RateLimit_increment fake_redis demo_env ?s ''ip'' demo_world"
  have ran: "ran ?run" by code_simp
  have window: "en_RATE_LIMIT_WINDOW_MS demo_Env = 900000" by code_simp
  have l: "apiLimiter demo_Env True \<in> set (limiters demo_Env True POST_login)"
    "authLimiter demo_Env True \<in> set (limiters demo_Env True POST_login)"
    "lo_store (apiLimiter demo_Env True) = Some ?s" "lo_store (authLimiter demo_Env True) = Some ?s'"
    by (simp_all add: limiter_defs window)
  have free: "rv_keys (fake_view (w_redis demo_world)) k = window_entry None" for k
    by (simp add: window_entry_def fake_view_def demo_world_def demo_redis_def)
  have p: "apiLimiter demo_Env True \<noteq> authLimiter demo_Env True" "0 < en_RATE_LIMIT_WINDOW_MS demo_Env" by (simp_all add: limiter_defs window)
  have "\<forall>n d. (None :: (nat \<times> int) option) = Some (n, d) \<longrightarrow> 0 < n" by simp
  from limiter_budgets_are_separate [OF fake_laws l(1,3,2,4) p(1,2) free this ran_eq [OF ran], of "''ip''"]
  have "rv_keys (fake_view (w_redis (snd ?run))) (rs_prefix ?s' @ ''ip'') = None"
    by (simp only: free window_entry_def option.case alive_simps)
  with l ran_eq [OF ran] show ?thesis by blast
qed


section \<open>The API document\<close>

text \<open>C32. The document covers the routes: every endpoint has an operation in the API document, at the
  method and the path where the application mounts it, public exactly if no bearer token is asked
  for, with a request body exactly if one is validated and with the path, query and header
  parameters that the middlewares read; besides these it documents the three probes and nothing
  else.\<close>

theorem document_covers_the_routes:
  "(\<exists>op. doc_operation (openApiDocument v) ep = Some op \<and> (public op \<longleftrightarrow> \<not> authenticated ep) \<and>
      (body_schema op = None \<longleftrightarrow> validated_body ep = None) \<and>
      map fst (parameters_in InPath op) =
        (case validated_params ep of Some (ZObject False fs) \<Rightarrow> map fst fs | _ \<Rightarrow> []) \<and>
      map fst (parameters_in InQuery op) = (if validated_query ep = None then [] else [''page'', ''limit'']) \<and>
      map fst (parameters_in InHeader op) =
        (if RequireIdempotencyKey \<in> set (route_chain ep) then [''Idempotency-Key''] else [])) \<and>
   set (documented_routes (openApiDocument v)) =
     {(GET, ''/health''), (GET, ''/health/ready''), (GET, ''/metrics'')} \<union> mounted_routes"
  by (simp only: doc_operation option.inject ex_simps simp_thms documented_security documented_body
      documented_parameters documented_routes)

text \<open>C38. The document is well formed: each operation has listed tags, distinct statuses, responses
  and schemas that are found among the components, a request body that is required, and declares
  exactly the variables of its path; operation ids are distinct, and the components refer only to
  schemas that are there.\<close>

theorem document_is_well_formed:
  "list_all (operation_ok (fst (getOpenApiDocument v None))) (operations (fst (getOpenApiDocument v None))) \<and>
   distinct (map (\<lambda>(path, m, op). op_operationId op) (operations (fst (getOpenApiDocument v None)))) \<and>
   list_all (\<lambda>r. schema_at (fst (getOpenApiDocument v None)) r \<noteq> None)
     (component_refs (oa_components (fst (getOpenApiDocument v None))))"
  unfolding getOpenApiDocument_def createOpenApiDocument_def option.case fst_conv
  by (intro conjI document_ok operation_ids component_refs_resolve)

text \<open>C29. Answers are as documented: whatever an endpoint answers when it does not refuse, the status is
  one that its operation lists and the body conforms to the schema given for it, references
  resolved; a 204 has no body. (Formats and patterns are read as annotations.)\<close>

theorem answers_match_the_document:
  assumes "serve D ep rq w = (Inr (Answered st r), w')"
  shows "\<exists>op. doc_operation (openApiDocument v) ep = Some op \<and>
    body_documented (openApiDocument v) op st (reply_json (dp_env D) r)"
proof -
  obtain rq' w1 where "controller D ep rq' w1 = (Inr (st, r), w')"
    using assms by (auto simp: serve_run handle_def act_simps split: prod.splits sum.splits)
  then show ?thesis by (auto simp: doc_operation dest: controller_answer)
qed

theorem answers_match_the_document_witness:
  "\<exists>r w' op. serve demo_deployment POST_expense demo_request demo_world = (Inr (Answered 201 r), w') \<and>
     doc_operation (openApiDocument ''1'') POST_expense = Some op \<and>
     body_documented (openApiDocument ''1'') op 201 (reply_json demo_env r)"
proof -
  let ?run = "serve demo_deployment POST_expense demo_request demo_world"
  obtain resp w' where run: "?run = (Inr resp, w')" using serve_returns by (metis prod.collapse)
  have "(case fst ?run of Inr (Answered s r) \<Rightarrow> s = 201 | _ \<Rightarrow> False)" by code_simp
  then obtain r where "resp = Answered 201 r"
    unfolding run by (cases resp) auto
  with run have answered: "?run = (Inr (Answered 201 r), w')" by simp
  have "dp_env demo_deployment = demo_env" by (simp add: demo_deployment_def)
  with answers_match_the_document [OF answered, of "''1''"] answered show ?thesis by auto
qed

text \<open>C30. Requests are as documented: a request that the middlewares pass on has a body that conforms to
  the documented request schema, and the page numbers and the idempotency key that the controller
  gets lie within the bounds that the document states for them.\<close>

theorem requests_match_the_document:
  assumes "zod_parser F (dp_parse D)" and "run_chain D (route_chain ep) rq w = (Inr rq', w')"
  shows "\<exists>op. doc_operation (openApiDocument v) ep = Some op \<and>
    (case body_schema op of None \<Rightarrow> True
     | Some s \<Rightarrow> conforms annotations (schema_at (openApiDocument v)) ref_depth s (rq_body rq)) \<and>
    list_all (\<lambda>(k, s). described v ref_depth s (json_field (rq_query rq') k)) (parameters_in InQuery op) \<and>
    list_all (\<lambda>(k, s). conforms annotations (schema_at (openApiDocument v)) ref_depth s
        (JString (rq_idempotencyKey rq'))) (parameters_in InHeader op)"
proof -
  have "case body_schema (operation_of ep) of None \<Rightarrow> True
     | Some s \<Rightarrow> conforms annotations (schema_at (openApiDocument v)) ref_depth s (rq_body rq)"
  proof (cases "validated_body ep")
    case None
    then show ?thesis using documented_body [of ep] by simp
  next
    case (Some z)
    from accepted_body [OF this chain_accepts_body [OF assms Some], of v] show ?thesis by auto
  qed
  then show ?thesis
    using chain_parameters [OF assms, of _ _ v ref_depth] chain_key [OF assms, of _ _ v ref_depth]
    by (auto simp: doc_operation list_all_iff)
qed

theorem requests_match_the_document_witness:
  "\<exists>rq' w'. run_chain demo_deployment (route_chain POST_expense) demo_request demo_world = (Inr rq', w') \<and>
     answer_ok ''1'' ref_depth (ref ''CreateExpenseRequest'') (rq_body demo_request)"
proof -
  let ?run = "run_chain demo_deployment (route_chain POST_expense) demo_request demo_world"
  have ran: "ran ?run" by code_simp
  have zod: "zod_parser demo_formats (dp_parse demo_deployment)" by (simp add: demo_deployment_def demo_zod)
  from requests_match_the_document [OF zod ran_eq [OF ran], of "''1''"] ran_eq [OF ran] show ?thesis
    by (auto simp: doc_operation body_schema_def doc_createExpense_def jsonContent_def)
qed

text \<open>C31. Refusals are as documented: when an endpoint refuses a request, the status is one that its
  operation lists and the error body conforms to the schema given for it, unless it is an internal
  error (500), or the 400 of one of the endpoints that validate a path or a query and list no
  400.\<close>

theorem refusals_are_documented:
  assumes "prisma T (dp_prisma D)" and "serve D ep rq w = (Inr (Refused er), w')"
  shows "er_status er = 500 \<or> er_status er = 400 \<and> ep \<in> set unlisted_400 \<or>
    (\<exists>op. doc_operation (openApiDocument v) ep = Some op \<and>
      body_documented (openApiDocument v) op (er_status er) (Some (error_json er)))"
  using refusal_documented [OF assms, of v] by (auto simp: doc_operation)

theorem refusals_are_documented_witness:
  "\<exists>er w' op. serve demo_deployment DELETE_group demo_request demo_world = (Inr (Refused er), w') \<and>
     doc_operation (openApiDocument ''1'') DELETE_group = Some op \<and>
     body_documented (openApiDocument ''1'') op 403 (Some (error_json er))"
proof -
  let ?run = "serve demo_deployment DELETE_group demo_request demo_world"
  obtain resp w' where run: "?run = (Inr resp, w')" using serve_returns by (metis prod.collapse)
  have "(case fst ?run of Inr (Refused er) \<Rightarrow> er_status er = 403 | _ \<Rightarrow> False)" by code_simp
  then obtain er where er: "resp = Refused er" "er_status er = 403"
    unfolding run by (cases resp) auto
  with run have refused: "?run = (Inr (Refused er), w')" by simp
  have status: "er_status er \<noteq> 500" "er_status er \<noteq> 400" using er(2) by simp_all
  from refusals_are_documented [OF demo_prisma refused, of "''1''"] status er(2) refused show ?thesis
    by auto
qed


end
